(* ===== verification/Prelude.thy ===== *)
theory Prelude
  imports Complex_Main
begin

text \<open>
  Shared vocabulary of the development: exceptions as values, the error monad in which every
  operation that can raise is written, the accumulation of veto reasons, and the textual
  identifiers (\<open>paper-order-000001\<close>) that the services hand out.
\<close>

section \<open>Exceptions as values\<close>

text \<open>
  The exception classes that the modelled code raises or lets through. The class matters: the
  API handlers catch \<open>ValueError\<close> and its subclasses only, so an arithmetic exception of the
  decimal module or a \<open>TypeError\<close> of the datetime module escapes them.
\<close>

datatype exc_class =
    ValueError
  | ConfigError
  | CommandLedgerError
  | ConnectorBoundaryError
  | AuthError
  | TypeError
  | KeyError
  | IndexError
  | RuntimeError
  | CsvError
  | AttributeError
  | OverflowError
  | InvalidOperation
  | DivisionByZero
  | Overflow

datatype py_error = Raise exc_class string

type_synonym 'a res = "py_error + 'a"

text \<open>\<open>except ValueError\<close> also catches the subclasses the repository declares.\<close>

fun is_value_error :: "py_error \<Rightarrow> bool" where
  "is_value_error (Raise c _) =
     (c \<in> {ValueError, ConfigError, CommandLedgerError, ConnectorBoundaryError, AuthError})"

named_theorems res_simps \<open>rewrite rules of the error monad\<close>

definition bind_res :: "'a res \<Rightarrow> ('a \<Rightarrow> 'b res) \<Rightarrow> 'b res" where
  "bind_res m f = (case m of Inl e \<Rightarrow> Inl e | Inr x \<Rightarrow> f x)"

definition map_res :: "('a \<Rightarrow> 'b) \<Rightarrow> 'a res \<Rightarrow> 'b res" where
  "map_res f m = bind_res m (\<lambda>x. Inr (f x))"

lemma bind_res_Inl [simp]: "bind_res (Inl e) f = Inl e"
  by (simp add: bind_res_def)

lemma bind_res_Inr [simp]: "bind_res (Inr x) f = f x"
  by (simp add: bind_res_def)

lemma bind_res_eq_Inr [res_simps]: "bind_res m f = Inr y \<longleftrightarrow> (\<exists>x. m = Inr x \<and> f x = Inr y)"
  by (cases m) auto

lemma bind_res_eq_Inl: "bind_res m f = Inl e \<longleftrightarrow> m = Inl e \<or> (\<exists>x. m = Inr x \<and> f x = Inl e)"
  by (cases m) auto

lemma bind_res_assoc: "bind_res (bind_res m f) g = bind_res m (\<lambda>x. bind_res (f x) g)"
  by (cases m) auto

lemma map_res_Inl [simp]: "map_res f (Inl e) = Inl e"
  by (simp add: map_res_def)

lemma map_res_Inr [simp]: "map_res f (Inr x) = Inr (f x)"
  by (simp add: map_res_def)

lemma map_res_eq_Inr [res_simps]: "map_res f m = Inr y \<longleftrightarrow> (\<exists>x. m = Inr x \<and> y = f x)"
  by (cases m) auto

lemma map_res_Not: "map_res Not m = Inr False \<longleftrightarrow> m = Inr True"
  by (cases m) auto

text \<open>A comprehension whose body can raise, and a left fold whose step can raise.\<close>

fun mapM_res :: "('a \<Rightarrow> 'b res) \<Rightarrow> 'a list \<Rightarrow> 'b list res" where
  "mapM_res f [] = Inr []"
| "mapM_res f (x # xs) =
     bind_res (f x) (\<lambda>y. bind_res (mapM_res f xs) (\<lambda>ys. Inr (y # ys)))"

fun foldM_res :: "('a \<Rightarrow> 'b \<Rightarrow> 'a res) \<Rightarrow> 'a \<Rightarrow> 'b list \<Rightarrow> 'a res" where
  "foldM_res f a [] = Inr a"
| "foldM_res f a (x # xs) = bind_res (f a x) (\<lambda>a'. foldM_res f a' xs)"

lemma mapM_res_Inr_iff:
  "mapM_res f xs = Inr ys \<longleftrightarrow> list_all2 (\<lambda>x y. f x = Inr y) xs ys"
  by (induction xs arbitrary: ys) (auto simp: res_simps list_all2_Cons1)

lemma mapM_res_length: "mapM_res f xs = Inr ys \<Longrightarrow> length ys = length xs"
  by (auto simp: mapM_res_Inr_iff dest: list_all2_lengthD)

lemma mapM_res_nth: "mapM_res f xs = Inr ys \<Longrightarrow> i < length xs \<Longrightarrow> f (xs ! i) = Inr (ys ! i)"
  by (auto simp: mapM_res_Inr_iff dest: list_all2_nthD)

lemma mapM_res_append:
  "mapM_res f (xs @ ys) = bind_res (mapM_res f xs) (\<lambda>a. bind_res (mapM_res f ys) (\<lambda>b. Inr (a @ b)))"
  by (induction xs) (auto simp: bind_res_def split: sum.splits)

lemma mapM_res_all: "mapM_res f xs = Inr ys \<Longrightarrow> (\<And>x y. f x = Inr y \<Longrightarrow> P y) \<Longrightarrow> list_all P ys"
  by (auto simp: mapM_res_Inr_iff list_all2_conv_all_nth list_all_length)

lemma mapM_res_map:
  "mapM_res f xs = Inr ys \<Longrightarrow> (\<And>x y. x \<in> set xs \<Longrightarrow> f x = Inr y \<Longrightarrow> g y = h x) \<Longrightarrow>
   map g ys = map h xs"
  by (induction xs arbitrary: ys) (auto simp: res_simps)

lemma mapM_res_total:
  "(\<And>x. x \<in> set xs \<Longrightarrow> \<exists>y. f x = Inr y) \<Longrightarrow> \<exists>ys. mapM_res f xs = Inr ys"
proof (induction xs)
  case (Cons x xs)
  then obtain y ys where "f x = Inr y" "mapM_res f xs = Inr ys"
    by (meson list.set_intros)
  then show ?case by simp
qed simp

lemma foldM_res_append:
  "foldM_res f a (xs @ ys) = bind_res (foldM_res f a xs) (\<lambda>b. foldM_res f b ys)"
  by (induction xs arbitrary: a) (simp_all add: bind_res_assoc)

lemma foldM_res_invariant:
  assumes "foldM_res f a xs = Inr b" and "P a"
    and "\<And>a x a'. P a \<Longrightarrow> x \<in> set xs \<Longrightarrow> f a x = Inr a' \<Longrightarrow> P a'"
  shows "P b"
  using assms
proof (induction xs arbitrary: a)
  case (Cons x xs)
  from Cons.prems(1) obtain a' where a': "f a x = Inr a'" "foldM_res f a' xs = Inr b"
    by (auto simp: res_simps)
  from a'(1) Cons.prems(2,3) have "P a'"
    by (meson list.set_intros(1))
  with a'(2) Cons.prems(3) show ?case
    by (meson Cons.IH list.set_intros(2))
qed simp

section \<open>Accumulating veto reasons\<close>

text \<open>
  The validators of the repository share one shape: an empty list of reasons, a sequence of
  \<open>if cond: reasons.append(text)\<close> and \<open>reasons.extend(other_validator(...))\<close>, and a verdict
  \<open>accepted = not reasons\<close>. \<open>collect\<close> runs such a sequence in order; a condition that raises
  ends it with the exception.
\<close>

definition reason_when :: "bool \<Rightarrow> string \<Rightarrow> string list res" where
  "reason_when b s = Inr (if b then [s] else [])"

definition reason_if :: "bool res \<Rightarrow> string \<Rightarrow> string list res" where
  "reason_if m s = bind_res m (\<lambda>b. reason_when b s)"

fun collect :: "string list res list \<Rightarrow> string list res" where
  "collect [] = Inr []"
| "collect (m # ms) = bind_res m (\<lambda>xs. bind_res (collect ms) (\<lambda>ys. Inr (xs @ ys)))"

lemma reason_when_Nil [res_simps]: "reason_when b s = Inr [] \<longleftrightarrow> \<not> b"
  by (simp add: reason_when_def)

lemma reason_if_Nil [res_simps]: "reason_if m s = Inr [] \<longleftrightarrow> m = Inr False"
  by (cases m) (auto simp: reason_if_def reason_when_def split: if_splits)

lemma reason_when_total: "\<exists>rs. reason_when b s = Inr rs"
  by (simp add: reason_when_def)

lemma collect_Nil_iff [res_simps]: "collect ms = Inr [] \<longleftrightarrow> (\<forall>m \<in> set ms. m = Inr [])"
  by (induction ms) (auto simp: res_simps)

lemma collect_append:
  "collect (ms @ ns) = bind_res (collect ms) (\<lambda>xs. bind_res (collect ns) (\<lambda>ys. Inr (xs @ ys)))"
  by (induction ms) (auto simp: bind_res_def split: sum.splits)

lemma collect_total: "(\<And>m. m \<in> set ms \<Longrightarrow> \<exists>xs. m = Inr xs) \<Longrightarrow> \<exists>xs. collect ms = Inr xs"
proof (induction ms)
  case (Cons m ms)
  then obtain xs ys where "m = Inr xs" "collect ms = Inr ys"
    by (meson list.set_intros)
  then show ?case by simp
qed simp

lemma collect_member:
  "collect ms = Inr rs \<Longrightarrow> m \<in> set ms \<Longrightarrow> \<exists>xs. m = Inr xs \<and> set xs \<subseteq> set rs"
  by (induction ms arbitrary: rs) (auto simp: res_simps, blast)

lemma collect_nonempty:
  "collect ms = Inr rs \<Longrightarrow> m \<in> set ms \<Longrightarrow> m \<noteq> Inr [] \<Longrightarrow> rs \<noteq> []"
  using collect_Nil_iff by blast

lemma collect_mem_reason_when:
  "collect ms = Inr rs \<Longrightarrow> reason_when True s \<in> set ms \<Longrightarrow> s \<in> set rs"
  by (drule (1) collect_member) (auto simp: reason_when_def)

fun join :: "string \<Rightarrow> string list \<Rightarrow> string" where
  "join sep [] = ''''"
| "join sep [x] = x"
| "join sep (x # y # zs) = x @ sep @ join sep (y # zs)"

section \<open>Numerals and identifiers\<close>

text \<open>
  \<open>f"paper-order-{n:06d}"\<close>: a prefix and the decimal numeral of \<open>n\<close>, padded with zeros to six
  places (longer numerals are not cut).
\<close>

definition digit_char :: "int \<Rightarrow> char" where
  "digit_char d = ''0123456789'' ! nat d"

fun digit_val :: "char \<Rightarrow> int" where
  "digit_val c =
     (let k = of_char c - 48 in if 0 \<le> k \<and> k \<le> (9::int) then k else - 1)"

definition is_digit :: "char \<Rightarrow> bool" where
  "is_digit c \<longleftrightarrow> 0 \<le> digit_val c"

function show_nn :: "int \<Rightarrow> string" where
  "show_nn n = (if n < 10 then [digit_char (max 0 n)] else show_nn (n div 10) @ [digit_char (n mod 10)])"
  by pat_completeness auto
termination
  by (relation "measure nat") (auto simp: nat_less_iff zdiv_int)

declare show_nn.simps [simp del]

definition read_nn :: "string \<Rightarrow> int" where
  "read_nn s = foldl (\<lambda>a c. 10 * a + digit_val c) 0 s"

lemma digit_cases:
  assumes "0 \<le> d" "d < (10::int)"
  obtains "d = 0" | "d = 1" | "d = 2" | "d = 3" | "d = 4"
    | "d = 5" | "d = 6" | "d = 7" | "d = 8" | "d = 9"
proof -
  from assms have "d \<in> {0, 1, 2, 3, 4, 5, 6, 7, 8, 9}" by simp presburger
  with that show thesis by fast
qed

lemma digit_val_char [simp]: "0 \<le> d \<Longrightarrow> d < 10 \<Longrightarrow> digit_val (digit_char d) = d"
  by (erule (1) digit_cases) (simp_all add: digit_char_def nth_Cons')

lemma is_digit_char [simp]: "0 \<le> d \<Longrightarrow> d < 10 \<Longrightarrow> is_digit (digit_char d)"
  by (simp add: is_digit_def del: digit_val.simps)

lemma read_nn_snoc [simp]: "read_nn (s @ [c]) = 10 * read_nn s + digit_val c"
  by (simp add: read_nn_def)

lemma read_nn_Nil [simp]: "read_nn [] = 0"
  by (simp add: read_nn_def)

lemma read_show_nn [simp]: "0 \<le> n \<Longrightarrow> read_nn (show_nn n) = n"
proof (induction n rule: show_nn.induct)
  case (1 n)
  show ?case
  proof (cases "n < 10")
    case True
    with 1 show ?thesis
      by (simp add: show_nn.simps [of n] read_nn_def del: digit_val.simps)
  next
    case False
    with 1 have "read_nn (show_nn (n div 10)) = n div 10" by simp
    with False show ?thesis
      by (simp add: show_nn.simps [of n] del: digit_val.simps)
  qed
qed

lemma show_nn_inj: "0 \<le> m \<Longrightarrow> 0 \<le> n \<Longrightarrow> show_nn m = show_nn n \<Longrightarrow> m = n"
  by (metis read_show_nn)

lemma show_nn_digits: "0 \<le> n \<Longrightarrow> \<forall>c \<in> set (show_nn n). is_digit c"
proof (induction n rule: show_nn.induct)
  case (1 n)
  then show ?case by (cases "n < 10") (auto simp: show_nn.simps [of n])
qed

lemma show_nn_not_Nil [simp]: "show_nn n \<noteq> []"
  by (simp add: show_nn.simps [of n])

definition pad6 :: "string \<Rightarrow> string" where
  "pad6 s = replicate (6 - length s) (CHR ''0'') @ s"

lemma read_nn_zeros: "read_nn (replicate k (CHR ''0'') @ s) = read_nn s"
  by (induction k) (simp_all add: read_nn_def)

lemma read_nn_pad6 [simp]: "read_nn (pad6 s) = read_nn s"
  by (simp add: pad6_def read_nn_zeros)

definition numbered_id :: "string \<Rightarrow> nat \<Rightarrow> string" where
  "numbered_id prefix n = prefix @ pad6 (show_nn (int n))"

lemma numbered_id_inject [simp]: "numbered_id p m = numbered_id p n \<longleftrightarrow> m = n"
proof
  assume "numbered_id p m = numbered_id p n"
  then have "read_nn (pad6 (show_nn (int m))) = read_nn (pad6 (show_nn (int n)))"
    by (simp add: numbered_id_def)
  then show "m = n" by simp
qed simp

section \<open>Stateful operations\<close>

text \<open>
  A method of a service object: it may raise, and the state it leaves behind counts either way,
  because Python does not roll an object back when a method raises half way.
\<close>

type_synonym ('s, 'a) act = "'s \<Rightarrow> 'a res \<times> 's"

definition bind_act :: "('s, 'a) act \<Rightarrow> ('a \<Rightarrow> ('s, 'b) act) \<Rightarrow> ('s, 'b) act" where
  "bind_act m f = (\<lambda>s. case m s of (Inl e, t) \<Rightarrow> (Inl e, t) | (Inr x, t) \<Rightarrow> f x t)"

definition ret :: "'a \<Rightarrow> ('s, 'a) act" where
  "ret x = (\<lambda>s. (Inr x, s))"

definition of_res :: "'a res \<Rightarrow> ('s, 'a) act" where
  "of_res m = (\<lambda>s. (m, s))"

definition gets :: "('s \<Rightarrow> 'a) \<Rightarrow> ('s, 'a) act" where
  "gets f = (\<lambda>s. (Inr (f s), s))"

definition modify :: "('s \<Rightarrow> 's) \<Rightarrow> ('s, unit) act" where
  "modify f = (\<lambda>s. (Inr (), f s))"

fun map_act :: "('b \<Rightarrow> ('s, 'a) act) \<Rightarrow> 'b list \<Rightarrow> ('s, 'a list) act" where
  "map_act f [] = ret []"
| "map_act f (x # xs) = bind_act (f x) (\<lambda>y. bind_act (map_act f xs) (\<lambda>ys. ret (y # ys)))"

named_theorems act_simps \<open>rewrite rules of the state and error monad\<close>

lemma bind_act_run [act_simps]:
  "bind_act m f s = (case m s of (Inl e, t) \<Rightarrow> (Inl e, t) | (Inr x, t) \<Rightarrow> f x t)"
  by (simp add: bind_act_def)

lemma act_run [act_simps]:
  "ret x s = (Inr x, s)" "of_res m s = (m, s)" "gets f s = (Inr (f s), s)"
  "modify g s = (Inr (), g s)"
  by (simp_all add: ret_def of_res_def gets_def modify_def)

text \<open>Symbolic execution: operations that cannot raise are stepped over without a case split.\<close>

lemma bind_act_step [simp]:
  "bind_act (modify g) f1 s = f1 () (g s)" "bind_act (gets h) f2 s = f2 (h s) s"
  "bind_act (ret v) f3 s = f3 v s" "bind_act (of_res (Inr w)) f4 s = f4 w s"
  "bind_act (of_res (Inl e)) f5 s = (Inl e, s)"
  by (simp_all add: bind_act_def act_run)

lemma snd_bind_ret [simp]: "snd (bind_act m (\<lambda>a. ret (v a)) s) = snd (m s)"
  by (simp add: bind_act_def act_run split: prod.splits sum.splits)

lemma snd_ret [simp]: "snd (ret v s) = s"
  by (simp add: act_run)

lemma bind_act_of_res:
  "bind_act (of_res m) f s = (case m of Inl e \<Rightarrow> (Inl e, s) | Inr x \<Rightarrow> f x s)"
  by (simp add: bind_act_def act_run split: sum.splits)

lemma bind_act_Inr:
  "bind_act m f s = (Inr y, t) \<longleftrightarrow> (\<exists>x u. m s = (Inr x, u) \<and> f x u = (Inr y, t))"
  by (auto simp: act_simps split: prod.splits sum.splits)

text \<open>
  A relation between the states before and after that holds of every run, raising or not, is
  established piece by piece: it has to be reflexive and transitive.
\<close>

definition runs_in :: "('s \<Rightarrow> 's \<Rightarrow> bool) \<Rightarrow> ('s, 'a) act \<Rightarrow> bool" where
  "runs_in R m \<longleftrightarrow> (\<forall>s. R s (snd (m s)))"

definition keeps :: "('s \<Rightarrow> bool) \<Rightarrow> ('s, 'a) act \<Rightarrow> bool" where
  "keeps P m \<longleftrightarrow> (\<forall>s. P s \<longrightarrow> P (snd (m s)))"

named_theorems keeps_intros \<open>introduction rules for invariants of operations\<close>

lemma keepsD: "keeps P m \<Longrightarrow> P s \<Longrightarrow> P (snd (m s))"
  by (simp add: keeps_def)

lemma keeps_bind [keeps_intros]: "keeps P m \<Longrightarrow> (\<And>x. keeps P (f x)) \<Longrightarrow> keeps P (bind_act m f)"
  unfolding keeps_def by (force simp: act_simps split: prod.splits sum.splits)

lemma keeps_ret [keeps_intros]: "keeps P (ret x)"
  and keeps_of_res [keeps_intros]: "keeps P (of_res m)"
  and keeps_gets [keeps_intros]: "keeps P (gets f)"
  by (simp_all add: keeps_def act_simps)

lemma keeps_modify [keeps_intros]: "(\<And>s. P s \<Longrightarrow> P (g s)) \<Longrightarrow> keeps P (modify g)"
  by (simp add: keeps_def act_simps)

lemma keeps_map [keeps_intros]: "(\<And>x. x \<in> set xs \<Longrightarrow> keeps P (f x)) \<Longrightarrow> keeps P (map_act f xs)"
  by (induction xs) (simp_all add: keeps_intros)

lemma keeps_if [keeps_intros]: "keeps P m \<Longrightarrow> keeps P n \<Longrightarrow> keeps P (if b then m else n)"
  by simp

lemma keeps_option [keeps_intros]:
  "keeps P m \<Longrightarrow> (\<And>x. keeps P (f x)) \<Longrightarrow> keeps P (case z of None \<Rightarrow> m | Some x \<Rightarrow> f x)"
  by (cases z) auto

end
