(* ===== verification/Decimal_Arith.thy ===== *)
theory Decimal_Arith
  imports Prelude
begin

text \<open>
  Python's \<open>decimal.Decimal\<close> under the default context, which the repository never changes:
  28 significant digits, \<open>ROUND_HALF_EVEN\<close>, exponents from -999999 to 999999, and the traps
  \<open>InvalidOperation\<close>, \<open>DivisionByZero\<close> and \<open>Overflow\<close>. A finite value is a signed coefficient
  and an exponent, kept apart because the exponent is visible in the printed form; minus zero,
  the infinities and the NaNs are values of their own. Every operation returns the rounded result
  or the exception that its trap raises. Construction from a literal is exact.
\<close>

section \<open>Values\<close>

datatype decimal =
    Dec int int            \<comment> \<open>coefficient times ten to the exponent\<close>
  | NegZero int            \<comment> \<open>minus zero, with its exponent\<close>
  | Infin bool             \<comment> \<open>True: minus infinity\<close>
  | NaN bool bool int      \<comment> \<open>sign, signalling, diagnostic payload\<close>

definition prec :: int where "prec = 28"
definition Emax :: int where "Emax = 999999"
definition Etiny :: int where "Etiny = - 1000026"
definition Etop :: int where "Etop = 999972"

fun is_finite :: "decimal \<Rightarrow> bool" where
  "is_finite (Dec _ _) = True"
| "is_finite (NegZero _) = True"
| "is_finite _ = False"

fun dcoef :: "decimal \<Rightarrow> int" where
  "dcoef (Dec c _) = c"
| "dcoef _ = 0"

fun dexp :: "decimal \<Rightarrow> int" where
  "dexp (Dec _ e) = e"
| "dexp (NegZero e) = e"
| "dexp _ = 0"

fun dsign :: "decimal \<Rightarrow> bool" where
  "dsign (Dec c _) = (c < 0)"
| "dsign (NegZero _) = True"
| "dsign (Infin s) = s"
| "dsign (NaN s _ _) = s"

text \<open>The constructor from sign, magnitude and exponent.\<close>

definition mk_dec :: "bool \<Rightarrow> int \<Rightarrow> int \<Rightarrow> decimal" where
  "mk_dec s m e = (if m = 0 \<and> s then NegZero e else Dec (if s then - m else m) e)"

abbreviation d0 :: decimal where "d0 \<equiv> Dec 0 0"
abbreviation d1 :: decimal where "d1 \<equiv> Dec 1 0"

section \<open>Rounding to the context\<close>

function ndigits :: "int \<Rightarrow> int" where
  "ndigits n = (if n < 10 then 1 else 1 + ndigits (n div 10))"
  by pat_completeness auto
termination
  by (relation "measure nat") (auto simp: nat_less_iff zdiv_int)

declare ndigits.simps [simp del]

definition pow10 :: "int \<Rightarrow> int" where
  "pow10 k = 10 ^ nat k"

text \<open>Division of a magnitude to the nearest integer, ties to the even one.\<close>

definition half_even :: "int \<Rightarrow> int \<Rightarrow> int" where
  "half_even m d =
     (let q = m div d; r = m mod d
      in if 2 * r > d \<or> (2 * r = d \<and> odd q) then q + 1 else q)"

text \<open>
  The final step of every operation: round the magnitude to 28 digits, or to the subnormal
  exponent, and trap an exponent that is too large.
\<close>

definition dec_fix :: "bool \<Rightarrow> int \<Rightarrow> int \<Rightarrow> decimal res" where
  "dec_fix s m e =
     (if m = 0 then Inr (mk_dec s 0 (min (max e Etiny) Emax))
      else
        let lo = ndigits m + e - prec
        in if lo > Etop then Inl (Raise Overflow '''')
           else
             let exp_min = max lo Etiny
             in if e < exp_min then
                  let c = half_even m (pow10 (exp_min - e));
                      over = (ndigits c > prec);
                      c' = (if over then c div 10 else c);
                      e' = (if over then exp_min + 1 else exp_min)
                  in if e' > Etop then Inl (Raise Overflow '''') else Inr (mk_dec s c' e')
                else Inr (mk_dec s m e))"

section \<open>Special values\<close>

text \<open>A signalling operand raises; a quiet one is the result, its payload cut to the precision.\<close>

definition fix_nan :: "decimal \<Rightarrow> decimal" where
  "fix_nan d = (case d of NaN s q p \<Rightarrow> NaN s q (p mod pow10 prec) | _ \<Rightarrow> d)"

fun is_nan :: "decimal \<Rightarrow> bool" where
  "is_nan (NaN _ _ _) = True"
| "is_nan _ = False"

fun is_snan :: "decimal \<Rightarrow> bool" where
  "is_snan (NaN _ q _) = q"
| "is_snan _ = False"

definition invalid :: "'a res" where
  "invalid = Inl (Raise InvalidOperation '''')"

definition nan_result :: "decimal \<Rightarrow> decimal \<Rightarrow> decimal res" where
  "nan_result a b =
     (if is_snan a \<or> is_snan b then invalid
      else if is_nan a then Inr (fix_nan a) else Inr (fix_nan b))"

section \<open>Operations\<close>

text \<open>The sum of the signed coefficients at the smaller exponent, then rounded.\<close>

definition align :: "decimal \<Rightarrow> int \<Rightarrow> int" where
  "align d e = dcoef d * pow10 (dexp d - e)"

definition dadd :: "decimal \<Rightarrow> decimal \<Rightarrow> decimal res" where
  "dadd a b =
     (if is_nan a \<or> is_nan b then nan_result a b
      else if \<not> is_finite a then
        (if \<not> is_finite b \<and> dsign a \<noteq> dsign b then invalid else Inr a)
      else if \<not> is_finite b then Inr b
      else
        let e = min (dexp a) (dexp b); t = align a e + align b e
        in dec_fix (if t = 0 then dsign a \<and> dsign b else t < 0) \<bar>t\<bar> e)"

fun copy_negate :: "decimal \<Rightarrow> decimal" where
  "copy_negate (Dec c e) = (if c = 0 then NegZero e else Dec (- c) e)"
| "copy_negate (NegZero e) = Dec 0 e"
| "copy_negate (Infin s) = Infin (\<not> s)"
| "copy_negate (NaN s q p) = NaN (\<not> s) q p"

definition dsub :: "decimal \<Rightarrow> decimal \<Rightarrow> decimal res" where
  "dsub a b = (if is_nan a \<or> is_nan b then nan_result a b else dadd a (copy_negate b))"

definition dmul :: "decimal \<Rightarrow> decimal \<Rightarrow> decimal res" where
  "dmul a b =
     (if is_nan a \<or> is_nan b then nan_result a b
      else
        let s = (dsign a \<noteq> dsign b)
        in if \<not> is_finite a \<or> \<not> is_finite b then
             (if (is_finite a \<and> dcoef a = 0) \<or> (is_finite b \<and> dcoef b = 0) then invalid
              else Inr (Infin s))
           else dec_fix s (\<bar>dcoef a\<bar> * \<bar>dcoef b\<bar>) (dexp a + dexp b))"

text \<open>The exact quotient loses trailing zeros until its exponent is the ideal one.\<close>

function strip_zeros :: "int \<Rightarrow> int \<Rightarrow> int \<Rightarrow> int \<times> int" where
  "strip_zeros c e ideal =
     (if e < ideal \<and> c mod 10 = 0 then strip_zeros (c div 10) (e + 1) ideal else (c, e))"
  by pat_completeness auto
termination
  by (relation "measure (\<lambda>(c, e, ideal). nat (ideal - e))") auto

declare strip_zeros.simps [simp del]

text \<open>
  The quotient of two nonzero magnitudes is computed as an integer division, after a shift that
  gives it at least 29 digits; an inexact one is made sticky before the final rounding.
\<close>

definition div_shift :: "int \<Rightarrow> int \<Rightarrow> int" where
  "div_shift m n = ndigits n - ndigits m + prec + 1"

definition div_num :: "int \<Rightarrow> int \<Rightarrow> int" where
  "div_num m n = (if 0 \<le> div_shift m n then m * pow10 (div_shift m n) else m)"

definition div_den :: "int \<Rightarrow> int \<Rightarrow> int" where
  "div_den m n = (if 0 \<le> div_shift m n then n else n * pow10 (- div_shift m n))"

definition div_finite :: "bool \<Rightarrow> int \<Rightarrow> int \<Rightarrow> int \<Rightarrow> decimal res" where
  "div_finite s m n ideal =
     (let num = div_num m n; den = div_den m n; q = num div den; e = ideal - div_shift m n
      in if num mod den \<noteq> 0 then dec_fix s (if q mod 5 = 0 then q + 1 else q) e
         else case strip_zeros q e ideal of (c, e') \<Rightarrow> dec_fix s c e')"

definition ddiv :: "decimal \<Rightarrow> decimal \<Rightarrow> decimal res" where
  "ddiv a b =
     (if is_nan a \<or> is_nan b then nan_result a b
      else
        let s = (dsign a \<noteq> dsign b)
        in if \<not> is_finite a then (if \<not> is_finite b then invalid else Inr (Infin s))
           else if \<not> is_finite b then Inr (mk_dec s 0 Etiny)
           else if dcoef b = 0 then
             (if dcoef a = 0 then invalid else Inl (Raise DivisionByZero ''''))
           else if dcoef a = 0 then dec_fix s 0 (dexp a - dexp b)
           else div_finite s \<bar>dcoef a\<bar> \<bar>dcoef b\<bar> (dexp a - dexp b))"

text \<open>
  The remainder, with the sign of the dividend. A quotient of more than 28 digits is
  \<open>DivisionImpossible\<close>, which the \<open>InvalidOperation\<close> trap raises.
\<close>

definition adjusted :: "decimal \<Rightarrow> int" where
  "adjusted d = ndigits \<bar>dcoef d\<bar> + dexp d - 1"

definition dmod :: "decimal \<Rightarrow> decimal \<Rightarrow> decimal res" where
  "dmod a b =
     (if is_nan a \<or> is_nan b then nan_result a b
      else if \<not> is_finite a then invalid
      else if is_finite b \<and> dcoef b = 0 then invalid
      else
        let ideal = (if is_finite b then min (dexp a) (dexp b) else dexp a);
            expdiff = adjusted a - adjusted b
        in if dcoef a = 0 \<or> \<not> is_finite b \<or> expdiff \<le> - 2 then
             dec_fix (dsign a) (\<bar>dcoef a\<bar> * pow10 (dexp a - ideal)) ideal
           else if expdiff \<le> prec then
             let m = \<bar>align a ideal\<bar>; n = \<bar>align b ideal\<bar>
             in if m div n < pow10 prec then dec_fix (dsign a) (m mod n) ideal
                else invalid
           else invalid)"

definition dabs :: "decimal \<Rightarrow> decimal res" where
  "dabs a =
     (if is_nan a then nan_result a a
      else if \<not> is_finite a then Inr (Infin False)
      else dec_fix False \<bar>dcoef a\<bar> (dexp a))"

section \<open>Comparison\<close>

text \<open>
  Order comparisons raise on any NaN; equality raises on a signalling NaN only. Finite values
  are compared exactly, whatever their exponents.
\<close>

fun inf_rank :: "decimal \<Rightarrow> int" where
  "inf_rank (Infin s) = (if s then - 1 else 1)"
| "inf_rank _ = 0"

definition dless :: "decimal \<Rightarrow> decimal \<Rightarrow> bool" where
  "dless a b =
     (if is_finite a \<and> is_finite b
      then let e = min (dexp a) (dexp b) in align a e < align b e
      else inf_rank a < inf_rank b)"

definition dequal :: "decimal \<Rightarrow> decimal \<Rightarrow> bool" where
  "dequal a b =
     (if is_finite a \<and> is_finite b
      then let e = min (dexp a) (dexp b) in align a e = align b e
      else \<not> is_finite a \<and> \<not> is_finite b \<and> inf_rank a = inf_rank b)"

definition dlt :: "decimal \<Rightarrow> decimal \<Rightarrow> bool res" where
  "dlt a b = (if is_nan a \<or> is_nan b then invalid else Inr (dless a b))"

definition dle :: "decimal \<Rightarrow> decimal \<Rightarrow> bool res" where
  "dle a b = (if is_nan a \<or> is_nan b then invalid else Inr (\<not> dless b a))"

abbreviation dgt :: "decimal \<Rightarrow> decimal \<Rightarrow> bool res" where "dgt a b \<equiv> dlt b a"
abbreviation dge :: "decimal \<Rightarrow> decimal \<Rightarrow> bool res" where "dge a b \<equiv> dle b a"

definition deq :: "decimal \<Rightarrow> decimal \<Rightarrow> bool res" where
  "deq a b =
     (if is_snan a \<or> is_snan b then invalid
      else Inr (\<not> is_nan a \<and> \<not> is_nan b \<and> dequal a b))"

text \<open>The builtins \<open>max(a, b)\<close>, \<open>min(a, b)\<close> and \<open>sum(xs)\<close>, which starts from zero.\<close>

definition dmax :: "decimal \<Rightarrow> decimal \<Rightarrow> decimal res" where
  "dmax a b = bind_res (dgt b a) (\<lambda>g. Inr (if g then b else a))"

definition dmin :: "decimal \<Rightarrow> decimal \<Rightarrow> decimal res" where
  "dmin a b = bind_res (dlt b a) (\<lambda>l. Inr (if l then b else a))"

definition dsum :: "decimal list \<Rightarrow> decimal res" where
  "dsum xs = foldM_res dadd d0 xs"

end
