(* ===== verification/Decimal_Value.thy ===== *)
theory Decimal_Value
  imports Decimal_Arith
begin

text \<open>
  The number a decimal denotes, and what the operations promise about it: comparisons are exact;
  an operation whose exact result needs at most 28 digits returns it without rounding and without
  an exception; an operation with a result of moderate size never raises, and the size of the
  result follows from the sizes of the operands.
\<close>

named_theorems dec_simps \<open>comparison and value rules for finite decimals\<close>

section \<open>Denotation\<close>

definition dval :: "decimal \<Rightarrow> rat" where
  "dval d = of_int (dcoef d) * 10 powi dexp d"

lemma dval_Dec [simp]: "dval (Dec c e) = of_int c * 10 powi e"
  by (simp add: dval_def)

lemma dval_NegZero [simp]: "dval (NegZero e) = 0"
  by (simp add: dval_def)

lemma pow10_pos [simp]: "0 < pow10 k"
  by (simp add: pow10_def)

lemma pow10_nonzero [simp]: "pow10 k \<noteq> 0"
  by (simp add: pow10_def)

lemma pow10_rat: "0 \<le> k \<Longrightarrow> (of_int (pow10 k) :: rat) = 10 powi k"
  by (simp add: pow10_def power_int_def)

lemma pow10_add: "0 \<le> j \<Longrightarrow> 0 \<le> k \<Longrightarrow> pow10 (j + k) = pow10 j * pow10 k"
  by (simp add: pow10_def nat_add_distrib power_add)

lemma p10_pos [simp]: "0 < (10::rat) powi k"
  by (simp add: zero_less_power_int)

lemma p10_not_neg [simp]: "\<not> (10::rat) powi k < 0"
  using p10_pos [of k] by linarith

lemma p10_add: "(10::rat) powi (j + k) = 10 powi j * 10 powi k"
  by (simp add: power_int_add)

lemma p10_le_iff: "(10::rat) powi j \<le> 10 powi k \<longleftrightarrow> j \<le> k"
  by (meson linorder_not_less order_less_imp_le power_int_increasing power_int_strict_increasing
      one_less_numeral_iff semiring_norm(76) one_le_numeral order.strict_iff_not)

lemma p10_less_iff: "(10::rat) powi j < 10 powi k \<longleftrightarrow> j < k"
  using p10_le_iff [of k j] by linarith

lemma mk_dec_finite [simp]: "is_finite (mk_dec s m e)"
  by (simp add: mk_dec_def)

lemma dval_mk_dec: "dval (mk_dec s m e) = (if s then - 1 else 1) * of_int m * 10 powi e"
  by (simp add: mk_dec_def)

lemma align_val: "e \<le> dexp d \<Longrightarrow> of_int (align d e) * 10 powi e = dval d"
proof -
  assume e: "e \<le> dexp d"
  have "(of_int (align d e) :: rat) * 10 powi e
      = of_int (dcoef d) * (10 powi (dexp d - e) * 10 powi e)"
    using e by (simp add: align_def pow10_rat)
  also have "\<dots> = of_int (dcoef d) * 10 powi (dexp d - e + e)"
    by (simp only: p10_add)
  finally show ?thesis by (simp add: dval_def)
qed

lemma align_less_iff:
  assumes "e = min (dexp a) (dexp b)"
  shows "align a e < align b e \<longleftrightarrow> dval a < dval b"
    and "align a e = align b e \<longleftrightarrow> dval a = dval b"
proof -
  have a: "dval a = of_int (align a e) * 10 powi e" and b: "dval b = of_int (align b e) * 10 powi e"
    using assms by (simp_all add: align_val)
  show "align a e < align b e \<longleftrightarrow> dval a < dval b"
    by (simp add: a b)
  show "align a e = align b e \<longleftrightarrow> dval a = dval b"
    by (simp add: a b)
qed

lemma finite_not_nan [simp]: "is_finite d \<Longrightarrow> \<not> is_nan d" "is_finite d \<Longrightarrow> \<not> is_snan d"
  by (cases d; simp)+

lemma dless_val: "is_finite a \<Longrightarrow> is_finite b \<Longrightarrow> dless a b \<longleftrightarrow> dval a < dval b"
  by (simp add: dless_def Let_def align_less_iff)

lemma dequal_val: "is_finite a \<Longrightarrow> is_finite b \<Longrightarrow> dequal a b \<longleftrightarrow> dval a = dval b"
  by (simp add: dequal_def Let_def align_less_iff)

lemma dlt_val [dec_simps]: "is_finite a \<Longrightarrow> is_finite b \<Longrightarrow> dlt a b = Inr (dval a < dval b)"
  by (simp add: dlt_def dless_val)

lemma dle_val [dec_simps]: "is_finite a \<Longrightarrow> is_finite b \<Longrightarrow> dle a b = Inr (dval a \<le> dval b)"
  by (simp add: dle_def dless_val not_less)

lemma deq_val [dec_simps]: "is_finite a \<Longrightarrow> is_finite b \<Longrightarrow> deq a b = Inr (dval a = dval b)"
  by (simp add: deq_def dequal_val)

lemma dmax_val [dec_simps]:
  "is_finite a \<Longrightarrow> is_finite b \<Longrightarrow> dmax a b = Inr (if dval a < dval b then b else a)"
  by (simp add: dmax_def dlt_val)

lemma dmin_val [dec_simps]:
  "is_finite a \<Longrightarrow> is_finite b \<Longrightarrow> dmin a b = Inr (if dval b < dval a then b else a)"
  by (simp add: dmin_def dlt_val)

section \<open>Digits and rounding\<close>

lemma ndigits_pos: "1 \<le> ndigits n"
proof (induction n rule: ndigits.induct)
  case (1 n)
  then show ?case by (cases "n < 10") (simp_all add: ndigits.simps [of n])
qed

lemma ndigits_bounds: "0 < n \<Longrightarrow> pow10 (ndigits n - 1) \<le> n \<and> n < pow10 (ndigits n)"
proof (induction n rule: ndigits.induct)
  case (1 n)
  show ?case
  proof (cases "n < 10")
    case True
    with 1 show ?thesis by (simp add: ndigits.simps [of n] pow10_def)
  next
    case False
    define k where "k = ndigits (n div 10)"
    have k: "1 \<le> k" by (simp add: k_def ndigits_pos)
    from False 1 have IH: "pow10 (k - 1) \<le> n div 10" "n div 10 < pow10 k"
      by (simp_all add: k_def)
    have "pow10 k = pow10 (k - 1) * 10" "pow10 (k + 1) = pow10 k * 10"
      using k pow10_add [of "k - 1" 1] pow10_add [of k 1] by (simp_all add: pow10_def)
    with IH have "pow10 k \<le> n" "n < pow10 (k + 1)" by linarith+
    with False show ?thesis by (simp add: ndigits.simps [of n] k_def add.commute)
  qed
qed

lemma ndigits_le_iff: "0 < n \<Longrightarrow> 1 \<le> k \<Longrightarrow> ndigits n \<le> k \<longleftrightarrow> n < pow10 k"
proof
  assume n: "0 < n" "1 \<le> k" and "n < pow10 k"
  with ndigits_bounds [of n] have "pow10 (ndigits n - 1) < pow10 k" by linarith
  then have "nat (ndigits n - 1) < nat k" by (simp add: pow10_def)
  then show "ndigits n \<le> k" by linarith
next
  assume n: "0 < n" "1 \<le> k" and "ndigits n \<le> k"
  then have "pow10 (ndigits n) \<le> pow10 k" by (simp add: pow10_def nat_le_iff)
  with ndigits_bounds n show "n < pow10 k" by fastforce
qed

lemma half_even_dvd: "0 < d \<Longrightarrow> d dvd m \<Longrightarrow> half_even m d = m div d"
  by (simp add: half_even_def Let_def)

lemma half_even_le: "0 < d \<Longrightarrow> m \<le> k * d \<Longrightarrow> half_even m d \<le> k"
proof -
  assume d: "0 < d" and m: "m \<le> k * d"
  show ?thesis
  proof (cases "m mod d = 0")
    case True
    then have "half_even m d = m div d" using d by (simp add: half_even_dvd mod_eq_0_iff_dvd)
    also have "\<dots> \<le> k" using d m by (metis div_le_mono less_irrefl nonzero_mult_div_cancel_right
        zdiv_mono1)
    finally show ?thesis .
  next
    case False
    with d have "0 < m mod d" by (metis pos_mod_sign order_le_less)
    with m have "m div d * d < k * d" using div_mult_mod_eq [of m d] by linarith
    with d have "m div d < k" by (simp add: mult_less_cancel_right_pos)
    then show ?thesis by (auto simp: half_even_def Let_def)
  qed
qed

lemma half_even_ge: "0 < d \<Longrightarrow> k * d \<le> m \<Longrightarrow> k \<le> half_even m d"
proof -
  assume d: "0 < d" and m: "k * d \<le> m"
  then have "k \<le> m div d" by (metis less_irrefl nonzero_mult_div_cancel_right zdiv_mono1)
  then show ?thesis by (auto simp: half_even_def Let_def)
qed

section \<open>Exact results\<close>

text \<open>
  A number that 28 significant digits can write, at an exponent far from the context's limits.
\<close>

definition representable :: "rat \<Rightarrow> bool" where
  "representable v \<longleftrightarrow>
     (\<exists>k j. v = of_int k * 10 powi j \<and> \<bar>k\<bar> < 10 ^ 28 \<and> - 1000 \<le> j \<and> j \<le> 1000)"

lemma representableI:
  "v = of_int k * 10 powi j \<Longrightarrow> \<bar>k\<bar> < 10 ^ 28 \<Longrightarrow> - 1000 \<le> j \<Longrightarrow> j \<le> 1000 \<Longrightarrow> representable v"
  by (auto simp: representable_def)

lemma representable_uminus: "representable (- v) \<longleftrightarrow> representable v"
proof -
  have "representable (- v)" if "representable v" for v
  proof -
    from that obtain k j where "v = of_int k * 10 powi j" "\<bar>k\<bar> < 10 ^ 28" "- 1000 \<le> j" "j \<le> 1000"
      by (auto simp: representable_def)
    then show ?thesis by (intro representableI [of _ "- k" j]) simp_all
  qed
  from this [of v] this [of "- v"] show ?thesis by auto
qed

text \<open>The digits of a magnitude whose number is \<open>k\<close> times a power of ten.\<close>

lemma scaled_magnitude:
  assumes m: "0 < m" and eq: "of_int m * (10::rat) powi e = of_int k * 10 powi j"
    and k: "\<bar>k\<bar> < 10 ^ 28"
  shows "0 < k" and "ndigits m + e \<le> j + 28"
    and "e \<le> i \<Longrightarrow> i \<le> j \<Longrightarrow> pow10 (i - e) dvd m"
proof -
  show k0: "0 < k"
  proof (rule ccontr)
    assume "\<not> 0 < k"
    then have "of_int k * (10::rat) powi j \<le> 0" by (simp add: mult_nonpos_nonneg)
    moreover have "0 < of_int m * (10::rat) powi e" using m by simp
    ultimately show False using eq by simp
  qed
  have km: "of_int k * (10::rat) powi (j - e) = of_int m"
    by (metis eq power_int_diff nonzero_eq_divide_eq times_divide_eq_right zero_neq_numeral
        power_int_eq_0_iff)
  have "(10::rat) powi (ndigits m - 1) \<le> of_int m"
    using ndigits_bounds [OF m] ndigits_pos [of m]
    by (simp flip: pow10_rat)
  moreover have "of_int k * (10::rat) powi (j - e) < 10 powi 28 * 10 powi (j - e)"
    using k k0 by (simp add: power_int_numeral)
  ultimately have "(10::rat) powi (ndigits m - 1) < 10 powi (28 + (j - e))"
    using km by (simp add: p10_add)
  then show "ndigits m + e \<le> j + 28" by (simp add: p10_less_iff)
  show "pow10 (i - e) dvd m" if "e \<le> i" "i \<le> j"
  proof -
    have split: "(10::rat) powi (j - e) = 10 powi (j - i) * 10 powi (i - e)"
      by (simp flip: p10_add)
    have "of_int m = of_int k * ((10::rat) powi (j - i) * 10 powi (i - e))"
      using km by (simp only: split)
    also have "\<dots> = of_int (k * pow10 (j - i) * pow10 (i - e))"
      using that by (simp add: pow10_rat)
    finally have "m = k * pow10 (j - i) * pow10 (i - e)"
      by (simp only: of_int_eq_iff)
    then show ?thesis by simp
  qed
qed

lemma dec_fix_zero: "\<exists>d. dec_fix s 0 e = Inr d \<and> is_finite d \<and> dval d = 0"
  by (simp add: dec_fix_def dval_mk_dec)

lemma dec_fix_exact:
  assumes m: "0 \<le> m" and rep: "representable (of_int m * 10 powi e)"
  shows "\<exists>d. dec_fix s m e = Inr d \<and> is_finite d
           \<and> dval d = (if s then - 1 else 1) * of_int m * 10 powi e"
proof (cases "m = 0")
  case True
  then show ?thesis using dec_fix_zero [of s e] by simp
next
  case False
  with m have m0: "0 < m" by simp
  from rep obtain k j where kj: "of_int m * (10::rat) powi e = of_int k * 10 powi j"
    "\<bar>k\<bar> < 10 ^ 28" "- 1000 \<le> j" "j \<le> 1000" by (auto simp: representable_def)
  note sm = scaled_magnitude [OF m0 kj(1,2)]
  define x where "x = max (ndigits m + e - prec) Etiny"
  have xj: "x \<le> j" using sm(2) kj(3) by (simp add: x_def prec_def Etiny_def)
  have lo: "\<not> ndigits m + e - prec > Etop" using sm(2) kj(4) by (simp add: prec_def Etop_def)
  show ?thesis
  proof (cases "e < x")
    case False
    with m0 lo show ?thesis by (simp add: dec_fix_def Let_def x_def dval_mk_dec)
  next
    case True
    then have dvd: "pow10 (x - e) dvd m" using sm(3) xj by simp
    define c where "c = m div pow10 (x - e)"
    have he: "half_even m (pow10 (x - e)) = c" by (simp add: c_def dvd half_even_dvd)
    have mc: "m = c * pow10 (x - e)" using dvd by (simp add: c_def)
    then have c0: "0 < c" using m0 pow10_pos zero_less_mult_pos2 by metis
    have val: "of_int c * (10::rat) powi x = of_int m * 10 powi e"
      using True by (simp add: mc pow10_rat flip: p10_add)
    have "of_int c * (10::rat) powi x = of_int k * 10 powi j" using val kj(1) by simp
    note sc = scaled_magnitude [OF c0 this kj(2)]
    have "c < pow10 prec"
    proof -
      have "m < pow10 (ndigits m)" using ndigits_bounds m0 by blast
      also have "\<dots> \<le> pow10 (prec + (x - e))"
        by (simp add: pow10_def x_def)
      also have "\<dots> = pow10 prec * pow10 (x - e)"
        using True by (simp add: pow10_add prec_def)
      finally show ?thesis unfolding mc by (simp add: mult_less_cancel_right_pos)
    qed
    then have "\<not> ndigits c > prec" using ndigits_le_iff [of c prec] c0 by (simp add: prec_def)
    moreover have "\<not> x > Etop" using xj kj(4) by (simp add: Etop_def)
    ultimately have "dec_fix s m e = Inr (mk_dec s c x)"
      using True lo m0 he by (simp add: dec_fix_def Let_def x_def)
    then show ?thesis by (simp add: dval_mk_dec mult.assoc val del: of_int_mult)
  qed
qed

lemma dec_fix_signed_exact:
  assumes rep: "representable (of_int t * 10 powi e)" and s: "t \<noteq> 0 \<Longrightarrow> s = (t < 0)"
  shows "\<exists>d. dec_fix s \<bar>t\<bar> e = Inr d \<and> is_finite d \<and> dval d = of_int t * 10 powi e"
proof -
  have "representable (of_int \<bar>t\<bar> * 10 powi e)"
    using rep representable_uminus [of "of_int t * 10 powi e"] by (auto simp: abs_if)
  from dec_fix_exact [OF _ this, of s] s show ?thesis
    by (cases "t = 0") (auto simp: abs_if split: if_splits)
qed

lemma dadd_exact:
  assumes "is_finite a" "is_finite b" "representable (dval a + dval b)"
  shows "\<exists>d. dadd a b = Inr d \<and> is_finite d \<and> dval d = dval a + dval b"
proof -
  define e where "e = min (dexp a) (dexp b)"
  define t where "t = align a e + align b e"
  have "of_int t * (10::rat) powi e = dval a + dval b"
    by (simp add: t_def e_def distrib_right align_val)
  then show ?thesis
    using dec_fix_signed_exact [of t e "if t = 0 then dsign a \<and> dsign b else t < 0"] assms
    by (cases "t = 0") (simp_all add: dadd_def Let_def flip: e_def t_def)
qed

lemma copy_negate_finite [simp]: "is_finite (copy_negate d) = is_finite d"
  by (cases d) auto

lemma copy_negate_val: "dval (copy_negate d) = - dval d"
  by (cases d) (auto simp: dval_def)

lemma dsub_exact:
  assumes "is_finite a" "is_finite b" "representable (dval a - dval b)"
  shows "\<exists>d. dsub a b = Inr d \<and> is_finite d \<and> dval d = dval a - dval b"
  using dadd_exact [of a "copy_negate b"] assms by (simp add: dsub_def copy_negate_val)

lemma dsign_finite: "is_finite d \<Longrightarrow> dcoef d \<noteq> 0 \<Longrightarrow> dsign d \<longleftrightarrow> dcoef d < 0"
  by (cases d) auto

lemma dmul_exact:
  assumes f: "is_finite a" "is_finite b" and rep: "representable (dval a * dval b)"
  shows "\<exists>d. dmul a b = Inr d \<and> is_finite d \<and> dval d = dval a * dval b"
proof -
  have v: "of_int (dcoef a * dcoef b) * (10::rat) powi (dexp a + dexp b) = dval a * dval b"
    by (simp add: dval_def p10_add mult.assoc mult.left_commute)
  have s: "(dsign a \<noteq> dsign b) = (dcoef a * dcoef b < 0)" if "dcoef a * dcoef b \<noteq> 0"
  proof -
    from that have "dcoef a \<noteq> 0" "dcoef b \<noteq> 0" by auto
    with f show ?thesis by (auto simp: dsign_finite mult_less_0_iff)
  qed
  have m: "\<bar>dcoef a\<bar> * \<bar>dcoef b\<bar> = \<bar>dcoef a * dcoef b\<bar>" by (simp add: abs_mult)
  show ?thesis
    using dec_fix_signed_exact [of "dcoef a * dcoef b" "dexp a + dexp b" "dsign a \<noteq> dsign b"]
      rep f s by (simp only: v) (simp add: dmul_def Let_def m)
qed

lemma dabs_exact:
  assumes "is_finite a" "representable (dval a)"
  shows "\<exists>d. dabs a = Inr d \<and> is_finite d \<and> dval d = \<bar>dval a\<bar>"
proof -
  have "of_int \<bar>dcoef a\<bar> * (10::rat) powi dexp a = \<bar>dval a\<bar>" by (simp add: dval_def abs_mult)
  moreover have "representable \<bar>dval a\<bar>"
    using assms(2) representable_uminus [of "dval a"] by (auto simp: abs_if)
  ultimately show ?thesis
    using dec_fix_exact [of "\<bar>dcoef a\<bar>" "dexp a" False] assms(1) by (simp add: dabs_def)
qed


text \<open>Trailing zeros are dropped without changing the number.\<close>

lemma strip_zeros_val:
  "strip_zeros c e i = (c', e') \<Longrightarrow>
   of_int c' * (10::rat) powi e' = of_int c * 10 powi e \<and> (0 \<le> c \<longrightarrow> 0 \<le> c')"
proof (induction c e i rule: strip_zeros.induct)
  case (1 c e i)
  show ?case
  proof (cases "e < i \<and> c mod 10 = 0")
    case True
    with 1 have IH: "of_int c' * (10::rat) powi e' = of_int (c div 10) * 10 powi (e + 1)"
      and pos: "0 \<le> c div 10 \<longrightarrow> 0 \<le> c'"
      by (simp_all add: strip_zeros.simps [of c])
    from True have "c = (c div 10) * 10" by presburger
    then have "(of_int c :: rat) = of_int (c div 10) * 10" by (metis of_int_mult of_int_numeral)
    with IH pos show ?thesis by (simp add: p10_add)
  next
    case False
    with 1(2) show ?thesis by (auto simp: strip_zeros.simps [of c])
  qed
qed

text \<open>The scaled integer division inside the quotient: its size and what it denotes.\<close>

lemma div_parts:
  assumes m: "0 < m" and n: "0 < n"
  shows "0 < div_num m n" and "0 < div_den m n"
    and "(of_int (div_num m n) / of_int (div_den m n) :: rat)
           = of_int m / of_int n * 10 powi div_shift m n"
    and "10 ^ 28 * div_den m n \<le> div_num m n"
proof -
  let ?sh = "div_shift m n" and ?num = "div_num m n" and ?den = "div_den m n"
  show n0: "0 < ?num" and d0: "0 < ?den" using m n by (simp_all add: div_num_def div_den_def)
  show eq: "(of_int ?num / of_int ?den :: rat) = of_int m / of_int n * 10 powi ?sh"
    by (auto simp: div_num_def div_den_def pow10_rat power_int_minus field_simps)
  have "(10::rat) powi (ndigits m - 1) \<le> of_int m"
    using ndigits_bounds [OF m] ndigits_pos [of m] by (simp flip: pow10_rat)
  moreover have "of_int n \<le> (10::rat) powi (ndigits n)"
    using ndigits_bounds [OF n] ndigits_pos [of n] by (simp flip: pow10_rat)
  ultimately have "10 powi (ndigits m - 1) * of_int n \<le> of_int m * (10::rat) powi ndigits n"
    using m n by (intro mult_mono) simp_all
  then have "10 powi (ndigits m - 1) / 10 powi ndigits n \<le> (of_int m / of_int n :: rat)"
    using n by (simp add: field_simps)
  then have "10 powi (ndigits m - 1) / 10 powi ndigits n * 10 powi ?sh
      \<le> (of_int m / of_int n * 10 powi ?sh :: rat)"
    by (intro mult_right_mono) simp_all
  moreover have "10 powi (ndigits m - 1) / 10 powi ndigits n * 10 powi ?sh = (10::rat) ^ 28"
    by (simp add: div_shift_def prec_def flip: power_int_diff p10_add)
  ultimately have "10 ^ 28 \<le> (of_int ?num / of_int ?den :: rat)" by (simp only: eq)
  then have "10 ^ 28 * of_int ?den \<le> (of_int ?num :: rat)" using d0 by (simp add: field_simps)
  then have "(of_int (10 ^ 28 * ?den) :: rat) \<le> of_int ?num" by simp
  then show "10 ^ 28 * ?den \<le> ?num" by (simp only: of_int_le_iff)
qed

text \<open>The quotient of the magnitudes, at the exponent the integer division works with.\<close>

lemma div_parts_val:
  assumes "0 < m" and "0 < n"
  shows "of_int m / of_int n * (10::rat) powi i
       = of_int (div_num m n) / of_int (div_den m n) * 10 powi (i - div_shift m n)"
proof -
  have "(10::rat) powi i = 10 powi div_shift m n * 10 powi (i - div_shift m n)"
    by (simp flip: p10_add)
  then show ?thesis by (simp only: div_parts(3) [OF assms] mult.assoc)
qed

lemma div_finite_exact:
  assumes m: "0 < m" "0 < n" and rep: "representable (of_int m / of_int n * 10 powi i)"
  shows "\<exists>d. div_finite s m n i = Inr d \<and> is_finite d
           \<and> dval d = (if s then - 1 else 1) * (of_int m / of_int n * 10 powi i)"
proof -
  define e where "e = i - div_shift m n"
  define num where "num = div_num m n"
  define den where "den = div_den m n"
  note dp = div_parts [OF m, folded num_def den_def]
  define v where "v = of_int m / of_int n * (10::rat) powi i"
  have v: "v = of_int num / of_int den * 10 powi e"
    by (simp only: v_def e_def num_def den_def div_parts_val [OF m])
  obtain k j where kj: "v = of_int k * 10 powi j" "\<bar>k\<bar> < 10 ^ 28"
    using rep by (auto simp: representable_def v_def)
  have quot: "of_int num = of_int den * (of_int k * (10::rat) powi (j - e))"
  proof -
    have "of_int num / of_int den * (10::rat) powi e = of_int k * 10 powi (j - e) * 10 powi e"
      using v kj(1) by (simp add: mult.assoc flip: p10_add)
    then have "of_int num / of_int den = of_int k * (10::rat) powi (j - e)"
      by (rule mult_right_cancel [THEN iffD1, rotated]) simp
    then show ?thesis using dp(2) by (simp add: field_simps)
  qed
  have je: "0 \<le> j - e"
  proof (rule ccontr)
    assume "\<not> 0 \<le> j - e"
    then have "(10::rat) powi (j - e) \<le> 10 powi 0" by (subst p10_le_iff) simp
    then have le1: "(10::rat) powi (j - e) \<le> 1" by simp
    have "of_int k * (10::rat) powi (j - e) \<le> of_int \<bar>k\<bar> * 1"
      by (intro mult_mono le1) simp_all
    also have "\<dots> < 10 ^ 28" using kj(2) by (metis mult.right_neutral of_int_less_iff
          of_int_numeral of_int_power)
    finally have "of_int num < of_int den * (10::rat) ^ 28"
      using quot dp(2) by (simp add: mult_less_cancel_left_pos)
    then have "(of_int num :: rat) < of_int (10 ^ 28 * den)" by (simp add: mult.commute)
    then show False using dp(4) by (simp only: of_int_less_iff)
  qed
  then have "of_int num = (of_int (den * (k * pow10 (j - e))) :: rat)"
    using quot by (simp add: pow10_rat)
  then have numden: "num = den * (k * pow10 (j - e))" by (simp only: of_int_eq_iff)
  then have rem: "num mod den = 0" and q: "num div den = k * pow10 (j - e)" using dp(2) by auto
  obtain c e' where sz: "strip_zeros (num div den) e i = (c, e')" by fastforce
  have "0 \<le> num div den" using dp(1,2) by (simp add: pos_imp_zdiv_nonneg_iff)
  with strip_zeros_val [OF sz] have c0: "0 \<le> c"
    and cv: "of_int c * (10::rat) powi e' = of_int (num div den) * 10 powi e" by auto
  have "of_int (num div den) * (10::rat) powi e = v"
    using je kj(1) by (simp add: q pow10_rat mult.assoc flip: p10_add)
  with cv have cv': "of_int c * (10::rat) powi e' = v" by simp
  have "div_finite s m n i = dec_fix s c e'"
    using rem sz by (simp add: div_finite_def Let_def num_def den_def e_def)
  moreover obtain d where "dec_fix s c e' = Inr d" "is_finite d"
    "dval d = (if s then - 1 else 1) * v"
    using dec_fix_exact [OF c0, of e' s] rep unfolding mult.assoc cv' v_def by blast
  ultimately show ?thesis by (metis v_def)
qed

lemma ddiv_nonzero:
  assumes "is_finite a" "is_finite b" "dcoef a \<noteq> 0" "dcoef b \<noteq> 0"
  shows "ddiv a b = div_finite (dsign a \<noteq> dsign b) \<bar>dcoef a\<bar> \<bar>dcoef b\<bar> (dexp a - dexp b)"
  using assms by (simp add: ddiv_def Let_def)

lemma ddiv_zero:
  assumes "is_finite a" "is_finite b" "dcoef a = 0" "dval b \<noteq> 0"
  shows "\<exists>d. ddiv a b = Inr d \<and> is_finite d \<and> dval d = 0"
  using assms dec_fix_zero by (auto simp: ddiv_def Let_def dval_def)

lemma abs_quotient:
  "\<bar>dval a / dval b\<bar> = of_int \<bar>dcoef a\<bar> / of_int \<bar>dcoef b\<bar> * 10 powi (dexp a - dexp b)"
  by (simp add: dval_def abs_mult power_int_diff)

lemma ddiv_exact:
  assumes f: "is_finite a" "is_finite b" and b0: "dval b \<noteq> 0"
    and rep: "representable (dval a / dval b)"
  shows "\<exists>d. ddiv a b = Inr d \<and> is_finite d \<and> dval d = dval a / dval b"
proof (cases "dcoef a = 0")
  case True
  with ddiv_zero f b0 show ?thesis by (force simp: dval_def)
next
  case False
  have cb: "dcoef b \<noteq> 0" using b0 by (auto simp: dval_def)
  let ?s = "dsign a \<noteq> dsign b"
  have "representable \<bar>dval a / dval b\<bar>"
    using rep representable_uminus [of "dval a / dval b"] by (auto simp: abs_if)
  then obtain d where d: "ddiv a b = Inr d" "is_finite d"
    "dval d = (if ?s then - 1 else 1) * \<bar>dval a / dval b\<bar>"
    using div_finite_exact [of "\<bar>dcoef a\<bar>" "\<bar>dcoef b\<bar>" "dexp a - dexp b" ?s] False cb
    by (auto simp only: abs_quotient ddiv_nonzero [OF f False cb] zero_less_abs_iff)
  have "(if ?s then - 1 else 1) * \<bar>dval a / dval b\<bar> = dval a / dval b"
    using f False cb
    by (auto simp: dsign_finite dval_def abs_if mult_less_0_iff zero_less_mult_iff
        divide_less_0_iff)
  with d show ?thesis by metis
qed

section \<open>Operations of moderate size never raise\<close>

lemma dec_fix_total:
  assumes m: "0 \<le> m" and le: "of_int m * 10 powi e \<le> (10::rat) powi n"
    and n: "0 \<le> n" "n \<le> 900000"
  shows "\<exists>d. dec_fix s m e = Inr d \<and> is_finite d \<and> \<bar>dval d\<bar> \<le> 10 powi n
           \<and> (\<not> s \<longrightarrow> 0 \<le> dval d)"
proof (cases "m = 0")
  case True
  then show ?thesis using dec_fix_zero [of s e] by force
next
  case False
  with m have m0: "0 < m" by simp
  have "(10::rat) powi (ndigits m - 1) \<le> of_int m"
    using ndigits_bounds [OF m0] ndigits_pos [of m] by (simp flip: pow10_rat)
  then have "(10::rat) powi (ndigits m - 1) * 10 powi e \<le> of_int m * 10 powi e"
    by (rule mult_right_mono) simp
  from order_trans [OF this le] have adj: "ndigits m - 1 + e \<le> n"
    by (simp only: p10_add [symmetric] p10_le_iff)
  define x where "x = max (ndigits m + e - prec) Etiny"
  have lo: "\<not> ndigits m + e - prec > Etop" and xn: "x \<le> n" "x + 1 \<le> Etop"
    using adj n by (simp_all add: prec_def Etop_def x_def Etiny_def)
  show ?thesis
  proof (cases "e < x")
    case False
    with m0 lo have "dec_fix s m e = Inr (mk_dec s m e)" by (simp add: dec_fix_def Let_def x_def)
    with le m show ?thesis by (simp add: dval_mk_dec abs_mult)
  next
    case True
    define c where "c = half_even m (pow10 (x - e))"
    have c0: "0 \<le> c" using half_even_ge [of "pow10 (x - e)" 0 m] m by (simp add: c_def)
    have "of_int m \<le> (10::rat) powi n / 10 powi e" using le by (simp add: pos_le_divide_eq)
    also have "\<dots> = of_int (pow10 (n - x) * pow10 (x - e))"
      using True xn by (simp add: pow10_rat flip: power_int_diff p10_add)
    finally have "m \<le> pow10 (n - x) * pow10 (x - e)" by (simp only: of_int_le_iff)
    then have "c \<le> pow10 (n - x)" unfolding c_def by (intro half_even_le) simp_all
    then have "(of_int c :: rat) \<le> of_int (pow10 (n - x))" by (simp only: of_int_le_iff)
    then have "of_int c * (10::rat) powi x \<le> 10 powi (n - x) * 10 powi x"
      using xn by (simp add: pow10_rat)
    then have cle: "of_int c * (10::rat) powi x \<le> 10 powi n" by (simp flip: p10_add)
    show ?thesis
    proof (cases "ndigits c > prec")
      case False
      with True lo xn(2) m0 have "dec_fix s m e = Inr (mk_dec s c x)"
        by (simp add: dec_fix_def Let_def x_def c_def)
      with cle c0 show ?thesis by (simp add: dval_mk_dec abs_mult)
    next
      case over: True
      with True lo xn(2) m0 have "dec_fix s m e = Inr (mk_dec s (c div 10) (x + 1))"
        by (simp add: dec_fix_def Let_def x_def c_def)
      moreover have "of_int (c div 10) * (10::rat) powi (x + 1) \<le> of_int c * 10 powi x"
      proof -
        have "c div 10 * 10 \<le> c" by presburger
        then have "(of_int (c div 10) * 10 :: rat) \<le> of_int c"
          by (metis of_int_le_iff of_int_mult of_int_numeral)
        then have "of_int (c div 10) * 10 * (10::rat) powi x \<le> of_int c * 10 powi x"
          by (rule mult_right_mono) simp
        then show ?thesis by (simp add: p10_add mult_ac)
      qed
      moreover have "0 \<le> c div 10" using c0 by simp
      ultimately show ?thesis using cle by (simp add: dval_mk_dec abs_mult)
    qed
  qed
qed

lemma dadd_total:
  assumes "is_finite a" "is_finite b" and "\<bar>dval a + dval b\<bar> \<le> 10 powi n" "0 \<le> n" "n \<le> 900000"
  shows "\<exists>d. dadd a b = Inr d \<and> is_finite d \<and> \<bar>dval d\<bar> \<le> 10 powi n"
proof -
  define e where "e = min (dexp a) (dexp b)"
  define t where "t = align a e + align b e"
  have "of_int t * (10::rat) powi e = dval a + dval b"
    by (simp add: t_def e_def distrib_right align_val)
  then have "of_int \<bar>t\<bar> * (10::rat) powi e = \<bar>dval a + dval b\<bar>"
    by (metis abs_mult abs_of_pos of_int_abs p10_pos)
  then show ?thesis
    using dec_fix_total [of "\<bar>t\<bar>" e n "if t = 0 then dsign a \<and> dsign b else t < 0"] assms
    by (cases "t = 0") (auto simp: dadd_def Let_def simp flip: e_def t_def)
qed

lemma dsub_total:
  assumes "is_finite a" "is_finite b" and "\<bar>dval a - dval b\<bar> \<le> 10 powi n" "0 \<le> n" "n \<le> 900000"
  shows "\<exists>d. dsub a b = Inr d \<and> is_finite d \<and> \<bar>dval d\<bar> \<le> 10 powi n"
  using dadd_total [of a "copy_negate b" n] assms by (simp add: dsub_def copy_negate_val)

lemma dmul_total:
  assumes "is_finite a" "is_finite b" and "\<bar>dval a * dval b\<bar> \<le> 10 powi n" "0 \<le> n" "n \<le> 900000"
  shows "\<exists>d. dmul a b = Inr d \<and> is_finite d \<and> \<bar>dval d\<bar> \<le> 10 powi n"
proof -
  have "of_int (\<bar>dcoef a\<bar> * \<bar>dcoef b\<bar>) * (10::rat) powi (dexp a + dexp b) = \<bar>dval a * dval b\<bar>"
    by (simp add: dval_def abs_mult p10_add mult_ac)
  then show ?thesis
    using dec_fix_total [of "\<bar>dcoef a\<bar> * \<bar>dcoef b\<bar>" "dexp a + dexp b" n "dsign a \<noteq> dsign b"] assms
    by (auto simp: dmul_def Let_def simp del: of_int_mult)
qed

lemma dabs_total:
  assumes "is_finite a" and "\<bar>dval a\<bar> \<le> 10 powi n" "0 \<le> n" "n \<le> 900000"
  shows "\<exists>d. dabs a = Inr d \<and> is_finite d \<and> \<bar>dval d\<bar> \<le> 10 powi n \<and> 0 \<le> dval d"
  using dec_fix_total [of "\<bar>dcoef a\<bar>" "dexp a" n False] assms
  by (simp add: dabs_def dval_def abs_mult)

lemma div_finite_total:
  assumes m: "0 < m" "0 < n'"
    and le: "of_int m / of_int n' * (10::rat) powi i \<le> 10 powi n" "0 \<le> n" "n \<le> 900000"
  shows "\<exists>d. div_finite s m n' i = Inr d \<and> is_finite d \<and> \<bar>dval d\<bar> \<le> 10 powi n"
proof -
  define e where "e = i - div_shift m n'"
  define num where "num = div_num m n'"
  define den where "den = div_den m n'"
  note dp = div_parts [OF m, folded num_def den_def]
  define q where "q = num div den"
  have q0: "0 \<le> q" using dp(1,2) by (simp add: q_def pos_imp_zdiv_nonneg_iff)
  have qd: "q * den \<le> num"
    using dp(2) div_mult_mod_eq [of num den] pos_mod_sign [of den num] unfolding q_def by linarith
  then have "(of_int q * of_int den :: rat) \<le> of_int num"
    by (simp only: of_int_le_iff flip: of_int_mult)
  then have qle: "(of_int q :: rat) \<le> of_int num / of_int den"
    using dp(2) by (simp add: pos_le_divide_eq)
  have bound: "of_int num / of_int den * (10::rat) powi e \<le> 10 powi n"
    using le(1) by (simp only: e_def num_def den_def div_parts_val [OF m])
  have qv: "of_int q * (10::rat) powi e \<le> of_int num / of_int den * 10 powi e"
    using qle by (rule mult_right_mono) simp
  show ?thesis
  proof (cases "num mod den = 0")
    case True
    obtain c e' where sz: "strip_zeros q e i = (c, e')" by fastforce
    from strip_zeros_val [OF sz] q0 have c0: "0 \<le> c"
      and cv: "of_int c * (10::rat) powi e' = of_int q * 10 powi e" by auto
    from order_trans [OF qv bound] cv have "of_int c * (10::rat) powi e' \<le> 10 powi n" by simp
    moreover have "div_finite s m n' i = dec_fix s c e'"
      using True sz by (simp add: div_finite_def Let_def num_def den_def e_def q_def)
    ultimately show ?thesis using dec_fix_total [OF c0 _ le(2,3), of e' s] by auto
  next
    case inexact: False
    define q' where "q' = (if q mod 5 = 0 then q + 1 else q)"
    have "div_finite s m n' i = dec_fix s q' e"
      using inexact by (simp add: div_finite_def Let_def num_def den_def e_def q_def q'_def)
    moreover have "of_int q' * (10::rat) powi e \<le> 10 powi n"
    proof -
      have "10 ^ 28 \<le> q" using zdiv_mono1 [OF dp(4) dp(2)] dp(2) by (simp add: q_def)
      then have "of_int (10 ^ 28) \<le> (of_int q :: rat)" by (simp only: of_int_le_iff)
      then have "of_int (10 ^ 28) * (10::rat) powi e \<le> of_int q * 10 powi e"
        by (rule mult_right_mono) simp
      also note qv
      also note bound
      finally have "(10::rat) powi 28 * 10 powi e \<le> 10 powi n" by (simp add: power_int_numeral)
      then have en: "28 + e \<le> n" by (simp only: p10_le_iff flip: p10_add)
      then have nn: "(10::rat) powi n = of_int (pow10 (n - e)) * 10 powi e"
        by (simp add: pow10_rat flip: p10_add)
      have "of_int num / of_int den \<le> (of_int (pow10 (n - e)) :: rat)"
        using bound unfolding nn by (rule mult_right_le_imp_le) simp
      then have "(of_int num :: rat) \<le> of_int (pow10 (n - e) * den)"
        using dp(2) by (simp add: pos_divide_le_eq)
      then have "num \<le> pow10 (n - e) * den" by (simp only: of_int_le_iff)
      moreover have "q * den < num"
        using inexact dp(2) div_mult_mod_eq [of num den] pos_mod_sign [of den num]
        unfolding q_def by linarith
      ultimately have "q * den < pow10 (n - e) * den" by linarith
      then have "q < pow10 (n - e)" using dp(2) by (simp add: mult_less_cancel_right_pos)
      then have "q' \<le> pow10 (n - e)" by (simp add: q'_def)
      then have "(of_int q' :: rat) \<le> of_int (pow10 (n - e))" by (simp only: of_int_le_iff)
      then show ?thesis unfolding nn by (rule mult_right_mono) simp
    qed
    moreover have "0 \<le> q'" using q0 by (simp add: q'_def)
    ultimately show ?thesis using dec_fix_total [of q' e n s] le(2,3) by auto
  qed
qed

lemma ddiv_total:
  assumes f: "is_finite a" "is_finite b" and b0: "dval b \<noteq> 0"
    and le: "\<bar>dval a / dval b\<bar> \<le> 10 powi n" "0 \<le> n" "n \<le> 900000"
  shows "\<exists>d. ddiv a b = Inr d \<and> is_finite d \<and> \<bar>dval d\<bar> \<le> 10 powi n"
proof (cases "dcoef a = 0")
  case True
  with ddiv_zero f b0 show ?thesis by force
next
  case False
  have cb: "dcoef b \<noteq> 0" using b0 by (auto simp: dval_def)
  have le': "of_int \<bar>dcoef a\<bar> / of_int \<bar>dcoef b\<bar> * 10 powi (dexp a - dexp b) \<le> (10::rat) powi n"
    using le(1) by (simp only: abs_quotient)
  show ?thesis
    unfolding ddiv_nonzero [OF f False cb]
    by (rule div_finite_total [OF _ _ le' le(2,3)]) (simp_all add: False cb)
qed

section \<open>Alignment to a grid\<close>

text \<open>
  A remainder of zero means an integer multiple, as long as neither operand is written below the
  subnormal limit (a literal of more than a million digits).
\<close>

lemma dec_fix_nonzero:
  assumes "0 < m" "Etiny \<le> e" "dec_fix s m e = Inr d"
  shows "dval d \<noteq> 0"
proof -
  define x where "x = max (ndigits m + e - prec) Etiny"
  show ?thesis
  proof (cases "e < x")
    case False
    with assms have "d = mk_dec s m e" by (auto simp: dec_fix_def Let_def x_def split: if_splits)
    with assms show ?thesis by (simp add: dval_mk_dec)
  next
    case True
    then have x: "x = ndigits m + e - prec" using assms(2) by (auto simp: x_def)
    define c where "c = half_even m (pow10 (x - e))"
    have "pow10 (prec - 1) * pow10 (x - e) = pow10 (ndigits m - 1)"
      using True by (subst pow10_add [symmetric]) (simp_all add: x prec_def)
    also have "\<dots> \<le> m" using ndigits_bounds assms(1) by blast
    finally have "pow10 (prec - 1) \<le> c" unfolding c_def by (intro half_even_ge) simp_all
    then have "10 \<le> c" by (simp add: pow10_def prec_def)
    then have "0 < c" "0 < c div 10" by auto
    with assms True show ?thesis
      by (auto simp: dec_fix_def Let_def x_def c_def dval_mk_dec split: if_splits)
  qed
qed

lemma dmod_zero_multiple:
  assumes f: "is_finite a" "is_finite b" and lo: "Etiny \<le> dexp a" "Etiny \<le> dexp b"
    and r: "dmod a b = Inr r" "deq r d0 = Inr True"
  shows "dval b \<noteq> 0 \<and> (\<exists>k::int. dval a = of_int k * dval b \<and> \<bar>k\<bar> < 10 ^ 28)"
proof -
  have cb: "dcoef b \<noteq> 0" using f r(1) by (auto simp: dmod_def invalid_def)
  then have bv: "dval b \<noteq> 0" by (simp add: dval_def)
  have fin_fix: "is_finite d" if "dec_fix s m e = Inr d" for s m e d
    using that by (auto simp: dec_fix_def Let_def split: if_splits)
  define e where "e = min (dexp a) (dexp b)"
  have e: "Etiny \<le> e" using lo by (simp add: e_def)
  show ?thesis
  proof (cases "dcoef a = 0")
    case True
    then show ?thesis using bv by (intro conjI exI [of _ 0]) (simp_all add: dval_def)
  next
    case False
    define m n where "m = \<bar>align a e\<bar>" and "n = \<bar>align b e\<bar>"
    have m0: "0 < m" and n0: "0 < n" using False cb by (simp_all add: m_def n_def align_def)
    have am: "\<bar>dcoef a\<bar> * pow10 (dexp a - e) = m"
      by (simp add: m_def align_def abs_mult abs_of_pos)
    show ?thesis
    proof (cases "adjusted a - adjusted b \<le> - 2")
      case True
      with f cb False r(1) have "dec_fix (dsign a) m e = Inr r"
        by (simp add: dmod_def Let_def am flip: e_def)
      with dec_fix_nonzero [OF m0 e this] fin_fix [OF this] r(2) show ?thesis
        by (simp add: deq_val)
    next
      case big: False
      with f cb False r(1) have fixr: "dec_fix (dsign a) (m mod n) e = Inr r"
        and q: "m div n < pow10 prec"
        by (auto simp: dmod_def Let_def invalid_def m_def n_def simp flip: e_def split: if_splits)
      have "m mod n = 0"
      proof (rule ccontr)
        assume "m mod n \<noteq> 0"
        then have "0 < m mod n" using n0 by (metis order_le_less pos_mod_sign)
        from dec_fix_nonzero [OF this e fixr] fin_fix [OF fixr] r(2) show False
          by (simp add: deq_val)
      qed
      then obtain k where k: "m = n * k" by (metis dvd_def mod_eq_0_iff_dvd)
      with n0 m0 q have k0: "0 < k" "k < 10 ^ 28"
        by (simp_all add: zero_less_mult_iff pow10_def prec_def)
      define k' where "k' = sgn (align a e) * sgn (align b e) * k"
      have sa: "align a e = sgn (align a e) * m" by (simp add: m_def sgn_mult_abs)
      have sb: "n = sgn (align b e) * align b e" by (simp add: n_def abs_sgn mult.commute)
      have "align a e = sgn (align a e) * (sgn (align b e) * align b e * k)"
        using sa k sb by metis
      then have "align a e = k' * align b e" by (simp only: k'_def mult_ac)
      then have "of_int (align a e) * (10::rat) powi e = of_int k' * (of_int (align b e) * 10 powi e)"
        by simp
      then have "dval a = of_int k' * dval b" by (simp add: align_val e_def)
      moreover have "\<bar>k'\<bar> < 10 ^ 28"
        using k0 by (simp add: k'_def abs_mult abs_sgn_eq)
      ultimately show ?thesis using bv by blast
    qed
  qed
qed

section \<open>Signs and lower bounds of results\<close>

text \<open>
  Whatever the operands are, a result that is no exception is finite, keeps the sign, and does not
  fall below a power of ten that the exact value reaches.
\<close>

lemma dec_fix_rounded:
  assumes "0 < m" and "dec_fix s m e = Inr d" and "x = max (ndigits m + e - prec) Etiny"
  shows "if e < x
    then \<exists>c. d = mk_dec s c (if ndigits (half_even m (pow10 (x - e))) > prec then x + 1 else x)
      \<and> c = (if ndigits (half_even m (pow10 (x - e))) > prec then half_even m (pow10 (x - e)) div 10
             else half_even m (pow10 (x - e)))
    else d = mk_dec s m e"
  using assms by (auto simp: dec_fix_def Let_def split: if_splits)

lemma dec_fix_finite: "dec_fix s m e = Inr d \<Longrightarrow> is_finite d"
  by (auto simp: dec_fix_def Let_def split: if_splits)

lemma half_even_nonneg: "0 < k \<Longrightarrow> 0 \<le> m \<Longrightarrow> 0 \<le> half_even m k"
  using half_even_ge [of k 0 m] by simp

lemma dec_fix_sign:
  assumes "0 \<le> m" and "dec_fix s m e = Inr d"
  shows "is_finite d \<and> (if s then dval d \<le> 0 else 0 \<le> dval d)"
proof (cases "m = 0")
  case True
  then show ?thesis using dec_fix_zero [of s e] assms(2) by auto
next
  case False
  with assms(1) have m: "0 < m" by simp
  let ?x = "max (ndigits m + e - prec) Etiny"
  have pos: "0 \<le> half_even m (pow10 (?x - e))" using m by (intro half_even_nonneg) simp_all
  have val: "if s then dval (mk_dec s c y) \<le> 0 else 0 \<le> dval (mk_dec s c y)" if "0 \<le> c" for c y
    using that by (simp add: dval_mk_dec mult_nonneg_nonneg)
  from dec_fix_rounded [OF m assms(2) refl] show ?thesis
    using val pos m by (auto split: if_splits)
qed

lemma dec_fix_lower:
  assumes m: "0 < m" and fx: "dec_fix s m e = Inr d" and ge: "(10::rat) powi n \<le> of_int m * 10 powi e"
    and n: "Etiny \<le> n"
  shows "10 powi n \<le> \<bar>dval d\<bar>"
proof -
  define x where "x = max (ndigits m + e - prec) Etiny"
  define c where "c = half_even m (pow10 (x - e))"
  show ?thesis
  proof (cases "e < x")
    case False
    with dec_fix_rounded [OF m fx x_def] have "d = mk_dec s m e" by simp
    with ge m show ?thesis by (simp add: dval_mk_dec abs_mult)
  next
    case e: True
    have c0: "0 \<le> c" unfolding c_def using m by (intro half_even_nonneg) simp_all
    have low: "10 powi n \<le> of_int c * (10::rat) powi x"
    proof (cases "x \<le> n")
      case True
      have "(10::rat) powi n = of_int (pow10 (n - x) * pow10 (x - e)) * 10 powi e"
        using True e by (simp add: pow10_rat flip: p10_add)
      with ge have "of_int (pow10 (n - x) * pow10 (x - e)) * (10::rat) powi e \<le> of_int m * 10 powi e" by simp
      then have "(of_int (pow10 (n - x) * pow10 (x - e)) :: rat) \<le> of_int m"
        by (rule mult_right_le_imp_le) simp
      then have "pow10 (n - x) * pow10 (x - e) \<le> m" by (simp only: of_int_le_iff)
      then have "pow10 (n - x) \<le> c" unfolding c_def by (intro half_even_ge) simp_all
      then have "(of_int (pow10 (n - x)) :: rat) * 10 powi x \<le> of_int c * 10 powi x"
        by (intro mult_right_mono) simp_all
      moreover have "(of_int (pow10 (n - x)) :: rat) * 10 powi x = 10 powi n"
        using True by (simp add: pow10_rat flip: p10_add)
      ultimately show ?thesis by simp
    next
      case False
      then have x: "x = ndigits m + e - prec" using n by (auto simp: x_def)
      have "pow10 (prec - 1) * pow10 (x - e) = pow10 (ndigits m - 1)"
        using e by (subst pow10_add [symmetric]) (simp_all add: x prec_def)
      also have "\<dots> \<le> m" using ndigits_bounds m by blast
      finally have "pow10 (prec - 1) \<le> c" unfolding c_def by (intro half_even_ge) simp_all
      then have "1 \<le> c" by (simp add: pow10_def prec_def)
      then have one: "1 * (10::rat) powi x \<le> of_int c * 10 powi x" by (intro mult_right_mono) simp_all
      have "(10::rat) powi n \<le> 10 powi x" using False by (simp add: p10_le_iff)
      with one show ?thesis by linarith
    qed
    show ?thesis
    proof (cases "ndigits c > prec")
      case False
      with e dec_fix_rounded [OF m fx x_def] have "d = mk_dec s c x" by (simp add: c_def)
      with low c0 show ?thesis by (simp add: dval_mk_dec abs_mult)
    next
      case True
      with e dec_fix_rounded [OF m fx x_def] have d: "d = mk_dec s (c div 10) (x + 1)" by (simp add: c_def)
      have "m < pow10 (ndigits m)" using ndigits_bounds m by blast
      also have "pow10 (ndigits m) \<le> pow10 (prec + (x - e))"
        unfolding pow10_def by (rule power_increasing) (auto simp: x_def)
      also have "\<dots> = pow10 prec * pow10 (x - e)" using e by (simp add: pow10_add prec_def)
      finally have "c \<le> pow10 prec" unfolding c_def by (intro half_even_le) simp_all
      moreover have "\<not> c < pow10 prec"
        using True ndigits_le_iff [of c prec] c0 by (cases "c = 0") (auto simp: prec_def ndigits.simps)
      ultimately have "c = 10 * 10 ^ 27" by (simp add: pow10_def prec_def)
      then have "of_int c * (10::rat) powi x = of_int (c div 10) * 10 powi (x + 1)"
        by (simp add: p10_add)
      with low c0 d show ?thesis by (simp add: dval_mk_dec abs_mult)
    qed
  qed
qed

lemma dadd_nonneg:
  assumes f: "is_finite a" "is_finite b" and pos: "0 \<le> dval a" "0 \<le> dval b" and d: "dadd a b = Inr d"
  shows "is_finite d \<and> 0 \<le> dval d"
    and "Etiny \<le> n \<Longrightarrow> 10 powi n \<le> dval a + dval b \<Longrightarrow> 10 powi n \<le> dval d"
proof -
  define e where "e = min (dexp a) (dexp b)"
  define t where "t = align a e + align b e"
  have val: "of_int t * 10 powi e = dval a + dval b"
    by (simp add: t_def e_def align_val distrib_right)
  then have t0: "0 \<le> t" using pos
    by (metis add_nonneg_nonneg linorder_not_less of_int_less_0_iff p10_pos zero_le_mult_iff
        mult_less_0_iff of_int_0_le_iff)
  have sign: "\<not> t < 0" using t0 by simp
  obtain s where s: "dec_fix s t e = Inr d" "t \<noteq> 0 \<Longrightarrow> \<not> s"
    using d f t0 by (auto simp: dadd_def Let_def e_def t_def split: if_splits)
  show res: "is_finite d \<and> 0 \<le> dval d"
    using dec_fix_sign [OF t0 s(1)] s dec_fix_zero [of s e] by (cases "t = 0") auto
  show "10 powi n \<le> dval d" if n: "Etiny \<le> n" "10 powi n \<le> dval a + dval b"
  proof -
    have "0 < dval a + dval b" using n(2) p10_pos [of n] by linarith
    then have "0 < t" using t0 val by (cases "t = 0") auto
    from dec_fix_lower [OF this s(1)] n val res show ?thesis by simp
  qed
qed

lemma dmul_nonneg:
  assumes f: "is_finite a" "is_finite b" and pos: "0 \<le> dval a" "0 \<le> dval b" and d: "dmul a b = Inr d"
  shows "is_finite d \<and> 0 \<le> dval d"
    and "Etiny \<le> n \<Longrightarrow> 10 powi n \<le> dval a * dval b \<Longrightarrow> 10 powi n \<le> dval d"
proof -
  define m where "m = \<bar>dcoef a\<bar> * \<bar>dcoef b\<bar>"
  have m0: "0 \<le> m" by (simp add: m_def)
  have fx: "dec_fix (dsign a \<noteq> dsign b) m (dexp a + dexp b) = Inr d"
    using d f by (simp add: dmul_def Let_def m_def)
  have coef: "0 \<le> dcoef a" "0 \<le> dcoef b"
    using pos p10_pos [of "dexp a"] p10_pos [of "dexp b"] by (simp_all add: dval_def zero_le_mult_iff)
  have val: "of_int m * 10 powi (dexp a + dexp b) = dval a * dval b"
    using coef by (simp add: m_def dval_def p10_add mult_ac)
  have s: "m \<noteq> 0 \<Longrightarrow> \<not> (dsign a \<noteq> dsign b)"
    using coef dsign_finite [OF f(1)] dsign_finite [OF f(2)] by (auto simp: m_def)
  show res: "is_finite d \<and> 0 \<le> dval d"
    using dec_fix_sign [OF m0 fx] s dec_fix_zero [of "dsign a \<noteq> dsign b" "dexp a + dexp b"] fx
    by (cases "m = 0") auto
  show "10 powi n \<le> dval d" if n: "Etiny \<le> n" "10 powi n \<le> dval a * dval b"
  proof -
    have "0 < dval a * dval b" using n(2) p10_pos [of n] by linarith
    then have "m \<noteq> 0" using val by auto
    with m0 have "0 < m" by simp
    from dec_fix_lower [OF this fx] n val res show ?thesis by simp
  qed
qed

lemma dsub_finite:
  assumes "is_finite a" "is_finite b" and "dsub a b = Inr d"
  shows "is_finite d"
  using assms by (auto simp: dsub_def dadd_def Let_def dest: dec_fix_finite)

lemma ddiv_finite:
  assumes "is_finite a" "is_finite b" and "ddiv a b = Inr d"
  shows "is_finite d"
  using assms by (auto simp: ddiv_def Let_def invalid_def div_finite_def dest: dec_fix_finite
      split: if_splits prod.splits)

section \<open>Bounded amounts\<close>

definition sized_within :: "int \<Rightarrow> decimal \<Rightarrow> bool" where
  "sized_within n d \<longleftrightarrow> is_finite d \<and> \<bar>dval d\<bar> \<le> 10 powi n"

lemma sized_within_mono: "sized_within m d \<Longrightarrow> m \<le> n \<Longrightarrow> sized_within n d"
  by (auto simp: sized_within_def intro: order_trans p10_le_iff [THEN iffD2])

lemma sized_within_zero [simp]: "sized_within n d0"
  by (simp add: sized_within_def)

lemma p10_Suc: "(10::rat) powi (n + 1) = 10 * 10 powi n"
  by (simp add: p10_add)

lemma sized_within_add:
  assumes "sized_within n a" "sized_within n b" "0 \<le> n" "n < 900000"
  shows "\<exists>d. dadd a b = Inr d \<and> sized_within (n + 1) d"
proof -
  have "\<bar>dval a + dval b\<bar> \<le> 10 powi (n + 1)" using assms by (simp add: sized_within_def p10_Suc) linarith
  from dadd_total [OF _ _ this] assms show ?thesis by (auto simp: sized_within_def)
qed

lemma sized_within_sub:
  assumes "sized_within n a" "sized_within n b" "0 \<le> n" "n < 900000"
  shows "\<exists>d. dsub a b = Inr d \<and> sized_within (n + 1) d"
proof -
  have "\<bar>dval a - dval b\<bar> \<le> 10 powi (n + 1)" using assms by (simp add: sized_within_def p10_Suc) linarith
  from dsub_total [OF _ _ this] assms show ?thesis by (auto simp: sized_within_def)
qed

lemma sized_within_mul:
  assumes "sized_within m a" "sized_within n b" "0 \<le> m + n" "m + n \<le> 900000"
  shows "\<exists>d. dmul a b = Inr d \<and> sized_within (m + n) d"
proof -
  have "\<bar>dval a * dval b\<bar> \<le> 10 powi (m + n)"
    unfolding abs_mult p10_add using assms by (intro mult_mono) (simp_all add: sized_within_def)
  from dmul_total [OF _ _ this] assms show ?thesis by (auto simp: sized_within_def)
qed

lemma sized_within_div:
  assumes "sized_within m a" "is_finite b" "10 powi (- n) \<le> dval b" "0 \<le> m + n" "m + n \<le> 900000"
  shows "\<exists>d. ddiv a b = Inr d \<and> sized_within (m + n) d"
proof -
  have b: "0 < dval b" using assms(3) p10_pos [of "- n"] by linarith
  have "\<bar>dval a / dval b\<bar> \<le> 10 powi m / 10 powi (- n)"
    unfolding abs_divide using assms b by (intro frac_le) (simp_all add: sized_within_def)
  then have "\<bar>dval a / dval b\<bar> \<le> 10 powi (m + n)" by (simp add: power_int_minus p10_add field_simps)
  from ddiv_total [OF _ _ _ this] assms b show ?thesis by (auto simp: sized_within_def)
qed

text \<open>A quotient of positive amounts does not fall far below its exact value.\<close>

lemma div_finite_lower:
  assumes m: "0 < m" "0 < n'" and d: "div_finite s m n' i = Inr d"
    and ge: "(10::rat) powi n \<le> of_int m / of_int n' * 10 powi i" and n: "Etiny \<le> n - 1"
  shows "10 powi (n - 1) \<le> \<bar>dval d\<bar> \<and> (\<not> s \<longrightarrow> 0 \<le> dval d)"
proof -
  define e where "e = i - div_shift m n'"
  define num where "num = div_num m n'"
  define den where "den = div_den m n'"
  note dp = div_parts [OF m, folded num_def den_def]
  define q where "q = num div den"
  have q1: "1 \<le> q" using zdiv_mono1 [OF dp(4) dp(2)] dp(2) by (simp add: q_def)
  have "num = q * den + num mod den" by (simp add: q_def)
  moreover have "num mod den < den" using dp(2) by (rule pos_mod_bound)
  ultimately have "num < q * den + den" by linarith
  then have "num < (q + 1) * den" by (simp add: distrib_right)
  then have "(of_int num :: rat) < of_int ((q + 1) * den)" by (simp only: of_int_less_iff)
  then have "(of_int num / of_int den :: rat) < of_int (q + 1)" using dp(2) by (simp add: pos_divide_less_eq)
  also have "q + 1 \<le> 10 * q" using q1 by simp
  then have "(of_int (q + 1) :: rat) \<le> of_int (10 * q)" by (simp only: of_int_le_iff)
  also have "(of_int (10 * q) :: rat) = 10 * of_int q" by simp
  finally have "of_int num / of_int den * (10::rat) powi e \<le> 10 * of_int q * 10 powi e"
    by (intro mult_right_mono) simp_all
  then have "(10::rat) powi n \<le> 10 * of_int q * 10 powi e"
    using ge by (simp only: e_def num_def den_def div_parts_val [OF m])
  moreover have "(10::rat) powi n = 10 * 10 powi (n - 1)" using p10_add [of "n - 1" 1] by simp
  ultimately have low: "(10::rat) powi (n - 1) \<le> of_int q * 10 powi e" by simp
  show ?thesis
  proof (cases "num mod den = 0")
    case True
    obtain c e' where sz: "strip_zeros q e i = (c, e')" by fastforce
    have cv: "of_int c * (10::rat) powi e' = of_int q * 10 powi e" and c0: "0 \<le> c"
      using strip_zeros_val [OF sz] q1 by auto
    have "c \<noteq> 0" using cv q1 by auto
    with c0 have "0 < c" by simp
    moreover have "dec_fix s c e' = Inr d"
      using True sz d by (simp add: div_finite_def Let_def num_def den_def e_def q_def)
    ultimately show ?thesis
      using dec_fix_lower [of c s e' d "n - 1"] dec_fix_sign [of c s e' d] low n cv by auto
  next
    case False
    then have fx: "dec_fix s (if q mod 5 = 0 then q + 1 else q) e = Inr d"
      using d by (simp add: div_finite_def Let_def num_def den_def e_def q_def split: if_splits)
    have "of_int q * (10::rat) powi e \<le> of_int (if q mod 5 = 0 then q + 1 else q) * 10 powi e"
      by (intro mult_right_mono) simp_all
    with low have "(10::rat) powi (n - 1) \<le> of_int (if q mod 5 = 0 then q + 1 else q) * 10 powi e" by linarith
    moreover have "0 < (if q mod 5 = 0 then q + 1 else q)" using q1 by simp
    ultimately show ?thesis using dec_fix_lower [OF _ fx, of "n - 1"] dec_fix_sign [OF _ fx] n by auto
  qed
qed

lemma ddiv_lower:
  assumes f: "is_finite a" "is_finite b" and d: "ddiv a b = Inr d"
    and ge: "(10::rat) powi n \<le> dval a / dval b" "0 < dval b" and n: "Etiny \<le> n - 1"
  shows "10 powi (n - 1) \<le> dval d"
proof -
  have a: "0 < dval a" using ge p10_pos [of n] by (metis less_le_trans zero_less_divide_iff order.asym)
  have ca: "0 < dcoef a" "0 < dcoef b"
    using a ge(2) p10_pos [of "dexp a"] p10_pos [of "dexp b"] by (simp_all add: dval_def zero_less_mult_iff)
  have s: "dsign a = dsign b" using ca f by (simp add: dsign_finite)
  have fx: "div_finite False \<bar>dcoef a\<bar> \<bar>dcoef b\<bar> (dexp a - dexp b) = Inr d"
    using d ca s ddiv_nonzero [OF f] by simp
  have le: "(10::rat) powi n \<le> of_int \<bar>dcoef a\<bar> / of_int \<bar>dcoef b\<bar> * 10 powi (dexp a - dexp b)"
    using ge by (simp only: abs_quotient [symmetric])
  have "10 powi (n - 1) \<le> \<bar>dval d\<bar> \<and> (\<not> False \<longrightarrow> 0 \<le> dval d)"
    by (rule div_finite_lower [OF _ _ fx le n]) (use ca in simp_all)
  then show ?thesis by auto
qed

end
