(* ===== verification/Decimal_Text.thy ===== *)
theory Decimal_Text
  imports Decimal_Value
begin

text \<open>
  Decimals as text: \<open>format(value, "f")\<close>, the positional notation in which every payload prints a
  decimal, and the constructor \<open>Decimal(text)\<close>, which reads one back exactly. Strings are
  sequences of ASCII characters. The round trip is exact for every value that prints with its own
  exponent, and keeps the number for the others.
\<close>

section \<open>Printing\<close>

definition zeros :: "int \<Rightarrow> string" where
  "zeros k = replicate (nat k) (CHR ''0'')"

definition sign_text :: "bool \<Rightarrow> string" where
  "sign_text s = (if s then ''-'' else '''')"

text \<open>The digits of a magnitude with the point \<open>k\<close> places from the right.\<close>

definition point_text :: "string \<Rightarrow> nat \<Rightarrow> string" where
  "point_text ds k =
     (if k = 0 then ds
      else if length ds > k
        then take (length ds - k) ds @ ''.'' @ drop (length ds - k) ds
        else ''0.'' @ replicate (k - length ds) (CHR ''0'') @ ds)"

definition format_f :: "decimal \<Rightarrow> string" where
  "format_f d =
     (case d of
        Infin s \<Rightarrow> sign_text s @ ''Infinity''
      | NaN s q p \<Rightarrow>
          sign_text s @ (if q then ''sNaN'' else ''NaN'') @ (if p = 0 then '''' else show_nn p)
      | _ \<Rightarrow>
          let m = \<bar>dcoef d\<bar>; e = dexp d
          in sign_text (dsign d)
             @ (if e \<le> 0 then point_text (show_nn m) (nat (- e))
                else if m = 0 then ''0'' else show_nn m @ zeros e))"

section \<open>Reading\<close>

definition is_space :: "char \<Rightarrow> bool" where
  "is_space c \<longleftrightarrow>
     c \<in> {CHR '' '', CHR 0x09, CHR 0x0A, CHR 0x0B, CHR 0x0C, CHR 0x0D,
          CHR 0x1C, CHR 0x1D, CHR 0x1E, CHR 0x1F}"

definition strip :: "string \<Rightarrow> string" where
  "strip s = rev (dropWhile is_space (rev (dropWhile is_space s)))"

definition lower_char :: "char \<Rightarrow> char" where
  "lower_char c =
     (let n = (of_char c :: int) in if 65 \<le> n \<and> n \<le> 90 then char_of (n + 32) else c)"

definition lower :: "string \<Rightarrow> string" where
  "lower s = map lower_char s"

definition max_exact_exp :: int where "max_exact_exp = 999999999999999999"
definition min_exact_exp :: int where "min_exact_exp = - 1999999999999999997"

text \<open>A finite literal: the digits read, the number of them after the point, the exponent.\<close>

definition exact_dec :: "bool \<Rightarrow> string \<Rightarrow> nat \<Rightarrow> int \<Rightarrow> decimal option" where
  "exact_dec s ds fraction x =
     (let m = read_nn ds; e = x - int fraction
      in if min_exact_exp \<le> e \<and> e \<le> max_exact_exp \<and> ndigits m + e - 1 \<le> max_exact_exp
         then Some (mk_dec s m e) else None)"

fun signed_digits :: "string \<Rightarrow> int option" where
  "signed_digits [] = None"
| "signed_digits (c # cs) =
     (if c = CHR ''+'' \<or> c = CHR ''-''
      then (if cs \<noteq> [] \<and> list_all is_digit cs
            then Some (if c = CHR ''-'' then - read_nn cs else read_nn cs) else None)
      else if list_all is_digit (c # cs) then Some (read_nn (c # cs)) else None)"

definition parse_finite :: "bool \<Rightarrow> string \<Rightarrow> decimal option" where
  "parse_finite s t =
     (let ip = takeWhile is_digit t; r = dropWhile is_digit t;
          point = (r \<noteq> [] \<and> hd r = CHR ''.'');
          fp = (if point then takeWhile is_digit (tl r) else []);
          r' = (if point then dropWhile is_digit (tl r) else r)
      in if ip @ fp = [] then None
         else case r' of
             [] \<Rightarrow> exact_dec s (ip @ fp) (length fp) 0
           | c # cs \<Rightarrow>
               (if c = CHR ''e''
                then Option.bind (signed_digits cs) (\<lambda>x. exact_dec s (ip @ fp) (length fp) x)
                else None))"

definition parse_unsigned :: "bool \<Rightarrow> string \<Rightarrow> decimal option" where
  "parse_unsigned s t =
     (if t = ''inf'' \<or> t = ''infinity'' then Some (Infin s)
      else if take 3 t = ''nan'' \<and> list_all is_digit (drop 3 t)
        then Some (NaN s False (read_nn (drop 3 t)))
      else if take 4 t = ''snan'' \<and> list_all is_digit (drop 4 t)
        then Some (NaN s True (read_nn (drop 4 t)))
      else parse_finite s t)"

definition parse_decimal :: "string \<Rightarrow> decimal option" where
  "parse_decimal text =
     (let t = lower (filter (\<lambda>c. c \<noteq> CHR ''_'') (strip text))
      in case t of
           [] \<Rightarrow> None
         | c # cs \<Rightarrow>
             if c = CHR ''-'' then parse_unsigned True cs
             else if c = CHR ''+'' then parse_unsigned False cs
             else parse_unsigned False t)"

section \<open>The round trip\<close>

definition plain_char :: "char \<Rightarrow> bool" where
  "plain_char c \<longleftrightarrow> c \<in> set ''0123456789.-''"

lemma is_digit_iff: "is_digit c \<longleftrightarrow> c \<in> set ''0123456789''"
proof
  assume "is_digit c"
  then have "of_char c - (48::int) \<in> set [0..9]" by (auto simp: is_digit_def Let_def split: if_splits)
  then have "of_char c \<in> (of_char ` set ''0123456789'' :: int set)" by simp presburger
  then show "c \<in> set ''0123456789''" by (simp only: inj_image_mem_iff [OF inj_of_char])
qed (auto simp: is_digit_def)

lemma plain_charD: "plain_char c \<Longrightarrow> \<not> is_space c \<and> c \<noteq> CHR ''_'' \<and> lower_char c = c"
proof -
  have "list_all (\<lambda>c. \<not> is_space c \<and> c \<noteq> CHR ''_'' \<and> lower_char c = c) ''0123456789.-''"
    by code_simp
  moreover assume "plain_char c"
  ultimately show ?thesis unfolding plain_char_def list_all_iff by blast
qed

lemma digit_plain: "is_digit c \<Longrightarrow> plain_char c"
  by (auto simp: is_digit_iff plain_char_def)

lemma strip_plain: "list_all plain_char s \<Longrightarrow> strip s = s"
proof -
  assume a: "list_all plain_char s"
  have *: "dropWhile is_space t = t" if "list_all plain_char t" for t
    using that by (cases t) (auto dest: plain_charD)
  from a have "list_all plain_char (rev s)" by (simp add: list_all_iff)
  with a show ?thesis by (simp add: strip_def *)
qed

lemma normalise_plain:
  "list_all plain_char s \<Longrightarrow> lower (filter (\<lambda>c. c \<noteq> CHR ''_'') (strip s)) = s"
proof -
  assume a: "list_all plain_char s"
  then have "filter (\<lambda>c. c \<noteq> CHR ''_'') s = s"
    by (auto simp: list_all_iff filter_id_conv dest: plain_charD)
  moreover have "map lower_char s = s"
    using a by (auto simp: list_all_iff dest: plain_charD intro: map_idI)
  ultimately show ?thesis using a by (simp add: strip_plain lower_def)
qed

lemma parse_unsigned_digit:
  "t \<noteq> [] \<Longrightarrow> is_digit (hd t) \<Longrightarrow> parse_unsigned s t = parse_finite s t"
  by (cases t) (auto simp: parse_unsigned_def is_digit_iff)

lemma point_not_digit [simp]: "\<not> is_digit (CHR ''.'')"
  by (simp add: is_digit_iff)

lemma zero_digit [simp]: "is_digit (CHR ''0'')"
  by (simp add: is_digit_iff)

lemma point_zero_plain [simp]: "plain_char (CHR ''.'')" "plain_char (CHR ''0'')"
  by (simp_all add: plain_char_def)

lemma parse_finite_digits:
  "list_all is_digit ip \<Longrightarrow> ip \<noteq> [] \<Longrightarrow> parse_finite s ip = exact_dec s ip 0 0"
  by (simp add: parse_finite_def Let_def list_all_iff takeWhile_eq_all_conv [THEN iffD2]
      dropWhile_eq_Nil_conv [THEN iffD2])

lemma parse_finite_point:
  assumes "list_all is_digit ip" "list_all is_digit fp" "ip \<noteq> []"
  shows "parse_finite s (ip @ CHR ''.'' # fp) = exact_dec s (ip @ fp) (length fp) 0"
proof -
  have ip: "takeWhile is_digit (ip @ CHR ''.'' # fp) = ip"
    "dropWhile is_digit (ip @ CHR ''.'' # fp) = CHR ''.'' # fp"
    using assms(1) by (simp_all add: list_all_iff takeWhile_append2 dropWhile_append2)
  have fp: "takeWhile is_digit fp = fp" "dropWhile is_digit fp = []"
    using assms(2) by (simp_all add: list_all_iff takeWhile_eq_all_conv)
  show ?thesis using assms(3) by (simp add: parse_finite_def Let_def ip fp)
qed

text \<open>Reading the printed magnitude gives the digits and the number of them after the point.\<close>

lemma parse_point_text:
  assumes ds: "list_all is_digit ds" "ds \<noteq> []"
  shows "\<exists>ds'. parse_finite s (point_text ds k) = exact_dec s ds' k 0 \<and> read_nn ds' = read_nn ds"
    and "list_all plain_char (point_text ds k) \<and> point_text ds k \<noteq> [] \<and> is_digit (hd (point_text ds k))"
proof -
  have take: "list_all is_digit (take n ds)" "list_all is_digit (drop n ds)" for n
    using ds(1) by (auto simp: list_all_iff dest: in_set_takeD in_set_dropD)
  have plain: "list_all plain_char ds" using ds(1) by (auto simp: list_all_iff digit_plain)
  have hd: "is_digit (hd ds)" using ds by (cases ds) auto
  have z: "list_all is_digit (replicate n (CHR ''0'') @ ds)" for n
    using ds(1) by (auto simp: list_all_iff)
  have rz: "read_nn (CHR ''0'' # replicate n (CHR ''0'') @ ds) = read_nn ds" for n
    using read_nn_zeros [of "Suc n" ds] by simp
  consider "k = 0" | "k \<noteq> 0" "k < length ds" | "k \<noteq> 0" "length ds \<le> k" by linarith
  then show "\<exists>ds'. parse_finite s (point_text ds k) = exact_dec s ds' k 0 \<and> read_nn ds' = read_nn ds"
  proof cases
    case 1
    then show ?thesis using ds by (auto simp: point_text_def parse_finite_digits)
  next
    case 2
    then have "take (length ds - k) ds \<noteq> []" using ds by simp
    from parse_finite_point [OF take this, of s "length ds - k"] 2
    show ?thesis by (intro exI [of _ ds]) (simp add: point_text_def)
  next
    case 3
    then show ?thesis
      using parse_finite_point [of "''0''" "replicate (k - length ds) (CHR ''0'') @ ds" s] z
      by (intro exI [of _ "CHR ''0'' # replicate (k - length ds) (CHR ''0'') @ ds"])
        (simp add: point_text_def rz)
  qed
  show "list_all plain_char (point_text ds k) \<and> point_text ds k \<noteq> [] \<and> is_digit (hd (point_text ds k))"
  proof (cases "k < length ds")
    case True
    then have "hd (take (length ds - k) ds) = hd ds" "take (length ds - k) ds \<noteq> []" by auto
    then show ?thesis using plain hd True
      by (auto simp: point_text_def list_all_iff dest: in_set_takeD in_set_dropD)
  next
    case False
    then show ?thesis using plain hd ds
      by (auto simp: point_text_def list_all_iff)
  qed
qed

lemma mk_dec_parts: "is_finite d \<Longrightarrow> mk_dec (dsign d) \<bar>dcoef d\<bar> (dexp d) = d"
  by (cases d) (auto simp: mk_dec_def abs_if)

lemma parse_sign_text:
  assumes "list_all plain_char t" "t \<noteq> []" "is_digit (hd t)"
  shows "parse_decimal (sign_text s @ t) = parse_finite s t"
proof -
  have c: "hd t \<noteq> CHR ''-''" "hd t \<noteq> CHR ''+''" using assms(3) by (auto simp: is_digit_iff)
  have "list_all plain_char (sign_text s @ t)"
    using assms(1) by (simp add: sign_text_def plain_char_def)
  from normalise_plain [OF this] have
    "parse_decimal (sign_text s @ t) = (if s then parse_unsigned True t else parse_unsigned False t)"
    using c assms(2) by (cases t) (simp_all add: parse_decimal_def Let_def sign_text_def)
  then show ?thesis using parse_unsigned_digit [OF assms(2,3)] by (cases s) simp_all
qed

text \<open>What a finite decimal must satisfy to be printed and read back through \<open>Decimal\<close>.\<close>

definition exact_range :: "decimal \<Rightarrow> bool" where
  "exact_range d \<longleftrightarrow> min_exact_exp \<le> dexp d \<and> ndigits \<bar>dcoef d\<bar> + dexp d - 1 \<le> max_exact_exp"

lemma parse_format_f:
  assumes f: "is_finite d" and e: "dexp d \<le> 0" and r: "exact_range d"
  shows "parse_decimal (format_f d) = Some d"
proof -
  let ?m = "\<bar>dcoef d\<bar>" and ?k = "nat (- dexp d)"
  have ds: "list_all is_digit (show_nn ?m)" using show_nn_digits [of ?m] by (simp add: list_all_iff)
  note pt = parse_point_text(1) [OF ds show_nn_not_Nil, of "dsign d" ?k]
    parse_point_text(2) [OF ds show_nn_not_Nil, of ?k]
  have "format_f d = sign_text (dsign d) @ point_text (show_nn ?m) ?k"
    using f e by (cases d) (simp_all add: format_f_def Let_def)
  then have "parse_decimal (format_f d) = parse_finite (dsign d) (point_text (show_nn ?m) ?k)"
    using pt(2) by (simp add: parse_sign_text)
  also obtain ds' where "\<dots> = exact_dec (dsign d) ds' ?k 0" "read_nn ds' = ?m"
    using pt(1) by auto
  then have "parse_finite (dsign d) (point_text (show_nn ?m) ?k) = Some d"
    using r e f mk_dec_parts [of d]
    by (simp add: exact_dec_def Let_def exact_range_def max_exact_exp_def)
  finally show ?thesis .
qed

end
