(* ===== verification/Date_Time.thy ===== *)
theory Date_Time
  imports Prelude
begin

text \<open>
  Python's \<open>datetime\<close>, as far as the services use it: an instant in microseconds, with or without
  a time zone. Subtracting or ordering an aware and a naive value raises \<open>TypeError\<close>, as the
  standard library does.
\<close>

datatype datetime = Aware int | Naive int

fun is_aware :: "datetime \<Rightarrow> bool" where
  "is_aware (Aware _) = True"
| "is_aware (Naive _) = False"

fun micros :: "datetime \<Rightarrow> int" where
  "micros (Aware t) = t"
| "micros (Naive t) = t"

definition dt_same_kind :: "datetime \<Rightarrow> datetime \<Rightarrow> unit res" where
  "dt_same_kind a b = (if is_aware a = is_aware b then Inr () else Inl (Raise TypeError ''''))"

text \<open>\<open>(a - b)\<close> in microseconds, \<open>a > b\<close> and \<open>a <= b\<close>.\<close>

definition dt_minus :: "datetime \<Rightarrow> datetime \<Rightarrow> int res" where
  "dt_minus a b = bind_res (dt_same_kind a b) (\<lambda>_. Inr (micros a - micros b))"

definition dt_gt :: "datetime \<Rightarrow> datetime \<Rightarrow> bool res" where
  "dt_gt a b = bind_res (dt_same_kind a b) (\<lambda>_. Inr (micros a > micros b))"

definition dt_le :: "datetime \<Rightarrow> datetime \<Rightarrow> bool res" where
  "dt_le a b = bind_res (dt_same_kind a b) (\<lambda>_. Inr (micros a \<le> micros b))"

fun dt_shift :: "datetime \<Rightarrow> int \<Rightarrow> datetime" where
  "dt_shift (Aware t) d = Aware (t + d)"
| "dt_shift (Naive t) d = Naive (t + d)"

definition micros_per_second :: int where
  "micros_per_second = 1000000"

lemma dt_same_kind_simps [simp]:
  "dt_same_kind (Aware a) (Aware b) = Inr ()"
  "dt_same_kind (Naive a) (Naive b) = Inr ()"
  "dt_same_kind (Aware a) (Naive b) = Inl (Raise TypeError '''')"
  "dt_same_kind (Naive a) (Aware b) = Inl (Raise TypeError '''')"
  by (simp_all add: dt_same_kind_def)

lemma dt_minus_Inr [res_simps]:
  "dt_minus a b = Inr d \<longleftrightarrow> is_aware a = is_aware b \<and> d = micros a - micros b"
  by (auto simp: dt_minus_def dt_same_kind_def)

lemma dt_gt_Inr [res_simps]:
  "dt_gt a b = Inr c \<longleftrightarrow> is_aware a = is_aware b \<and> c = (micros a > micros b)"
  by (auto simp: dt_gt_def dt_same_kind_def)

lemma dt_le_Inr [res_simps]:
  "dt_le a b = Inr c \<longleftrightarrow> is_aware a = is_aware b \<and> c = (micros a \<le> micros b)"
  by (auto simp: dt_le_def dt_same_kind_def)

end
