(* ===== verification/Iso_Text.thy ===== *)
theory Iso_Text
  imports Decimal_Text Date_Time
begin

text \<open>
  \<open>isoformat\<close> of a time read from the clock, \<open>datetime.now(UTC)\<close>: the civil date of a count of days in
  the proleptic Gregorian calendar, the time of the day, the microseconds unless they are zero, and
  the offset. An aware time is printed in UTC. Years below 0 and above 9999 are no dates in Python;
  there the function is merely total.
\<close>

definition micros_per_day :: int where "micros_per_day = 86400 * micros_per_second"

text \<open>Days since 1970-01-01 as year, month and day; the years of the count begin in March.\<close>

definition civil_date :: "int \<Rightarrow> int \<times> int \<times> int" where
  "civil_date days =
     (let z = days + 719468; era = z div 146097; doe = z mod 146097;
          yoe = (doe - doe div 1460 + doe div 36524 - doe div 146096) div 365;
          doy = doe - (365 * yoe + yoe div 4 - yoe div 100);
          mp = (5 * doy + 2) div 153;
          month = (if mp < 10 then mp + 3 else mp - 9)
      in (yoe + era * 400 + (if month \<le> 2 then 1 else 0), month, doy - (153 * mp + 2) div 5 + 1))"

definition zero_padded :: "nat \<Rightarrow> int \<Rightarrow> string" where
  "zero_padded width n = (let t = show_nn n in replicate (width - length t) (CHR ''0'') @ t)"

definition isoformat :: "datetime \<Rightarrow> string" where
  "isoformat t =
     (case civil_date (micros t div micros_per_day) of (year, month, day) \<Rightarrow>
        let seconds = micros t mod micros_per_day div micros_per_second;
            fraction = micros t mod micros_per_second
        in zero_padded 4 year @ ''-'' @ zero_padded 2 month @ ''-'' @ zero_padded 2 day @ ''T''
           @ zero_padded 2 (seconds div 3600) @ '':'' @ zero_padded 2 (seconds div 60 mod 60) @ '':''
           @ zero_padded 2 (seconds mod 60)
           @ (if fraction = 0 then '''' else ''.'' @ zero_padded 6 fraction)
           @ (if is_aware t then ''+00:00'' else ''''))"

text \<open>The epoch, a leap day, the last microsecond of a century, and a naive time before the epoch.\<close>

lemma isoformat_epoch: "isoformat (Aware 0) = ''1970-01-01T00:00:00+00:00''"
  by code_simp

lemma isoformat_leap_day: "isoformat (Aware 951782400000000) = ''2000-02-29T00:00:00+00:00''"
  by code_simp

lemma isoformat_new_century: "isoformat (Aware 4102444799999999) = ''2099-12-31T23:59:59.999999+00:00''"
  by code_simp

lemma isoformat_before_epoch: "isoformat (Naive (- 1000)) = ''1969-12-31T23:59:59.999000''"
  by code_simp

end
