(* ===== verification/Json_Value.thy ===== *)
theory Json_Value
  imports Iso_Text
begin

text \<open>
  The values that payloads are made of. An object keeps its keys in insertion order, as a Python
  dict does. A float is its printed form (\<open>repr\<close>); the text of an instant (\<open>isoformat\<close>) and a
  duration in seconds stay symbolic, as the instant and as its number of microseconds.
\<close>

datatype json =
    JNull
  | JBool bool
  | JInt int
  | JFloat string
  | JStr string
  | JTime datetime
  | JSeconds int
  | JArr "json list"
  | JObj "(string \<times> json) list"

type_synonym json_object = "(string \<times> json) list"

text \<open>\<open>payload.get(key)\<close> and \<open>payload.get(key, default)\<close>.\<close>

definition jget :: "json_object \<Rightarrow> string \<Rightarrow> json option" where
  "jget obj k = map_of obj k"

definition jget_default :: "json_object \<Rightarrow> string \<Rightarrow> json \<Rightarrow> json" where
  "jget_default obj k d = (case map_of obj k of None \<Rightarrow> d | Some v \<Rightarrow> v)"

fun jfield :: "json \<Rightarrow> string \<Rightarrow> json option" where
  "jfield (JObj obj) k = map_of obj k"
| "jfield _ _ = None"

definition jopt :: "('a \<Rightarrow> json) \<Rightarrow> 'a option \<Rightarrow> json" where
  "jopt f x = (case x of None \<Rightarrow> JNull | Some y \<Rightarrow> f y)"

definition jstrs :: "string list \<Rightarrow> json" where
  "jstrs xs = JArr (map JStr xs)"

text \<open>\<open>bool(value)\<close>: empty and zero values are false.\<close>

fun truthy :: "json \<Rightarrow> bool" where
  "truthy JNull = False"
| "truthy (JBool b) = b"
| "truthy (JInt i) = (i \<noteq> 0)"
| "truthy (JFloat s) = (s \<noteq> ''0.0'' \<and> s \<noteq> ''-0.0'')"
| "truthy (JStr s) = (s \<noteq> [])"
| "truthy (JTime _) = True"
| "truthy (JSeconds n) = (n \<noteq> 0)"
| "truthy (JArr xs) = (xs \<noteq> [])"
| "truthy (JObj xs) = (xs \<noteq> [])"

definition show_int :: "int \<Rightarrow> string" where
  "show_int i = (if i < 0 then ''-'' @ show_nn (- i) else show_nn i)"

text \<open>
  \<open>str(value)\<close> and \<open>repr(value)\<close> of a decoded JSON value whose strings are ASCII. A string is quoted
  with single quotes, or with double ones when it holds a single and no double quote. (Instants and
  durations are not decoded values; their rows only make the function total.)
\<close>

definition hex_digit :: "int \<Rightarrow> char" where
  "hex_digit d = ''0123456789abcdef'' ! nat d"

definition escape_char :: "char \<Rightarrow> char \<Rightarrow> string" where
  "escape_char q c =
     (let bs = CHR 0x5C; n = (of_char c :: int)
      in if c = q \<or> c = bs then [bs, c]
         else if c = CHR 0x0A then [bs, CHR ''n'']
         else if c = CHR 0x0D then [bs, CHR ''r'']
         else if c = CHR 0x09 then [bs, CHR ''t'']
         else if n < 32 \<or> n = 127 then [bs, CHR ''x'', hex_digit (n div 16), hex_digit (n mod 16)]
         else [c])"

definition repr_string :: "string \<Rightarrow> string" where
  "repr_string s =
     (let q = (if CHR 0x27 \<in> set s \<and> CHR 0x22 \<notin> set s then CHR 0x22 else CHR 0x27)
      in [q] @ concat (map (escape_char q) s) @ [q])"

fun py_repr :: "json \<Rightarrow> string" where
  "py_repr JNull = ''None''"
| "py_repr (JBool b) = (if b then ''True'' else ''False'')"
| "py_repr (JInt i) = show_int i"
| "py_repr (JFloat t) = t"
| "py_repr (JStr s) = repr_string s"
| "py_repr (JTime t) = ''datetime''"
| "py_repr (JSeconds n) = show_int n"
| "py_repr (JArr xs) = ''['' @ join '', '' (map py_repr xs) @ '']''"
| "py_repr (JObj kvs) =
     ''{'' @ join '', '' (map (\<lambda>kv. repr_string (fst kv) @ '': '' @ py_repr (snd kv)) kvs) @ ''}''"

definition py_str :: "json \<Rightarrow> string" where
  "py_str v = (case v of JStr s \<Rightarrow> s | _ \<Rightarrow> py_repr v)"

text \<open>
  \<open>int(value)\<close>. A text is an optional sign and digits, at most 4300 of them, with single underscores
  between them; a float is cut towards zero (exactly, as long as its printed form is its value).
\<close>

definition max_int_digits :: nat where "max_int_digits = 4300"

fun int_digits :: "string \<Rightarrow> bool" where
  "int_digits [] = False"
| "int_digits [c] = is_digit c"
| "int_digits (c # d # cs) = (is_digit c \<and> (if d = CHR ''_'' then int_digits cs else int_digits (d # cs)))"

definition int_of_text :: "string \<Rightarrow> int res" where
  "int_of_text text =
     (let t = strip text; neg = (take 1 t = ''-''); ds = (if take 1 t = ''-'' \<or> take 1 t = ''+'' then drop 1 t else t)
      in if int_digits ds
         then let digits = filter (\<lambda>c. c \<noteq> CHR ''_'') ds
              in if max_int_digits < length digits
                 then Inl (Raise ValueError ''Exceeds the limit (4300 digits) for integer string conversion'')
                 else Inr (let n = read_nn digits in if neg then - n else n)
         else Inl (Raise ValueError ''invalid literal for int() with base 10''))"

definition truncate_decimal :: "decimal \<Rightarrow> int" where
  "truncate_decimal d =
     (if 0 \<le> dexp d then dcoef d * pow10 (dexp d)
      else sgn (dcoef d) * (\<bar>dcoef d\<bar> div pow10 (- dexp d)))"

fun py_int :: "json \<Rightarrow> int res" where
  "py_int (JInt i) = Inr i"
| "py_int (JBool b) = Inr (if b then 1 else 0)"
| "py_int (JStr s) = int_of_text s"
| "py_int (JFloat t) =
     (case parse_decimal t of
        Some (NaN _ _ _) \<Rightarrow> Inl (Raise ValueError ''cannot convert float NaN to integer'')
      | Some (Infin _) \<Rightarrow> Inl (Raise OverflowError ''cannot convert float infinity to integer'')
      | Some d \<Rightarrow> Inr (truncate_decimal d)
      | None \<Rightarrow> Inl (Raise ValueError ''could not convert''))"
| "py_int _ = Inl (Raise TypeError ''int() argument must be a string, a bytes-like object or a real number'')"

text \<open>\<open>obj[key]\<close>, and \<open>value.get\<close> on something that is no object.\<close>

definition field_of :: "json_object \<Rightarrow> string \<Rightarrow> json res" where
  "field_of obj k = (case map_of obj k of None \<Rightarrow> Inl (Raise KeyError k) | Some v \<Rightarrow> Inr v)"

definition as_mapping :: "json \<Rightarrow> json_object res" where
  "as_mapping v = (case v of JObj kvs \<Rightarrow> Inr kvs | _ \<Rightarrow> Inl (Raise AttributeError ''get''))"

end
