(* ===== verification/Runtime_Config.thy ===== *)
theory Runtime_Config
  imports Json_Value
begin

text \<open>
  \<open>libs/config/runtime.py\<close>: the runtime tuple (operator mode, venue, credential scope, trading
  gate, autonomy stage, MLOps state), how it is read from the environment, its consistency errors
  and the fail-closed verdict.
\<close>

section \<open>The enumerations\<close>

datatype operator_mode = OM_PAPER | OM_LIVE
datatype venue_target = VT_INTERNAL_PAPER | VT_BINANCE_TESTNET | VT_BINANCE_LIVE
datatype credential_scope = CS_NONE | CS_READ_ONLY | CS_TRADING
datatype trading_gate = TG_LOCKED | TG_APPROVAL_REQUIRED | TG_TINY_LIVE | TG_ARMED | TG_HALTED
datatype autonomy_stage =
    AS_OBSERVE_ONLY | AS_SUGGEST_ONLY | AS_HUMAN_APPROVAL | AS_PAPER_AUTO | AS_TESTNET_AUTO
  | AS_TINY_LIVE_AUTO | AS_SCALED_LIVE_AUTO
datatype mlops_state =
    ML_RESEARCH_CANDIDATE | ML_BACKTEST_APPROVED | ML_PAPER_APPROVED | ML_TESTNET_VALIDATED
  | ML_LIVE_READONLY_VALIDATED | ML_LIVE_TRADE_CANDIDATE | ML_LIVE_TRADE_APPROVED

fun om_value :: "operator_mode \<Rightarrow> string" where
  "om_value OM_PAPER = ''paper''"
| "om_value OM_LIVE = ''live''"

fun vt_value :: "venue_target \<Rightarrow> string" where
  "vt_value VT_INTERNAL_PAPER = ''internal_paper''"
| "vt_value VT_BINANCE_TESTNET = ''binance_testnet''"
| "vt_value VT_BINANCE_LIVE = ''binance_live''"

fun cs_value :: "credential_scope \<Rightarrow> string" where
  "cs_value CS_NONE = ''none''"
| "cs_value CS_READ_ONLY = ''read_only''"
| "cs_value CS_TRADING = ''trading''"

fun tg_value :: "trading_gate \<Rightarrow> string" where
  "tg_value TG_LOCKED = ''locked''"
| "tg_value TG_APPROVAL_REQUIRED = ''approval_required''"
| "tg_value TG_TINY_LIVE = ''tiny_live''"
| "tg_value TG_ARMED = ''armed''"
| "tg_value TG_HALTED = ''halted''"

fun as_value :: "autonomy_stage \<Rightarrow> string" where
  "as_value AS_OBSERVE_ONLY = ''observe_only''"
| "as_value AS_SUGGEST_ONLY = ''suggest_only''"
| "as_value AS_HUMAN_APPROVAL = ''human_approval''"
| "as_value AS_PAPER_AUTO = ''paper_auto''"
| "as_value AS_TESTNET_AUTO = ''testnet_auto''"
| "as_value AS_TINY_LIVE_AUTO = ''tiny_live_auto''"
| "as_value AS_SCALED_LIVE_AUTO = ''scaled_live_auto''"

fun ml_value :: "mlops_state \<Rightarrow> string" where
  "ml_value ML_RESEARCH_CANDIDATE = ''research_candidate''"
| "ml_value ML_BACKTEST_APPROVED = ''backtest_approved''"
| "ml_value ML_PAPER_APPROVED = ''paper_approved''"
| "ml_value ML_TESTNET_VALIDATED = ''testnet_validated''"
| "ml_value ML_LIVE_READONLY_VALIDATED = ''live_readonly_validated''"
| "ml_value ML_LIVE_TRADE_CANDIDATE = ''live_trade_candidate''"
| "ml_value ML_LIVE_TRADE_APPROVED = ''live_trade_approved''"

definition om_members :: "operator_mode list" where "om_members = [OM_PAPER, OM_LIVE]"
definition vt_members :: "venue_target list" where
  "vt_members = [VT_INTERNAL_PAPER, VT_BINANCE_TESTNET, VT_BINANCE_LIVE]"
definition cs_members :: "credential_scope list" where
  "cs_members = [CS_NONE, CS_READ_ONLY, CS_TRADING]"
definition tg_members :: "trading_gate list" where
  "tg_members = [TG_LOCKED, TG_APPROVAL_REQUIRED, TG_TINY_LIVE, TG_ARMED, TG_HALTED]"
definition as_members :: "autonomy_stage list" where
  "as_members = [AS_OBSERVE_ONLY, AS_SUGGEST_ONLY, AS_HUMAN_APPROVAL, AS_PAPER_AUTO,
     AS_TESTNET_AUTO, AS_TINY_LIVE_AUTO, AS_SCALED_LIVE_AUTO]"
definition ml_members :: "mlops_state list" where
  "ml_members = [ML_RESEARCH_CANDIDATE, ML_BACKTEST_APPROVED, ML_PAPER_APPROVED,
     ML_TESTNET_VALIDATED, ML_LIVE_READONLY_VALIDATED, ML_LIVE_TRADE_CANDIDATE,
     ML_LIVE_TRADE_APPROVED]"

text \<open>The class method \<open>parse\<close>: the member with this value, or an error naming the allowed ones.\<close>

definition enum_find :: "('a \<Rightarrow> string) \<Rightarrow> 'a list \<Rightarrow> string \<Rightarrow> 'a option" where
  "enum_find value members s = List.find (\<lambda>x. value x = s) members"

definition enum_parse ::
    "exc_class \<Rightarrow> ('a \<Rightarrow> string) \<Rightarrow> 'a list \<Rightarrow> string \<Rightarrow> string \<Rightarrow> 'a res" where
  "enum_parse exc value members s name =
     (case enum_find value members s of
        Some x \<Rightarrow> Inr x
      | None \<Rightarrow> Inl (Raise exc (name @ '' must be one of: '' @ join '', '' (map value members))))"

section \<open>The runtime tuple\<close>

record runtime_config =
  rc_app_env :: string
  rc_operator_mode :: operator_mode
  rc_venue_target :: venue_target
  rc_credential_scope :: credential_scope
  rc_trading_gate :: trading_gate
  rc_autonomy_stage :: autonomy_stage
  rc_mlops_state :: mlops_state
  rc_live_trading_enabled :: bool
  rc_secrets_backend :: string
  rc_api_key_present :: bool
  rc_api_secret_present :: bool
  rc_testnet_api_key_present :: bool
  rc_testnet_api_secret_present :: bool
  rc_live_readonly_api_key_present :: bool
  rc_live_readonly_api_secret_present :: bool

definition default_runtime_config :: runtime_config where
  "default_runtime_config =
     \<lparr>rc_app_env = ''dev'', rc_operator_mode = OM_PAPER, rc_venue_target = VT_INTERNAL_PAPER,
      rc_credential_scope = CS_NONE, rc_trading_gate = TG_LOCKED,
      rc_autonomy_stage = AS_OBSERVE_ONLY, rc_mlops_state = ML_RESEARCH_CANDIDATE,
      rc_live_trading_enabled = False, rc_secrets_backend = ''local_dev_only'',
      rc_api_key_present = False, rc_api_secret_present = False,
      rc_testnet_api_key_present = False, rc_testnet_api_secret_present = False,
      rc_live_readonly_api_key_present = False, rc_live_readonly_api_secret_present = False\<rparr>"

definition env_bool :: "string option \<Rightarrow> bool \<Rightarrow> bool res" where
  "env_bool value dflt =
     (case value of
        None \<Rightarrow> Inr dflt
      | Some v \<Rightarrow>
          if v = '''' then Inr dflt
          else
            let n = lower (strip v)
            in if n \<in> {''1'', ''true'', ''yes'', ''on''} then Inr True
               else if n \<in> {''0'', ''false'', ''no'', ''off''} then Inr False
               else Inl (Raise ConfigError ''LIVE_TRADING_ENABLED must be a boolean''))"

definition env_get :: "(string \<Rightarrow> string option) \<Rightarrow> string \<Rightarrow> string \<Rightarrow> string" where
  "env_get env k d = (case env k of None \<Rightarrow> d | Some v \<Rightarrow> v)"

definition env_present :: "(string \<Rightarrow> string option) \<Rightarrow> string \<Rightarrow> bool" where
  "env_present env k = (case env k of None \<Rightarrow> False | Some v \<Rightarrow> v \<noteq> '''')"

definition from_env :: "(string \<Rightarrow> string option) \<Rightarrow> runtime_config res" where
  "from_env env =
     bind_res (enum_parse ConfigError om_value om_members
                 (env_get env ''OPERATOR_MODE'' (om_value OM_PAPER)) ''OPERATOR_MODE'') (\<lambda>om.
     bind_res (enum_parse ConfigError vt_value vt_members
                 (env_get env ''VENUE_TARGET'' (vt_value VT_INTERNAL_PAPER)) ''VENUE_TARGET'') (\<lambda>vt.
     bind_res (enum_parse ConfigError cs_value cs_members
                 (env_get env ''CREDENTIAL_SCOPE'' (cs_value CS_NONE)) ''CREDENTIAL_SCOPE'') (\<lambda>cs.
     bind_res (enum_parse ConfigError tg_value tg_members
                 (env_get env ''TRADING_GATE'' (tg_value TG_LOCKED)) ''TRADING_GATE'') (\<lambda>tg.
     bind_res (enum_parse ConfigError as_value as_members
                 (env_get env ''AUTONOMY_STAGE'' (as_value AS_OBSERVE_ONLY)) ''AUTONOMY_STAGE'') (\<lambda>au.
     bind_res (enum_parse ConfigError ml_value ml_members
                 (env_get env ''MLOPS_APPROVAL_STATE'' (ml_value ML_RESEARCH_CANDIDATE))
                 ''MLOPS_APPROVAL_STATE'') (\<lambda>ml.
     bind_res (env_bool (env ''LIVE_TRADING_ENABLED'') False) (\<lambda>live.
     Inr \<lparr>rc_app_env = env_get env ''APP_ENV'' ''dev'', rc_operator_mode = om,
          rc_venue_target = vt, rc_credential_scope = cs, rc_trading_gate = tg,
          rc_autonomy_stage = au, rc_mlops_state = ml, rc_live_trading_enabled = live,
          rc_secrets_backend = env_get env ''SECRETS_BACKEND'' ''local_dev_only'',
          rc_api_key_present = env_present env ''BINANCE_API_KEY'',
          rc_api_secret_present = env_present env ''BINANCE_API_SECRET'',
          rc_testnet_api_key_present = env_present env ''BINANCE_TESTNET_API_KEY'',
          rc_testnet_api_secret_present = env_present env ''BINANCE_TESTNET_API_SECRET'',
          rc_live_readonly_api_key_present = env_present env ''BINANCE_LIVE_READONLY_API_KEY'',
          rc_live_readonly_api_secret_present =
            env_present env ''BINANCE_LIVE_READONLY_API_SECRET''\<rparr>)))))))"

definition legacy_credentials_present :: "runtime_config \<Rightarrow> bool" where
  "legacy_credentials_present c \<longleftrightarrow> rc_api_key_present c \<and> rc_api_secret_present c"

definition testnet_credentials_present :: "runtime_config \<Rightarrow> bool" where
  "testnet_credentials_present c \<longleftrightarrow>
     rc_testnet_api_key_present c \<and> rc_testnet_api_secret_present c"

definition live_readonly_credentials_present :: "runtime_config \<Rightarrow> bool" where
  "live_readonly_credentials_present c \<longleftrightarrow>
     rc_live_readonly_api_key_present c \<and> rc_live_readonly_api_secret_present c"

definition binance_credentials_present :: "runtime_config \<Rightarrow> bool" where
  "binance_credentials_present c \<longleftrightarrow>
     legacy_credentials_present c \<or> testnet_credentials_present c
     \<or> live_readonly_credentials_present c"

definition binance_credentials_required :: "runtime_config \<Rightarrow> bool" where
  "binance_credentials_required c \<longleftrightarrow> rc_venue_target c \<noteq> VT_INTERNAL_PAPER"

definition trading_allowed :: "runtime_config \<Rightarrow> bool" where
  "trading_allowed c \<longleftrightarrow>
     (let live_autonomy_allowed =
            (rc_trading_gate c = TG_TINY_LIVE \<and> rc_autonomy_stage c = AS_TINY_LIVE_AUTO)
            \<or> (rc_trading_gate c = TG_ARMED \<and> rc_autonomy_stage c = AS_SCALED_LIVE_AUTO)
      in rc_live_trading_enabled c
         \<and> rc_operator_mode c = OM_LIVE
         \<and> rc_venue_target c = VT_BINANCE_LIVE
         \<and> rc_credential_scope c = CS_TRADING
         \<and> rc_trading_gate c \<in> {TG_TINY_LIVE, TG_ARMED}
         \<and> live_autonomy_allowed
         \<and> rc_mlops_state c = ML_LIVE_TRADE_APPROVED)"

definition config_errors :: "runtime_config \<Rightarrow> string list" where
  "config_errors c =
     (if rc_venue_target c = VT_INTERNAL_PAPER \<and> rc_credential_scope c \<noteq> CS_NONE
      then [''internal paper must not require exchange credentials''] else [])
   @ (if rc_venue_target c = VT_BINANCE_LIVE \<and> rc_operator_mode c \<noteq> OM_LIVE
      then [''binance_live requires operator_mode=live''] else [])
   @ (if rc_live_trading_enabled c \<and> \<not> trading_allowed c
      then [''live trading enabled without the full live trading gate tuple''] else [])
   @ (if rc_trading_gate c \<in> {TG_TINY_LIVE, TG_ARMED} \<and> \<not> rc_live_trading_enabled c
      then [''live trading gates require live_trading_enabled=true''] else [])"

definition fail_closed :: "runtime_config \<Rightarrow> bool" where
  "fail_closed c \<longleftrightarrow> config_errors c \<noteq> [] \<or> \<not> trading_allowed c"

definition config_to_status :: "runtime_config \<Rightarrow> json" where
  "config_to_status c = JObj
     [(''app_env'', JStr (rc_app_env c)),
      (''operator_mode'', JStr (om_value (rc_operator_mode c))),
      (''venue_target'', JStr (vt_value (rc_venue_target c))),
      (''credential_scope'', JStr (cs_value (rc_credential_scope c))),
      (''trading_gate'', JStr (tg_value (rc_trading_gate c))),
      (''autonomy_stage'', JStr (as_value (rc_autonomy_stage c))),
      (''mlops_approval_state'', JStr (ml_value (rc_mlops_state c))),
      (''live_trading_enabled'', JBool (rc_live_trading_enabled c)),
      (''trading_allowed'', JBool (trading_allowed c)),
      (''fail_closed'', JBool (fail_closed c)),
      (''binance_credentials_required'', JBool (binance_credentials_required c)),
      (''binance_credentials_present'', JBool (binance_credentials_present c)),
      (''binance_testnet_credentials_present'', JBool (testnet_credentials_present c)),
      (''binance_live_readonly_credentials_present'',
         JBool (live_readonly_credentials_present c)),
      (''validation_errors'', jstrs (config_errors c))]"

section \<open>What the enumerations promise\<close>

text \<open>
  The contract of an enumeration class: every member is listed once and has its own value. It
  makes \<open>parse\<close> the exact inverse of \<open>value\<close>.
\<close>

locale value_enum =
  fixes val_of :: "'a \<Rightarrow> string" and members :: "'a list"
  assumes all_members: "x \<in> set members"
    and distinct_values: "distinct (map val_of members)"
begin

lemma value_inject: "val_of x = val_of y \<longleftrightarrow> x = y"
  using distinct_values all_members [of x] all_members [of y]
  by (auto simp: distinct_map dest: inj_onD)

lemma find_value: "enum_find val_of members (val_of x) = Some x"
proof -
  have "List.find (\<lambda>y. val_of y = val_of x) xs = Some x" if "x \<in> set xs" for xs
    using that by (induction xs) (auto simp: value_inject)
  then show ?thesis using all_members by (simp add: enum_find_def)
qed

lemma find_sound: "enum_find val_of members s = Some x \<Longrightarrow> val_of x = s"
  by (auto simp: enum_find_def find_Some_iff)

lemma parse_value: "enum_parse e val_of members (val_of x) name = Inr x"
  by (simp add: enum_parse_def find_value)

lemma parse_iff: "enum_parse e val_of members s name = Inr x \<longleftrightarrow> s = val_of x"
  using find_value find_sound by (auto simp: enum_parse_def split: option.splits)

lemma parse_error:
  "(\<nexists>x. val_of x = s) \<Longrightarrow>
   enum_parse e val_of members s name
     = Inl (Raise e (name @ '' must be one of: '' @ join '', '' (map val_of members)))"
  by (cases "enum_find val_of members s") (auto simp: enum_parse_def dest: find_sound)

end

interpretation om: value_enum om_value om_members
proof unfold_locales
  show "x \<in> set om_members" for x by (cases x) (simp_all add: om_members_def)
  show "distinct (map om_value om_members)" by (simp add: om_members_def)
qed

interpretation vt: value_enum vt_value vt_members
proof unfold_locales
  show "x \<in> set vt_members" for x by (cases x) (simp_all add: vt_members_def)
  show "distinct (map vt_value vt_members)" by (simp add: vt_members_def)
qed

interpretation cs: value_enum cs_value cs_members
proof unfold_locales
  show "x \<in> set cs_members" for x by (cases x) (simp_all add: cs_members_def)
  show "distinct (map cs_value cs_members)" by (simp add: cs_members_def)
qed

interpretation tg: value_enum tg_value tg_members
proof unfold_locales
  show "x \<in> set tg_members" for x by (cases x) (simp_all add: tg_members_def)
  show "distinct (map tg_value tg_members)" by (simp add: tg_members_def)
qed

interpretation stage: value_enum as_value as_members
proof unfold_locales
  show "x \<in> set as_members" for x by (cases x) (simp_all add: as_members_def)
  show "distinct (map as_value as_members)" by (simp add: as_members_def)
qed

interpretation ml: value_enum ml_value ml_members
proof unfold_locales
  show "x \<in> set ml_members" for x by (cases x) (simp_all add: ml_members_def)
  show "distinct (map ml_value ml_members)" by (simp add: ml_members_def)
qed

lemmas enum_parse_iffs =
  om.parse_iff vt.parse_iff cs.parse_iff tg.parse_iff stage.parse_iff ml.parse_iff

section \<open>The verdicts\<close>

lemma trading_allowed_iff:
  "trading_allowed c \<longleftrightarrow>
     rc_live_trading_enabled c \<and> rc_operator_mode c = OM_LIVE \<and> rc_venue_target c = VT_BINANCE_LIVE
     \<and> rc_credential_scope c = CS_TRADING \<and> rc_mlops_state c = ML_LIVE_TRADE_APPROVED
     \<and> (rc_trading_gate c, rc_autonomy_stage c)
         \<in> {(TG_TINY_LIVE, AS_TINY_LIVE_AUTO), (TG_ARMED, AS_SCALED_LIVE_AUTO)}"
  by (auto simp: trading_allowed_def Let_def)

lemma trading_allowed_config_ok: "trading_allowed c \<Longrightarrow> config_errors c = []"
  by (auto simp: config_errors_def trading_allowed_iff)

lemma env_bool_True:
  "env_bool v False = Inr True \<longleftrightarrow>
   (\<exists>s. v = Some s \<and> lower (strip s) \<in> {''1'', ''true'', ''yes'', ''on''} \<and> s \<noteq> '''')"
  by (auto simp: env_bool_def Let_def split: option.splits if_splits)

lemma from_env_Inr:
  "from_env env = Inr c \<Longrightarrow>
     env_get env ''OPERATOR_MODE'' ''paper'' = om_value (rc_operator_mode c)
   \<and> env_get env ''VENUE_TARGET'' ''internal_paper'' = vt_value (rc_venue_target c)
   \<and> env_get env ''CREDENTIAL_SCOPE'' ''none'' = cs_value (rc_credential_scope c)
   \<and> env_get env ''TRADING_GATE'' ''locked'' = tg_value (rc_trading_gate c)
   \<and> env_get env ''AUTONOMY_STAGE'' ''observe_only'' = as_value (rc_autonomy_stage c)
   \<and> env_get env ''MLOPS_APPROVAL_STATE'' ''research_candidate'' = ml_value (rc_mlops_state c)
   \<and> env_bool (env ''LIVE_TRADING_ENABLED'') False = Inr (rc_live_trading_enabled c)"
  unfolding from_env_def
  by (elim bind_res_eq_Inr [THEN iffD1, THEN exE] conjE)
    (simp only: enum_parse_iffs om_value.simps vt_value.simps cs_value.simps tg_value.simps
      as_value.simps ml_value.simps sum.inject runtime_config.simps simp_thms, clarsimp)

lemma env_get_neq_default: "env_get env k d = v \<Longrightarrow> v \<noteq> d \<Longrightarrow> env k = Some v"
  by (auto simp: env_get_def split: option.splits)

section \<open>Properties\<close>

text \<open>
  A configuration is fail-closed exactly when trading is not allowed: the full live tuple
  never carries a validation error, so no configuration is both allowed to trade and inconsistent.
\<close>

theorem fail_closed_iff: "fail_closed c \<longleftrightarrow> \<not> trading_allowed c"
  by (auto simp: fail_closed_def dest: trading_allowed_config_ok)

text \<open>
  C21: Live trading takes explicit configuration. If a configuration read from the environment
  allows trading, then every one of the seven variables of the live tuple is set, to its live
  value; a missing variable always means no trading.
\<close>

theorem live_trading_needs_explicit_env:
  assumes "from_env env = Inr c" and "trading_allowed c"
  shows "env ''OPERATOR_MODE'' = Some ''live'' \<and> env ''VENUE_TARGET'' = Some ''binance_live''
    \<and> env ''CREDENTIAL_SCOPE'' = Some ''trading''
    \<and> env ''MLOPS_APPROVAL_STATE'' = Some ''live_trade_approved''
    \<and> (env ''TRADING_GATE'' = Some ''tiny_live'' \<and> env ''AUTONOMY_STAGE'' = Some ''tiny_live_auto''
       \<or> env ''TRADING_GATE'' = Some ''armed'' \<and> env ''AUTONOMY_STAGE'' = Some ''scaled_live_auto'')
    \<and> (\<exists>s. env ''LIVE_TRADING_ENABLED'' = Some s
           \<and> lower (strip s) \<in> {''1'', ''true'', ''yes'', ''on''})"
proof -
  note env = from_env_Inr [OF assms(1)]
  from assms(2) have live: "rc_live_trading_enabled c" "rc_operator_mode c = OM_LIVE"
    "rc_venue_target c = VT_BINANCE_LIVE" "rc_credential_scope c = CS_TRADING"
    "rc_mlops_state c = ML_LIVE_TRADE_APPROVED"
    and gate: "rc_trading_gate c = TG_TINY_LIVE \<and> rc_autonomy_stage c = AS_TINY_LIVE_AUTO
      \<or> rc_trading_gate c = TG_ARMED \<and> rc_autonomy_stage c = AS_SCALED_LIVE_AUTO"
    by (auto simp: trading_allowed_iff)
  from env live gate show ?thesis
    by (auto simp: env_bool_True dest!: env_get_neq_default)
qed

definition live_env :: "string \<Rightarrow> string option" where
  "live_env = map_of
     [(''OPERATOR_MODE'', ''live''), (''VENUE_TARGET'', ''binance_live''),
      (''CREDENTIAL_SCOPE'', ''trading''), (''TRADING_GATE'', ''tiny_live''),
      (''AUTONOMY_STAGE'', ''tiny_live_auto''), (''MLOPS_APPROVAL_STATE'', ''live_trade_approved''),
      (''LIVE_TRADING_ENABLED'', '' TRUE '')]"

definition live_config :: runtime_config where
  "live_config = default_runtime_config
     \<lparr>rc_operator_mode := OM_LIVE, rc_venue_target := VT_BINANCE_LIVE,
      rc_credential_scope := CS_TRADING, rc_trading_gate := TG_TINY_LIVE,
      rc_autonomy_stage := AS_TINY_LIVE_AUTO, rc_mlops_state := ML_LIVE_TRADE_APPROVED,
      rc_live_trading_enabled := True\<rparr>"

theorem live_trading_needs_explicit_env_witness:
  "from_env live_env = Inr live_config \<and> trading_allowed live_config
   \<and> live_env ''OPERATOR_MODE'' = Some ''live''"
proof -
  have 1: "from_env live_env = Inr live_config" by code_simp
  have 2: "trading_allowed live_config" by code_simp
  from live_trading_needs_explicit_env [OF 1 2] 1 2 show ?thesis by simp
qed

text \<open>
  With no environment at all the runtime is the documented safe default: paper mode, internal
  venue, no credentials, locked gate, observe only, and fail-closed without any validation error.
\<close>

theorem empty_env_is_safe_default:
  "from_env (\<lambda>_. None) = Inr default_runtime_config
   \<and> config_errors default_runtime_config = [] \<and> fail_closed default_runtime_config"
proof -
  have "from_env (\<lambda>_. None) = Inr default_runtime_config" by code_simp
  moreover have "config_errors default_runtime_config = []" by code_simp
  moreover have "fail_closed default_runtime_config" by code_simp
  ultimately show ?thesis by simp
qed

end
