(* ===== verification/Symbol_Universe.thy ===== *)
theory Symbol_Universe
  imports Runtime_Config
begin

text \<open>
  \<open>libs/schemas/symbol_universe.py\<close>: the instruments the platform knows, their roles, and the
  validator of the initial policy (BTCUSDC and ETHUSDC executable, SYN_ETHBTC derived, ETHBTC a
  disabled reference).
\<close>

datatype instrument_role = IR_EXECUTABLE | IR_DERIVED | IR_REFERENCE
datatype recording_level = DR_FULL | DR_DERIVED | DR_LIGHTWEIGHT | DR_DISABLED

fun ir_value :: "instrument_role \<Rightarrow> string" where
  "ir_value IR_EXECUTABLE = ''executable''"
| "ir_value IR_DERIVED = ''derived''"
| "ir_value IR_REFERENCE = ''reference''"

fun dr_value :: "recording_level \<Rightarrow> string" where
  "dr_value DR_FULL = ''full''"
| "dr_value DR_DERIVED = ''derived''"
| "dr_value DR_LIGHTWEIGHT = ''lightweight''"
| "dr_value DR_DISABLED = ''disabled''"

record instrument_definition =
  ins_symbol :: string
  ins_role :: instrument_role
  ins_execution_enabled :: bool
  ins_recording_level :: recording_level
  ins_enabled_by_default :: bool
  ins_venue_symbol :: "string option"
  ins_formula :: "string option"
  ins_components :: "string list"
  ins_notes :: string

definition instrument_to_public_dict :: "instrument_definition \<Rightarrow> json" where
  "instrument_to_public_dict i = JObj
     [(''symbol'', JStr (ins_symbol i)),
      (''role'', JStr (ir_value (ins_role i))),
      (''execution_enabled'', JBool (ins_execution_enabled i)),
      (''data_recording_level'', JStr (dr_value (ins_recording_level i))),
      (''enabled_by_default'', JBool (ins_enabled_by_default i)),
      (''venue_symbol'', jopt JStr (ins_venue_symbol i)),
      (''formula'', jopt JStr (ins_formula i)),
      (''components'', jstrs (ins_components i)),
      (''notes'', JStr (ins_notes i))]"

definition symbol_universe :: "instrument_definition list" where
  "symbol_universe =
     [\<lparr>ins_symbol = ''BTCUSDC'', ins_role = IR_EXECUTABLE, ins_execution_enabled = True,
       ins_recording_level = DR_FULL, ins_enabled_by_default = True,
       ins_venue_symbol = Some ''BTCUSDC'', ins_formula = None, ins_components = [],
       ins_notes = ''Executable Binance USD-M Futures leg for BTC beta and hedging.''\<rparr>,
      \<lparr>ins_symbol = ''ETHUSDC'', ins_role = IR_EXECUTABLE, ins_execution_enabled = True,
       ins_recording_level = DR_FULL, ins_enabled_by_default = True,
       ins_venue_symbol = Some ''ETHUSDC'', ins_formula = None, ins_components = [],
       ins_notes = ''Executable Binance USD-M Futures leg for ETH exposure.''\<rparr>,
      \<lparr>ins_symbol = ''SYN_ETHBTC'', ins_role = IR_DERIVED, ins_execution_enabled = False,
       ins_recording_level = DR_DERIVED, ins_enabled_by_default = True,
       ins_venue_symbol = None, ins_formula = Some ''ETHUSDC / BTCUSDC'',
       ins_components = [''ETHUSDC'', ''BTCUSDC''],
       ins_notes = ''Derived ETH/BTC view calculated from executable USDC legs.''\<rparr>,
      \<lparr>ins_symbol = ''ETHBTC'', ins_role = IR_REFERENCE, ins_execution_enabled = False,
       ins_recording_level = DR_DISABLED, ins_enabled_by_default = False,
       ins_venue_symbol = Some ''ETHBTC'', ins_formula = None, ins_components = [],
       ins_notes = ''Optional direct reference feed only; not recorded deeply or traded until promoted by a future policy change.''\<rparr>]"

text \<open>The three views of the universe; the validator below takes the universe as an argument.\<close>

definition executable_symbols :: "instrument_definition list \<Rightarrow> string list" where
  "executable_symbols u = map ins_symbol (filter ins_execution_enabled u)"

definition derived_symbols :: "instrument_definition list \<Rightarrow> string list" where
  "derived_symbols u = map ins_symbol (filter (\<lambda>i. ins_role i = IR_DERIVED) u)"

definition reference_symbols :: "instrument_definition list \<Rightarrow> string list" where
  "reference_symbols u = map ins_symbol (filter (\<lambda>i. ins_role i = IR_REFERENCE) u)"

text \<open>The dict comprehension keeps the last instrument of a symbol.\<close>

definition ins_by_symbol :: "instrument_definition list \<Rightarrow> string \<Rightarrow> instrument_definition option" where
  "ins_by_symbol u s = List.find (\<lambda>i. ins_symbol i = s) (rev u)"

definition instrument_errors :: "instrument_definition \<Rightarrow> string list" where
  "instrument_errors i =
     (if ins_role i \<in> {IR_DERIVED, IR_REFERENCE} \<and> ins_execution_enabled i
      then [ins_symbol i @ '' cannot be executable with role='' @ ir_value (ins_role i)] else [])
   @ (if ins_role i = IR_EXECUTABLE \<and> ins_recording_level i \<noteq> DR_FULL
      then [ins_symbol i @ '' executable instruments require full data recording''] else [])"

definition universe_errors :: "instrument_definition list \<Rightarrow> string list" where
  "universe_errors u =
     (if \<not> distinct (map ins_symbol u) then [''symbol universe contains duplicate symbols''] else [])
   @ (if set (executable_symbols u) \<noteq> {''BTCUSDC'', ''ETHUSDC''}
      then [''initial executable universe must be BTCUSDC and ETHUSDC only''] else [])
   @ (case ins_by_symbol u ''SYN_ETHBTC'' of
        None \<Rightarrow> [''SYN_ETHBTC derived instrument is missing'']
      | Some s \<Rightarrow>
          if ins_role s \<noteq> IR_DERIVED \<or> ins_execution_enabled s
             \<or> ins_formula s \<noteq> Some ''ETHUSDC / BTCUSDC''
             \<or> set (ins_components s) \<noteq> {''ETHUSDC'', ''BTCUSDC''}
          then [''SYN_ETHBTC must be a non-executable ETHUSDC/BTCUSDC derivative''] else [])
   @ (case ins_by_symbol u ''ETHBTC'' of
        None \<Rightarrow> [''ETHBTC reference instrument is missing'']
      | Some r \<Rightarrow>
          if ins_role r \<noteq> IR_REFERENCE \<or> ins_execution_enabled r \<or> ins_enabled_by_default r
          then [''ETHBTC must be disabled reference-only data by default''] else [])
   @ concat (map instrument_errors u)"

definition symbol_universe_payload :: json where
  "symbol_universe_payload = JObj
     [(''policy_name'', JStr ''three_asset_btc_eth_usdc''),
      (''executable_symbols'', jstrs (executable_symbols symbol_universe)),
      (''derived_symbols'', jstrs (derived_symbols symbol_universe)),
      (''reference_symbols'', jstrs (reference_symbols symbol_universe)),
      (''instruments'', JArr (map instrument_to_public_dict symbol_universe)),
      (''validation_errors'', jstrs (universe_errors symbol_universe))]"

section \<open>Lemmas\<close>

lemma universe_errors_distinct: "universe_errors u = [] \<Longrightarrow> distinct (map ins_symbol u)"
  by (simp add: universe_errors_def split: if_splits)

lemma universe_errors_role:
  assumes "universe_errors u = []" and "i \<in> set u" and "ins_execution_enabled i"
  shows "ins_role i = IR_EXECUTABLE \<and> ins_symbol i \<in> {''BTCUSDC'', ''ETHUSDC''}
       \<and> ins_recording_level i = DR_FULL"
proof -
  from assms(1) have ex: "set (executable_symbols u) = {''BTCUSDC'', ''ETHUSDC''}"
    and err: "concat (map instrument_errors u) = []"
    by (simp_all add: universe_errors_def split: if_splits)
  from err assms(2) have i: "instrument_errors i = []" by simp
  have "ins_symbol i \<in> set (executable_symbols u)"
    using assms(2,3) by (simp add: executable_symbols_def)
  with i assms(3) ex show ?thesis
    by (cases "ins_role i") (auto simp: instrument_errors_def split: if_splits)
qed

section \<open>Properties\<close>

text \<open>
  The validator is sound for any universe: when it reports nothing, an instrument that is
  enabled for execution has the executable role, is BTCUSDC or ETHUSDC, and is recorded in full.
\<close>

theorem universe_validator_sound:
  assumes "universe_errors u = []" and "i \<in> set u" and "ins_execution_enabled i"
  shows "ins_role i = IR_EXECUTABLE \<and> ins_symbol i \<in> {''BTCUSDC'', ''ETHUSDC''}
       \<and> ins_recording_level i = DR_FULL"
  using assms by (rule universe_errors_role)

theorem universe_validator_sound_witness:
  "universe_errors symbol_universe = [] \<and> ins_execution_enabled (hd symbol_universe)
   \<and> ins_role (hd symbol_universe) = IR_EXECUTABLE"
proof -
  have 1: "universe_errors symbol_universe = []" by code_simp
  have 2: "hd symbol_universe \<in> set symbol_universe" by (simp add: symbol_universe_def)
  have 3: "ins_execution_enabled (hd symbol_universe)" by code_simp
  from universe_validator_sound [OF 1 2 3] 1 3 show ?thesis by simp
qed

end
