(* ===== verification/Command_Catalog.thy ===== *)
theory Command_Catalog
  imports Symbol_Universe
begin

text \<open>
  \<open>libs/schemas/commands.py\<close>: the declarative catalog that maps every operator action to a
  backend command with its required runtime tuple, the parser of command requests, and the
  validator of the catalog itself.
\<close>

section \<open>Vocabulary\<close>

datatype command_type =
    CT_GET_SYSTEM_STATUS | CT_GET_CONTROL_SURFACE | CT_GET_SYMBOL_UNIVERSE
  | CT_GET_EXCHANGE_STATE | CT_GET_ACCOUNT_STATE | CT_GET_SYMBOL_METADATA
  | CT_GET_FEE_POLICY | CT_GET_RISK_STATUS | CT_SEARCH_AUDIT_RECORDS
  | CT_GET_AUDIT_RECORD | CT_CREATE_PAPER_SESSION | CT_SUBMIT_PAPER_ORDER
  | CT_RESET_PAPER_PORTFOLIO | CT_CREATE_TESTNET_VALIDATION_SESSION | CT_SUBMIT_TESTNET_ORDER
  | CT_GET_LIVE_READONLY_ACCOUNT | CT_REQUEST_LIVE_APPROVAL | CT_APPROVE_LIVE_GATE
  | CT_APPROVE_LIVE_ORDER_INTENT | CT_DISABLE_LIVE_TRADING | CT_CREATE_MANUAL_ORDER_INTENT
  | CT_PREVIEW_ORDER | CT_SUBMIT_ORDER_INTENT | CT_CANCEL_ORDER_INTENT
  | CT_APPROVE_COMMAND | CT_REJECT_COMMAND | CT_CREATE_TRAINING_JOB
  | CT_CREATE_EVALUATION_JOB | CT_CREATE_BACKTEST_JOB | CT_CREATE_STRATEGY_SESSION
  | CT_PAUSE_STRATEGY_SESSION | CT_STOP_STRATEGY_SESSION | CT_GET_STRATEGY_RECOMMENDATIONS
  | CT_REQUEST_MODEL_DEPLOYMENT | CT_APPROVE_MODEL_STAGE | CT_DISABLE_MODEL_VERSION
  | CT_GET_MODEL_REGISTRY | CT_GET_FEATURE_REGISTRY | CT_GET_MODEL_EVALUATIONS
  | CT_GET_MODEL_DECISION_RECORD | CT_PREVIEW_MODEL_RECOMMENDATION | CT_ACTIVATE_PANIC_HALT
  | CT_PANIC_CANCEL_OPEN_ORDERS | CT_PANIC_FLATTEN_POSITIONS

fun ct_value :: "command_type \<Rightarrow> string" where
  "ct_value CT_GET_SYSTEM_STATUS = ''get_system_status''"
| "ct_value CT_GET_CONTROL_SURFACE = ''get_control_surface''"
| "ct_value CT_GET_SYMBOL_UNIVERSE = ''get_symbol_universe''"
| "ct_value CT_GET_EXCHANGE_STATE = ''get_exchange_state''"
| "ct_value CT_GET_ACCOUNT_STATE = ''get_account_state''"
| "ct_value CT_GET_SYMBOL_METADATA = ''get_symbol_metadata''"
| "ct_value CT_GET_FEE_POLICY = ''get_fee_policy''"
| "ct_value CT_GET_RISK_STATUS = ''get_risk_status''"
| "ct_value CT_SEARCH_AUDIT_RECORDS = ''search_audit_records''"
| "ct_value CT_GET_AUDIT_RECORD = ''get_audit_record''"
| "ct_value CT_CREATE_PAPER_SESSION = ''create_paper_session''"
| "ct_value CT_SUBMIT_PAPER_ORDER = ''submit_paper_order''"
| "ct_value CT_RESET_PAPER_PORTFOLIO = ''reset_paper_portfolio''"
| "ct_value CT_CREATE_TESTNET_VALIDATION_SESSION = ''create_testnet_validation_session''"
| "ct_value CT_SUBMIT_TESTNET_ORDER = ''submit_testnet_order''"
| "ct_value CT_GET_LIVE_READONLY_ACCOUNT = ''get_live_readonly_account''"
| "ct_value CT_REQUEST_LIVE_APPROVAL = ''request_live_approval''"
| "ct_value CT_APPROVE_LIVE_GATE = ''approve_live_gate''"
| "ct_value CT_APPROVE_LIVE_ORDER_INTENT = ''approve_live_order_intent''"
| "ct_value CT_DISABLE_LIVE_TRADING = ''disable_live_trading''"
| "ct_value CT_CREATE_MANUAL_ORDER_INTENT = ''create_manual_order_intent''"
| "ct_value CT_PREVIEW_ORDER = ''preview_order''"
| "ct_value CT_SUBMIT_ORDER_INTENT = ''submit_order_intent''"
| "ct_value CT_CANCEL_ORDER_INTENT = ''cancel_order_intent''"
| "ct_value CT_APPROVE_COMMAND = ''approve_command''"
| "ct_value CT_REJECT_COMMAND = ''reject_command''"
| "ct_value CT_CREATE_TRAINING_JOB = ''create_training_job''"
| "ct_value CT_CREATE_EVALUATION_JOB = ''create_evaluation_job''"
| "ct_value CT_CREATE_BACKTEST_JOB = ''create_backtest_job''"
| "ct_value CT_CREATE_STRATEGY_SESSION = ''create_strategy_session''"
| "ct_value CT_PAUSE_STRATEGY_SESSION = ''pause_strategy_session''"
| "ct_value CT_STOP_STRATEGY_SESSION = ''stop_strategy_session''"
| "ct_value CT_GET_STRATEGY_RECOMMENDATIONS = ''get_strategy_recommendations''"
| "ct_value CT_REQUEST_MODEL_DEPLOYMENT = ''request_model_deployment''"
| "ct_value CT_APPROVE_MODEL_STAGE = ''approve_model_stage''"
| "ct_value CT_DISABLE_MODEL_VERSION = ''disable_model_version''"
| "ct_value CT_GET_MODEL_REGISTRY = ''get_model_registry''"
| "ct_value CT_GET_FEATURE_REGISTRY = ''get_feature_registry''"
| "ct_value CT_GET_MODEL_EVALUATIONS = ''get_model_evaluations''"
| "ct_value CT_GET_MODEL_DECISION_RECORD = ''get_model_decision_record''"
| "ct_value CT_PREVIEW_MODEL_RECOMMENDATION = ''preview_model_recommendation''"
| "ct_value CT_ACTIVATE_PANIC_HALT = ''activate_panic_halt''"
| "ct_value CT_PANIC_CANCEL_OPEN_ORDERS = ''panic_cancel_open_orders''"
| "ct_value CT_PANIC_FLATTEN_POSITIONS = ''panic_flatten_positions''"

definition ct_members :: "command_type list" where
  "ct_members =
     [CT_GET_SYSTEM_STATUS, CT_GET_CONTROL_SURFACE, CT_GET_SYMBOL_UNIVERSE,
      CT_GET_EXCHANGE_STATE, CT_GET_ACCOUNT_STATE, CT_GET_SYMBOL_METADATA,
      CT_GET_FEE_POLICY, CT_GET_RISK_STATUS, CT_SEARCH_AUDIT_RECORDS,
      CT_GET_AUDIT_RECORD, CT_CREATE_PAPER_SESSION, CT_SUBMIT_PAPER_ORDER,
      CT_RESET_PAPER_PORTFOLIO, CT_CREATE_TESTNET_VALIDATION_SESSION, CT_SUBMIT_TESTNET_ORDER,
      CT_GET_LIVE_READONLY_ACCOUNT, CT_REQUEST_LIVE_APPROVAL, CT_APPROVE_LIVE_GATE,
      CT_APPROVE_LIVE_ORDER_INTENT, CT_DISABLE_LIVE_TRADING, CT_CREATE_MANUAL_ORDER_INTENT,
      CT_PREVIEW_ORDER, CT_SUBMIT_ORDER_INTENT, CT_CANCEL_ORDER_INTENT,
      CT_APPROVE_COMMAND, CT_REJECT_COMMAND, CT_CREATE_TRAINING_JOB,
      CT_CREATE_EVALUATION_JOB, CT_CREATE_BACKTEST_JOB, CT_CREATE_STRATEGY_SESSION,
      CT_PAUSE_STRATEGY_SESSION, CT_STOP_STRATEGY_SESSION, CT_GET_STRATEGY_RECOMMENDATIONS,
      CT_REQUEST_MODEL_DEPLOYMENT, CT_APPROVE_MODEL_STAGE, CT_DISABLE_MODEL_VERSION,
      CT_GET_MODEL_REGISTRY, CT_GET_FEATURE_REGISTRY, CT_GET_MODEL_EVALUATIONS,
      CT_GET_MODEL_DECISION_RECORD, CT_PREVIEW_MODEL_RECOMMENDATION, CT_ACTIVATE_PANIC_HALT,
      CT_PANIC_CANCEL_OPEN_ORDERS, CT_PANIC_FLATTEN_POSITIONS]"

datatype service_boundary =
    SB_API_GATEWAY | SB_AUTH_SERVICE | SB_MARKET_DATA_SERVICE
  | SB_ORDER_BOOK_SERVICE | SB_STRATEGY_ENGINE | SB_RISK_ENGINE
  | SB_PORTFOLIO_ENGINE | SB_EXECUTION_ENGINE | SB_MODEL_SERVICE
  | SB_TRAINING_WORKER | SB_BACKTEST_WORKER | SB_PAPER_EXCHANGE
  | SB_AUDIT_SERVICE | SB_NOTIFICATION_SERVICE

fun sb_value :: "service_boundary \<Rightarrow> string" where
  "sb_value SB_API_GATEWAY = ''api_gateway''"
| "sb_value SB_AUTH_SERVICE = ''auth_service''"
| "sb_value SB_MARKET_DATA_SERVICE = ''market_data_service''"
| "sb_value SB_ORDER_BOOK_SERVICE = ''order_book_service''"
| "sb_value SB_STRATEGY_ENGINE = ''strategy_engine''"
| "sb_value SB_RISK_ENGINE = ''risk_engine''"
| "sb_value SB_PORTFOLIO_ENGINE = ''portfolio_engine''"
| "sb_value SB_EXECUTION_ENGINE = ''execution_engine''"
| "sb_value SB_MODEL_SERVICE = ''model_service''"
| "sb_value SB_TRAINING_WORKER = ''training_worker''"
| "sb_value SB_BACKTEST_WORKER = ''backtest_worker''"
| "sb_value SB_PAPER_EXCHANGE = ''paper_exchange''"
| "sb_value SB_AUDIT_SERVICE = ''audit_service''"
| "sb_value SB_NOTIFICATION_SERVICE = ''notification_service''"

definition sb_members :: "service_boundary list" where
  "sb_members =
     [SB_API_GATEWAY, SB_AUTH_SERVICE, SB_MARKET_DATA_SERVICE,
      SB_ORDER_BOOK_SERVICE, SB_STRATEGY_ENGINE, SB_RISK_ENGINE,
      SB_PORTFOLIO_ENGINE, SB_EXECUTION_ENGINE, SB_MODEL_SERVICE,
      SB_TRAINING_WORKER, SB_BACKTEST_WORKER, SB_PAPER_EXCHANGE,
      SB_AUDIT_SERVICE, SB_NOTIFICATION_SERVICE]"

datatype command_effect =
    CE_READ_ONLY | CE_VALIDATION_ONLY | CE_SIMULATED_TRADING
  | CE_INTERNAL_TESTNET_TRADING | CE_LIVE_READ_ONLY | CE_LIVE_TRADING
  | CE_BACKGROUND_JOB | CE_STRATEGY_SESSION | CE_MODEL_GOVERNANCE
  | CE_PANIC

fun ce_value :: "command_effect \<Rightarrow> string" where
  "ce_value CE_READ_ONLY = ''read_only''"
| "ce_value CE_VALIDATION_ONLY = ''validation_only''"
| "ce_value CE_SIMULATED_TRADING = ''simulated_trading''"
| "ce_value CE_INTERNAL_TESTNET_TRADING = ''internal_testnet_trading''"
| "ce_value CE_LIVE_READ_ONLY = ''live_read_only''"
| "ce_value CE_LIVE_TRADING = ''live_trading''"
| "ce_value CE_BACKGROUND_JOB = ''background_job''"
| "ce_value CE_STRATEGY_SESSION = ''strategy_session''"
| "ce_value CE_MODEL_GOVERNANCE = ''model_governance''"
| "ce_value CE_PANIC = ''panic''"

definition ce_members :: "command_effect list" where
  "ce_members =
     [CE_READ_ONLY, CE_VALIDATION_ONLY, CE_SIMULATED_TRADING,
      CE_INTERNAL_TESTNET_TRADING, CE_LIVE_READ_ONLY, CE_LIVE_TRADING,
      CE_BACKGROUND_JOB, CE_STRATEGY_SESSION, CE_MODEL_GOVERNANCE,
      CE_PANIC]"

interpretation ct: value_enum ct_value ct_members
proof unfold_locales
  show "x \<in> set ct_members" for x by (cases x) (simp_all add: ct_members_def)
  show "distinct (map ct_value ct_members)" by code_simp
qed

section \<open>Requests\<close>

record command_request =
  cr_command_type :: command_type
  cr_actor_id :: string
  cr_payload :: json_object

definition command_request_from_mapping :: "json_object \<Rightarrow> command_request res" where
  "command_request_from_mapping body =
     (case jget body ''command_type'' of
        Some (JStr command_value) \<Rightarrow>
          bind_res
            (case jget_default body ''payload'' (JObj []) of
               JNull \<Rightarrow> Inr []
             | JObj obj \<Rightarrow> Inr obj
             | _ \<Rightarrow> Inl (Raise ValueError ''payload must be an object'')) (\<lambda>payload.
          bind_res
            (case jget_default body ''actor_id'' (JStr ''local_operator'') of
               JStr a \<Rightarrow> if a = '''' then Inl (Raise ValueError ''actor_id must be a non-empty string'')
                         else Inr a
             | _ \<Rightarrow> Inl (Raise ValueError ''actor_id must be a non-empty string'')) (\<lambda>actor.
          bind_res (enum_parse ValueError ct_value ct_members command_value ''command_type'') (\<lambda>ct.
          Inr \<lparr>cr_command_type = ct, cr_actor_id = actor, cr_payload = payload\<rparr>)))
      | _ \<Rightarrow> Inl (Raise ValueError ''command_type is required''))"

section \<open>Definitions of commands\<close>

record command_definition =
  cd_command_type :: command_type
  cd_screen :: string
  cd_operator_action :: string
  cd_owner :: service_boundary
  cd_effect :: command_effect
  cd_operator_modes :: "operator_mode list"
  cd_venue_targets :: "venue_target list"
  cd_credential_scopes :: "credential_scope list"
  cd_trading_gates :: "trading_gate list"
  cd_autonomy_stages :: "autonomy_stage list"
  cd_mlops_states :: "mlops_state list"
  cd_trading_affecting :: bool
  cd_requires_fee_model :: bool
  cd_execution_available :: bool
  cd_notes :: string

definition command_to_public_dict :: "command_definition \<Rightarrow> json" where
  "command_to_public_dict d = JObj
     [(''command_type'', JStr (ct_value (cd_command_type d))),
      (''screen'', JStr (cd_screen d)),
      (''operator_action'', JStr (cd_operator_action d)),
      (''owner'', JStr (sb_value (cd_owner d))),
      (''effect'', JStr (ce_value (cd_effect d))),
      (''required_operator_modes'', jstrs (map om_value (cd_operator_modes d))),
      (''required_venue_targets'', jstrs (map vt_value (cd_venue_targets d))),
      (''required_credential_scopes'', jstrs (map cs_value (cd_credential_scopes d))),
      (''required_trading_gates'', jstrs (map tg_value (cd_trading_gates d))),
      (''required_autonomy_stages'', jstrs (map as_value (cd_autonomy_stages d))),
      (''required_mlops_states'', jstrs (map ml_value (cd_mlops_states d))),
      (''trading_affecting'', JBool (cd_trading_affecting d)),
      (''requires_fee_model'', JBool (cd_requires_fee_model d)),
      (''execution_available'', JBool (cd_execution_available d)),
      (''notes'', JStr (cd_notes d))]"

text \<open>The helper \<open>_definition\<close> with its keyword defaults; a catalog entry updates the others.\<close>

definition command_def ::
    "command_type \<Rightarrow> string \<Rightarrow> string \<Rightarrow> service_boundary \<Rightarrow> command_effect \<Rightarrow> command_definition" where
  "command_def ct screen action owner effect =
     \<lparr>cd_command_type = ct, cd_screen = screen, cd_operator_action = action, cd_owner = owner,
      cd_effect = effect, cd_operator_modes = [], cd_venue_targets = [],
      cd_credential_scopes = [], cd_trading_gates = [], cd_autonomy_stages = [],
      cd_mlops_states = [], cd_trading_affecting = False, cd_requires_fee_model = False,
      cd_execution_available = False, cd_notes = ''''\<rparr>"

section \<open>The catalog\<close>

definition dashboard_commands :: "command_definition list" where
  "dashboard_commands =
     [(command_def CT_GET_SYSTEM_STATUS ''Overview dashboard'' ''observe system, mode, venue, and bootstrap status''
         SB_API_GATEWAY CE_READ_ONLY)
         \<lparr>cd_execution_available := True\<rparr>,
      (command_def CT_GET_CONTROL_SURFACE ''Overview dashboard'' ''inspect frontend action to backend command mapping''
         SB_API_GATEWAY CE_READ_ONLY)
         \<lparr>cd_execution_available := True\<rparr>,
      (command_def CT_GET_SYMBOL_UNIVERSE ''Overview dashboard'' ''inspect BTC/ETH executable, derived, and reference symbol policy''
         SB_API_GATEWAY CE_READ_ONLY)
         \<lparr>cd_execution_available := True,
          cd_notes := ''BTCUSDC and ETHUSDC are executable; SYN_ETHBTC is derived; ETHBTC is reference-only.''\<rparr>,
      (command_def CT_GET_EXCHANGE_STATE ''Account-state inspector'' ''inspect deterministic local exchange-state snapshot''
         SB_MARKET_DATA_SERVICE CE_READ_ONLY)
         \<lparr>cd_execution_available := True,
          cd_notes := ''Phase 2 local/mock state only; no exchange connectivity.''\<rparr>,
      (command_def CT_GET_ACCOUNT_STATE ''Account-state inspector'' ''inspect margin mode, position mode, collateral, exposure, and books''
         SB_PORTFOLIO_ENGINE CE_READ_ONLY)
         \<lparr>cd_execution_available := True\<rparr>,
      (command_def CT_GET_SYMBOL_METADATA ''Symbol metadata inspector'' ''inspect symbol filters, tick size, lot size, and min notional''
         SB_MARKET_DATA_SERVICE CE_READ_ONLY)
         \<lparr>cd_execution_available := True\<rparr>,
      (command_def CT_GET_FEE_POLICY ''Fee policy inspector'' ''inspect dynamic fee assumptions, source, freshness, and promotions''
         SB_RISK_ENGINE CE_READ_ONLY)
         \<lparr>cd_execution_available := True\<rparr>,
      (command_def CT_GET_RISK_STATUS ''Overview dashboard'' ''inspect risk state placeholder and fail-closed status''
         SB_RISK_ENGINE CE_READ_ONLY)
         \<lparr>cd_execution_available := True\<rparr>,
      (command_def CT_SEARCH_AUDIT_RECORDS ''Audit viewer'' ''search commands, decisions, approvals, and vetoes''
         SB_AUDIT_SERVICE CE_READ_ONLY)
         \<lparr>cd_execution_available := True\<rparr>,
      (command_def CT_GET_AUDIT_RECORD ''Audit viewer'' ''inspect one audit record''
         SB_AUDIT_SERVICE CE_READ_ONLY)
         \<lparr>cd_execution_available := True\<rparr>]"

definition paper_commands :: "command_definition list" where
  "paper_commands =
     [(command_def CT_CREATE_PAPER_SESSION ''Paper trading'' ''start paper trading session''
         SB_PAPER_EXCHANGE CE_SIMULATED_TRADING)
         \<lparr>cd_operator_modes := [OM_PAPER],
          cd_venue_targets := [VT_INTERNAL_PAPER],
          cd_credential_scopes := [CS_NONE],
          cd_autonomy_stages := [AS_HUMAN_APPROVAL, AS_PAPER_AUTO],
          cd_execution_available := True,
          cd_notes := ''Paper sessions are local-only and do not connect to Binance.''\<rparr>,
      (command_def CT_SUBMIT_PAPER_ORDER ''Paper trading'' ''submit paper order intent''
         SB_PAPER_EXCHANGE CE_SIMULATED_TRADING)
         \<lparr>cd_operator_modes := [OM_PAPER],
          cd_venue_targets := [VT_INTERNAL_PAPER],
          cd_credential_scopes := [CS_NONE],
          cd_autonomy_stages := [AS_HUMAN_APPROVAL, AS_PAPER_AUTO],
          cd_trading_affecting := True,
          cd_requires_fee_model := True,
          cd_execution_available := True,
          cd_notes := ''Paper fills are deterministic local simulation only.''\<rparr>,
      (command_def CT_RESET_PAPER_PORTFOLIO ''Paper trading'' ''reset paper portfolio state''
         SB_PAPER_EXCHANGE CE_SIMULATED_TRADING)
         \<lparr>cd_operator_modes := [OM_PAPER],
          cd_venue_targets := [VT_INTERNAL_PAPER],
          cd_credential_scopes := [CS_NONE],
          cd_execution_available := True,
          cd_notes := ''Resets deterministic local paper state only.''\<rparr>]"

definition testnet_commands :: "command_definition list" where
  "testnet_commands =
     [(command_def CT_CREATE_TESTNET_VALIDATION_SESSION ''Internal testnet validation'' ''start Binance testnet validation lane''
         SB_EXECUTION_ENGINE CE_INTERNAL_TESTNET_TRADING)
         \<lparr>cd_operator_modes := [OM_PAPER],
          cd_venue_targets := [VT_BINANCE_TESTNET],
          cd_credential_scopes := [CS_TRADING],
          cd_autonomy_stages := [AS_TESTNET_AUTO],
          cd_execution_available := True,
          cd_notes := ''Binance testnet is an internal validation lane, not a top-level mode.''\<rparr>,
      (command_def CT_SUBMIT_TESTNET_ORDER ''Internal testnet validation'' ''submit approved Binance testnet order intent''
         SB_EXECUTION_ENGINE CE_INTERNAL_TESTNET_TRADING)
         \<lparr>cd_operator_modes := [OM_PAPER],
          cd_venue_targets := [VT_BINANCE_TESTNET],
          cd_credential_scopes := [CS_TRADING],
          cd_autonomy_stages := [AS_TESTNET_AUTO],
          cd_trading_affecting := True,
          cd_requires_fee_model := True,
          cd_execution_available := True,
          cd_notes := ''Phase 8 validates Binance-shaped payloads only; no submission occurs.''\<rparr>]"

definition live_commands :: "command_definition list" where
  "live_commands =
     [(command_def CT_GET_LIVE_READONLY_ACCOUNT ''LIVE read-only'' ''inspect live balances, positions, and open orders''
         SB_PORTFOLIO_ENGINE CE_LIVE_READ_ONLY)
         \<lparr>cd_operator_modes := [OM_LIVE],
          cd_venue_targets := [VT_BINANCE_LIVE],
          cd_credential_scopes := [CS_READ_ONLY],
          cd_trading_gates := [TG_LOCKED],
          cd_execution_available := True,
          cd_notes := ''LIVE read-only inspection only; no order submission is allowed.''\<rparr>,
      (command_def CT_REQUEST_LIVE_APPROVAL ''Live-trade approval'' ''request live gate review''
         SB_RISK_ENGINE CE_LIVE_TRADING)
         \<lparr>cd_operator_modes := [OM_LIVE],
          cd_venue_targets := [VT_BINANCE_LIVE],
          cd_credential_scopes := [CS_TRADING],
          cd_trading_gates := [TG_APPROVAL_REQUIRED],
          cd_mlops_states := [ML_LIVE_TRADE_CANDIDATE],
          cd_notes := ''Live trading remains disabled by default.''\<rparr>,
      (command_def CT_APPROVE_LIVE_GATE ''Live-trade approval'' ''approve live gate state''
         SB_RISK_ENGINE CE_LIVE_TRADING)
         \<lparr>cd_operator_modes := [OM_LIVE],
          cd_venue_targets := [VT_BINANCE_LIVE],
          cd_credential_scopes := [CS_TRADING],
          cd_trading_gates := [TG_APPROVAL_REQUIRED],
          cd_mlops_states := [ML_LIVE_TRADE_APPROVED],
          cd_notes := ''Approval command is cataloged only in Phase 1.''\<rparr>,
      (command_def CT_APPROVE_LIVE_ORDER_INTENT ''Live-trade approval'' ''approve tiny live order intent''
         SB_RISK_ENGINE CE_LIVE_TRADING)
         \<lparr>cd_operator_modes := [OM_LIVE],
          cd_venue_targets := [VT_BINANCE_LIVE],
          cd_credential_scopes := [CS_TRADING],
          cd_trading_gates := [TG_TINY_LIVE],
          cd_autonomy_stages := [AS_TINY_LIVE_AUTO],
          cd_mlops_states := [ML_LIVE_TRADE_APPROVED],
          cd_trading_affecting := True,
          cd_requires_fee_model := True,
          cd_notes := ''Tiny live trading is out of scope for Phase 1.''\<rparr>,
      (command_def CT_DISABLE_LIVE_TRADING ''Live-trade approval'' ''disable live trading gate''
         SB_RISK_ENGINE CE_PANIC)
         \<lparr>cd_operator_modes := [OM_LIVE],
          cd_notes := ''Cataloged as a future safety command.''\<rparr>]"

definition manual_commands :: "command_definition list" where
  "manual_commands =
     [(command_def CT_CREATE_MANUAL_ORDER_INTENT ''Manual trading'' ''draft manual order intent''
         SB_API_GATEWAY CE_VALIDATION_ONLY)
         \<lparr>cd_trading_affecting := True,
          cd_requires_fee_model := True,
          cd_notes := ''Manual orders must still pass risk, portfolio, and execution checks.''\<rparr>,
      (command_def CT_PREVIEW_ORDER ''Manual trading'' ''preview costs, exposure, and expected edge''
         SB_API_GATEWAY CE_VALIDATION_ONLY)
         \<lparr>cd_requires_fee_model := True,
          cd_execution_available := True,
          cd_notes := ''Preview requires a current fee model before it can be trusted.''\<rparr>,
      (command_def CT_SUBMIT_ORDER_INTENT ''Manual trading'' ''submit validated order intent''
         SB_EXECUTION_ENGINE CE_VALIDATION_ONLY)
         \<lparr>cd_trading_affecting := True,
          cd_requires_fee_model := True,
          cd_notes := ''No exchange submission path exists in Phase 1.''\<rparr>,
      (command_def CT_CANCEL_ORDER_INTENT ''Manual trading'' ''cancel eligible order intent''
         SB_EXECUTION_ENGINE CE_VALIDATION_ONLY)
         \<lparr>cd_trading_affecting := True,
          cd_execution_available := True,
          cd_notes := ''Cancel support requires execution and reconciliation state.''\<rparr>,
      (command_def CT_APPROVE_COMMAND ''Approvals'' ''approve a pending command''
         SB_AUDIT_SERVICE CE_MODEL_GOVERNANCE)
         \<lparr>cd_notes := ''Approval records are cataloged before workflow execution exists.''\<rparr>,
      (command_def CT_REJECT_COMMAND ''Approvals'' ''reject a pending command''
         SB_AUDIT_SERVICE CE_MODEL_GOVERNANCE)
         \<lparr>cd_execution_available := True,
          cd_notes := ''Safe rejection may be recorded without enabling execution.''\<rparr>]"

definition job_commands :: "command_definition list" where
  "job_commands =
     [(command_def CT_CREATE_TRAINING_JOB ''Training'' ''launch training job''
         SB_TRAINING_WORKER CE_BACKGROUND_JOB)
         \<lparr>cd_notes := ''Training worker implementation is later.''\<rparr>,
      (command_def CT_CREATE_EVALUATION_JOB ''Evaluation'' ''launch model evaluation job''
         SB_MODEL_SERVICE CE_BACKGROUND_JOB)
         \<lparr>cd_notes := ''Evaluation worker implementation is later.''\<rparr>,
      (command_def CT_CREATE_BACKTEST_JOB ''Backtesting'' ''launch deterministic backtest''
         SB_BACKTEST_WORKER CE_BACKGROUND_JOB)
         \<lparr>cd_requires_fee_model := True,
          cd_execution_available := True,
          cd_notes := ''Deterministic local fixture backtest only.''\<rparr>]"

definition session_commands :: "command_definition list" where
  "session_commands =
     [(command_def CT_CREATE_STRATEGY_SESSION ''Strategy sessions'' ''start strategy session''
         SB_STRATEGY_ENGINE CE_STRATEGY_SESSION)
         \<lparr>cd_operator_modes := [OM_PAPER],
          cd_requires_fee_model := True,
          cd_execution_available := True,
          cd_notes := ''No strategy session may run without current expected_edge_after_costs.''\<rparr>,
      (command_def CT_PAUSE_STRATEGY_SESSION ''Strategy sessions'' ''pause strategy session''
         SB_STRATEGY_ENGINE CE_STRATEGY_SESSION)
         \<lparr>cd_execution_available := True,
          cd_notes := ''Paper-only strategy session control.''\<rparr>,
      (command_def CT_STOP_STRATEGY_SESSION ''Strategy sessions'' ''stop strategy session''
         SB_STRATEGY_ENGINE CE_STRATEGY_SESSION)
         \<lparr>cd_execution_available := True,
          cd_notes := ''Paper-only strategy session control.''\<rparr>,
      (command_def CT_GET_STRATEGY_RECOMMENDATIONS ''Strategy sessions'' ''inspect strategy recommendations''
         SB_STRATEGY_ENGINE CE_READ_ONLY)
         \<lparr>cd_execution_available := True,
          cd_notes := ''Read-only placeholder; no strategy logic exists.''\<rparr>]"

definition model_commands :: "command_definition list" where
  "model_commands =
     [(command_def CT_REQUEST_MODEL_DEPLOYMENT ''Model registry'' ''request model deployment''
         SB_MODEL_SERVICE CE_MODEL_GOVERNANCE)
         \<lparr>cd_mlops_states := [ML_PAPER_APPROVED],
          cd_notes := ''Model deployment never grants live-trading permission.''\<rparr>,
      (command_def CT_APPROVE_MODEL_STAGE ''Model registry'' ''approve model stage''
         SB_MODEL_SERVICE CE_MODEL_GOVERNANCE)
         \<lparr>cd_notes := ''MLOps approval cannot bypass risk or live gates.''\<rparr>,
      (command_def CT_DISABLE_MODEL_VERSION ''Model registry'' ''disable model version''
         SB_MODEL_SERVICE CE_MODEL_GOVERNANCE)
         \<lparr>cd_notes := ''Disable path is cataloged before model registry exists.''\<rparr>,
      (command_def CT_GET_MODEL_REGISTRY ''Model registry'' ''inspect registered model metadata and approval states''
         SB_MODEL_SERVICE CE_READ_ONLY)
         \<lparr>cd_execution_available := True,
          cd_notes := ''Registry metadata is local and cannot grant execution permission.''\<rparr>,
      (command_def CT_GET_FEATURE_REGISTRY ''Model registry'' ''inspect feature versions used by model decisions''
         SB_MODEL_SERVICE CE_READ_ONLY)
         \<lparr>cd_execution_available := True,
          cd_notes := ''Feature versioning supports transparent model decision records.''\<rparr>,
      (command_def CT_GET_MODEL_EVALUATIONS ''Evaluation'' ''inspect model evaluation summaries''
         SB_MODEL_SERVICE CE_READ_ONLY)
         \<lparr>cd_execution_available := True,
          cd_notes := ''Evaluation results do not bypass risk or live gates.''\<rparr>,
      (command_def CT_GET_MODEL_DECISION_RECORD ''Model decision inspector'' ''inspect model decision record''
         SB_MODEL_SERVICE CE_READ_ONLY)
         \<lparr>cd_execution_available := True,
          cd_notes := ''Every model recommendation needs this record before order-intent review.''\<rparr>,
      (command_def CT_PREVIEW_MODEL_RECOMMENDATION ''Model decision inspector'' ''preview whether a model recommendation has a complete decision record''
         SB_MODEL_SERVICE CE_MODEL_GOVERNANCE)
         \<lparr>cd_requires_fee_model := True,
          cd_execution_available := True,
          cd_notes := ''Accepted preview is not execution approval.''\<rparr>]"

definition panic_commands :: "command_definition list" where
  "panic_commands =
     [(command_def CT_ACTIVATE_PANIC_HALT ''Panic controls'' ''halt new order intent''
         SB_RISK_ENGINE CE_PANIC)
         \<lparr>cd_notes := ''Panic controls are visible but unavailable until backend support exists.''\<rparr>,
      (command_def CT_PANIC_CANCEL_OPEN_ORDERS ''Panic controls'' ''panic cancel eligible open orders''
         SB_EXECUTION_ENGINE CE_PANIC)
         \<lparr>cd_trading_affecting := True,
          cd_notes := ''No order state or exchange connector exists in Phase 1.''\<rparr>,
      (command_def CT_PANIC_FLATTEN_POSITIONS ''Panic controls'' ''panic flatten eligible positions''
         SB_EXECUTION_ENGINE CE_PANIC)
         \<lparr>cd_trading_affecting := True,
          cd_notes := ''Flatten behavior requires explicit live gates and future runbooks.''\<rparr>]"

definition all_command_definitions :: "command_definition list" where
  "all_command_definitions =
     dashboard_commands @ paper_commands @ testnet_commands @ live_commands @ manual_commands
     @ job_commands @ session_commands @ model_commands @ panic_commands"

text \<open>\<open>_COMMAND_BY_TYPE[parsed]\<close>: the dict keeps the last entry of a type.\<close>

definition command_definition_of :: "command_type \<Rightarrow> command_definition res" where
  "command_definition_of ct =
     (case List.find (\<lambda>d. cd_command_type d = ct) (rev all_command_definitions) of
        Some d \<Rightarrow> Inr d
      | None \<Rightarrow> Inl (Raise KeyError (ct_value ct)))"

section \<open>Validation of the catalog\<close>

definition forbidden_direct_owners :: "string list" where
  "forbidden_direct_owners = [''exchange_connector'', ''binance_connector'']"

definition required_action_keywords :: "string list" where
  "required_action_keywords =
     [''observe'', ''paper'', ''testnet'', ''training'', ''evaluation'', ''backtest'', ''strategy'',
      ''model deployment'', ''manual order'', ''approve'', ''reject'', ''panic cancel'',
      ''panic flatten'', ''audit'']"

fun is_substring :: "string \<Rightarrow> string \<Rightarrow> bool" where
  "is_substring k [] = (k = [])"
| "is_substring k (c # cs) = (take (length k) (c # cs) = k \<or> is_substring k cs)"

definition definition_errors :: "command_definition \<Rightarrow> string list" where
  "definition_errors d =
     (if sb_value (cd_owner d) \<in> set forbidden_direct_owners
      then [ct_value (cd_command_type d) @ '' directly targets '' @ sb_value (cd_owner d)] else [])
   @ (if cd_effect d = CE_LIVE_TRADING \<and> cd_execution_available d
      then [ct_value (cd_command_type d) @ '' enables live trading too early''] else [])"

definition catalog_validation_errors :: "command_definition list \<Rightarrow> string list" where
  "catalog_validation_errors ds =
     (let actions = join '' '' (map (\<lambda>d. lower (cd_screen d @ '' '' @ cd_operator_action d)) ds)
      in concat (map (\<lambda>k. if is_substring k actions then []
                          else [''missing frontend action mapping for '' @ k])
                  required_action_keywords)
         @ concat (map definition_errors ds))"

definition control_surface_payload :: json where
  "control_surface_payload = JObj
     [(''primary_operator_modes'', jstrs [om_value OM_PAPER, om_value OM_LIVE]),
      (''internal_lanes'', JObj
         [(''paper'', JStr (vt_value VT_INTERNAL_PAPER)),
          (''testnet'', JStr (vt_value VT_BINANCE_TESTNET)),
          (''live'', JStr (vt_value VT_BINANCE_LIVE))]),
      (''safe_default'', JObj
         [(''operator_mode'', JStr (om_value OM_PAPER)),
          (''venue_target'', JStr (vt_value VT_INTERNAL_PAPER)),
          (''credential_scope'', JStr (cs_value CS_NONE)),
          (''trading_gate'', JStr (tg_value TG_LOCKED)),
          (''autonomy_stage'', JStr (as_value AS_OBSERVE_ONLY)),
          (''mlops_approval_state'', JStr (ml_value ML_RESEARCH_CANDIDATE))]),
      (''commands'', JArr (map command_to_public_dict all_command_definitions)),
      (''catalog_errors'', jstrs (catalog_validation_errors all_command_definitions))]"

section \<open>Lemmas\<close>

lemma catalog_types: "map cd_command_type all_command_definitions = ct_members"
  by code_simp

lemma command_definition_of_Inr:
  "command_definition_of ct = Inr d \<Longrightarrow> d \<in> set all_command_definitions \<and> cd_command_type d = ct"
  by (auto simp: command_definition_of_def find_Some_iff split: option.splits)
    (metis length_rev nth_mem set_rev)

lemma command_definition_of_total: "\<exists>d. command_definition_of ct = Inr d"
proof -
  have "ct \<in> set (map cd_command_type all_command_definitions)"
    by (simp only: catalog_types ct.all_members)
  then have "List.find (\<lambda>d. cd_command_type d = ct) (rev all_command_definitions) \<noteq> None"
    by (auto simp: find_None_iff)
  then show ?thesis by (auto simp: command_definition_of_def)
qed

lemma catalog_entries_clean: "d \<in> set all_command_definitions \<Longrightarrow> definition_errors d = []"
proof -
  have "list_all (\<lambda>d. definition_errors d = []) all_command_definitions" by code_simp
  then show "d \<in> set all_command_definitions \<Longrightarrow> definition_errors d = []"
    by (simp add: list_all_iff)
qed

lemma definition_errors_Nil:
  "definition_errors d = [] \<longleftrightarrow>
   sb_value (cd_owner d) \<notin> set forbidden_direct_owners
   \<and> (cd_effect d = CE_LIVE_TRADING \<longrightarrow> \<not> cd_execution_available d)"
  by (simp add: definition_errors_def)

lemmas catalog_live_unavailable =
  catalog_entries_clean [THEN definition_errors_Nil [THEN iffD1], THEN conjunct2]

end
