(* ===== verification/Exchange_State.thy ===== *)
theory Exchange_State
  imports Symbol_Universe
begin

text \<open>
  \<open>libs/schemas/exchange_state.py\<close>: the account snapshot (collateral, hedge books, open orders,
  symbol metadata, fee policies) with the freshness and consistency validators of each part, the
  public payloads, and the deterministic default snapshot. A validator that compares an aware with
  a naive time, or a NaN, raises; the model keeps that.
\<close>

section \<open>Enumerations\<close>

datatype margin_mode = MM_ISOLATED | MM_CROSS | MM_PORTFOLIO
datatype position_mode = PM_ONE_WAY | PM_HEDGE
datatype book_side = BS_LONG | BS_SHORT
datatype order_side = SD_BUY | SD_SELL
datatype order_status = ST_NEW | ST_PARTIALLY_FILLED | ST_FILLED | ST_CANCELED | ST_EXPIRED
datatype time_in_force = TIF_GTC | TIF_GTX | TIF_IOC | TIF_FOK | TIF_GTD

fun mm_value :: "margin_mode \<Rightarrow> string" where
  "mm_value MM_ISOLATED = ''isolated''"
| "mm_value MM_CROSS = ''cross''"
| "mm_value MM_PORTFOLIO = ''portfolio_margin''"

fun pm_value :: "position_mode \<Rightarrow> string" where
  "pm_value PM_ONE_WAY = ''one_way''"
| "pm_value PM_HEDGE = ''hedge''"

fun bs_value :: "book_side \<Rightarrow> string" where
  "bs_value BS_LONG = ''LONG''"
| "bs_value BS_SHORT = ''SHORT''"

fun sd_value :: "order_side \<Rightarrow> string" where
  "sd_value SD_BUY = ''BUY''"
| "sd_value SD_SELL = ''SELL''"

fun st_value :: "order_status \<Rightarrow> string" where
  "st_value ST_NEW = ''NEW''"
| "st_value ST_PARTIALLY_FILLED = ''PARTIALLY_FILLED''"
| "st_value ST_FILLED = ''FILLED''"
| "st_value ST_CANCELED = ''CANCELED''"
| "st_value ST_EXPIRED = ''EXPIRED''"

fun tif_value :: "time_in_force \<Rightarrow> string" where
  "tif_value TIF_GTC = ''GTC''"
| "tif_value TIF_GTX = ''GTX''"
| "tif_value TIF_IOC = ''IOC''"
| "tif_value TIF_FOK = ''FOK''"
| "tif_value TIF_GTD = ''GTD''"

definition bs_members :: "book_side list" where "bs_members = [BS_LONG, BS_SHORT]"
definition sd_members :: "order_side list" where "sd_members = [SD_BUY, SD_SELL]"
definition tif_members :: "time_in_force list" where
  "tif_members = [TIF_GTC, TIF_GTX, TIF_IOC, TIF_FOK, TIF_GTD]"

section \<open>Freshness\<close>

record freshness =
  fr_source :: string
  fr_source_timestamp :: datetime
  fr_received_timestamp :: datetime
  fr_max_age_seconds :: int

text \<open>The age in microseconds, never negative, and the staleness test.\<close>

definition age_micros :: "freshness \<Rightarrow> datetime \<Rightarrow> int res" where
  "age_micros f reference =
     bind_res (dt_minus reference (fr_received_timestamp f)) (\<lambda>d. Inr (max 0 d))"

definition is_stale :: "freshness \<Rightarrow> datetime \<Rightarrow> bool res" where
  "is_stale f reference =
     bind_res (age_micros f reference) (\<lambda>a. Inr (a > fr_max_age_seconds f * micros_per_second))"

definition freshness_errors :: "freshness \<Rightarrow> datetime \<Rightarrow> string \<Rightarrow> string list res" where
  "freshness_errors f reference label = collect
     [reason_when (\<not> is_aware (fr_source_timestamp f))
        (label @ '' source_timestamp must be timezone-aware''),
      reason_when (\<not> is_aware (fr_received_timestamp f))
        (label @ '' received_timestamp must be timezone-aware''),
      reason_if (dt_gt (fr_source_timestamp f) (fr_received_timestamp f))
        (label @ '' source_timestamp cannot be after received_timestamp''),
      reason_if (is_stale f reference) (label @ '' is stale'')]"

definition freshness_to_public_dict :: "freshness \<Rightarrow> datetime \<Rightarrow> json res" where
  "freshness_to_public_dict f reference =
     bind_res (age_micros f reference) (\<lambda>age.
     bind_res (is_stale f reference) (\<lambda>stale.
     Inr (JObj
       [(''source'', JStr (fr_source f)),
        (''source_timestamp'', JTime (fr_source_timestamp f)),
        (''received_timestamp'', JTime (fr_received_timestamp f)),
        (''max_age_seconds'', JInt (fr_max_age_seconds f)),
        (''age_seconds'', JSeconds age),
        (''is_stale'', JBool stale)])))"

section \<open>Collateral, books and orders of the account\<close>

record collateral_asset =
  ca_asset :: string
  ca_wallet_balance :: decimal
  ca_available_balance :: decimal
  ca_unrealized_pnl :: decimal

definition collateral_to_public_dict :: "collateral_asset \<Rightarrow> json" where
  "collateral_to_public_dict c = JObj
     [(''asset'', JStr (ca_asset c)),
      (''wallet_balance'', JStr (format_f (ca_wallet_balance c))),
      (''available_balance'', JStr (format_f (ca_available_balance c))),
      (''unrealized_pnl'', JStr (format_f (ca_unrealized_pnl c)))]"

record position_book =
  pb_symbol :: string
  pb_side :: book_side
  pb_quantity :: decimal
  pb_entry_price :: decimal
  pb_mark_price :: decimal
  pb_notional :: decimal
  pb_unrealized_pnl :: decimal

definition book_to_public_dict :: "position_book \<Rightarrow> json" where
  "book_to_public_dict b = JObj
     [(''symbol'', JStr (pb_symbol b)),
      (''side'', JStr (bs_value (pb_side b))),
      (''quantity'', JStr (format_f (pb_quantity b))),
      (''entry_price'', JStr (format_f (pb_entry_price b))),
      (''mark_price'', JStr (format_f (pb_mark_price b))),
      (''notional'', JStr (format_f (pb_notional b))),
      (''unrealized_pnl'', JStr (format_f (pb_unrealized_pnl b)))]"

record open_order =
  oo_order_id :: string
  oo_symbol :: string
  oo_side :: order_side
  oo_book_side :: "book_side option"
  oo_quantity :: decimal
  oo_price :: decimal
  oo_status :: order_status
  oo_reduce_only :: bool
  oo_post_only :: bool

definition open_order_to_public_dict :: "open_order \<Rightarrow> json" where
  "open_order_to_public_dict r = JObj
     [(''order_id'', JStr (oo_order_id r)),
      (''symbol'', JStr (oo_symbol r)),
      (''side'', JStr (sd_value (oo_side r))),
      (''book_side'', jopt (\<lambda>b. JStr (bs_value b)) (oo_book_side r)),
      (''quantity'', JStr (format_f (oo_quantity r))),
      (''price'', JStr (format_f (oo_price r))),
      (''status'', JStr (st_value (oo_status r))),
      (''reduce_only'', JBool (oo_reduce_only r)),
      (''post_only'', JBool (oo_post_only r))]"

section \<open>Symbol filters and metadata\<close>

record symbol_filters =
  sf_tick_size :: decimal
  sf_lot_size :: decimal
  sf_min_quantity :: decimal
  sf_max_quantity :: decimal
  sf_min_notional :: decimal
  sf_order_types :: "string list"
  sf_time_in_force :: "time_in_force list"

definition filters_errors :: "symbol_filters \<Rightarrow> string \<Rightarrow> string list res" where
  "filters_errors f symbol = collect
     [reason_if (dle (sf_tick_size f) d0) (symbol @ '' tick_size must be positive''),
      reason_if (dle (sf_lot_size f) d0) (symbol @ '' lot_size must be positive''),
      reason_if (dle (sf_min_quantity f) d0) (symbol @ '' min_quantity must be positive''),
      reason_if (dlt (sf_max_quantity f) (sf_min_quantity f))
        (symbol @ '' max_quantity cannot be below min_quantity''),
      reason_if (dle (sf_min_notional f) d0) (symbol @ '' min_notional must be positive''),
      reason_when (''LIMIT'' \<notin> set (sf_order_types f))
        (symbol @ '' must support LIMIT orders for maker-first policy''),
      reason_when (TIF_GTX \<notin> set (sf_time_in_force f))
        (symbol @ '' must support GTX for post-only research'')]"

definition filters_to_public_dict :: "symbol_filters \<Rightarrow> json" where
  "filters_to_public_dict f = JObj
     [(''tick_size'', JStr (format_f (sf_tick_size f))),
      (''lot_size'', JStr (format_f (sf_lot_size f))),
      (''min_quantity'', JStr (format_f (sf_min_quantity f))),
      (''max_quantity'', JStr (format_f (sf_max_quantity f))),
      (''min_notional'', JStr (format_f (sf_min_notional f))),
      (''supported_order_types'', jstrs (sf_order_types f)),
      (''supported_time_in_force'', jstrs (map tif_value (sf_time_in_force f)))]"

record symbol_metadata =
  sm_symbol :: string
  sm_role :: instrument_role
  sm_venue_symbol :: "string option"
  sm_contract_status :: string
  sm_quote_asset :: "string option"
  sm_margin_asset :: "string option"
  sm_filters :: "symbol_filters option"
  sm_freshness :: freshness
  sm_metadata_source :: string

definition sm_is_executable :: "symbol_metadata \<Rightarrow> bool" where
  "sm_is_executable m \<longleftrightarrow> sm_role m = IR_EXECUTABLE"

definition metadata_errors :: "symbol_metadata \<Rightarrow> datetime \<Rightarrow> string list res" where
  "metadata_errors m reference =
     (let s = sm_symbol m
      in if sm_is_executable m then collect
           [freshness_errors (sm_freshness m) reference s,
            reason_when (sm_contract_status m \<noteq> ''TRADING'') (s @ '' contract_status must be TRADING''),
            reason_when (sm_quote_asset m \<noteq> Some ''USDC'')
              (s @ '' executable instruments must quote USDC''),
            reason_when (sm_margin_asset m \<noteq> Some ''USDC'')
              (s @ '' executable instruments must margin in USDC''),
            (case sm_filters m of
               None \<Rightarrow> Inr [s @ '' executable instruments require filters'']
             | Some f \<Rightarrow> filters_errors f s)]
         else collect
           [freshness_errors (sm_freshness m) reference s,
            reason_when (sm_filters m \<noteq> None)
              (s @ '' non-executable instruments must not carry executable filters'')])"

definition metadata_to_public_dict :: "symbol_metadata \<Rightarrow> datetime \<Rightarrow> json res" where
  "metadata_to_public_dict m reference =
     bind_res (freshness_to_public_dict (sm_freshness m) reference) (\<lambda>fresh.
     Inr (JObj
       [(''symbol'', JStr (sm_symbol m)),
        (''role'', JStr (ir_value (sm_role m))),
        (''venue_symbol'', jopt JStr (sm_venue_symbol m)),
        (''contract_status'', JStr (sm_contract_status m)),
        (''quote_asset'', jopt JStr (sm_quote_asset m)),
        (''margin_asset'', jopt JStr (sm_margin_asset m)),
        (''metadata_source'', JStr (sm_metadata_source m)),
        (''is_executable'', JBool (sm_is_executable m)),
        (''filters'', jopt filters_to_public_dict (sm_filters m)),
        (''freshness'', fresh)]))"

section \<open>Fee policies\<close>

record fee_promotion =
  fp_source :: string
  fp_effective_from :: datetime
  fp_effective_until :: datetime
  fp_review_at :: datetime
  fp_approval_reference :: string
  fp_fallback_maker_fee_rate :: decimal

definition promotion_errors :: "fee_promotion \<Rightarrow> datetime \<Rightarrow> string \<Rightarrow> string list res" where
  "promotion_errors p reference symbol = collect
     [reason_if (dt_le (fp_effective_until p) (fp_effective_from p))
        (symbol @ '' fee promotion must have an end time''),
      reason_if (dt_gt (fp_review_at p) (fp_effective_until p))
        (symbol @ '' fee promotion review_at must not exceed effective_until''),
      reason_when (fp_approval_reference p = '''')
        (symbol @ '' fee promotion requires approval_reference''),
      reason_if (dlt (fp_fallback_maker_fee_rate p) d0)
        (symbol @ '' fallback maker fee cannot be negative''),
      reason_if (dt_gt reference (fp_effective_until p))
        (symbol @ '' fee promotion is expired'')]"

definition promotion_to_public_dict :: "fee_promotion \<Rightarrow> json" where
  "promotion_to_public_dict p = JObj
     [(''source'', JStr (fp_source p)),
      (''effective_from'', JTime (fp_effective_from p)),
      (''effective_until'', JTime (fp_effective_until p)),
      (''review_at'', JTime (fp_review_at p)),
      (''approval_reference'', JStr (fp_approval_reference p)),
      (''fallback_maker_fee_rate'', JStr (format_f (fp_fallback_maker_fee_rate p)))]"

record fee_policy =
  fe_symbol :: string
  fe_maker_fee_rate :: decimal
  fe_taker_fee_rate :: decimal
  fe_source :: string
  fe_freshness :: freshness
  fe_promotion :: "fee_promotion option"

definition fee_policy_errors :: "fee_policy \<Rightarrow> datetime \<Rightarrow> string list res" where
  "fee_policy_errors p reference =
     (let s = fe_symbol p
      in collect
        [freshness_errors (fe_freshness p) reference (s @ '' fee policy''),
         reason_if (dlt (fe_maker_fee_rate p) d0) (s @ '' maker fee cannot be negative''),
         reason_if (dlt (fe_taker_fee_rate p) d0) (s @ '' taker fee cannot be negative''),
         reason_if
           (bind_res (deq (fe_maker_fee_rate p) d0) (\<lambda>z. Inr (z \<and> fe_promotion p = None)))
           (s @ '' zero maker fee requires time-bounded promotion metadata''),
         (case fe_promotion p of
            None \<Rightarrow> Inr []
          | Some promo \<Rightarrow> promotion_errors promo reference s)])"

definition fee_policy_to_public_dict :: "fee_policy \<Rightarrow> datetime \<Rightarrow> json res" where
  "fee_policy_to_public_dict p reference =
     bind_res (freshness_to_public_dict (fe_freshness p) reference) (\<lambda>fresh.
     Inr (JObj
       [(''symbol'', JStr (fe_symbol p)),
        (''maker_fee_rate'', JStr (format_f (fe_maker_fee_rate p))),
        (''taker_fee_rate'', JStr (format_f (fe_taker_fee_rate p))),
        (''source'', JStr (fe_source p)),
        (''promotion'', jopt promotion_to_public_dict (fe_promotion p)),
        (''freshness'', fresh)]))"

section \<open>The account\<close>

record account_state =
  ac_account_id :: string
  ac_venue_target :: string
  ac_margin_mode :: margin_mode
  ac_position_mode :: position_mode
  ac_portfolio_margin_enabled :: bool
  ac_collateral_assets :: "collateral_asset list"
  ac_maintenance_margin :: decimal
  ac_liquidation_distance_ratio :: decimal
  ac_unrealized_pnl :: decimal
  ac_funding_exposure :: decimal
  ac_open_orders :: "open_order list"
  ac_position_books :: "position_book list"
  ac_symbol_metadata :: "symbol_metadata list"
  ac_fee_policies :: "fee_policy list"
  ac_freshness :: freshness

definition book_keys :: "position_book list \<Rightarrow> (string \<times> book_side) list" where
  "book_keys bs = map (\<lambda>b. (pb_symbol b, pb_side b)) bs"

text \<open>
  The hedge check walks a Python set of symbols; the model walks the symbols in their order of
  first occurrence, so the two agree on which messages are given, not on their order.
\<close>

definition hedge_errors :: "account_state \<Rightarrow> string list" where
  "hedge_errors a =
     (if ac_position_mode a = PM_HEDGE then
        let executable = remdups (map sm_symbol (filter sm_is_executable (ac_symbol_metadata a)));
            books = set (book_keys (ac_position_books a))
        in concat (map (\<lambda>s.
             (if (s, BS_LONG) \<notin> books then [s @ '' missing hedge LONG book''] else [])
             @ (if (s, BS_SHORT) \<notin> books then [s @ '' missing hedge SHORT book''] else []))
             executable)
      else [])"

definition account_errors :: "account_state \<Rightarrow> datetime \<Rightarrow> string list res" where
  "account_errors a reference = collect
     ([freshness_errors (ac_freshness a) reference ''account state'',
       reason_when (ac_portfolio_margin_enabled a)
         ''Portfolio Margin is research-only in Phase 2'',
       reason_if (dlt (ac_maintenance_margin a) d0) ''maintenance_margin cannot be negative'',
       reason_if (dlt (ac_liquidation_distance_ratio a) d0)
         ''liquidation_distance_ratio cannot be negative'']
      @ map (\<lambda>m. metadata_errors m reference) (ac_symbol_metadata a)
      @ map (\<lambda>p. fee_policy_errors p reference) (ac_fee_policies a)
      @ [Inr (hedge_errors a)])"

definition account_to_public_dict :: "account_state \<Rightarrow> datetime \<Rightarrow> json res" where
  "account_to_public_dict a reference =
     bind_res (account_errors a reference) (\<lambda>errors.
     bind_res (mapM_res (\<lambda>m. metadata_to_public_dict m reference) (ac_symbol_metadata a)) (\<lambda>metas.
     bind_res (mapM_res (\<lambda>p. fee_policy_to_public_dict p reference) (ac_fee_policies a)) (\<lambda>fees.
     bind_res (freshness_to_public_dict (ac_freshness a) reference) (\<lambda>fresh.
     Inr (JObj
       [(''account_id'', JStr (ac_account_id a)),
        (''venue_target'', JStr (ac_venue_target a)),
        (''margin_mode'', JStr (mm_value (ac_margin_mode a))),
        (''position_mode'', JStr (pm_value (ac_position_mode a))),
        (''portfolio_margin_enabled'', JBool (ac_portfolio_margin_enabled a)),
        (''collateral_assets'', JArr (map collateral_to_public_dict (ac_collateral_assets a))),
        (''maintenance_margin'', JStr (format_f (ac_maintenance_margin a))),
        (''liquidation_distance_ratio'', JStr (format_f (ac_liquidation_distance_ratio a))),
        (''unrealized_pnl'', JStr (format_f (ac_unrealized_pnl a))),
        (''funding_exposure'', JStr (format_f (ac_funding_exposure a))),
        (''open_orders'', JArr (map open_order_to_public_dict (ac_open_orders a))),
        (''position_books'', JArr (map book_to_public_dict (ac_position_books a))),
        (''symbol_metadata'', JArr metas),
        (''fee_policies'', JArr fees),
        (''freshness'', fresh),
        (''validation_errors'', jstrs errors),
        (''is_valid'', JBool (errors = []))])))))"

section \<open>The deterministic default snapshot\<close>

definition phase2_source :: string where "phase2_source = ''local_mock_phase2''"

definition default_max_age_seconds :: int where "default_max_age_seconds = 300"

definition fresh_at :: "string \<Rightarrow> datetime \<Rightarrow> freshness" where
  "fresh_at source t =
     \<lparr>fr_source = source, fr_source_timestamp = t, fr_received_timestamp = t,
      fr_max_age_seconds = default_max_age_seconds\<rparr>"

definition btc_filters :: symbol_filters where
  "btc_filters =
     \<lparr>sf_tick_size = Dec 1 (- 1), sf_lot_size = Dec 1 (- 3), sf_min_quantity = Dec 1 (- 3),
      sf_max_quantity = Dec 1000 0, sf_min_notional = Dec 50 0, sf_order_types = [''LIMIT''],
      sf_time_in_force = [TIF_GTC, TIF_GTX]\<rparr>"

definition eth_filters :: symbol_filters where
  "eth_filters =
     \<lparr>sf_tick_size = Dec 1 (- 2), sf_lot_size = Dec 1 (- 3), sf_min_quantity = Dec 1 (- 3),
      sf_max_quantity = Dec 10000 0, sf_min_notional = Dec 20 0, sf_order_types = [''LIMIT''],
      sf_time_in_force = [TIF_GTC, TIF_GTX]\<rparr>"

definition default_filters :: "string \<Rightarrow> symbol_filters res" where
  "default_filters symbol =
     (if symbol = ''BTCUSDC'' then Inr btc_filters
      else if symbol = ''ETHUSDC'' then Inr eth_filters
      else Inl (Raise ValueError (''no Phase 2 executable filters for '' @ symbol)))"

definition default_metadata_of :: "datetime \<Rightarrow> instrument_definition \<Rightarrow> symbol_metadata res" where
  "default_metadata_of now i =
     (let executable = (ins_role i = IR_EXECUTABLE)
      in bind_res (if executable then map_res Some (default_filters (ins_symbol i)) else Inr None)
        (\<lambda>filters. Inr
           \<lparr>sm_symbol = ins_symbol i, sm_role = ins_role i, sm_venue_symbol = ins_venue_symbol i,
            sm_contract_status = (if executable then ''TRADING'' else ''NOT_EXECUTABLE''),
            sm_quote_asset = (if executable then Some ''USDC'' else None),
            sm_margin_asset = (if executable then Some ''USDC'' else None),
            sm_filters = filters, sm_freshness = fresh_at phase2_source now,
            sm_metadata_source = ''local_mock_not_exchange_truth''\<rparr>))"

definition default_symbol_metadata :: "datetime \<Rightarrow> symbol_metadata list res" where
  "default_symbol_metadata now = mapM_res (default_metadata_of now) symbol_universe"

definition default_fee_policy :: "datetime \<Rightarrow> string \<Rightarrow> fee_policy" where
  "default_fee_policy now symbol =
     \<lparr>fe_symbol = symbol, fe_maker_fee_rate = Dec 100 (- 6), fe_taker_fee_rate = Dec 400 (- 6),
      fe_source = ''local_configurable_phase2_assumption'',
      fe_freshness = fresh_at phase2_source now, fe_promotion = None\<rparr>"

definition default_fee_policies :: "datetime \<Rightarrow> fee_policy list" where
  "default_fee_policies now =
     [default_fee_policy now ''BTCUSDC'', default_fee_policy now ''ETHUSDC'']"

definition empty_book :: "string \<Rightarrow> book_side \<Rightarrow> position_book" where
  "empty_book symbol side =
     \<lparr>pb_symbol = symbol, pb_side = side, pb_quantity = d0, pb_entry_price = d0,
      pb_mark_price = d0, pb_notional = d0, pb_unrealized_pnl = d0\<rparr>"

definition default_position_books :: "position_book list" where
  "default_position_books =
     concat (map (\<lambda>symbol. map (empty_book symbol) [BS_LONG, BS_SHORT]) [''BTCUSDC'', ''ETHUSDC''])"

definition default_account_state :: "datetime \<Rightarrow> account_state res" where
  "default_account_state now =
     bind_res (default_symbol_metadata now) (\<lambda>metadata. Inr
       \<lparr>ac_account_id = ''local-paper-account'', ac_venue_target = ''internal_paper'',
        ac_margin_mode = MM_CROSS, ac_position_mode = PM_HEDGE,
        ac_portfolio_margin_enabled = False,
        ac_collateral_assets =
          [\<lparr>ca_asset = ''USDC'', ca_wallet_balance = Dec 100000 0,
            ca_available_balance = Dec 100000 0, ca_unrealized_pnl = d0\<rparr>],
        ac_maintenance_margin = d0, ac_liquidation_distance_ratio = d1, ac_unrealized_pnl = d0,
        ac_funding_exposure = d0, ac_open_orders = [],
        ac_position_books = default_position_books, ac_symbol_metadata = metadata,
        ac_fee_policies = default_fee_policies now, ac_freshness = fresh_at phase2_source now\<rparr>)"

definition stale_freshness :: "datetime \<Rightarrow> int \<Rightarrow> freshness" where
  "stale_freshness reference seconds_old =
     fresh_at phase2_source (dt_shift reference (- seconds_old * micros_per_second))"

section \<open>What the validators accept\<close>

definition freshness_ok :: "freshness \<Rightarrow> datetime \<Rightarrow> bool" where
  "freshness_ok f reference \<longleftrightarrow>
     is_aware reference \<and> is_aware (fr_source_timestamp f) \<and> is_aware (fr_received_timestamp f)
     \<and> micros (fr_source_timestamp f) \<le> micros (fr_received_timestamp f)
     \<and> max 0 (micros reference - micros (fr_received_timestamp f))
         \<le> fr_max_age_seconds f * micros_per_second"

lemma is_stale_Inr:
  "is_stale f reference = Inr b \<longleftrightarrow>
     is_aware reference = is_aware (fr_received_timestamp f)
     \<and> b = (max 0 (micros reference - micros (fr_received_timestamp f))
            > fr_max_age_seconds f * micros_per_second)"
  by (auto simp: is_stale_def age_micros_def res_simps)

lemma freshness_errors_Nil [res_simps]:
  "freshness_errors f reference label = Inr [] \<longleftrightarrow> freshness_ok f reference"
  by (auto simp: freshness_errors_def freshness_ok_def res_simps is_stale_Inr)

lemma freshness_errors_stale:
  assumes "is_aware reference" "is_aware (fr_source_timestamp f)" "is_aware (fr_received_timestamp f)"
    and "max 0 (micros reference - micros (fr_received_timestamp f))
           > fr_max_age_seconds f * micros_per_second"
  shows "\<exists>rs. freshness_errors f reference label = Inr rs \<and> label @ '' is stale'' \<in> set rs"
proof -
  have "is_stale f reference = Inr True" using assms by (simp add: is_stale_Inr)
  moreover have "\<exists>b. dt_gt (fr_source_timestamp f) (fr_received_timestamp f) = Inr b"
    using assms by (simp add: dt_gt_Inr)
  ultimately show ?thesis
    by (auto simp: freshness_errors_def reason_if_def reason_when_def)
qed

lemma filters_errors_Nil [res_simps]:
  "filters_errors f s = Inr [] \<longleftrightarrow>
     dle (sf_tick_size f) d0 = Inr False \<and> dle (sf_lot_size f) d0 = Inr False
     \<and> dle (sf_min_quantity f) d0 = Inr False \<and> dlt (sf_max_quantity f) (sf_min_quantity f) = Inr False
     \<and> dle (sf_min_notional f) d0 = Inr False \<and> ''LIMIT'' \<in> set (sf_order_types f)
     \<and> TIF_GTX \<in> set (sf_time_in_force f)"
  by (auto simp: filters_errors_def res_simps)

definition metadata_ok :: "symbol_metadata \<Rightarrow> datetime \<Rightarrow> bool" where
  "metadata_ok m reference \<longleftrightarrow>
     freshness_ok (sm_freshness m) reference
     \<and> (if sm_is_executable m
        then sm_contract_status m = ''TRADING'' \<and> sm_quote_asset m = Some ''USDC''
             \<and> sm_margin_asset m = Some ''USDC''
             \<and> (\<exists>f. sm_filters m = Some f \<and> filters_errors f (sm_symbol m) = Inr [])
        else sm_filters m = None)"

lemma metadata_errors_Nil [res_simps]:
  "metadata_errors m reference = Inr [] \<longleftrightarrow> metadata_ok m reference"
proof (cases "sm_is_executable m")
  case True
  then show ?thesis
    by (cases "sm_filters m") (simp_all add: metadata_errors_def metadata_ok_def Let_def res_simps)
next
  case False
  then show ?thesis by (simp add: metadata_errors_def metadata_ok_def Let_def res_simps)
qed

definition fee_policy_ok :: "fee_policy \<Rightarrow> datetime \<Rightarrow> bool" where
  "fee_policy_ok p reference \<longleftrightarrow>
     freshness_ok (fe_freshness p) reference
     \<and> dlt (fe_maker_fee_rate p) d0 = Inr False \<and> dlt (fe_taker_fee_rate p) d0 = Inr False
     \<and> (case fe_promotion p of
          None \<Rightarrow> deq (fe_maker_fee_rate p) d0 = Inr False
        | Some promo \<Rightarrow> promotion_errors promo reference (fe_symbol p) = Inr [])"

lemma fee_policy_errors_Nil [res_simps]:
  "fee_policy_errors p reference = Inr [] \<longleftrightarrow> fee_policy_ok p reference"
proof -
  have sn: "dlt d d0 = Inr False \<Longrightarrow> \<exists>b. deq d d0 = Inr b" for d
    by (auto simp: dlt_def deq_def invalid_def split: if_splits) (cases d; simp)
  show ?thesis
  proof (cases "fe_promotion p")
    case None
    then show ?thesis by (auto simp: fee_policy_errors_def fee_policy_ok_def Let_def res_simps)
  next
    case (Some promo)
    then show ?thesis
      using sn [of "fe_maker_fee_rate p"]
      by (auto simp: fee_policy_errors_def fee_policy_ok_def Let_def res_simps)
  qed
qed

lemma hedge_errors_Nil:
  "hedge_errors a = [] \<longleftrightarrow>
     (ac_position_mode a = PM_HEDGE \<longrightarrow>
        (\<forall>m \<in> set (ac_symbol_metadata a). sm_is_executable m \<longrightarrow>
           {(sm_symbol m, BS_LONG), (sm_symbol m, BS_SHORT)} \<subseteq> set (book_keys (ac_position_books a))))"
  by (auto simp: hedge_errors_def Let_def)

definition account_ok :: "account_state \<Rightarrow> datetime \<Rightarrow> bool" where
  "account_ok a reference \<longleftrightarrow>
     freshness_ok (ac_freshness a) reference \<and> \<not> ac_portfolio_margin_enabled a
     \<and> dlt (ac_maintenance_margin a) d0 = Inr False
     \<and> dlt (ac_liquidation_distance_ratio a) d0 = Inr False
     \<and> (\<forall>m \<in> set (ac_symbol_metadata a). metadata_ok m reference)
     \<and> (\<forall>p \<in> set (ac_fee_policies a). fee_policy_ok p reference)
     \<and> hedge_errors a = []"

lemma account_errors_Nil [res_simps]:
  "account_errors a reference = Inr [] \<longleftrightarrow> account_ok a reference"
  by (simp add: account_errors_def account_ok_def ball_Un ball_simps(9) res_simps del: Un_iff)
    blast

section \<open>The seed account\<close>

text \<open>The default snapshot written out: what every fresh or reset exchange starts from.\<close>

definition seed_metadata :: "datetime \<Rightarrow> symbol_metadata list" where
  "seed_metadata now =
     [\<lparr>sm_symbol = ''BTCUSDC'', sm_role = IR_EXECUTABLE, sm_venue_symbol = Some ''BTCUSDC'',
       sm_contract_status = ''TRADING'', sm_quote_asset = Some ''USDC'',
       sm_margin_asset = Some ''USDC'', sm_filters = Some btc_filters,
       sm_freshness = fresh_at phase2_source now,
       sm_metadata_source = ''local_mock_not_exchange_truth''\<rparr>,
      \<lparr>sm_symbol = ''ETHUSDC'', sm_role = IR_EXECUTABLE, sm_venue_symbol = Some ''ETHUSDC'',
       sm_contract_status = ''TRADING'', sm_quote_asset = Some ''USDC'',
       sm_margin_asset = Some ''USDC'', sm_filters = Some eth_filters,
       sm_freshness = fresh_at phase2_source now,
       sm_metadata_source = ''local_mock_not_exchange_truth''\<rparr>,
      \<lparr>sm_symbol = ''SYN_ETHBTC'', sm_role = IR_DERIVED, sm_venue_symbol = None,
       sm_contract_status = ''NOT_EXECUTABLE'', sm_quote_asset = None, sm_margin_asset = None,
       sm_filters = None, sm_freshness = fresh_at phase2_source now,
       sm_metadata_source = ''local_mock_not_exchange_truth''\<rparr>,
      \<lparr>sm_symbol = ''ETHBTC'', sm_role = IR_REFERENCE, sm_venue_symbol = Some ''ETHBTC'',
       sm_contract_status = ''NOT_EXECUTABLE'', sm_quote_asset = None, sm_margin_asset = None,
       sm_filters = None, sm_freshness = fresh_at phase2_source now,
       sm_metadata_source = ''local_mock_not_exchange_truth''\<rparr>]"

definition seed_account :: "datetime \<Rightarrow> account_state" where
  "seed_account now =
     \<lparr>ac_account_id = ''local-paper-account'', ac_venue_target = ''internal_paper'',
      ac_margin_mode = MM_CROSS, ac_position_mode = PM_HEDGE,
      ac_portfolio_margin_enabled = False,
      ac_collateral_assets =
        [\<lparr>ca_asset = ''USDC'', ca_wallet_balance = Dec 100000 0,
          ca_available_balance = Dec 100000 0, ca_unrealized_pnl = d0\<rparr>],
      ac_maintenance_margin = d0, ac_liquidation_distance_ratio = d1, ac_unrealized_pnl = d0,
      ac_funding_exposure = d0, ac_open_orders = [],
      ac_position_books =
        [empty_book ''BTCUSDC'' BS_LONG, empty_book ''BTCUSDC'' BS_SHORT,
         empty_book ''ETHUSDC'' BS_LONG, empty_book ''ETHUSDC'' BS_SHORT],
      ac_symbol_metadata = seed_metadata now,
      ac_fee_policies = default_fee_policies now, ac_freshness = fresh_at phase2_source now\<rparr>"

lemma default_symbol_metadata_eq: "default_symbol_metadata now = Inr (seed_metadata now)"
  by (simp add: default_symbol_metadata_def symbol_universe_def default_metadata_of_def
      default_filters_def seed_metadata_def Let_def)

lemma default_account_state_eq: "default_account_state now = Inr (seed_account now)"
  by (simp add: default_account_state_def default_symbol_metadata_eq seed_account_def
      default_position_books_def)

lemma fresh_at_ok:
  "freshness_ok (fresh_at s (Aware t)) (Aware r) \<longleftrightarrow> r \<le> t + 300 * micros_per_second"
  by (auto simp: freshness_ok_def fresh_at_def default_max_age_seconds_def micros_per_second_def)

lemma default_filters_ok:
  "filters_errors btc_filters s = Inr []" "filters_errors eth_filters s = Inr []"
  by (simp_all add: filters_errors_Nil btc_filters_def eth_filters_def dec_simps)

lemma seed_account_ok: "account_ok (seed_account (Aware t)) (Aware r) \<longleftrightarrow> r \<le> t + 300 * micros_per_second"
proof -
  have fee: "fee_policy_ok (default_fee_policy (Aware t) s) (Aware r)
      \<longleftrightarrow> r \<le> t + 300 * micros_per_second" for s
    by (simp add: fee_policy_ok_def default_fee_policy_def fresh_at_ok dec_simps)
  have meta: "metadata_ok m (Aware r) \<longleftrightarrow> r \<le> t + 300 * micros_per_second"
    if "m \<in> set (seed_metadata (Aware t))" for m
    using that
    by (auto simp: seed_metadata_def metadata_ok_def sm_is_executable_def fresh_at_ok
        default_filters_ok)
  have ne: "hd (seed_metadata (Aware t)) \<in> set (seed_metadata (Aware t))"
    by (simp add: seed_metadata_def)
  have hedge: "hedge_errors (seed_account (Aware t)) = []"
    by (auto simp: hedge_errors_Nil seed_account_def seed_metadata_def book_keys_def empty_book_def
        sm_is_executable_def)
  show ?thesis
    using meta fee hedge ne
    by (auto simp: account_ok_def seed_account_def fresh_at_ok default_fee_policies_def dec_simps
        simp del: micros.simps)
qed

section \<open>Properties\<close>

text \<open>
  The freshness check is exact: it reports nothing precisely when all three times carry a
  time zone, the source time is not after the receipt, and the receipt is no older than the
  maximum age at the reference time.
\<close>

theorem freshness_check_exact:
  "freshness_errors f reference label = Inr [] \<longleftrightarrow>
     is_aware reference \<and> is_aware (fr_source_timestamp f) \<and> is_aware (fr_received_timestamp f)
     \<and> micros (fr_source_timestamp f) \<le> micros (fr_received_timestamp f)
     \<and> max 0 (micros reference - micros (fr_received_timestamp f))
         \<le> fr_max_age_seconds f * micros_per_second"
  by (simp add: freshness_errors_Nil freshness_ok_def)

text \<open>
  The check for a missing time zone is dead code under the clock the services use. Against an
  aware reference time a naive timestamp never yields the message
  "must be timezone-aware": the comparison or the subtraction after it raises \<open>TypeError\<close>.
\<close>

theorem naive_timestamp_raises:
  assumes "is_aware reference"
    and "\<not> (is_aware (fr_source_timestamp f) \<and> is_aware (fr_received_timestamp f))"
  shows "freshness_errors f reference label = Inl (Raise TypeError '''')"
proof (cases "is_aware (fr_source_timestamp f) = is_aware (fr_received_timestamp f)")
  case True
  with assms show ?thesis
    by (cases reference)
      (auto simp: freshness_errors_def reason_if_def reason_when_def is_stale_def age_micros_def
        dt_gt_def dt_minus_def dt_same_kind_def)
next
  case False
  then show ?thesis
    by (simp add: freshness_errors_def reason_if_def reason_when_def dt_gt_def dt_same_kind_def)
qed

theorem naive_timestamp_raises_witness:
  "freshness_errors (fresh_at ''feed'' (Naive 0)) (Aware 5) ''quote'' = Inl (Raise TypeError '''')"
proof -
  have 1: "is_aware (Aware 5)" by simp
  have 2: "\<not> (is_aware (fr_source_timestamp (fresh_at ''feed'' (Naive 0)))
      \<and> is_aware (fr_received_timestamp (fresh_at ''feed'' (Naive 0))))"
    by (simp add: fresh_at_def)
  show ?thesis by (rule naive_timestamp_raises [OF 1 2])
qed

text \<open>
  The account validator is sound. An account without errors has fresh metadata and fee
  policies, every executable instrument trades against USDC margin with valid filters, and in
  hedge mode it has its own LONG and SHORT book.
\<close>

theorem account_validator_sound:
  assumes "account_errors a reference = Inr []" and "m \<in> set (ac_symbol_metadata a)"
    and "sm_role m = IR_EXECUTABLE" and "ac_position_mode a = PM_HEDGE"
  shows "(sm_symbol m, BS_LONG) \<in> set (book_keys (ac_position_books a))
    \<and> (sm_symbol m, BS_SHORT) \<in> set (book_keys (ac_position_books a))
    \<and> sm_contract_status m = ''TRADING'' \<and> sm_margin_asset m = Some ''USDC''
    \<and> freshness_ok (sm_freshness m) reference \<and> freshness_ok (ac_freshness a) reference
    \<and> (\<exists>f. sm_filters m = Some f \<and> dle (sf_tick_size f) d0 = Inr False
           \<and> dle (sf_lot_size f) d0 = Inr False \<and> dle (sf_min_notional f) d0 = Inr False)"
proof -
  from assms(1) have ok: "account_ok a reference" by (simp add: account_errors_Nil)
  with assms(2) have "metadata_ok m reference" and "hedge_errors a = []"
    and "freshness_ok (ac_freshness a) reference" by (simp_all add: account_ok_def)
  with assms(2-4) show ?thesis
    by (auto simp: metadata_ok_def sm_is_executable_def hedge_errors_Nil filters_errors_Nil)
qed

theorem account_validator_sound_witness:
  "account_errors (seed_account (Aware 0)) (Aware 0) = Inr []
   \<and> (''BTCUSDC'', BS_SHORT) \<in> set (book_keys (ac_position_books (seed_account (Aware 0))))"
proof -
  define m where "m = hd (seed_metadata (Aware 0))"
  have 1: "account_errors (seed_account (Aware 0)) (Aware 0) = Inr []"
    by (simp add: account_errors_Nil seed_account_ok micros_per_second_def)
  have 2: "m \<in> set (ac_symbol_metadata (seed_account (Aware 0)))" "sm_role m = IR_EXECUTABLE"
    "sm_symbol m = ''BTCUSDC''"
    by (simp_all add: m_def seed_account_def seed_metadata_def)
  have 3: "ac_position_mode (seed_account (Aware 0)) = PM_HEDGE" by (simp add: seed_account_def)
  from account_validator_sound [OF 1 2(1,2) 3] 1 2(3) show ?thesis by simp
qed

text \<open>
  The default account is valid for exactly five minutes: seeded at time \<open>t\<close>, it passes its own
  validator at a reference time \<open>r\<close> if and only if \<open>r\<close> is at most 300 seconds after \<open>t\<close>.
\<close>

theorem default_account_valid_for_300s:
  "\<exists>a. default_account_state (Aware t) = Inr a
     \<and> (account_errors a (Aware r) = Inr [] \<longleftrightarrow> r \<le> t + 300 * micros_per_second)"
  by (simp add: default_account_state_eq account_errors_Nil seed_account_ok)

end
