(* ===== verification/Paper_Schemas.thy ===== *)
theory Paper_Schemas
  imports Exchange_State
begin

text \<open>
  \<open>libs/schemas/paper_trading.py\<close>: quotes, order intents and their parser, the cost breakdown of a
  preview, fills, orders, reconciliation events and portfolio exposures, with their public
  payloads. Every derived value (mid price, spread, notional, remaining quantity) is computed by the
  decimal module and can raise, so the payloads that print one are results.
\<close>

section \<open>Enumerations\<close>

datatype paper_order_type = PT_LIMIT
datatype paper_execution_policy = XP_MAKER_FIRST
datatype reconciliation_status =
    RS_MATCHED | RS_REJECTED | RS_CANCELED | RS_RESTING | RS_PARTIALLY_FILLED | RS_EXPIRED

fun pt_value :: "paper_order_type \<Rightarrow> string" where
  "pt_value PT_LIMIT = ''LIMIT''"

fun xp_value :: "paper_execution_policy \<Rightarrow> string" where
  "xp_value XP_MAKER_FIRST = ''maker_first''"

fun rs_value :: "reconciliation_status \<Rightarrow> string" where
  "rs_value RS_MATCHED = ''matched''"
| "rs_value RS_REJECTED = ''rejected''"
| "rs_value RS_CANCELED = ''canceled''"
| "rs_value RS_RESTING = ''resting''"
| "rs_value RS_PARTIALLY_FILLED = ''partially_filled''"
| "rs_value RS_EXPIRED = ''expired''"

text \<open>Calling an enumeration with a string: its member, or \<open>ValueError\<close>.\<close>

definition enum_call :: "('a \<Rightarrow> string) \<Rightarrow> 'a list \<Rightarrow> string \<Rightarrow> string \<Rightarrow> 'a res" where
  "enum_call val members s class_name =
     (case enum_find val members s of
        Some x \<Rightarrow> Inr x
      | None \<Rightarrow> Inl (Raise ValueError (repr_string s @ '' is not a valid '' @ class_name)))"

interpretation sd: value_enum sd_value sd_members
proof unfold_locales
  show "x \<in> set sd_members" for x by (cases x) (simp_all add: sd_members_def)
  show "distinct (map sd_value sd_members)" by (simp add: sd_members_def)
qed

interpretation bs: value_enum bs_value bs_members
proof unfold_locales
  show "x \<in> set bs_members" for x by (cases x) (simp_all add: bs_members_def)
  show "distinct (map bs_value bs_members)" by (simp add: bs_members_def)
qed

interpretation tif: value_enum tif_value tif_members
proof unfold_locales
  show "x \<in> set tif_members" for x by (cases x) (simp_all add: tif_members_def)
  show "distinct (map tif_value tif_members)" by (simp add: tif_members_def)
qed

section \<open>Market quotes\<close>

record market_quote =
  qt_symbol :: string
  qt_best_bid :: decimal
  qt_best_ask :: decimal
  qt_bid_size :: decimal
  qt_ask_size :: decimal
  qt_mark_price :: decimal
  qt_funding_rate_bps :: decimal
  qt_volatility_bps :: decimal
  qt_freshness :: freshness

definition mid_price :: "market_quote \<Rightarrow> decimal res" where
  "mid_price q = bind_res (dadd (qt_best_bid q) (qt_best_ask q)) (\<lambda>s. ddiv s (Dec 2 0))"

definition spread :: "market_quote \<Rightarrow> decimal res" where
  "spread q = dsub (qt_best_ask q) (qt_best_bid q)"

definition spread_bps :: "market_quote \<Rightarrow> decimal res" where
  "spread_bps q =
     bind_res (mid_price q) (\<lambda>m.
     bind_res (dle m d0) (\<lambda>flat.
     if flat then Inr d0
     else bind_res (spread q) (\<lambda>s. bind_res (ddiv s m) (\<lambda>r. dmul r (Dec 10000 0)))))"

definition quote_to_public_dict :: "market_quote \<Rightarrow> datetime \<Rightarrow> json res" where
  "quote_to_public_dict q reference =
     bind_res (mid_price q) (\<lambda>m.
     bind_res (spread q) (\<lambda>s.
     bind_res (spread_bps q) (\<lambda>sb.
     bind_res (freshness_to_public_dict (qt_freshness q) reference) (\<lambda>fresh.
     Inr (JObj
       [(''symbol'', JStr (qt_symbol q)),
        (''best_bid'', JStr (format_f (qt_best_bid q))),
        (''best_ask'', JStr (format_f (qt_best_ask q))),
        (''bid_size'', JStr (format_f (qt_bid_size q))),
        (''ask_size'', JStr (format_f (qt_ask_size q))),
        (''mark_price'', JStr (format_f (qt_mark_price q))),
        (''mid_price'', JStr (format_f m)),
        (''spread'', JStr (format_f s)),
        (''spread_bps'', JStr (format_f sb)),
        (''funding_rate_bps'', JStr (format_f (qt_funding_rate_bps q))),
        (''short_horizon_volatility_bps'', JStr (format_f (qt_volatility_bps q))),
        (''freshness'', fresh)])))))"

section \<open>Order intents\<close>

record order_intent =
  it_symbol :: string
  it_side :: order_side
  it_book_side :: book_side
  it_quantity :: decimal
  it_limit_price :: decimal
  it_time_in_force :: time_in_force
  it_order_type :: paper_order_type
  it_post_only :: bool
  it_reduce_only :: bool
  it_allow_taker :: bool
  it_expected_alpha_bps :: decimal
  it_slippage_bps :: decimal
  it_adverse_selection_bps :: decimal
  it_client_order_id :: string

definition decimal_from :: "json \<Rightarrow> string \<Rightarrow> decimal res" where
  "decimal_from v field_name =
     (case parse_decimal (py_str v) of
        Some d \<Rightarrow> Inr d
      | None \<Rightarrow> Inl (Raise ValueError (field_name @ '' must be a decimal value'')))"

definition intent_from_mapping :: "json_object \<Rightarrow> order_intent res" where
  "intent_from_mapping p =
     (case jget_default p ''symbol'' (JStr ''BTCUSDC'') of
        JStr symbol \<Rightarrow>
          if symbol = '''' then Inl (Raise ValueError ''symbol must be a non-empty string'') else
          bind_res (enum_call sd_value sd_members
              (py_str (jget_default p ''side'' (JStr ''BUY''))) ''OrderSide'') (\<lambda>side.
          bind_res (enum_call bs_value bs_members
              (py_str (jget_default p ''book_side'' (JStr ''LONG''))) ''BookSide'') (\<lambda>book.
          bind_res (decimal_from (jget_default p ''quantity'' (JStr ''0.001'')) ''quantity'') (\<lambda>qty.
          bind_res (decimal_from
              (jget_default p ''limit_price'' (jget_default p ''price'' (JStr ''0'')))
              ''limit_price'') (\<lambda>price.
          bind_res (enum_call tif_value tif_members
              (py_str (jget_default p ''time_in_force'' (JStr ''GTX''))) ''TimeInForce'') (\<lambda>tif.
          bind_res (decimal_from (jget_default p ''expected_alpha_bps'' (JStr ''8''))
              ''expected_alpha_bps'') (\<lambda>alpha.
          bind_res (decimal_from (jget_default p ''slippage_bps'' (JStr ''0.5''))
              ''slippage_bps'') (\<lambda>slip.
          bind_res (decimal_from (jget_default p ''adverse_selection_bps'' (JStr ''1''))
              ''adverse_selection_bps'') (\<lambda>adverse.
          Inr \<lparr>it_symbol = symbol, it_side = side, it_book_side = book, it_quantity = qty,
               it_limit_price = price, it_time_in_force = tif, it_order_type = PT_LIMIT,
               it_post_only = truthy (jget_default p ''post_only'' (JBool True)),
               it_reduce_only = truthy (jget_default p ''reduce_only'' (JBool False)),
               it_allow_taker = truthy (jget_default p ''allow_taker'' (JBool False)),
               it_expected_alpha_bps = alpha, it_slippage_bps = slip,
               it_adverse_selection_bps = adverse,
               it_client_order_id =
                 py_str (jget_default p ''client_order_id'' (JStr ''paper-local-order''))\<rparr>))))))))
      | _ \<Rightarrow> Inl (Raise ValueError ''symbol must be a non-empty string''))"

definition intent_notional :: "order_intent \<Rightarrow> decimal res" where
  "intent_notional i = dmul (it_quantity i) (it_limit_price i)"

definition intent_to_public_dict :: "order_intent \<Rightarrow> json res" where
  "intent_to_public_dict i =
     bind_res (intent_notional i) (\<lambda>n.
     Inr (JObj
       [(''symbol'', JStr (it_symbol i)),
        (''side'', JStr (sd_value (it_side i))),
        (''book_side'', JStr (bs_value (it_book_side i))),
        (''quantity'', JStr (format_f (it_quantity i))),
        (''limit_price'', JStr (format_f (it_limit_price i))),
        (''time_in_force'', JStr (tif_value (it_time_in_force i))),
        (''order_type'', JStr (pt_value (it_order_type i))),
        (''post_only'', JBool (it_post_only i)),
        (''reduce_only'', JBool (it_reduce_only i)),
        (''allow_taker'', JBool (it_allow_taker i)),
        (''expected_alpha_bps'', JStr (format_f (it_expected_alpha_bps i))),
        (''slippage_bps'', JStr (format_f (it_slippage_bps i))),
        (''adverse_selection_bps'', JStr (format_f (it_adverse_selection_bps i))),
        (''notional'', JStr (format_f n)),
        (''client_order_id'', JStr (it_client_order_id i))]))"

section \<open>Previews\<close>

record edge_breakdown =
  ee_notional :: decimal
  ee_gross_edge :: decimal
  ee_maker_fee :: decimal
  ee_taker_fee :: decimal
  ee_slippage_cost :: decimal
  ee_funding_cost :: decimal
  ee_adverse_selection_cost :: decimal
  ee_expected_edge_after_costs :: decimal

definition edge_to_public_dict :: "edge_breakdown \<Rightarrow> json" where
  "edge_to_public_dict e = JObj
     [(''notional'', JStr (format_f (ee_notional e))),
      (''gross_edge'', JStr (format_f (ee_gross_edge e))),
      (''maker_fee'', JStr (format_f (ee_maker_fee e))),
      (''taker_fee'', JStr (format_f (ee_taker_fee e))),
      (''slippage_cost'', JStr (format_f (ee_slippage_cost e))),
      (''funding_cost'', JStr (format_f (ee_funding_cost e))),
      (''adverse_selection_cost'', JStr (format_f (ee_adverse_selection_cost e))),
      (''expected_edge_after_costs'', JStr (format_f (ee_expected_edge_after_costs e)))]"

record order_preview =
  pv_intent :: order_intent
  pv_accepted :: bool
  pv_reasons :: "string list"
  pv_maker_first :: bool
  pv_post_only_would_cross :: bool
  pv_expected_edge :: edge_breakdown

definition preview_to_public_dict :: "order_preview \<Rightarrow> json res" where
  "preview_to_public_dict p =
     bind_res (intent_to_public_dict (pv_intent p)) (\<lambda>i.
     Inr (JObj
       [(''intent'', i),
        (''accepted'', JBool (pv_accepted p)),
        (''reasons'', jstrs (pv_reasons p)),
        (''maker_first'', JBool (pv_maker_first p)),
        (''post_only_would_cross'', JBool (pv_post_only_would_cross p)),
        (''expected_edge'', edge_to_public_dict (pv_expected_edge p))]))"

section \<open>Fills, orders and events\<close>

record paper_fill =
  fl_fill_id :: string
  fl_order_id :: string
  fl_symbol :: string
  fl_side :: order_side
  fl_book_side :: book_side
  fl_quantity :: decimal
  fl_price :: decimal
  fl_liquidity :: string
  fl_fee :: decimal
  fl_created_at :: datetime

definition fill_to_public_dict :: "paper_fill \<Rightarrow> json" where
  "fill_to_public_dict f = JObj
     [(''fill_id'', JStr (fl_fill_id f)),
      (''order_id'', JStr (fl_order_id f)),
      (''symbol'', JStr (fl_symbol f)),
      (''side'', JStr (sd_value (fl_side f))),
      (''book_side'', JStr (bs_value (fl_book_side f))),
      (''quantity'', JStr (format_f (fl_quantity f))),
      (''price'', JStr (format_f (fl_price f))),
      (''liquidity'', JStr (fl_liquidity f)),
      (''fee'', JStr (format_f (fl_fee f))),
      (''created_at'', JTime (fl_created_at f))]"

record paper_order =
  po_order_id :: string
  po_intent :: order_intent
  po_status :: order_status
  po_created_at :: datetime
  po_updated_at :: datetime
  po_fill :: "paper_fill option"
  po_fills :: "paper_fill list"
  po_filled_quantity :: decimal

definition remaining_quantity :: "paper_order \<Rightarrow> decimal res" where
  "remaining_quantity r =
     bind_res (dsub (it_quantity (po_intent r)) (po_filled_quantity r)) (\<lambda>x. dmax d0 x)"

definition order_to_public_dict :: "paper_order \<Rightarrow> json res" where
  "order_to_public_dict r =
     bind_res (intent_to_public_dict (po_intent r)) (\<lambda>i.
     bind_res (remaining_quantity r) (\<lambda>rest.
     Inr (JObj
       [(''order_id'', JStr (po_order_id r)),
        (''intent'', i),
        (''status'', JStr (st_value (po_status r))),
        (''created_at'', JTime (po_created_at r)),
        (''updated_at'', JTime (po_updated_at r)),
        (''fill'', jopt fill_to_public_dict (po_fill r)),
        (''fills'', JArr (map fill_to_public_dict (po_fills r))),
        (''filled_quantity'', JStr (format_f (po_filled_quantity r))),
        (''remaining_quantity'', JStr (format_f rest))])))"

record recon_event =
  re_event_id :: string
  re_order_id :: string
  re_status :: reconciliation_status
  re_reason :: string
  re_created_at :: datetime

definition event_to_public_dict :: "recon_event \<Rightarrow> json" where
  "event_to_public_dict e = JObj
     [(''event_id'', JStr (re_event_id e)),
      (''order_id'', JStr (re_order_id e)),
      (''status'', JStr (rs_value (re_status e))),
      (''reason'', JStr (re_reason e)),
      (''created_at'', JTime (re_created_at e))]"

section \<open>Portfolio exposure\<close>

record portfolio_exposure =
  px_gross_exposure :: decimal
  px_net_exposure :: decimal
  px_long_exposure :: decimal
  px_short_exposure :: decimal
  px_hedge_ratio :: decimal
  px_liquidation_buffer :: decimal
  px_funding_exposure :: decimal
  px_sector_exposure :: decimal
  px_correlated_exposure :: decimal
  px_beta_exposure :: decimal
  px_leg_imbalance :: decimal
  px_cross_margin_buffer :: decimal

definition exposure_to_public_dict :: "portfolio_exposure \<Rightarrow> json" where
  "exposure_to_public_dict x = JObj
     [(''gross_exposure'', JStr (format_f (px_gross_exposure x))),
      (''net_exposure'', JStr (format_f (px_net_exposure x))),
      (''long_exposure'', JStr (format_f (px_long_exposure x))),
      (''short_exposure'', JStr (format_f (px_short_exposure x))),
      (''hedge_ratio'', JStr (format_f (px_hedge_ratio x))),
      (''liquidation_buffer'', JStr (format_f (px_liquidation_buffer x))),
      (''funding_exposure'', JStr (format_f (px_funding_exposure x))),
      (''sector_exposure'', JStr (format_f (px_sector_exposure x))),
      (''correlated_exposure'', JStr (format_f (px_correlated_exposure x))),
      (''beta_exposure'', JStr (format_f (px_beta_exposure x))),
      (''leg_imbalance'', JStr (format_f (px_leg_imbalance x))),
      (''cross_margin_buffer'', JStr (format_f (px_cross_margin_buffer x)))]"

section \<open>The parser of intents\<close>

text \<open>A decimal that prints with its own exponent, and so survives the JSON round trip unchanged.\<close>

definition plain_decimal :: "decimal \<Rightarrow> bool" where
  "plain_decimal d \<longleftrightarrow> is_finite d \<and> dexp d \<le> 0 \<and> exact_range d"

lemma decimal_from_format: "plain_decimal d \<Longrightarrow> decimal_from (JStr (format_f d)) name = Inr d"
  by (simp add: decimal_from_def py_str_def plain_decimal_def parse_format_f)

lemma enum_call_value [simp]:
  "enum_call sd_value sd_members (sd_value x) n = Inr x"
  "enum_call bs_value bs_members (bs_value y) n = Inr y"
  "enum_call tif_value tif_members (tif_value z) n = Inr z"
  by (simp_all add: enum_call_def sd.find_value bs.find_value tif.find_value)

lemma bind_res_value_error:
  "bind_res m f = Inl e \<Longrightarrow> (\<And>e. m = Inl e \<Longrightarrow> is_value_error e) \<Longrightarrow>
   (\<And>x e. f x = Inl e \<Longrightarrow> is_value_error e) \<Longrightarrow> is_value_error e"
  by (auto simp: bind_res_eq_Inl)

lemma enum_call_error: "enum_call v ms s n = Inl e \<Longrightarrow> is_value_error e"
  by (auto simp: enum_call_def split: option.splits)

lemma decimal_from_error: "decimal_from v n = Inl e \<Longrightarrow> is_value_error e"
  by (auto simp: decimal_from_def split: option.splits)

lemma intent_dict_keys:
  assumes "intent_to_public_dict i = Inr (JObj obj)"
  shows "map_of obj ''symbol'' = Some (JStr (it_symbol i))"
    "map_of obj ''side'' = Some (JStr (sd_value (it_side i)))"
    "map_of obj ''book_side'' = Some (JStr (bs_value (it_book_side i)))"
    "map_of obj ''quantity'' = Some (JStr (format_f (it_quantity i)))"
    "map_of obj ''limit_price'' = Some (JStr (format_f (it_limit_price i)))"
    "map_of obj ''time_in_force'' = Some (JStr (tif_value (it_time_in_force i)))"
    "map_of obj ''post_only'' = Some (JBool (it_post_only i))"
    "map_of obj ''reduce_only'' = Some (JBool (it_reduce_only i))"
    "map_of obj ''allow_taker'' = Some (JBool (it_allow_taker i))"
    "map_of obj ''expected_alpha_bps'' = Some (JStr (format_f (it_expected_alpha_bps i)))"
    "map_of obj ''slippage_bps'' = Some (JStr (format_f (it_slippage_bps i)))"
    "map_of obj ''adverse_selection_bps'' = Some (JStr (format_f (it_adverse_selection_bps i)))"
    "map_of obj ''client_order_id'' = Some (JStr (it_client_order_id i))"
  using assms by (auto simp: intent_to_public_dict_def res_simps)

section \<open>Properties\<close>

text \<open>
  C40: An order intent survives its own JSON. Parsing the public payload of an intent whose decimals
  print with their own exponent gives back the same intent, so what a client reads from the
  exchange it can submit again.
\<close>

theorem intent_round_trip:
  assumes "intent_to_public_dict i = Inr (JObj obj)" and "it_symbol i \<noteq> ''''"
    and "list_all plain_decimal [it_quantity i, it_limit_price i, it_expected_alpha_bps i,
           it_slippage_bps i, it_adverse_selection_bps i]"
  shows "intent_from_mapping obj = Inr i"
proof -
  have "it_order_type i = PT_LIMIT" by (cases "it_order_type i") simp
  then show ?thesis
    using assms(2,3)
    by (simp add: intent_from_mapping_def jget_default_def intent_dict_keys [OF assms(1)]
        py_str_def [of "JStr _"] decimal_from_format)
qed

definition sample_intent :: order_intent where
  "sample_intent =
     \<lparr>it_symbol = ''BTCUSDC'', it_side = SD_BUY, it_book_side = BS_LONG,
      it_quantity = Dec 10 (- 3), it_limit_price = Dec 650000 (- 1), it_time_in_force = TIF_GTX,
      it_order_type = PT_LIMIT, it_post_only = True, it_reduce_only = False,
      it_allow_taker = False, it_expected_alpha_bps = Dec 8 0, it_slippage_bps = Dec 5 (- 1),
      it_adverse_selection_bps = Dec 1 0, it_client_order_id = ''paper-local-order''\<rparr>"

theorem intent_round_trip_witness:
  "\<exists>obj. intent_to_public_dict sample_intent = Inr (JObj obj)
     \<and> intent_from_mapping obj = Inr sample_intent"
proof -
  have n: "intent_notional sample_intent = Inr (Dec 6500000 (- 4))" by code_simp
  obtain obj where 1: "intent_to_public_dict sample_intent = Inr (JObj obj)"
    by (simp add: intent_to_public_dict_def n)
  have 2: "it_symbol sample_intent \<noteq> ''''" by (simp add: sample_intent_def)
  have 3: "list_all plain_decimal [it_quantity sample_intent, it_limit_price sample_intent,
      it_expected_alpha_bps sample_intent, it_slippage_bps sample_intent,
      it_adverse_selection_bps sample_intent]"
    by code_simp
  from 1 intent_round_trip [OF 1 2 3] show ?thesis by blast
qed

text \<open>
  The parser of order intents fails with \<open>ValueError\<close> only, whatever JSON object it is given, so
  the API handlers turn every malformed order into an error response.
\<close>

theorem intent_parse_errors_are_value_errors:
  "\<not> (\<exists>e. intent_from_mapping p = Inl e \<and> \<not> is_value_error e)"
proof -
  have "is_value_error e" if "intent_from_mapping p = Inl e" for e
    using that
    by (auto simp: intent_from_mapping_def bind_res_eq_Inl split: json.splits if_splits
        dest: enum_call_error decimal_from_error)
  then show ?thesis by blast
qed

end
