(* ===== verification/Exec_Policy.thy ===== *)
theory Exec_Policy
  imports Paper_Schemas
begin

text \<open>
  \<open>services/execution/policy.py\<close>: the maker-first check of a paper order intent. The crossing test
  is evaluated whatever the earlier reasons are, so a NaN price raises instead of being refused.
\<close>

record execution_check_result =
  xr_accepted :: bool
  xr_reasons :: "string list"
  xr_post_only_would_cross :: bool
  xr_maker_first :: bool

definition execution_check_to_public_dict :: "execution_check_result \<Rightarrow> json" where
  "execution_check_to_public_dict r = JObj
     [(''accepted'', JBool (xr_accepted r)),
      (''reasons'', jstrs (xr_reasons r)),
      (''post_only_would_cross'', JBool (xr_post_only_would_cross r)),
      (''maker_first'', JBool (xr_maker_first r))]"

definition would_cross :: "order_intent \<Rightarrow> market_quote \<Rightarrow> bool res" where
  "would_cross i q =
     (if it_side i = SD_BUY then dge (it_limit_price i) (qt_best_ask q)
      else dle (it_limit_price i) (qt_best_bid q))"

definition validate_maker_first_intent ::
    "order_intent \<Rightarrow> market_quote \<Rightarrow> bool \<Rightarrow> execution_check_result res" where
  "validate_maker_first_intent i q taker_gate_enabled =
     bind_res (collect
       [reason_when (it_time_in_force i \<noteq> TIF_GTX) ''maker-first paper orders must use GTX time-in-force'',
        reason_when (\<not> it_post_only i) ''maker-first paper orders must be post_only'',
        reason_when (it_allow_taker i \<and> \<not> taker_gate_enabled)
          ''taker behavior is not enabled for paper exchange'']) (\<lambda>rs.
     bind_res (would_cross i q) (\<lambda>cross.
     bind_res (reason_when (it_post_only i \<and> cross)
       ''post-only order would cross the paper book'') (\<lambda>rs'.
     Inr \<lparr>xr_accepted = (rs @ rs' = []), xr_reasons = rs @ rs',
          xr_post_only_would_cross = cross, xr_maker_first = True\<rparr>)))"

lemma validate_maker_first_result:
  "validate_maker_first_intent i q g = Inr r \<Longrightarrow>
     (xr_accepted r \<longleftrightarrow> xr_reasons r = []) \<and> xr_maker_first r
     \<and> would_cross i q = Inr (xr_post_only_would_cross r)
     \<and> (xr_reasons r = [] \<longleftrightarrow>
          it_time_in_force i = TIF_GTX \<and> it_post_only i \<and> (it_allow_taker i \<longrightarrow> g)
          \<and> \<not> xr_post_only_would_cross r)"
  by (auto simp: validate_maker_first_intent_def res_simps reason_when_def split: if_splits)

lemma validate_maker_first_total:
  "would_cross i q = Inr b \<Longrightarrow> \<exists>r. validate_maker_first_intent i q g = Inr r"
  by (simp add: validate_maker_first_intent_def reason_when_def)

lemma would_cross_val:
  assumes "is_finite (it_limit_price i)" "is_finite (qt_best_bid q)" "is_finite (qt_best_ask q)"
  shows "would_cross i q = Inr (if it_side i = SD_BUY then dval (qt_best_ask q) \<le> dval (it_limit_price i)
           else dval (it_limit_price i) \<le> dval (qt_best_bid q))"
  using assms by (simp add: would_cross_def dec_simps)

text \<open>
  The maker-first gate is exact. For finite prices it accepts an intent if and only if the
  order is GTX, post-only, asks for taker behaviour only behind the gate, and rests strictly on its
  own side of the book.
\<close>

theorem maker_first_gate_exact:
  assumes "is_finite (it_limit_price i)" and "is_finite (qt_best_bid q)"
    and "is_finite (qt_best_ask q)"
  shows "(\<exists>r. validate_maker_first_intent i q g = Inr r \<and> xr_accepted r) \<longleftrightarrow>
    it_time_in_force i = TIF_GTX \<and> it_post_only i \<and> (it_allow_taker i \<longrightarrow> g)
    \<and> (if it_side i = SD_BUY then dval (it_limit_price i) < dval (qt_best_ask q)
       else dval (qt_best_bid q) < dval (it_limit_price i))"
proof -
  obtain b where b: "would_cross i q = Inr b"
    "b \<longleftrightarrow> (if it_side i = SD_BUY then dval (qt_best_ask q) \<le> dval (it_limit_price i)
      else dval (it_limit_price i) \<le> dval (qt_best_bid q))"
    using would_cross_val [OF assms] by blast
  then obtain r where "validate_maker_first_intent i q g = Inr r"
    using validate_maker_first_total by blast
  with validate_maker_first_result [OF this] b show ?thesis by (auto split: if_splits)
qed

theorem maker_first_gate_exact_witness:
  "\<exists>r. validate_maker_first_intent sample_intent
      \<lparr>qt_symbol = ''BTCUSDC'', qt_best_bid = Dec 650000 (- 1), qt_best_ask = Dec 650005 (- 1),
       qt_bid_size = d1, qt_ask_size = d1, qt_mark_price = d1, qt_funding_rate_bps = d0,
       qt_volatility_bps = d0, qt_freshness = fresh_at ''x'' (Aware 0)\<rparr> False = Inr r \<and> xr_accepted r"
  by (subst maker_first_gate_exact) (simp_all add: sample_intent_def)

end
