(* ===== verification/Lifecycle.thy ===== *)
theory Lifecycle
  imports Prelude
begin

text \<open>
  The interfaces that order lifecycles share. A lifecycle moves a status along a relation that never
  lowers its rank; an absorbing lifecycle moreover never leaves a terminal status. The venue
  reconciler provides the first, the paper exchange both.
\<close>

locale order_lifecycle =
  fixes rank :: "'s \<Rightarrow> nat" and move :: "'s \<Rightarrow> 's \<Rightarrow> bool"
  assumes move_rank: "move a b \<Longrightarrow> rank a \<le> rank b"
begin

lemma moves_rank: "move\<^sup>*\<^sup>* a b \<Longrightarrow> rank a \<le> rank b"
  by (induction rule: rtranclp_induct) (auto dest: move_rank)

lemma no_return: "move\<^sup>*\<^sup>* a b \<Longrightarrow> rank a < rank b \<Longrightarrow> \<not> move\<^sup>*\<^sup>* b a"
  using moves_rank by fastforce

end

locale absorbing_lifecycle = order_lifecycle +
  fixes terminal :: "'s \<Rightarrow> bool"
  assumes terminal_stays: "terminal a \<Longrightarrow> move a b \<Longrightarrow> b = a"
begin

lemma terminal_forever: "move\<^sup>*\<^sup>* a b \<Longrightarrow> terminal a \<Longrightarrow> b = a"
  by (induction rule: rtranclp_induct) (auto dest: terminal_stays)

end

end
