(* ===== verification/Venue_Reconciler.thy ===== *)
theory Venue_Reconciler
  imports Lifecycle Json_Value
begin

text \<open>
  \<open>services/execution/reconciliation.py\<close>: the monotonic reconciler of order updates that come from
  an external venue. Its state is the last accepted status of each order id.
\<close>

datatype venue_status =
    VS_NEW | VS_PARTIALLY_FILLED | VS_FILLED | VS_CANCELED | VS_EXPIRED | VS_REJECTED

fun vs_value :: "venue_status \<Rightarrow> string" where
  "vs_value VS_NEW = ''NEW''"
| "vs_value VS_PARTIALLY_FILLED = ''PARTIALLY_FILLED''"
| "vs_value VS_FILLED = ''FILLED''"
| "vs_value VS_CANCELED = ''CANCELED''"
| "vs_value VS_EXPIRED = ''EXPIRED''"
| "vs_value VS_REJECTED = ''REJECTED''"

fun status_rank :: "venue_status \<Rightarrow> nat" where
  "status_rank VS_NEW = 10"
| "status_rank VS_PARTIALLY_FILLED = 20"
| "status_rank VS_FILLED = 90"
| "status_rank VS_CANCELED = 90"
| "status_rank VS_EXPIRED = 90"
| "status_rank VS_REJECTED = 90"

record venue_update =
  vu_venue_target :: string
  vu_order_id :: string
  vu_client_order_id :: string
  vu_status :: venue_status
  vu_execution_type :: string
  vu_payload :: json_object
  vu_event_time :: datetime

definition update_to_public_dict :: "venue_update \<Rightarrow> json" where
  "update_to_public_dict u = JObj
     [(''venue_target'', JStr (vu_venue_target u)),
      (''order_id'', JStr (vu_order_id u)),
      (''client_order_id'', JStr (vu_client_order_id u)),
      (''status'', JStr (vs_value (vu_status u))),
      (''execution_type'', JStr (vu_execution_type u)),
      (''event_time'', JTime (vu_event_time u))]"

record recon_decision =
  rd_accepted :: bool
  rd_reason :: string
  rd_previous_status :: "string option"
  rd_update :: venue_update

definition decision_to_public_dict :: "recon_decision \<Rightarrow> json" where
  "decision_to_public_dict d = JObj
     [(''accepted'', JBool (rd_accepted d)),
      (''reason'', JStr (rd_reason d)),
      (''previous_status'', jopt JStr (rd_previous_status d)),
      (''update'', update_to_public_dict (rd_update d))]"

type_synonym reconciler = "string \<rightharpoonup> venue_status"

definition empty_reconciler :: reconciler where
  "empty_reconciler = (\<lambda>_. None)"

definition reconciler_apply :: "venue_update \<Rightarrow> reconciler \<Rightarrow> recon_decision \<times> reconciler" where
  "reconciler_apply u m =
     (let previous = m (vu_order_id u);
          verdict = (\<lambda>ok reason. \<lparr>rd_accepted = ok, rd_reason = reason,
                       rd_previous_status = map_option vs_value previous, rd_update = u\<rparr>)
      in if previous = Some (vu_status u)
           then (verdict False ''duplicate order status update'', m)
         else if (case previous of None \<Rightarrow> False
                  | Some p \<Rightarrow> status_rank (vu_status u) < status_rank p)
           then (verdict False ''regressive order status update'', m)
         else (verdict True ''order status update accepted'',
               m(vu_order_id u \<mapsto> vu_status u)))"

text \<open>A stream of updates, in the order of arrival.\<close>

fun reconciler_run :: "venue_update list \<Rightarrow> reconciler \<Rightarrow> reconciler" where
  "reconciler_run [] m = m"
| "reconciler_run (u # us) m = reconciler_run us (snd (reconciler_apply u m))"

text \<open>The status moves that the reconciler accepts for an order it knows.\<close>

definition venue_move :: "venue_status \<Rightarrow> venue_status \<Rightarrow> bool" where
  "venue_move a b \<longleftrightarrow> a \<noteq> b \<and> status_rank a \<le> status_rank b"

interpretation venue: order_lifecycle status_rank venue_move
  by unfold_locales (simp add: venue_move_def)

lemma reconciler_apply_state:
  "snd (reconciler_apply u m) =
     (if rd_accepted (fst (reconciler_apply u m)) then m(vu_order_id u \<mapsto> vu_status u) else m)"
  by (simp add: reconciler_apply_def Let_def)

lemma reconciler_apply_accepted:
  "rd_accepted (fst (reconciler_apply u m)) \<longleftrightarrow>
     (case m (vu_order_id u) of None \<Rightarrow> True | Some p \<Rightarrow> venue_move p (vu_status u))"
  by (auto simp: reconciler_apply_def Let_def venue_move_def split: option.splits)

lemma reconciler_apply_moves:
  "m k = Some a \<Longrightarrow> \<exists>b. snd (reconciler_apply u m) k = Some b \<and> venue_move\<^sup>*\<^sup>* a b"
  using reconciler_apply_accepted [of u m] by (auto simp: reconciler_apply_state)

lemma reconciler_run_moves:
  "m k = Some a \<Longrightarrow> \<exists>b. reconciler_run us m k = Some b \<and> venue_move\<^sup>*\<^sup>* a b"
proof (induction us arbitrary: m a)
  case (Cons u us)
  from reconciler_apply_moves [where m = m and k = k and u = u, OF Cons.prems] obtain b
    where b: "snd (reconciler_apply u m) k = Some b" "venue_move\<^sup>*\<^sup>* a b" by blast
  from Cons.IH [where m = "snd (reconciler_apply u m)" and a = b, OF b(1)] b(2) show ?case
    by (auto intro: rtranclp_trans)
qed simp

section \<open>Properties\<close>

text \<open>
  One update. It is accepted if and only if the order is unknown, or its status differs and
  does not rank lower; the table then records it for this order, and is otherwise unchanged, and
  every decision reports the status the table had.
\<close>

theorem reconciler_apply_exact:
  "fst (reconciler_apply u m) =
     \<lparr>rd_accepted = (case m (vu_order_id u) of None \<Rightarrow> True
         | Some p \<Rightarrow> p \<noteq> vu_status u \<and> status_rank p \<le> status_rank (vu_status u)),
      rd_reason = (if m (vu_order_id u) = Some (vu_status u) then ''duplicate order status update''
         else if rd_accepted (fst (reconciler_apply u m)) then ''order status update accepted''
         else ''regressive order status update''),
      rd_previous_status = map_option vs_value (m (vu_order_id u)), rd_update = u\<rparr>
   \<and> snd (reconciler_apply u m) =
     (\<lambda>k. if k = vu_order_id u \<and> rd_accepted (fst (reconciler_apply u m))
          then Some (vu_status u) else m k)"
  by (auto simp: reconciler_apply_def Let_def fun_eq_iff split: option.splits)

text \<open>
  C38: Monotonicity over any stream of updates. An order that is known stays known, and the rank of
  its recorded status never goes down, whatever arrives and in whatever order.
\<close>

theorem reconciler_monotone:
  assumes "reconciler_run us m k = Some a"
  shows "\<exists>b. reconciler_run (us @ vs) m k = Some b \<and> status_rank a \<le> status_rank b"
proof -
  have "reconciler_run (us @ vs) m = reconciler_run vs (reconciler_run us m)" for m
    by (induction us arbitrary: m) simp_all
  with reconciler_run_moves [where m = "reconciler_run us m" and k = k and us = vs, OF assms]
    venue.moves_rank show ?thesis by auto
qed

definition sample_update :: "string \<Rightarrow> venue_status \<Rightarrow> venue_update" where
  "sample_update k s =
     \<lparr>vu_venue_target = ''binance_testnet'', vu_order_id = k, vu_client_order_id = ''c'',
      vu_status = s, vu_execution_type = ''TRADE'', vu_payload = [], vu_event_time = Aware 0\<rparr>"

theorem reconciler_monotone_witness:
  "\<exists>b. reconciler_run ([sample_update ''7'' VS_PARTIALLY_FILLED] @ [sample_update ''7'' VS_NEW])
         empty_reconciler ''7'' = Some b \<and> status_rank VS_PARTIALLY_FILLED \<le> status_rank b"
  by (rule reconciler_monotone) code_simp

text \<open>
  Terminal statuses are not absorbing here. All four have the same rank, so an update that
  replaces one of them by another (FILLED by CANCELED, say) is accepted and recorded.
\<close>

theorem terminal_status_can_be_overwritten:
  assumes "m (vu_order_id u) = Some a" and "a \<in> {VS_FILLED, VS_CANCELED, VS_EXPIRED, VS_REJECTED}"
    and "vu_status u \<in> {VS_FILLED, VS_CANCELED, VS_EXPIRED, VS_REJECTED} - {a}"
  shows "rd_accepted (fst (reconciler_apply u m))
    \<and> snd (reconciler_apply u m) (vu_order_id u) = Some (vu_status u)"
  using assms by (auto simp: reconciler_apply_def Let_def)

theorem terminal_status_can_be_overwritten_witness:
  "snd (reconciler_apply (sample_update ''7'' VS_CANCELED) (empty_reconciler(''7'' \<mapsto> VS_FILLED))) ''7''
     = Some VS_CANCELED"
proof -
  let ?u = "sample_update ''7'' VS_CANCELED" and ?m = "empty_reconciler(''7'' \<mapsto> VS_FILLED)"
  have k: "vu_order_id ?u = ''7''" "vu_status ?u = VS_CANCELED" by (simp_all add: sample_update_def)
  have 1: "?m (vu_order_id ?u) = Some VS_FILLED" by (simp add: k)
  have 2: "VS_FILLED \<in> {VS_FILLED, VS_CANCELED, VS_EXPIRED, VS_REJECTED}" by simp
  have 3: "vu_status ?u \<in> {VS_FILLED, VS_CANCELED, VS_EXPIRED, VS_REJECTED} - {VS_FILLED}"
    by (simp add: k)
  from terminal_status_can_be_overwritten [where m = ?m and a = VS_FILLED and u = ?u, OF 1 2 3]
  show ?thesis by (simp add: k)
qed

end
