(* ===== verification/Double_Arith.thy ===== *)
theory Double_Arith
  imports Decimal_Value
begin

text \<open>
  The two computations in binary floating point: \<open>int(delta.total_seconds() * 1000)\<close>, and the time
  stamp of a venue event, \<open>datetime.fromtimestamp(ms / 1000)\<close>. A double is an
  integer mantissa and a power of two; a ratio is rounded to 53 bits, ties to even. (The durations of
  the program stay far from the limits of the exponent.) The last section bounds the result.
\<close>

function bit_len :: "int \<Rightarrow> int" where
  "bit_len n = (if n \<le> 0 then 0 else 1 + bit_len (n div 2))"
  by pat_completeness auto
termination
  by (relation "measure nat") (auto simp: nat_less_iff zdiv_int)

declare bit_len.simps [simp del]

definition pow2 :: "int \<Rightarrow> int" where
  "pow2 k = 2 ^ nat k"

text \<open>The double nearest to \<open>num / den\<close>, both positive, as \<open>(m, e)\<close> for \<open>m * 2 ^ e\<close>.\<close>

definition scaled_ratio :: "int \<Rightarrow> int \<Rightarrow> int \<Rightarrow> int" where
  "scaled_ratio num den e = half_even (num * pow2 (- e)) (den * pow2 e)"

definition nearest_double :: "int \<Rightarrow> int \<Rightarrow> int \<times> int" where
  "nearest_double num den =
     (let e = bit_len num - bit_len den - 53;
          big = (den * pow2 e * pow2 53 \<le> num * pow2 (- e))
      in (scaled_ratio num den (if big then e + 1 else e), if big then e + 1 else e))"

text \<open>\<open>int(abs(total_seconds) * 1000)\<close> of a duration of \<open>u\<close> microseconds, \<open>u\<close> not negative.\<close>

definition millis :: "int \<Rightarrow> int" where
  "millis u =
     (if u = 0 then 0
      else case nearest_double u 1000000 of (m, e) \<Rightarrow>
        case nearest_double (m * 1000 * pow2 e) (pow2 (- e)) of (k, f) \<Rightarrow>
          k * pow2 f div pow2 (- f))"

text \<open>
  \<open>datetime.fromtimestamp(ms / 1000, tz=UTC)\<close>, in microseconds since 1970: the quotient is the
  nearest double, its whole and fractional part are taken apart, and the fraction times a million is
  rounded twice, to a double and to an integer.
\<close>

definition seconds_to_micros :: "int \<times> int \<Rightarrow> int" where
  "seconds_to_micros = (\<lambda>(m, e).
     let n = m * pow2 e; d = pow2 (- e); whole = n div d; part = n mod d
     in whole * 1000000 + (if part = 0 then 0
          else case nearest_double (part * 1000000) d of (k, f) \<Rightarrow> half_even (k * pow2 f) (pow2 (- f))))"

definition timestamp_micros :: "int \<Rightarrow> int" where
  "timestamp_micros ms =
     (if ms = 0 then 0 else sgn ms * seconds_to_micros (nearest_double \<bar>ms\<bar> 1000))"

text \<open>
  An instant outside the years 1 to 9999 raises: \<open>ValueError\<close>, or beyond what the C library can
  represent a platform error, for which \<open>OverflowError\<close> stands here.
\<close>

definition from_timestamp_ms :: "int \<Rightarrow> int res" where
  "from_timestamp_ms ms =
     (if \<bar>ms\<bar> \<ge> 67768036191676800000
      then Inl (Raise OverflowError ''timestamp out of range for platform time_t'')
      else if ms < - 62135596800000 \<or> 253402300800000 \<le> ms
      then Inl (Raise ValueError ''year is out of range'')
      else Inr (timestamp_micros ms))"

section \<open>Bounds\<close>

text \<open>A duration of less than two to the 60 microseconds has a bounded number of milliseconds.\<close>

lemma bit_len_le: "n < 2 ^ k \<Longrightarrow> bit_len n \<le> int k"
proof (induction k arbitrary: n)
  case 0
  then show ?case by (subst bit_len.simps) simp
next
  case (Suc k)
  then have "n div 2 < 2 ^ k" by simp
  from Suc.IH [OF this] show ?case by (subst bit_len.simps) simp
qed

lemma bit_len_nonneg: "0 \<le> bit_len n" and bit_len_pos: "0 < n \<Longrightarrow> 1 \<le> bit_len n"
proof -
  show nn: "0 \<le> bit_len n" for n
    by (induction n rule: bit_len.induct) (subst bit_len.simps, simp)
  then show "0 < n \<Longrightarrow> 1 \<le> bit_len n" by (subst bit_len.simps) simp
qed

lemma pow2_le: "k \<le> int n \<Longrightarrow> pow2 k \<le> 2 ^ n" and pow2_pos: "0 < pow2 k"
  by (auto simp: pow2_def intro!: power_increasing)

lemma half_even_small: "0 \<le> n \<Longrightarrow> 1 \<le> d \<Longrightarrow> half_even n d \<le> n"
  using half_even_le [of d n n] mult_left_mono [of 1 d n] by simp

lemma nearest_double_bounds:
  assumes num: "0 \<le> num" "num < 2 ^ a" and den: "0 < den" "den < 2 ^ b" and r: "nearest_double num den = (m, e)"
  shows "0 \<le> m" "m < 2 ^ (a + b + 53)" "e \<le> int a" "- e \<le> int (b + 53)"
proof -
  have bits: "0 \<le> bit_len num" "bit_len num \<le> int a" "1 \<le> bit_len den" "bit_len den \<le> int b"
    using num den by (simp_all add: bit_len_le bit_len_nonneg bit_len_pos)
  have me: "m = scaled_ratio num den e" "bit_len num - bit_len den - 53 \<le> e" "e \<le> bit_len num - bit_len den - 52"
    using r by (auto simp: nearest_double_def Let_def split: if_splits)
  show "e \<le> int a" "- e \<le> int (b + 53)" using me(2,3) bits by simp_all
  have d1: "1 \<le> den * pow2 e" using den(1) pow2_pos [of e] by (metis int_one_le_iff_zero_less zero_less_mult_iff)
  have n0: "0 \<le> num * pow2 (- e)" using num(1) pow2_pos [of "- e"] by simp
  show "0 \<le> m" unfolding me(1) scaled_ratio_def using half_even_nonneg [of "den * pow2 e"] d1 n0 by simp
  have "m \<le> num * pow2 (- e)"
    unfolding me(1) scaled_ratio_def using half_even_small [OF n0 d1] by simp
  also have "\<dots> \<le> num * 2 ^ (b + 53)"
    using pow2_le [of "- e" "b + 53"] me(2) bits num(1) by (intro mult_left_mono) simp_all
  also have "\<dots> < 2 ^ a * 2 ^ (b + 53)" using num(2) by (intro mult_strict_right_mono) simp_all
  finally show "m < 2 ^ (a + b + 53)" by (simp add: power_add)
qed

lemma millis_bound:
  assumes "0 \<le> u" "u < 2 ^ 60"
  shows "0 \<le> millis u" "millis u < 2 ^ 600"
proof -
  have "0 \<le> millis u \<and> millis u < 2 ^ 600"
  proof (cases "u = 0")
    case False
    obtain m e where me: "nearest_double u 1000000 = (m, e)" by fastforce
    have "(1000000::int) < 2 ^ 20" by simp
    note b = nearest_double_bounds [OF assms _ this me, simplified]
    define n' where "n' = m * 1000 * pow2 e"
    obtain k f where kf: "nearest_double n' (pow2 (- e)) = (k, f)" by fastforce
    have n0: "0 \<le> n'" unfolding n'_def using b(1) pow2_pos [of e] by simp
    have "n' \<le> m * 1000 * 2 ^ 60"
      unfolding n'_def using pow2_le [of e 60] b by (intro mult_left_mono) simp_all
    also have "\<dots> < 2 ^ 133 * 1000 * 2 ^ 60" using b(2) by simp
    also have "\<dots> < 2 ^ 203" by simp
    finally have n1: "n' < 2 ^ 203" .
    have "pow2 (- e) \<le> 2 ^ 73" using pow2_le [of "- e" 73] b by simp
    then have d1: "pow2 (- e) < 2 ^ 74" by simp
    note c = nearest_double_bounds [OF n0 n1 pow2_pos d1 kf]
    have mk: "millis u = k * pow2 f div pow2 (- f)"
      using False me kf by (simp add: millis_def n'_def)
    have "k * pow2 f \<le> k * 2 ^ 203" using pow2_le [of f 203] c by (intro mult_left_mono) simp_all
    also have "\<dots> < 2 ^ 330 * 2 ^ 203" using c(2) by simp
    also have "\<dots> < 2 ^ 600" by simp
    finally have "k * pow2 f < 2 ^ 600" .
    moreover have nn: "0 \<le> k * pow2 f" using c(1) pow2_pos [of f] by simp
    moreover have "k * pow2 f div pow2 (- f) \<le> k * pow2 f"
      using zdiv_mono2 [OF nn, of 1 "pow2 (- f)"] pow2_pos [of "- f"] by simp
    moreover have "0 \<le> k * pow2 f div pow2 (- f)" using nn pow2_pos [of "- f"] by (simp add: pos_imp_zdiv_nonneg_iff)
    ultimately show ?thesis unfolding mk by linarith
  qed (simp add: millis_def)
  then show "0 \<le> millis u" "millis u < 2 ^ 600" by simp_all
qed

end
