(* ===== verification/Venue_Updates.thy ===== *)
theory Venue_Updates
  imports Venue_Reconciler Double_Arith Paper_Schemas
begin

text \<open>
  The parser of \<open>services/execution/reconciliation.py\<close>: a Binance order event becomes an update of
  the reconciler. The clock is read only when the event carries no time.
\<close>

definition vs_members :: "venue_status list" where
  "vs_members = [VS_NEW, VS_PARTIALLY_FILLED, VS_FILLED, VS_CANCELED, VS_EXPIRED, VS_REJECTED]"

interpretation vs: value_enum vs_value vs_members
proof unfold_locales
  show "x \<in> set vs_members" for x by (cases x) (simp_all add: vs_members_def)
  show "distinct (map vs_value vs_members)" by (simp add: vs_members_def)
qed

definition event_time_of :: "datetime \<Rightarrow> json_object \<Rightarrow> datetime res" where
  "event_time_of now payload =
     bind_res (py_int (jget_default payload ''E'' (JInt 0))) (\<lambda>ms.
     if ms = 0 then Inr now else map_res Aware (from_timestamp_ms ms))"

definition update_from_binance :: "datetime \<Rightarrow> json_object \<Rightarrow> string \<Rightarrow> venue_update res" where
  "update_from_binance now payload venue_target =
     (case jget_default payload ''o'' (JObj []) of
        JObj event \<Rightarrow>
          bind_res (event_time_of now payload) (\<lambda>event_time.
          let text = (\<lambda>k d. py_str (jget_default event k (JStr d)))
          in bind_res (enum_call vs_value vs_members (text ''X'' (vs_value VS_NEW)) ''VenueOrderStatus'') (\<lambda>status.
             Inr \<lparr>vu_venue_target = venue_target, vu_order_id = text ''i'' '''',
                  vu_client_order_id = text ''c'' '''', vu_status = status,
                  vu_execution_type = text ''x'' '''', vu_payload = payload,
                  vu_event_time = event_time\<rparr>))
      | _ \<Rightarrow> Inl (Raise ValueError ''ORDER_TRADE_UPDATE payload must include order object''))"

end
