(* ===== verification/Portfolio.thy ===== *)
theory Portfolio
  imports Paper_Schemas "HOL-Library.AList"
begin

text \<open>
  \<open>services/portfolio/accounting.py\<close>: how a fill changes the hedge books and the collateral, and the
  exposures computed from the books. Sums start from zero as Python's \<open>sum\<close> does; over no book at
  all Python's result is the integer 0, here the decimal 0 (the two differ only in print, and the
  accounts of the exchange always have books on both sides).
\<close>

section \<open>Applying a fill\<close>

definition sector_of :: "string \<Rightarrow> string option" where
  "sector_of symbol =
     (if symbol \<in> {''BTCUSDC'', ''ETHUSDC''} then Some ''crypto_majors'' else None)"

definition beta_of :: "string \<Rightarrow> decimal" where
  "beta_of symbol =
     (if symbol = ''BTCUSDC'' then d1 else if symbol = ''ETHUSDC'' then Dec 75 (- 2) else d1)"

definition book_is_increase :: "paper_fill \<Rightarrow> bool" where
  "book_is_increase f \<longleftrightarrow>
     (fl_side f = SD_BUY \<and> fl_book_side f = BS_LONG)
     \<or> (fl_side f = SD_SELL \<and> fl_book_side f = BS_SHORT)"

definition updated_book :: "paper_fill \<Rightarrow> position_book \<Rightarrow> position_book res" where
  "updated_book f b =
     (if pb_symbol b \<noteq> fl_symbol f \<or> pb_side b \<noteq> fl_book_side f then Inr b
      else
        bind_res
          (if book_is_increase f then
             bind_res (dadd (pb_quantity b) (fl_quantity f)) (\<lambda>new_quantity.
             bind_res (dmul (pb_quantity b) (pb_entry_price b)) (\<lambda>old_cost.
             bind_res (dmul (fl_quantity f) (fl_price f)) (\<lambda>added_cost.
             bind_res (dgt new_quantity d0) (\<lambda>positive.
             bind_res
               (if positive
                then bind_res (dadd old_cost added_cost) (\<lambda>cost. ddiv cost new_quantity)
                else Inr d0) (\<lambda>entry.
             Inr (new_quantity, entry))))))
           else
             bind_res (dsub (pb_quantity b) (fl_quantity f)) (\<lambda>rest.
             bind_res (dmax d0 rest) (\<lambda>new_quantity.
             bind_res (dgt new_quantity d0) (\<lambda>positive.
             Inr (new_quantity, if positive then pb_entry_price b else d0))))) (\<lambda>(new_quantity, entry).
        bind_res (dmul new_quantity (fl_price f)) (\<lambda>notional.
        Inr (b\<lparr>pb_quantity := new_quantity, pb_entry_price := entry,
               pb_mark_price := fl_price f, pb_notional := notional,
               pb_unrealized_pnl := d0\<rparr>))))"

definition debit_fee :: "decimal \<Rightarrow> collateral_asset \<Rightarrow> collateral_asset res" where
  "debit_fee fee c =
     bind_res (dsub (ca_wallet_balance c) fee) (\<lambda>wallet.
     bind_res (dsub (ca_available_balance c) fee) (\<lambda>available.
     Inr (c\<lparr>ca_wallet_balance := wallet, ca_available_balance := available\<rparr>)))"

definition apply_paper_fill :: "account_state \<Rightarrow> paper_fill \<Rightarrow> account_state res" where
  "apply_paper_fill a f =
     bind_res (mapM_res (updated_book f) (ac_position_books a)) (\<lambda>books.
     bind_res
       (case ac_collateral_assets a of
          [] \<Rightarrow> Inr []
        | c # cs \<Rightarrow> bind_res (debit_fee (fl_fee f) c) (\<lambda>c'. Inr (c' # cs))) (\<lambda>collateral.
     Inr (a\<lparr>ac_collateral_assets := collateral, ac_position_books := books,
            ac_unrealized_pnl := d0\<rparr>)))"

section \<open>Exposures\<close>

definition side_notionals :: "book_side \<Rightarrow> position_book list \<Rightarrow> decimal list" where
  "side_notionals s bs = map pb_notional (filter (\<lambda>b. pb_side b = s) bs)"

definition book_beta :: "position_book \<Rightarrow> decimal res" where
  "book_beta b =
     bind_res (dmul (pb_notional b) (beta_of (pb_symbol b))) (\<lambda>x.
     dmul x (if pb_side b = BS_LONG then d1 else Dec (- 1) 0))"

definition account_wallet :: "account_state \<Rightarrow> decimal" where
  "account_wallet a =
     (case ac_collateral_assets a of [] \<Rightarrow> d0 | c # _ \<Rightarrow> ca_wallet_balance c)"

definition calculate_portfolio_exposure :: "account_state \<Rightarrow> portfolio_exposure res" where
  "calculate_portfolio_exposure a =
     (let books = ac_position_books a
      in bind_res (dsum (side_notionals BS_LONG books)) (\<lambda>long.
         bind_res (dsum (side_notionals BS_SHORT books)) (\<lambda>short.
         bind_res (dadd long short) (\<lambda>gross.
         bind_res (dsub long short) (\<lambda>net.
         bind_res (dmax long short) (\<lambda>larger.
         bind_res (dgt larger d0) (\<lambda>positive.
         bind_res
           (if positive then bind_res (dmin long short) (\<lambda>smaller. ddiv smaller larger)
            else Inr d0) (\<lambda>hedge.
         bind_res (dmul (account_wallet a) (ac_liquidation_distance_ratio a)) (\<lambda>buffer.
         bind_res (dsum (map pb_notional
             (filter (\<lambda>b. sector_of (pb_symbol b) = Some ''crypto_majors'') books))) (\<lambda>sector.
         bind_res (foldM_res (\<lambda>acc b. bind_res (book_beta b) (dadd acc)) d0 books) (\<lambda>beta.
         bind_res (dabs beta) (\<lambda>correlated.
         bind_res (dsub long short) (\<lambda>imbalance.
         bind_res (dabs imbalance) (\<lambda>leg.
         bind_res (dsub buffer (ac_maintenance_margin a)) (\<lambda>cross.
         Inr \<lparr>px_gross_exposure = gross, px_net_exposure = net, px_long_exposure = long,
              px_short_exposure = short, px_hedge_ratio = hedge, px_liquidation_buffer = buffer,
              px_funding_exposure = ac_funding_exposure a, px_sector_exposure = sector,
              px_correlated_exposure = correlated, px_beta_exposure = beta,
              px_leg_imbalance = leg, px_cross_margin_buffer = cross\<rparr>)))))))))))))))"

text \<open>
  The payload keeps a dict from symbols to four printed numbers, and for each book reads two of them
  back from their text, adds to one and prints all four again.
\<close>

record symbol_exposure =
  se_long :: string
  se_short :: string
  se_gross :: string
  se_net :: string

definition zero_symbol_exposure :: symbol_exposure where
  "zero_symbol_exposure = \<lparr>se_long = ''0'', se_short = ''0'', se_gross = ''0'', se_net = ''0''\<rparr>"

definition decimal_of_text :: "string \<Rightarrow> decimal res" where
  "decimal_of_text t = (case parse_decimal t of Some d \<Rightarrow> Inr d | None \<Rightarrow> invalid)"

definition add_book_exposure ::
    "(string \<times> symbol_exposure) list \<Rightarrow> position_book \<Rightarrow> (string \<times> symbol_exposure) list res" where
  "add_book_exposure acc b =
     (let current = (case map_of acc (pb_symbol b) of None \<Rightarrow> zero_symbol_exposure | Some e \<Rightarrow> e)
      in bind_res (decimal_of_text (se_long current)) (\<lambda>l.
         bind_res (decimal_of_text (se_short current)) (\<lambda>s.
         bind_res (if pb_side b = BS_LONG then dadd l (pb_notional b) else Inr l) (\<lambda>l'.
         bind_res (if pb_side b = BS_LONG then Inr s else dadd s (pb_notional b)) (\<lambda>s'.
         bind_res (dadd l' s') (\<lambda>g.
         bind_res (dsub l' s') (\<lambda>n.
         Inr (AList.update (pb_symbol b)
           \<lparr>se_long = format_f l', se_short = format_f s', se_gross = format_f g,
            se_net = format_f n\<rparr> acc))))))))"

definition symbol_exposures :: "position_book list \<Rightarrow> (string \<times> symbol_exposure) list res" where
  "symbol_exposures books = foldM_res add_book_exposure [] books"

definition symbol_exposure_to_dict :: "symbol_exposure \<Rightarrow> json" where
  "symbol_exposure_to_dict e = JObj
     [(''long_notional'', JStr (se_long e)), (''short_notional'', JStr (se_short e)),
      (''gross_notional'', JStr (se_gross e)), (''net_notional'', JStr (se_net e))]"

definition portfolio_payload :: "account_state \<Rightarrow> json_object res" where
  "portfolio_payload a =
     bind_res (calculate_portfolio_exposure a) (\<lambda>x.
     bind_res (symbol_exposures (ac_position_books a)) (\<lambda>exposures.
     Inr
       [(''status'', JStr ''ok''),
        (''service'', JStr ''portfolio''),
        (''exposure'', exposure_to_public_dict x),
        (''sector_exposure'', JObj [(''crypto_majors'', JStr (format_f (px_sector_exposure x)))]),
        (''correlation_model'', JObj
          [(''source'', JStr ''local_static_phase_1_6_hardening''),
           (''btc_beta'', JStr ''1''), (''eth_beta'', JStr ''0.75'')]),
        (''symbol_exposure'',
           JObj (map (\<lambda>(s, e). (s, symbol_exposure_to_dict e)) exposures)),
        (''position_books'', JArr (map book_to_public_dict (ac_position_books a)))]))"

section \<open>Sums on a common grid\<close>

text \<open>
  Multiples of a power of ten add exactly as long as the magnitudes stay below 28 digits of the
  grid. Quantities, prices and fees of the exchange all lie on such a grid.
\<close>

definition on_grid :: "int \<Rightarrow> rat \<Rightarrow> bool" where
  "on_grid k v \<longleftrightarrow> (\<exists>c::int. v = of_int c * 10 powi (- k))"

lemma on_gridI: "v = of_int c * 10 powi (- k) \<Longrightarrow> on_grid k v"
  by (auto simp: on_grid_def)

lemma on_grid_zero [simp]: "on_grid k 0"
  by (rule on_gridI [of _ 0]) simp

lemma on_grid_add: "on_grid k u \<Longrightarrow> on_grid k v \<Longrightarrow> on_grid k (u + v)"
  unfolding on_grid_def by (metis of_int_add ring_distribs(2))

lemma on_grid_uminus: "on_grid k u \<Longrightarrow> on_grid k (- u)"
  unfolding on_grid_def by (metis of_int_minus minus_mult_left)

lemma on_grid_diff: "on_grid k u \<Longrightarrow> on_grid k v \<Longrightarrow> on_grid k (u - v)"
  using on_grid_add [of k u "- v"] on_grid_uminus by simp

lemma on_grid_mult: "on_grid j u \<Longrightarrow> on_grid k v \<Longrightarrow> on_grid (j + k) (u * v)"
proof -
  assume "on_grid j u" "on_grid k v"
  then obtain c d :: int where "u = of_int c * 10 powi (- j)" "v = of_int d * 10 powi (- k)"
    by (auto simp: on_grid_def)
  then have "u * v = of_int (c * d) * 10 powi (- (j + k))"
    using p10_add [of "- j" "- k"] by simp
  then show ?thesis by (rule on_gridI)
qed

lemma on_grid_finer: "on_grid j u \<Longrightarrow> j \<le> k \<Longrightarrow> on_grid k u"
proof -
  assume g: "on_grid j u" and jk: "j \<le> k"
  from g obtain c :: int where c: "u = of_int c * 10 powi (- j)" by (auto simp: on_grid_def)
  have "(10::rat) powi (- j) = of_int (pow10 (k - j)) * 10 powi (- k)"
    using jk by (simp add: pow10_rat flip: p10_add)
  with c have "u = of_int (c * pow10 (k - j)) * 10 powi (- k)" by simp
  then show ?thesis by (rule on_gridI)
qed

lemma grid_representable:
  assumes "on_grid k v" and "\<bar>v\<bar> * 10 powi k < 10 ^ 28" and "- 1000 \<le> k" "k \<le> 1000"
  shows "representable v"
proof -
  from assms(1) obtain c :: int where c: "v = of_int c * 10 powi (- k)" by (auto simp: on_grid_def)
  have "(10::rat) powi (- k) * 10 powi k = 1" by (simp flip: p10_add)
  then have "\<bar>v\<bar> * 10 powi k = \<bar>of_int c\<bar>" by (simp add: c abs_mult)
  with assms(2) have "(of_int \<bar>c\<bar> :: rat) < of_int (10 ^ 28)" by simp
  then have "\<bar>c\<bar> < 10 ^ 28" by (simp only: of_int_less_iff)
  with c assms(3,4) show ?thesis by (intro representableI [of _ c "- k"]) simp_all
qed

lemma foldM_dadd_exact:
  assumes "\<And>b. b \<in> set bs \<Longrightarrow> \<exists>d. f b = Inr d \<and> is_finite d \<and> dval d = v b \<and> on_grid k (v b)"
    and "is_finite a" "on_grid k (dval a)"
    and "(\<bar>dval a\<bar> + (\<Sum>b\<leftarrow>bs. \<bar>v b\<bar>)) * 10 powi k < 10 ^ 28" and "- 1000 \<le> k" "k \<le> 1000"
  shows "\<exists>d. foldM_res (\<lambda>acc b. bind_res (f b) (dadd acc)) a bs = Inr d \<and> is_finite d
           \<and> dval d = dval a + (\<Sum>b\<leftarrow>bs. v b)"
  using assms
proof (induction bs arbitrary: a)
  case (Cons b bs)
  from Cons.prems(1) obtain x
    where x: "f b = Inr x" "is_finite x" "dval x = v b" "on_grid k (v b)" by auto
  have pos: "0 \<le> (\<Sum>b\<leftarrow>bs. \<bar>v b\<bar>)" by (rule sum_list_nonneg) auto
  have "\<bar>dval a + v b\<bar> \<le> \<bar>dval a\<bar> + (\<Sum>b\<leftarrow>b # bs. \<bar>v b\<bar>)"
    using pos by simp
  then have "\<bar>dval a + v b\<bar> * 10 powi k < 10 ^ 28"
    using Cons.prems(4) by (meson mult_right_mono le_less_trans less_imp_le p10_pos)
  with Cons.prems x have "representable (dval a + v b)"
    by (intro grid_representable on_grid_add)
  with Cons.prems x obtain a'
    where a': "dadd a x = Inr a'" "is_finite a'" "dval a' = dval a + v b"
    using dadd_exact [of a x] by auto
  have "\<bar>dval a'\<bar> + (\<Sum>b\<leftarrow>bs. \<bar>v b\<bar>) \<le> \<bar>dval a\<bar> + (\<Sum>b\<leftarrow>b # bs. \<bar>v b\<bar>)"
    by (simp add: a'(3))
  then have "(\<bar>dval a'\<bar> + (\<Sum>b\<leftarrow>bs. \<bar>v b\<bar>)) * 10 powi k < 10 ^ 28"
    using Cons.prems(4) by (meson mult_right_mono le_less_trans less_imp_le p10_pos)
  then have "\<exists>d. foldM_res (\<lambda>acc b. bind_res (f b) (dadd acc)) a' bs = Inr d \<and> is_finite d
      \<and> dval d = dval a' + (\<Sum>b\<leftarrow>bs. v b)"
    using Cons.prems x a' by (intro Cons.IH) (auto intro: on_grid_add)
  with x a' show ?case by (auto simp: add.assoc)
qed simp

lemma dsum_exact:
  assumes "\<And>x. x \<in> set xs \<Longrightarrow> is_finite x \<and> on_grid k (dval x)"
    and "(\<Sum>x\<leftarrow>xs. \<bar>dval x\<bar>) * 10 powi k < 10 ^ 28" "- 1000 \<le> k" "k \<le> 1000"
  shows "\<exists>d. dsum xs = Inr d \<and> is_finite d \<and> dval d = (\<Sum>x\<leftarrow>xs. dval x)"
  using foldM_dadd_exact [of xs Inr dval k d0] assms by (simp add: dsum_def)

section \<open>What a fill leaves alone\<close>

lemma updated_book_key: "updated_book f b = Inr b' \<Longrightarrow> pb_symbol b' = pb_symbol b \<and> pb_side b' = pb_side b"
  by (auto simp: updated_book_def res_simps split: if_splits)

lemma updated_book_other:
  "(pb_symbol b, pb_side b) \<noteq> (fl_symbol f, fl_book_side f) \<Longrightarrow> updated_book f b = Inr b"
  by (auto simp: updated_book_def)

lemma apply_paper_fill_result:
  assumes "apply_paper_fill a f = Inr a'"
  shows "\<exists>books collateral. mapM_res (updated_book f) (ac_position_books a) = Inr books
     \<and> (case ac_collateral_assets a of [] \<Rightarrow> collateral = []
        | c # cs \<Rightarrow> \<exists>c'. debit_fee (fl_fee f) c = Inr c' \<and> collateral = c' # cs)
     \<and> a' = a\<lparr>ac_collateral_assets := collateral, ac_position_books := books,
              ac_unrealized_pnl := d0\<rparr>"
  using assms by (auto simp: apply_paper_fill_def res_simps split: list.splits)

text \<open>
  The interface between a trading service and the accounting: settling a fill rewrites collateral,
  books and unrealised profit, and nothing else, and keeps the keys of the books. What the clients
  rely on - that a settled account is as valid as before - follows from that alone.
\<close>

locale fill_settlement =
  fixes settle :: "account_state \<Rightarrow> paper_fill \<Rightarrow> account_state res"
  assumes settle_frame: "settle a f = Inr a' \<Longrightarrow>
    \<exists>books collateral. a' = a\<lparr>ac_collateral_assets := collateral, ac_position_books := books,
        ac_unrealized_pnl := d0\<rparr>
      \<and> book_keys books = book_keys (ac_position_books a)
      \<and> length collateral = length (ac_collateral_assets a)"
begin

lemma settle_keeps:
  assumes "settle a f = Inr a'"
  shows "ac_symbol_metadata a' = ac_symbol_metadata a" "ac_fee_policies a' = ac_fee_policies a"
    "book_keys (ac_position_books a') = book_keys (ac_position_books a)"
    "ac_freshness a' = ac_freshness a" "ac_position_mode a' = ac_position_mode a"
  using settle_frame [OF assms] by auto

lemma settle_account_ok:
  assumes "settle a f = Inr a'"
  shows "account_ok a' reference \<longleftrightarrow> account_ok a reference"
proof -
  obtain books collateral where a': "a' = a\<lparr>ac_collateral_assets := collateral,
      ac_position_books := books, ac_unrealized_pnl := d0\<rparr>"
    and k: "book_keys books = book_keys (ac_position_books a)"
    using settle_frame [OF assms] by blast
  have "hedge_errors a' = hedge_errors a" by (simp add: hedge_errors_def a' k)
  then show ?thesis by (simp add: account_ok_def a')
qed

lemma settle_all_account_ok:
  "foldM_res settle a fs = Inr a' \<Longrightarrow> account_ok a' reference \<longleftrightarrow> account_ok a reference"
  by (induction fs arbitrary: a) (use settle_account_ok in \<open>auto simp: res_simps, blast+\<close>)

end

interpretation accounting: fill_settlement apply_paper_fill
proof unfold_locales
  fix a f a'
  assume "apply_paper_fill a f = Inr a'"
  from apply_paper_fill_result [OF this] obtain books collateral
    where b: "mapM_res (updated_book f) (ac_position_books a) = Inr books"
      and c: "case ac_collateral_assets a of [] \<Rightarrow> collateral = []
        | c # cs \<Rightarrow> \<exists>c'. debit_fee (fl_fee f) c = Inr c' \<and> collateral = c' # cs"
      and a': "a' = a\<lparr>ac_collateral_assets := collateral, ac_position_books := books,
              ac_unrealized_pnl := d0\<rparr>" by blast
  have "book_keys books = book_keys (ac_position_books a)"
    unfolding book_keys_def by (rule mapM_res_map [OF b]) (simp add: updated_book_key)
  moreover have "length collateral = length (ac_collateral_assets a)"
    using c by (auto split: list.splits)
  ultimately show "\<exists>books collateral. a' = a\<lparr>ac_collateral_assets := collateral,
      ac_position_books := books, ac_unrealized_pnl := d0\<rparr>
      \<and> book_keys books = book_keys (ac_position_books a)
      \<and> length collateral = length (ac_collateral_assets a)"
    using a' by blast
qed

section \<open>Exact bookkeeping\<close>

lemma updated_book_increase:
  assumes key: "pb_symbol b = fl_symbol f" "pb_side b = fl_book_side f" and inc: "book_is_increase f"
    and fin: "list_all is_finite [pb_quantity b, pb_entry_price b, fl_quantity f, fl_price f]"
    and q: "Q = dval (pb_quantity b) + dval (fl_quantity f)" "0 < Q"
    and cost: "C = dval (pb_quantity b) * dval (pb_entry_price b) + dval (fl_quantity f) * dval (fl_price f)"
    and rep: "list_all representable [Q, dval (pb_quantity b) * dval (pb_entry_price b),
      dval (fl_quantity f) * dval (fl_price f), C, C / Q, Q * dval (fl_price f)]"
  shows "\<exists>b'. updated_book f b = Inr b' \<and> dval (pb_quantity b') = Q \<and> dval (pb_entry_price b') = C / Q
    \<and> dval (pb_notional b') = Q * dval (fl_price f)"
proof -
  from fin have fin': "is_finite (pb_quantity b)" "is_finite (pb_entry_price b)"
    "is_finite (fl_quantity f)" "is_finite (fl_price f)" by simp_all
  from rep have rep': "representable Q" "representable (dval (pb_quantity b) * dval (pb_entry_price b))"
    "representable (dval (fl_quantity f) * dval (fl_price f))" "representable C"
    "representable (C / Q)" "representable (Q * dval (fl_price f))" by simp_all
  obtain nq where nq: "dadd (pb_quantity b) (fl_quantity f) = Inr nq" "is_finite nq" "dval nq = Q"
    using dadd_exact [OF fin'(1,3)] rep'(1) q(1) by auto
  obtain oc where oc: "dmul (pb_quantity b) (pb_entry_price b) = Inr oc" "is_finite oc"
    "dval oc = dval (pb_quantity b) * dval (pb_entry_price b)"
    using dmul_exact [OF fin'(1,2) rep'(2)] by blast
  obtain adc where adc: "dmul (fl_quantity f) (fl_price f) = Inr adc" "is_finite adc"
    "dval adc = dval (fl_quantity f) * dval (fl_price f)"
    using dmul_exact [OF fin'(3,4) rep'(3)] by blast
  obtain c where c: "dadd oc adc = Inr c" "is_finite c" "dval c = C"
    using dadd_exact [OF oc(2) adc(2)] rep'(4) oc(3) adc(3) cost by auto
  obtain e where e: "ddiv c nq = Inr e" "dval e = C / Q"
    using ddiv_exact [OF c(2) nq(2)] rep'(5) q(2) c(3) nq(3) by auto
  obtain n where n: "dmul nq (fl_price f) = Inr n" "dval n = Q * dval (fl_price f)"
    using dmul_exact [OF nq(2) fin'(4)] rep'(6) nq(3) by auto
  show ?thesis
    using key inc nq oc adc c e n q(2) by (simp add: updated_book_def dec_simps)
qed

lemma updated_book_decrease:
  assumes key: "pb_symbol b = fl_symbol f" "pb_side b = fl_book_side f" and dec: "\<not> book_is_increase f"
    and fin: "list_all is_finite [pb_quantity b, fl_quantity f, fl_price f]"
    and q: "Q = max 0 (dval (pb_quantity b) - dval (fl_quantity f))"
    and rep: "list_all representable [dval (pb_quantity b) - dval (fl_quantity f), Q * dval (fl_price f)]"
  shows "\<exists>b'. updated_book f b = Inr b' \<and> dval (pb_quantity b') = Q
    \<and> pb_entry_price b' = (if 0 < Q then pb_entry_price b else d0)
    \<and> dval (pb_notional b') = Q * dval (fl_price f)"
proof -
  from fin have fin': "is_finite (pb_quantity b)" "is_finite (fl_quantity f)" "is_finite (fl_price f)"
    by simp_all
  obtain r where r: "dsub (pb_quantity b) (fl_quantity f) = Inr r" "is_finite r"
    "dval r = dval (pb_quantity b) - dval (fl_quantity f)"
    using dsub_exact [OF fin'(1,2)] rep by auto
  obtain nq where nq: "dmax d0 r = Inr nq" "is_finite nq" "dval nq = Q"
    using r q by (auto simp: dec_simps max_def)
  obtain n where n: "dmul nq (fl_price f) = Inr n" "dval n = Q * dval (fl_price f)"
    using dmul_exact [OF nq(2) fin'(3)] rep nq(3) by auto
  show ?thesis
    using key dec r nq n by (simp add: updated_book_def dec_simps)
qed

section \<open>Exact exposures\<close>

text \<open>Books whose notionals share a grid with room for the beta weights, as the exchange keeps them.\<close>

definition total_notional :: "position_book list \<Rightarrow> rat" where
  "total_notional bs = (\<Sum>b\<leftarrow>bs. dval (pb_notional b))"

definition side_total :: "book_side \<Rightarrow> position_book list \<Rightarrow> rat" where
  "side_total s bs = (\<Sum>b\<leftarrow>filter (\<lambda>b. pb_side b = s) bs. dval (pb_notional b))"

definition grid_books :: "int \<Rightarrow> position_book list \<Rightarrow> bool" where
  "grid_books k bs \<longleftrightarrow>
     (\<forall>b \<in> set bs. is_finite (pb_notional b) \<and> on_grid k (dval (pb_notional b))
        \<and> 0 \<le> dval (pb_notional b))
     \<and> total_notional bs * 10 powi (k + 2) < 10 ^ 28 \<and> 0 \<le> k \<and> k \<le> 900"

definition beta_weight :: "position_book \<Rightarrow> rat" where
  "beta_weight b = dval (beta_of (pb_symbol b)) * (if pb_side b = BS_LONG then 1 else - 1)"

definition beta_total :: "position_book list \<Rightarrow> rat" where
  "beta_total bs = (\<Sum>b\<leftarrow>bs. dval (pb_notional b) * beta_weight b)"

lemma side_totals: "side_total BS_LONG bs + side_total BS_SHORT bs = total_notional bs"
proof (induction bs)
  case (Cons b bs)
  then show ?case by (cases "pb_side b") (auto simp: side_total_def total_notional_def)
qed (simp_all add: side_total_def total_notional_def)

lemma grid_booksD:
  assumes "grid_books k bs"
  shows "b \<in> set bs \<Longrightarrow> is_finite (pb_notional b)" "b \<in> set bs \<Longrightarrow> on_grid k (dval (pb_notional b))"
    "b \<in> set bs \<Longrightarrow> 0 \<le> dval (pb_notional b)"
    "total_notional bs * 10 powi (k + 2) < 10 ^ 28" "0 \<le> k" "k \<le> 900"
  using assms by (simp_all add: grid_books_def)

lemma grid_books_filter_sum:
  assumes "grid_books k bs"
  shows "0 \<le> (\<Sum>b\<leftarrow>filter P bs. dval (pb_notional b))"
    and "(\<Sum>b\<leftarrow>filter P bs. dval (pb_notional b)) \<le> total_notional bs"
proof -
  have "0 \<le> (\<Sum>b\<leftarrow>filter P bs. dval (pb_notional b))
      \<and> (\<Sum>b\<leftarrow>filter P bs. dval (pb_notional b)) \<le> total_notional bs"
    if "\<forall>b \<in> set bs. 0 \<le> dval (pb_notional b)" for bs :: "position_book list"
    using that by (induction bs) (auto simp: total_notional_def)
  with grid_booksD(3) [OF assms] show "0 \<le> (\<Sum>b\<leftarrow>filter P bs. dval (pb_notional b))"
    and "(\<Sum>b\<leftarrow>filter P bs. dval (pb_notional b)) \<le> total_notional bs" by blast+
qed

lemma grid_books_bound:
  assumes "grid_books k bs" and "\<bar>v\<bar> \<le> total_notional bs"
  shows "\<bar>v\<bar> * 10 powi k < 10 ^ 28" and "\<bar>v\<bar> * 10 powi (k + 2) < 10 ^ 28"
proof -
  show 2: "\<bar>v\<bar> * 10 powi (k + 2) < 10 ^ 28"
    using assms(2) grid_booksD(4) [OF assms(1)]
    by (meson mult_right_mono le_less_trans less_imp_le p10_pos)
  have "(10::rat) powi k \<le> 10 powi (k + 2)" by (simp add: p10_le_iff)
  then have "\<bar>v\<bar> * 10 powi k \<le> \<bar>v\<bar> * 10 powi (k + 2)" by (simp add: mult_left_mono)
  with 2 show "\<bar>v\<bar> * 10 powi k < 10 ^ 28" by simp
qed

lemma grid_books_sum:
  assumes g: "grid_books k bs"
  shows "\<exists>d. dsum (map pb_notional (filter P bs)) = Inr d \<and> is_finite d
    \<and> dval d = (\<Sum>b\<leftarrow>filter P bs. dval (pb_notional b)) \<and> on_grid k (dval d)"
proof -
  let ?xs = "map pb_notional (filter P bs)"
  have grid: "x \<in> set ?xs \<Longrightarrow> is_finite x \<and> on_grid k (dval x)" for x
    using grid_booksD(1,2) [OF g] by auto
  have "(\<Sum>x\<leftarrow>?xs. \<bar>dval x\<bar>) = (\<Sum>b\<leftarrow>filter P bs. dval (pb_notional b))"
    using grid_booksD(3) [OF g] by (auto intro!: arg_cong [where f = sum_list])
  then have "(\<Sum>x\<leftarrow>?xs. \<bar>dval x\<bar>) * 10 powi k < 10 ^ 28"
    using grid_books_bound(1) [OF g, of "\<Sum>b\<leftarrow>filter P bs. dval (pb_notional b)"]
      grid_books_filter_sum [OF g, of P] by simp
  then obtain d where d: "dsum ?xs = Inr d" "is_finite d" "dval d = (\<Sum>x\<leftarrow>?xs. dval x)"
    using dsum_exact [of ?xs k] grid grid_booksD(5,6) [OF g] by auto
  have "on_grid k (\<Sum>b\<leftarrow>cs. dval (pb_notional b))" if "set cs \<subseteq> set bs" for cs
    using that grid_booksD(2) [OF g] by (induction cs) (auto intro: on_grid_add)
  then have "on_grid k (\<Sum>b\<leftarrow>filter P bs. dval (pb_notional b))" by auto
  with d show ?thesis by (auto simp: comp_def)
qed

lemma beta_of_val: "is_finite (beta_of s)" "on_grid 2 (dval (beta_of s))" "0 < dval (beta_of s)"
  "dval (beta_of s) \<le> 1"
  by (auto simp: beta_of_def power_int_minus
      intro: on_gridI [of _ 75] on_gridI [of _ 100])

lemma beta_weight_le: "\<bar>v * beta_weight b\<bar> \<le> \<bar>v\<bar>"
proof -
  have "\<bar>beta_weight b\<bar> \<le> 1" using beta_of_val(3,4) [of "pb_symbol b"] by (simp add: beta_weight_def)
  then have "\<bar>v\<bar> * \<bar>beta_weight b\<bar> \<le> \<bar>v\<bar> * 1" by (intro mult_left_mono) simp_all
  then show ?thesis by (simp add: abs_mult)
qed

lemma book_beta_exact:
  assumes g: "grid_books k bs" and b: "b \<in> set bs"
  shows "\<exists>d. book_beta b = Inr d \<and> is_finite d \<and> dval d = dval (pb_notional b) * beta_weight b
    \<and> on_grid (k + 2) (dval (pb_notional b) * beta_weight b)"
proof -
  let ?n = "dval (pb_notional b)" and ?w = "dval (beta_of (pb_symbol b))"
  let ?s = "if pb_side b = BS_LONG then d1 else Dec (- 1) 0"
  have "?n \<le> total_notional cs" if "b \<in> set cs" "\<forall>c \<in> set cs. 0 \<le> dval (pb_notional c)" for cs
    using that
  proof (induction cs)
    case (Cons c cs)
    then have pos: "0 \<le> (\<Sum>c\<leftarrow>cs. dval (pb_notional c))" by (intro sum_list_nonneg) auto
    show ?case
    proof (cases "b = c")
      case True
      with pos show ?thesis by (simp add: total_notional_def)
    next
      case False
      with Cons have "?n \<le> total_notional cs" by simp
      with Cons.prems(2) show ?thesis by (simp add: total_notional_def)
    qed
  qed simp
  then have nle: "\<bar>?n\<bar> \<le> total_notional bs" using b grid_booksD(3) [OF g] by simp
  have grid: "on_grid (k + 2) (?n * ?w)"
    using grid_booksD(2) [OF g b] beta_of_val(2) by (rule on_grid_mult)
  have small: "\<bar>?n * beta_weight b\<bar> \<le> total_notional bs"
    using beta_weight_le [of ?n b] nle by linarith
  have same: "\<bar>?n * ?w\<bar> = \<bar>?n * beta_weight b\<bar>" by (simp add: beta_weight_def abs_mult)
  have "representable (?n * ?w)"
    using grid grid_books_bound(2) [OF g, of "?n * ?w"] small same grid_booksD(5,6) [OF g]
    by (intro grid_representable [of "k + 2"]) simp_all
  then obtain x where x: "dmul (pb_notional b) (beta_of (pb_symbol b)) = Inr x" "is_finite x"
    "dval x = ?n * ?w"
    using dmul_exact [OF grid_booksD(1) [OF g b] beta_of_val(1)] by blast
  have v: "dval x * dval ?s = ?n * beta_weight b" by (simp add: x(3) beta_weight_def)
  have grid': "on_grid (k + 2) (?n * beta_weight b)"
    using grid on_grid_uminus [OF grid] by (simp add: beta_weight_def)
  have "representable (?n * beta_weight b)"
    using grid' grid_books_bound(2) [OF g small] grid_booksD(5,6) [OF g]
    by (intro grid_representable [of "k + 2"]) simp_all
  moreover have "is_finite ?s" by simp
  ultimately obtain d where "dmul x ?s = Inr d" "is_finite d" "dval d = ?n * beta_weight b"
    using dmul_exact [of x ?s] x(2) v by auto
  with x(1) grid' show ?thesis by (auto simp: book_beta_def)
qed

lemma beta_total_exact:
  assumes g: "grid_books k bs"
  shows "\<exists>d. foldM_res (\<lambda>acc b. bind_res (book_beta b) (dadd acc)) d0 bs = Inr d \<and> is_finite d
    \<and> dval d = beta_total bs \<and> \<bar>beta_total bs\<bar> \<le> total_notional bs \<and> on_grid (k + 2) (beta_total bs)"
proof -
  have le: "(\<Sum>b\<leftarrow>cs. \<bar>dval (pb_notional b) * beta_weight b\<bar>) \<le> (\<Sum>b\<leftarrow>cs. \<bar>dval (pb_notional b)\<bar>)" for cs
    by (rule sum_list_mono) (rule beta_weight_le)
  have tot: "(\<Sum>b\<leftarrow>bs. \<bar>dval (pb_notional b)\<bar>) = total_notional bs"
    unfolding total_notional_def using grid_booksD(3) [OF g]
    by (auto intro!: arg_cong [where f = sum_list])
  have le': "(\<Sum>b\<leftarrow>bs. \<bar>dval (pb_notional b) * beta_weight b\<bar>) \<le> total_notional bs"
    using le [of bs] tot by simp
  have pos: "0 \<le> (\<Sum>b\<leftarrow>bs. \<bar>dval (pb_notional b) * beta_weight b\<bar>)" by (rule sum_list_nonneg) auto
  have "(\<Sum>b\<leftarrow>bs. \<bar>dval (pb_notional b) * beta_weight b\<bar>) * 10 powi (k + 2) < 10 ^ 28"
    using grid_books_bound(2) [OF g, of "\<Sum>b\<leftarrow>bs. \<bar>dval (pb_notional b) * beta_weight b\<bar>"] le' pos by simp
  then obtain d where d: "foldM_res (\<lambda>acc b. bind_res (book_beta b) (dadd acc)) d0 bs = Inr d"
    "is_finite d" "dval d = beta_total bs"
    using foldM_dadd_exact [of bs book_beta "\<lambda>b. dval (pb_notional b) * beta_weight b" "k + 2" d0]
      book_beta_exact [OF g] grid_booksD(5,6) [OF g] by (auto simp: beta_total_def)
  have "\<bar>\<Sum>b\<leftarrow>cs. dval (pb_notional b) * beta_weight b\<bar>
      \<le> (\<Sum>b\<leftarrow>cs. \<bar>dval (pb_notional b) * beta_weight b\<bar>)" for cs
    by (rule sum_list_abs [of "map _ cs", unfolded list.map_comp comp_def])
  from this [of bs] le' have "\<bar>beta_total bs\<bar> \<le> total_notional bs" unfolding beta_total_def
    by (rule order_trans)
  moreover have "on_grid (k + 2) (\<Sum>b\<leftarrow>cs. dval (pb_notional b) * beta_weight b)" if "set cs \<subseteq> set bs" for cs
    using that book_beta_exact [OF g] by (induction cs) (auto intro: on_grid_add)
  then have "on_grid (k + 2) (beta_total bs)" by (simp add: beta_total_def)
  ultimately show ?thesis using d by blast
qed

lemma exposure_exact:
  assumes g: "grid_books k (ac_position_books a)"
    and fin: "list_all is_finite [account_wallet a, ac_liquidation_distance_ratio a, ac_maintenance_margin a]"
    and small: "\<bar>dval (account_wallet a) * dval (ac_liquidation_distance_ratio a)\<bar> \<le> 10 powi n"
      "\<bar>dval (ac_maintenance_margin a)\<bar> \<le> 10 powi n" "0 \<le> n" "n < 900000"
    and L: "L = side_total BS_LONG (ac_position_books a)" and S: "S = side_total BS_SHORT (ac_position_books a)"
  shows "\<exists>x. calculate_portfolio_exposure a = Inr x
    \<and> list_all is_finite [px_gross_exposure x, px_leg_imbalance x, px_sector_exposure x,
         px_correlated_exposure x, px_beta_exposure x]
    \<and> dval (px_long_exposure x) = L \<and> dval (px_short_exposure x) = S
    \<and> dval (px_gross_exposure x) = L + S \<and> dval (px_net_exposure x) = L - S
    \<and> dval (px_leg_imbalance x) = \<bar>L - S\<bar> \<and> \<bar>dval (px_hedge_ratio x)\<bar> \<le> 1
    \<and> dval (px_sector_exposure x) \<le> L + S
    \<and> dval (px_beta_exposure x) = beta_total (ac_position_books a)
    \<and> dval (px_correlated_exposure x) = \<bar>beta_total (ac_position_books a)\<bar>"
proof -
  let ?bs = "ac_position_books a"
  let ?maj = "\<lambda>b. sector_of (pb_symbol b) = Some ''crypto_majors''"
  obtain l where l: "dsum (side_notionals BS_LONG ?bs) = Inr l" "is_finite l" "dval l = L" "on_grid k L"
    using grid_books_sum [OF g, of "\<lambda>b. pb_side b = BS_LONG"] by (auto simp: side_notionals_def L side_total_def)
  obtain s where s: "dsum (side_notionals BS_SHORT ?bs) = Inr s" "is_finite s" "dval s = S" "on_grid k S"
    using grid_books_sum [OF g, of "\<lambda>b. pb_side b = BS_SHORT"] by (auto simp: side_notionals_def S side_total_def)
  obtain sec where sec: "dsum (map pb_notional (filter ?maj ?bs)) = Inr sec" "is_finite sec"
    "dval sec \<le> L + S"
    using grid_books_sum [OF g, of ?maj] grid_books_filter_sum(2) [OF g, of ?maj] side_totals [of ?bs]
    by (auto simp: L S)
  have tot: "L + S = total_notional ?bs" by (simp add: L S side_totals)
  have pos: "0 \<le> L" "0 \<le> S" using grid_books_filter_sum(1) [OF g] by (simp_all add: L S side_total_def)
  have rep: "representable v" if "on_grid k v" "\<bar>v\<bar> \<le> L + S" for v
    using that grid_books_bound(1) [OF g, of v] grid_booksD(5,6) [OF g]
    by (intro grid_representable [of k]) (simp_all add: tot)
  obtain gr where gr: "dadd l s = Inr gr" "is_finite gr" "dval gr = L + S"
    using dadd_exact [OF l(2) s(2)] rep [OF on_grid_add [OF l(4) s(4)]] l(3) s(3) pos by auto
  obtain net where net: "dsub l s = Inr net" "is_finite net" "dval net = L - S"
    using dsub_exact [OF l(2) s(2)] rep [OF on_grid_diff [OF l(4) s(4)]] l(3) s(3) pos by auto
  obtain leg where leg: "dabs net = Inr leg" "is_finite leg" "dval leg = \<bar>L - S\<bar>"
    using dabs_exact [OF net(2)] rep [OF on_grid_diff [OF l(4) s(4)]] net(3) pos by auto
  obtain lg where lg: "dmax l s = Inr lg" "is_finite lg" "dval lg = max L S"
    using l(2,3) s(2,3) by (auto simp: dec_simps max_def)
  obtain sm where sm: "dmin l s = Inr sm" "is_finite sm" "dval sm = min L S"
    using l(2,3) s(2,3) by (auto simp: dec_simps min_def)
  have "\<exists>h. (if 0 < max L S then ddiv sm lg else Inr d0) = Inr h \<and> \<bar>dval h\<bar> \<le> 1"
  proof (cases "0 < max L S")
    case True
    then have "\<bar>min L S / max L S\<bar> \<le> 10 powi 0" using pos by (simp add: field_simps)
    with True show ?thesis using ddiv_total [OF sm(2) lg(2), of 0] lg(3) sm(3) by auto
  qed simp
  then obtain h where h: "(if 0 < max L S then ddiv sm lg else Inr d0) = Inr h" "\<bar>dval h\<bar> \<le> 1" by blast
  obtain buf where buf: "dmul (account_wallet a) (ac_liquidation_distance_ratio a) = Inr buf"
    "is_finite buf" "\<bar>dval buf\<bar> \<le> 10 powi n"
    using dmul_total [of "account_wallet a" "ac_liquidation_distance_ratio a" n] fin small by auto
  have "\<bar>dval buf - dval (ac_maintenance_margin a)\<bar> \<le> 2 * (10::rat) powi n"
    using buf(3) small(2) by linarith
  also have "\<dots> \<le> 10 powi (n + 1)" using p10_add [of n 1] by simp
  finally obtain cr where cr: "dsub buf (ac_maintenance_margin a) = Inr cr"
    using dsub_total [of buf "ac_maintenance_margin a" "n + 1"] buf(2) fin small(3,4) by auto
  obtain be where be: "foldM_res (\<lambda>acc b. bind_res (book_beta b) (dadd acc)) d0 ?bs = Inr be"
    "is_finite be" "dval be = beta_total ?bs" "\<bar>beta_total ?bs\<bar> \<le> L + S" "on_grid (k + 2) (beta_total ?bs)"
    using beta_total_exact [OF g] tot by auto
  have "representable (beta_total ?bs)"
    using be(4,5) grid_books_bound(2) [OF g] grid_booksD(5,6) [OF g] tot
    by (intro grid_representable [of "k + 2"]) simp_all
  then obtain co where co: "dabs be = Inr co" "is_finite co" "dval co = \<bar>beta_total ?bs\<bar>"
    using dabs_exact [OF be(2)] be(3) by auto
  have gt: "dgt lg d0 = Inr (0 < max L S)" using lg by (simp add: dec_simps)
  have hh: "(if 0 < max L S then bind_res (dmin l s) (\<lambda>smaller. ddiv smaller lg) else Inr d0) = Inr h"
    using h(1) sm(1) by (auto split: if_splits)
  have "calculate_portfolio_exposure a = Inr
     \<lparr>px_gross_exposure = gr, px_net_exposure = net, px_long_exposure = l, px_short_exposure = s,
      px_hedge_ratio = h, px_liquidation_buffer = buf, px_funding_exposure = ac_funding_exposure a,
      px_sector_exposure = sec, px_correlated_exposure = co, px_beta_exposure = be,
      px_leg_imbalance = leg, px_cross_margin_buffer = cr\<rparr>"
    by (simp only: calculate_portfolio_exposure_def Let_def l(1) s(1) gr(1) net(1) leg(1) lg(1) gt hh
        buf(1) cr be(1) co(1) sec(1) bind_res_Inr)
  then show ?thesis using l s gr net leg h(2) be co sec by simp
qed

section \<open>Properties\<close>

text \<open>
  C16: LONG and SHORT are never netted. A settled fill leaves every book but the one of its symbol
  and book side exactly as it was, keeps the key of that one too, touches no collateral but the
  first asset, and no order, metadata or fee policy of the account.
\<close>

theorem hedge_books_never_netted:
  assumes "apply_paper_fill a f = Inr a'" and "i < length (ac_position_books a)"
  shows "length (ac_position_books a') = length (ac_position_books a)
    \<and> pb_symbol (ac_position_books a' ! i) = pb_symbol (ac_position_books a ! i)
    \<and> pb_side (ac_position_books a' ! i) = pb_side (ac_position_books a ! i)
    \<and> ((pb_symbol (ac_position_books a ! i), pb_side (ac_position_books a ! i))
          \<noteq> (fl_symbol f, fl_book_side f)
       \<longrightarrow> ac_position_books a' ! i = ac_position_books a ! i)
    \<and> tl (ac_collateral_assets a') = tl (ac_collateral_assets a)
    \<and> a' = a\<lparr>ac_collateral_assets := ac_collateral_assets a',
            ac_position_books := ac_position_books a', ac_unrealized_pnl := d0\<rparr>"
proof -
  from apply_paper_fill_result [OF assms(1)] obtain books collateral
    where b: "mapM_res (updated_book f) (ac_position_books a) = Inr books"
      and c: "case ac_collateral_assets a of [] \<Rightarrow> collateral = []
        | c # cs \<Rightarrow> \<exists>c'. debit_fee (fl_fee f) c = Inr c' \<and> collateral = c' # cs"
      and a': "a' = a\<lparr>ac_collateral_assets := collateral, ac_position_books := books,
              ac_unrealized_pnl := d0\<rparr>" by blast
  have u: "updated_book f (ac_position_books a ! i) = Inr (books ! i)"
    by (rule mapM_res_nth [OF b assms(2)])
  note key = updated_book_key [OF u]
  have other: "books ! i = ac_position_books a ! i"
    if "(pb_symbol (ac_position_books a ! i), pb_side (ac_position_books a ! i))
      \<noteq> (fl_symbol f, fl_book_side f)"
    using updated_book_other [OF that] u by simp
  have len: "length books = length (ac_position_books a)" by (rule mapM_res_length [OF b])
  have rest: "tl collateral = tl (ac_collateral_assets a)" using c by (auto split: list.splits)
  have parts: "ac_position_books a' = books" "ac_collateral_assets a' = collateral"
    by (simp_all add: a')
  show ?thesis
    unfolding parts using key other len rest a' by blast
qed

definition sample_fill :: paper_fill where
  "sample_fill =
     \<lparr>fl_fill_id = ''paper-fill-000001'', fl_order_id = ''paper-order-000001'',
      fl_symbol = ''BTCUSDC'', fl_side = SD_SELL, fl_book_side = BS_SHORT, fl_quantity = Dec 5 (- 3),
      fl_price = Dec 650005 (- 1), fl_liquidity = ''maker'', fl_fee = Dec 325 (- 4),
      fl_created_at = Aware 0\<rparr>"

theorem hedge_books_never_netted_witness:
  "\<exists>a'. apply_paper_fill (seed_account (Aware 0)) sample_fill = Inr a'
     \<and> ac_position_books a' ! 0 = ac_position_books (seed_account (Aware 0)) ! 0"
proof -
  have "case apply_paper_fill (seed_account (Aware 0)) sample_fill of Inl _ \<Rightarrow> False | Inr _ \<Rightarrow> True"
    by code_simp
  then obtain a' where 1: "apply_paper_fill (seed_account (Aware 0)) sample_fill = Inr a'"
    by (auto split: sum.splits)
  have 2: "0 < length (ac_position_books (seed_account (Aware 0)))" by (simp add: seed_account_def)
  have 3: "pb_side (ac_position_books (seed_account (Aware 0)) ! 0) = BS_LONG"
    by (simp add: seed_account_def empty_book_def)
  from hedge_books_never_netted [OF 1 2] 1 3 show ?thesis by (auto simp: sample_fill_def)
qed

text \<open>
  C17: Increasing fills are booked exactly. When the amounts involved have at most 28 digits, the
  book's quantity grows by the filled quantity, its entry price becomes the average of old and new
  cost weighted by quantity, and its notional is the new quantity at the fill price.
\<close>

theorem increase_books_average_price:
  assumes "pb_symbol b = fl_symbol f" "pb_side b = fl_book_side f" and "book_is_increase f"
    and "list_all is_finite [pb_quantity b, pb_entry_price b, fl_quantity f, fl_price f]"
    and "Q = dval (pb_quantity b) + dval (fl_quantity f)" "0 < Q"
    and "C = dval (pb_quantity b) * dval (pb_entry_price b) + dval (fl_quantity f) * dval (fl_price f)"
    and "list_all representable [Q, dval (pb_quantity b) * dval (pb_entry_price b),
      dval (fl_quantity f) * dval (fl_price f), C, C / Q, Q * dval (fl_price f)]"
  shows "\<exists>b'. updated_book f b = Inr b' \<and> dval (pb_quantity b') = Q
    \<and> dval (pb_quantity b') * dval (pb_entry_price b') = C
    \<and> dval (pb_notional b') = Q * dval (fl_price f)"
  using updated_book_increase [OF assms] assms(6) by auto

theorem increase_books_average_price_witness:
  "\<exists>b'. updated_book sample_fill
          ((empty_book ''BTCUSDC'' BS_SHORT)\<lparr>pb_quantity := Dec 5 (- 3), pb_entry_price := Dec 650001 (- 1)\<rparr>)
        = Inr b' \<and> dval (pb_quantity b') = 1 / 100"
proof -
  let ?b = "(empty_book ''BTCUSDC'' BS_SHORT)\<lparr>pb_quantity := Dec 5 (- 3), pb_entry_price := Dec 650001 (- 1)\<rparr>"
  have v: "dval (pb_quantity ?b) = 5 / 1000" "dval (fl_quantity sample_fill) = 5 / 1000"
    "dval (pb_entry_price ?b) = 650001 / 10" "dval (fl_price sample_fill) = 650005 / 10"
    by (simp_all add: sample_fill_def power_int_minus)
  have 1: "pb_symbol ?b = fl_symbol sample_fill" "pb_side ?b = fl_book_side sample_fill"
    "book_is_increase sample_fill"
    by (simp_all add: empty_book_def sample_fill_def book_is_increase_def)
  have 2: "list_all is_finite [pb_quantity ?b, pb_entry_price ?b, fl_quantity sample_fill, fl_price sample_fill]"
    by (simp add: sample_fill_def)
  have 3: "1 / 100 = dval (pb_quantity ?b) + dval (fl_quantity sample_fill)" "0 < (1 / 100 :: rat)"
    unfolding v by simp_all
  have 4: "650003 / 1000 = dval (pb_quantity ?b) * dval (pb_entry_price ?b)
      + dval (fl_quantity sample_fill) * dval (fl_price sample_fill)"
    unfolding v by simp
  have r: "representable (of_int n / 10000)" if "\<bar>n\<bar> < 10 ^ 28" for n :: int
    by (rule representableI [of _ n "- 4", OF _ that]) (simp_all add: power_int_minus field_simps)
  have 5: "list_all representable [1 / 100, dval (pb_quantity ?b) * dval (pb_entry_price ?b),
      dval (fl_quantity sample_fill) * dval (fl_price sample_fill), 650003 / 1000,
      650003 / 1000 / (1 / 100), 1 / 100 * dval (fl_price sample_fill)]"
    unfolding v using r [of 100] r [of 3250005] r [of 3250025] r [of 6500030] r [of 650003000] r [of 6500050]
    by simp
  from increase_books_average_price [OF 1 2 3 4 5] show ?thesis by blast
qed

text \<open>
  C18: The exposure report is exact and consistent. For books with non-negative notionals on a
  common decimal grid the report is produced, gross exposure is the sum of all notionals and net
  exposure the LONG minus the SHORT sum, leg imbalance is the size of the net, the hedge ratio is at
  most one, and neither the sector exposure nor the beta-weighted one exceeds the gross.
\<close>

theorem exposure_report_exact:
  assumes "grid_books k (ac_position_books a)"
    and "list_all is_finite [account_wallet a, ac_liquidation_distance_ratio a, ac_maintenance_margin a]"
    and "\<bar>dval (account_wallet a) * dval (ac_liquidation_distance_ratio a)\<bar> \<le> 10 powi n"
      "\<bar>dval (ac_maintenance_margin a)\<bar> \<le> 10 powi n" "0 \<le> n" "n < 900000"
  shows "\<exists>x. calculate_portfolio_exposure a = Inr x
    \<and> dval (px_gross_exposure x) = total_notional (ac_position_books a)
    \<and> dval (px_net_exposure x) = side_total BS_LONG (ac_position_books a)
        - side_total BS_SHORT (ac_position_books a)
    \<and> dval (px_leg_imbalance x) = \<bar>dval (px_net_exposure x)\<bar>
    \<and> \<bar>dval (px_hedge_ratio x)\<bar> \<le> 1
    \<and> dval (px_sector_exposure x) \<le> dval (px_gross_exposure x)
    \<and> dval (px_correlated_exposure x) = \<bar>dval (px_beta_exposure x)\<bar>
    \<and> dval (px_correlated_exposure x) \<le> dval (px_gross_exposure x)"
proof -
  have "\<bar>beta_total (ac_position_books a)\<bar> \<le> total_notional (ac_position_books a)"
    using beta_total_exact [OF assms(1)] by blast
  with exposure_exact [OF assms refl refl] show ?thesis by (auto simp: side_totals)
qed

definition sample_books :: "position_book list" where
  "sample_books =
     [(empty_book ''BTCUSDC'' BS_LONG)\<lparr>pb_quantity := Dec 1 (- 2), pb_notional := Dec 65000 (- 2)\<rparr>,
      (empty_book ''ETHUSDC'' BS_SHORT)\<lparr>pb_quantity := Dec 1 (- 1), pb_notional := Dec 3200 (- 1)\<rparr>]"

theorem exposure_report_exact_witness:
  "\<exists>x. calculate_portfolio_exposure ((seed_account (Aware 0))\<lparr>ac_position_books := sample_books\<rparr>) = Inr x
     \<and> dval (px_gross_exposure x) = 970 \<and> dval (px_net_exposure x) = 330"
proof -
  let ?a = "(seed_account (Aware 0))\<lparr>ac_position_books := sample_books\<rparr>"
  have v: "dval (Dec 65000 (- 2)) = 650" "dval (Dec 3200 (- 1)) = 320"
    by (simp_all add: power_int_minus)
  have tot: "total_notional sample_books = 970" "side_total BS_LONG sample_books = 650"
    "side_total BS_SHORT sample_books = 320"
    by (simp_all add: total_notional_def side_total_def sample_books_def empty_book_def power_int_minus)
  have "on_grid 2 650" "on_grid 2 320"
    by (rule on_gridI [of _ 65000], simp add: power_int_minus)
      (rule on_gridI [of _ 32000], simp add: power_int_minus)
  then have 1: "grid_books 2 (ac_position_books ?a)"
    using tot(1) by (auto simp: grid_books_def sample_books_def v simp del: dval_Dec)
  have 2: "list_all is_finite [account_wallet ?a, ac_liquidation_distance_ratio ?a, ac_maintenance_margin ?a]"
    by (simp add: account_wallet_def seed_account_def)
  have 3: "\<bar>dval (account_wallet ?a) * dval (ac_liquidation_distance_ratio ?a)\<bar> \<le> 10 powi 5"
    "\<bar>dval (ac_maintenance_margin ?a)\<bar> \<le> 10 powi 5"
    by (simp_all add: account_wallet_def seed_account_def)
  have 4: "0 \<le> (5::int)" "(5::int) < 900000" by simp_all
  from exposure_report_exact [OF 1 2 3 4] obtain x where "calculate_portfolio_exposure ?a = Inr x"
    "dval (px_gross_exposure x) = 970" "dval (px_net_exposure x) = 650 - 320"
    using tot by auto
  then show ?thesis by auto
qed

text \<open>
  Fees come out of the wallet exactly. Settling a fill takes its fee from the wallet balance and
  from the available balance of the first collateral asset, so that what is reserved (wallet minus
  available) never changes.
\<close>

theorem fee_debited_exactly:
  assumes "apply_paper_fill a f = Inr a'" and "ac_collateral_assets a = c # cs"
    and "list_all is_finite [ca_wallet_balance c, ca_available_balance c, fl_fee f]"
    and "representable (dval (ca_wallet_balance c) - dval (fl_fee f))"
    and "representable (dval (ca_available_balance c) - dval (fl_fee f))"
  shows "\<exists>c'. ac_collateral_assets a' = c' # cs
    \<and> dval (ca_wallet_balance c') = dval (ca_wallet_balance c) - dval (fl_fee f)
    \<and> dval (ca_wallet_balance c') - dval (ca_available_balance c')
        = dval (ca_wallet_balance c) - dval (ca_available_balance c)
    \<and> ca_asset c' = ca_asset c \<and> ca_unrealized_pnl c' = ca_unrealized_pnl c"
proof -
  from assms(1,2) obtain c' where c': "debit_fee (fl_fee f) c = Inr c'" "ac_collateral_assets a' = c' # cs"
    by (auto simp: apply_paper_fill_def res_simps)
  obtain w where w: "dsub (ca_wallet_balance c) (fl_fee f) = Inr w"
    "dval w = dval (ca_wallet_balance c) - dval (fl_fee f)"
    using dsub_exact [of "ca_wallet_balance c" "fl_fee f"] assms(3,4) by auto
  obtain v where v: "dsub (ca_available_balance c) (fl_fee f) = Inr v"
    "dval v = dval (ca_available_balance c) - dval (fl_fee f)"
    using dsub_exact [of "ca_available_balance c" "fl_fee f"] assms(3,5) by auto
  from c' w v show ?thesis by (auto simp: debit_fee_def)
qed

theorem fee_debited_exactly_witness:
  "\<exists>a' c'. apply_paper_fill (seed_account (Aware 0)) sample_fill = Inr a'
     \<and> ac_collateral_assets a' = [c'] \<and> dval (ca_wallet_balance c') = 100000 - 325 / 10000"
proof -
  let ?c = "\<lparr>ca_asset = ''USDC'', ca_wallet_balance = Dec 100000 0,
            ca_available_balance = Dec 100000 0, ca_unrealized_pnl = d0\<rparr>"
  have "case apply_paper_fill (seed_account (Aware 0)) sample_fill of Inl _ \<Rightarrow> False | Inr _ \<Rightarrow> True"
    by code_simp
  then obtain a' where 1: "apply_paper_fill (seed_account (Aware 0)) sample_fill = Inr a'"
    by (auto split: sum.splits)
  have 2: "ac_collateral_assets (seed_account (Aware 0)) = ?c # []" by (simp add: seed_account_def)
  have 3: "list_all is_finite [ca_wallet_balance ?c, ca_available_balance ?c, fl_fee sample_fill]"
    by (simp add: sample_fill_def)
  have fee: "dval (fl_fee sample_fill) = 325 / 10000" by (simp add: sample_fill_def power_int_minus)
  have "representable (100000 - 325 / 10000)"
    by (rule representableI [of _ 999999675 "- 4"]) (simp_all add: power_int_minus)
  then have 4: "representable (dval (ca_wallet_balance ?c) - dval (fl_fee sample_fill))"
    and 5: "representable (dval (ca_available_balance ?c) - dval (fl_fee sample_fill))"
    unfolding fee by simp_all
  from fee_debited_exactly [OF 1 2 3 4 5] 1 fee show ?thesis by auto
qed

end
