(* ===== verification/Paper_Risk.thy ===== *)
theory Paper_Risk
  imports Portfolio
begin

text \<open>
  \<open>services/risk/paper.py\<close>: the independent risk gate of paper orders. It re-validates account and
  quote, then checks the kill switches, the market limits and the projected exposures. The checks
  run in the order of the code; one that raises ends the evaluation.
\<close>

record risk_limits =
  rl_max_account_leverage :: decimal
  rl_max_symbol_exposure :: decimal
  rl_max_sector_exposure :: decimal
  rl_max_correlated_exposure :: decimal
  rl_max_beta_exposure :: decimal
  rl_max_leg_imbalance :: decimal
  rl_max_portfolio_gross_exposure :: decimal
  rl_min_liquidation_distance_ratio :: decimal
  rl_max_daily_loss :: decimal
  rl_max_drawdown :: decimal
  rl_max_abnormal_spread_bps :: decimal
  rl_max_funding_rate_bps :: decimal
  rl_max_volatility_bps :: decimal
  rl_max_orders_per_minute :: int

definition default_limits :: risk_limits where
  "default_limits =
     \<lparr>rl_max_account_leverage = Dec 3 0, rl_max_symbol_exposure = Dec 50000 0,
      rl_max_sector_exposure = Dec 75000 0, rl_max_correlated_exposure = Dec 60000 0,
      rl_max_beta_exposure = Dec 60000 0, rl_max_leg_imbalance = Dec 25000 0,
      rl_max_portfolio_gross_exposure = Dec 100000 0,
      rl_min_liquidation_distance_ratio = Dec 25 (- 2), rl_max_daily_loss = Dec 1000 0,
      rl_max_drawdown = Dec 1500 0, rl_max_abnormal_spread_bps = Dec 25 0,
      rl_max_funding_rate_bps = Dec 50 0, rl_max_volatility_bps = Dec 150 0,
      rl_max_orders_per_minute = 10\<rparr>"

record risk_state =
  rk_daily_loss :: decimal
  rk_drawdown :: decimal
  rk_open_order_count_last_minute :: int
  rk_api_error_active :: bool
  rk_panic_halt_active :: bool

definition default_risk_state :: risk_state where
  "default_risk_state =
     \<lparr>rk_daily_loss = d0, rk_drawdown = d0, rk_open_order_count_last_minute = 0,
      rk_api_error_active = False, rk_panic_halt_active = False\<rparr>"

record risk_result =
  rr_accepted :: bool
  rr_reasons :: "string list"
  rr_limits :: risk_limits

definition limits_to_dict :: "risk_limits \<Rightarrow> json" where
  "limits_to_dict l = JObj
     [(''max_account_leverage'', JStr (format_f (rl_max_account_leverage l))),
      (''max_symbol_exposure'', JStr (format_f (rl_max_symbol_exposure l))),
      (''max_sector_exposure'', JStr (format_f (rl_max_sector_exposure l))),
      (''max_correlated_exposure'', JStr (format_f (rl_max_correlated_exposure l))),
      (''max_beta_exposure'', JStr (format_f (rl_max_beta_exposure l))),
      (''max_leg_imbalance'', JStr (format_f (rl_max_leg_imbalance l))),
      (''max_portfolio_gross_exposure'', JStr (format_f (rl_max_portfolio_gross_exposure l))),
      (''min_liquidation_distance_ratio'', JStr (format_f (rl_min_liquidation_distance_ratio l))),
      (''max_daily_loss'', JStr (format_f (rl_max_daily_loss l))),
      (''max_drawdown'', JStr (format_f (rl_max_drawdown l))),
      (''max_abnormal_spread_bps'', JStr (format_f (rl_max_abnormal_spread_bps l))),
      (''max_funding_rate_bps'', JStr (format_f (rl_max_funding_rate_bps l))),
      (''max_short_horizon_volatility_bps'', JStr (format_f (rl_max_volatility_bps l))),
      (''max_orders_per_minute'', JInt (rl_max_orders_per_minute l))]"

definition risk_result_to_public_dict :: "risk_result \<Rightarrow> json" where
  "risk_result_to_public_dict r = JObj
     [(''accepted'', JBool (rr_accepted r)),
      (''decision'', JStr (if rr_accepted r then ''approved'' else ''vetoed'')),
      (''reasons'', jstrs (rr_reasons r)),
      (''limits'', limits_to_dict (rr_limits r))]"

definition projected_symbol_exposure :: "account_state \<Rightarrow> order_intent \<Rightarrow> decimal res" where
  "projected_symbol_exposure a i =
     bind_res (dsum (map pb_notional
       (filter (\<lambda>b. pb_symbol b = it_symbol i) (ac_position_books a)))) (\<lambda>current.
     bind_res (intent_notional i) (\<lambda>n. dadd current n))"

definition projected_gross_exposure :: "account_state \<Rightarrow> order_intent \<Rightarrow> decimal res" where
  "projected_gross_exposure a i =
     bind_res (calculate_portfolio_exposure a) (\<lambda>x.
     bind_res (intent_notional i) (\<lambda>n. dadd (px_gross_exposure x) n))"

text \<open>The checks of the account, the quote, the kill switches and the market.\<close>

definition standing_checks ::
    "account_state \<Rightarrow> order_intent \<Rightarrow> order_preview \<Rightarrow> market_quote \<Rightarrow> risk_limits \<Rightarrow> risk_state
     \<Rightarrow> datetime \<Rightarrow> string list res list" where
  "standing_checks a i p q l k reference =
     [account_errors a reference,
      freshness_errors (qt_freshness q) reference (it_symbol i @ '' quote''),
      reason_when (rk_panic_halt_active k) ''panic halt is active'',
      reason_when (rk_api_error_active k) ''API error kill switch is active'',
      reason_if (dge (rk_daily_loss k) (rl_max_daily_loss l)) ''max daily loss limit reached'',
      reason_if (dge (rk_drawdown k) (rl_max_drawdown l)) ''max drawdown limit reached'',
      reason_when (rk_open_order_count_last_minute k \<ge> rl_max_orders_per_minute l)
        ''order spam protection limit reached'',
      reason_if (dle (ee_expected_edge_after_costs (pv_expected_edge p)) d0)
        ''risk veto: expected_edge_after_costs is not positive'',
      reason_if (bind_res (spread_bps q) (\<lambda>s. dgt s (rl_max_abnormal_spread_bps l)))
        ''abnormal spread kill switch is active'',
      reason_if (bind_res (dabs (qt_funding_rate_bps q)) (\<lambda>f. dgt f (rl_max_funding_rate_bps l)))
        ''funding spike kill switch is active'',
      reason_if (dgt (qt_volatility_bps q) (rl_max_volatility_bps l)) ''volatility halt is active'',
      reason_if (dlt (ac_liquidation_distance_ratio a) (rl_min_liquidation_distance_ratio l))
        ''liquidation buffer is below minimum'',
      reason_if (bind_res (projected_symbol_exposure a i) (\<lambda>x. dgt x (rl_max_symbol_exposure l)))
        ''max symbol exposure would be exceeded'']"

text \<open>
  The projections: all five are computed before the first of them is compared. The last checks are
  those of the collateral and of the hedge books.
\<close>

definition leverage_check :: "account_state \<Rightarrow> risk_limits \<Rightarrow> decimal \<Rightarrow> string list res" where
  "leverage_check a l gross =
     bind_res (dle (account_wallet a) d0) (\<lambda>unavailable.
     if unavailable then Inr [''collateral is unavailable'']
     else reason_if (bind_res (ddiv gross (account_wallet a))
            (\<lambda>leverage. dgt leverage (rl_max_account_leverage l)))
          ''max account leverage would be exceeded'')"

definition book_checks :: "account_state \<Rightarrow> order_intent \<Rightarrow> string list res list" where
  "book_checks a i =
     [reason_when ((it_symbol i, BS_LONG) \<notin> set (book_keys (ac_position_books a)))
        (it_symbol i @ '' missing hedge LONG book''),
      reason_when ((it_symbol i, BS_SHORT) \<notin> set (book_keys (ac_position_books a)))
        (it_symbol i @ '' missing hedge SHORT book'')]"

definition projection_checks ::
    "account_state \<Rightarrow> order_intent \<Rightarrow> risk_limits \<Rightarrow> string list res" where
  "projection_checks a i l =
     bind_res (projected_gross_exposure a i) (\<lambda>gross.
     bind_res (calculate_portfolio_exposure a) (\<lambda>x.
     bind_res (bind_res (intent_notional i) (dadd (px_sector_exposure x))) (\<lambda>sector.
     bind_res (bind_res (intent_notional i) (dadd (px_correlated_exposure x))) (\<lambda>correlated.
     bind_res (bind_res (dabs (px_beta_exposure x))
        (\<lambda>b. bind_res (intent_notional i) (dadd b))) (\<lambda>beta.
     bind_res (bind_res (intent_notional i) (dadd (px_leg_imbalance x))) (\<lambda>leg.
     collect
       ([reason_if (dgt sector (rl_max_sector_exposure l)) ''max sector exposure would be exceeded'',
         reason_if (dgt correlated (rl_max_correlated_exposure l))
           ''max correlated exposure would be exceeded'',
         reason_if (dgt beta (rl_max_beta_exposure l)) ''max beta exposure would be exceeded'',
         reason_if (dgt leg (rl_max_leg_imbalance l)) ''max leg imbalance would be exceeded'',
         reason_if (dgt gross (rl_max_portfolio_gross_exposure l))
           ''max portfolio gross exposure would be exceeded'',
         leverage_check a l gross]
        @ book_checks a i)))))))"

definition evaluate_paper_order_risk ::
    "account_state \<Rightarrow> order_intent \<Rightarrow> order_preview \<Rightarrow> market_quote \<Rightarrow> risk_limits option
     \<Rightarrow> risk_state option \<Rightarrow> datetime \<Rightarrow> risk_result res" where
  "evaluate_paper_order_risk a i p q limits state reference =
     (let l = (case limits of None \<Rightarrow> default_limits | Some x \<Rightarrow> x);
          k = (case state of None \<Rightarrow> default_risk_state | Some x \<Rightarrow> x)
      in bind_res (collect (standing_checks a i p q l k reference @ [projection_checks a i l])) (\<lambda>rs.
         Inr \<lparr>rr_accepted = (rs = []), rr_reasons = rs, rr_limits = l\<rparr>))"

section \<open>What an approval means\<close>

lemma risk_result_accepted:
  "evaluate_paper_order_risk a i p q limits state reference = Inr r \<Longrightarrow> rr_accepted r \<longleftrightarrow> rr_reasons r = []"
  by (auto simp: evaluate_paper_order_risk_def Let_def bind_res_eq_Inr)

lemma risk_approval_iff:
  "(\<exists>r. evaluate_paper_order_risk a i p q (Some l) (Some k) reference = Inr r \<and> rr_accepted r)
   \<longleftrightarrow> (\<forall>m \<in> set (standing_checks a i p q l k reference). m = Inr [])
     \<and> projection_checks a i l = Inr []"
proof -
  let ?ms = "standing_checks a i p q l k reference @ [projection_checks a i l]"
  have "(\<exists>r. evaluate_paper_order_risk a i p q (Some l) (Some k) reference = Inr r \<and> rr_accepted r)
      \<longleftrightarrow> collect ?ms = Inr []"
    by (auto simp: evaluate_paper_order_risk_def bind_res_eq_Inr)
  also have "\<dots> \<longleftrightarrow> (\<forall>m \<in> set ?ms. m = Inr [])" by (rule collect_Nil_iff)
  finally show ?thesis by auto
qed

lemma panic_vetoes:
  assumes "rk_panic_halt_active k"
    and "evaluate_paper_order_risk a i p q l (Some k) reference = Inr r"
  shows "\<not> rr_accepted r"
proof -
  have "reason_when (rk_panic_halt_active k) ''panic halt is active'' \<in> set (standing_checks a i p q
      (case l of None \<Rightarrow> default_limits | Some x \<Rightarrow> x) k reference
      @ [projection_checks a i (case l of None \<Rightarrow> default_limits | Some x \<Rightarrow> x)])"
    by (simp add: standing_checks_def)
  then show ?thesis
    using assms
    by (auto simp: evaluate_paper_order_risk_def res_simps Let_def reason_when_def
        dest!: collect_nonempty)
qed

lemma risk_approval_vetoes:
  assumes r: "evaluate_paper_order_risk a i p q limits (Some k) reference = Inr r" "rr_accepted r"
    and l: "l = (case limits of None \<Rightarrow> default_limits | Some x \<Rightarrow> x)"
  shows "account_ok a reference" "\<not> rk_panic_halt_active k" "\<not> rk_api_error_active k"
    "freshness_ok (qt_freshness q) reference"
    "rk_open_order_count_last_minute k < rl_max_orders_per_minute l"
    "dle (ee_expected_edge_after_costs (pv_expected_edge p)) d0 = Inr False"
    "\<exists>x. projected_symbol_exposure a i = Inr x \<and> dgt x (rl_max_symbol_exposure l) = Inr False"
    "\<exists>x. projected_gross_exposure a i = Inr x \<and> dgt x (rl_max_portfolio_gross_exposure l) = Inr False"
    "projection_checks a i l = Inr []"
proof -
  have "evaluate_paper_order_risk a i p q (Some l) (Some k) reference = Inr r"
    using r(1) by (simp add: evaluate_paper_order_risk_def l)
  with r(2) have s: "\<forall>m \<in> set (standing_checks a i p q l k reference). m = Inr []"
    and g: "projection_checks a i l = Inr []"
    using risk_approval_iff by blast+
  from s show "account_ok a reference" "\<not> rk_panic_halt_active k" "\<not> rk_api_error_active k"
    "freshness_ok (qt_freshness q) reference"
    "rk_open_order_count_last_minute k < rl_max_orders_per_minute l"
    "dle (ee_expected_edge_after_costs (pv_expected_edge p)) d0 = Inr False"
    "\<exists>x. projected_symbol_exposure a i = Inr x \<and> dgt x (rl_max_symbol_exposure l) = Inr False"
    by (auto simp: standing_checks_def res_simps)
  from g show "\<exists>x. projected_gross_exposure a i = Inr x
      \<and> dgt x (rl_max_portfolio_gross_exposure l) = Inr False"
    by (auto simp: projection_checks_def res_simps)
  show "projection_checks a i l = Inr []" by (rule g)
qed

text \<open>
  The checks of an approval under the default limits, spelled out: those of the account, the quote,
  the switches and the market, and those of the projections, on which the notional of the order is
  added to each exposure of the report.
\<close>

definition at_most :: "decimal res \<Rightarrow> decimal \<Rightarrow> bool" where
  "at_most m l \<longleftrightarrow> (\<exists>v. m = Inr v \<and> dgt v l = Inr False)"

definition standing_ok ::
    "account_state \<Rightarrow> order_intent \<Rightarrow> order_preview \<Rightarrow> market_quote \<Rightarrow> risk_state \<Rightarrow> datetime \<Rightarrow> bool" where
  "standing_ok a i p q k now \<longleftrightarrow>
     account_ok a now \<and> freshness_ok (qt_freshness q) now
     \<and> \<not> rk_panic_halt_active k \<and> \<not> rk_api_error_active k
     \<and> dge (rk_daily_loss k) (Dec 1000 0) = Inr False \<and> dge (rk_drawdown k) (Dec 1500 0) = Inr False
     \<and> rk_open_order_count_last_minute k < 10
     \<and> dle (ee_expected_edge_after_costs (pv_expected_edge p)) d0 = Inr False
     \<and> at_most (spread_bps q) (Dec 25 0) \<and> at_most (dabs (qt_funding_rate_bps q)) (Dec 50 0)
     \<and> at_most (Inr (qt_volatility_bps q)) (Dec 150 0)
     \<and> dlt (ac_liquidation_distance_ratio a) (Dec 25 (- 2)) = Inr False
     \<and> at_most (projected_symbol_exposure a i) (Dec 50000 0)"

definition projections_ok :: "account_state \<Rightarrow> order_intent \<Rightarrow> bool" where
  "projections_ok a i \<longleftrightarrow>
     (\<exists>x n g. calculate_portfolio_exposure a = Inr x \<and> intent_notional i = Inr n
        \<and> dadd (px_gross_exposure x) n = Inr g \<and> at_most (Inr g) (Dec 100000 0)
        \<and> at_most (dadd (px_sector_exposure x) n) (Dec 75000 0)
        \<and> at_most (dadd (px_correlated_exposure x) n) (Dec 60000 0)
        \<and> at_most (bind_res (dabs (px_beta_exposure x)) (\<lambda>b. dadd b n)) (Dec 60000 0)
        \<and> at_most (dadd (px_leg_imbalance x) n) (Dec 25000 0)
        \<and> dle (account_wallet a) d0 = Inr False \<and> at_most (ddiv g (account_wallet a)) (Dec 3 0))
     \<and> {(it_symbol i, BS_LONG), (it_symbol i, BS_SHORT)} \<subseteq> set (book_keys (ac_position_books a))"

lemma risk_approval_exact:
  assumes "evaluate_paper_order_risk a i p q None (Some k) now = Inr r" "rr_accepted r"
  shows "standing_ok a i p q k now \<and> projections_ok a i"
proof -
  have r: "evaluate_paper_order_risk a i p q (Some default_limits) (Some k) now = Inr r"
    using assms(1) by (simp add: evaluate_paper_order_risk_def)
  with assms(2) have s: "\<forall>m \<in> set (standing_checks a i p q default_limits k now). m = Inr []"
    and g: "projection_checks a i default_limits = Inr []"
    using risk_approval_iff by blast+
  from s have "standing_ok a i p q k now"
    by (auto simp: standing_checks_def standing_ok_def at_most_def res_simps default_limits_def)
  moreover from g have "projections_ok a i"
    by (auto simp: projection_checks_def projected_gross_exposure_def leverage_check_def book_checks_def
        projections_ok_def at_most_def res_simps default_limits_def split: if_splits)
  ultimately show ?thesis by blast
qed

section \<open>Properties\<close>

text \<open>
  The panic switch is a veto. While the risk state has panic halt or the API error switch
  active, no order is approved, whatever the account, the market, the limits and the order are.
\<close>

theorem kill_switch_vetoes_every_order:
  assumes "rk_panic_halt_active k \<or> rk_api_error_active k"
    and "evaluate_paper_order_risk a i p q limits (Some k) reference = Inr r"
  shows "\<not> rr_accepted r \<and> rr_reasons r \<noteq> []"
proof -
  have "\<not> rr_accepted r" using assms risk_approval_vetoes(2,3) [OF assms(2) _ refl] by blast
  then show ?thesis using risk_result_accepted [OF assms(2)] by simp
qed

text \<open>The value of a symbol's books, on both sides.\<close>

definition symbol_total :: "string \<Rightarrow> position_book list \<Rightarrow> rat" where
  "symbol_total s bs = (\<Sum>b\<leftarrow>filter (\<lambda>b. pb_symbol b = s) bs. dval (pb_notional b))"

lemma projected_exposures:
  assumes g: "grid_books k (ac_position_books a)"
    and fin: "list_all is_finite [account_wallet a, ac_liquidation_distance_ratio a, ac_maintenance_margin a]"
    and small: "\<bar>dval (account_wallet a) * dval (ac_liquidation_distance_ratio a)\<bar> \<le> 10 powi m"
      "\<bar>dval (ac_maintenance_margin a)\<bar> \<le> 10 powi m" "0 \<le> m" "m < 900000"
    and i: "intent_notional i = Inr n" "is_finite n" "on_grid k (dval n)" "0 \<le> dval n"
    and room: "(total_notional (ac_position_books a) + dval n) * 10 powi k < 10 ^ 28"
  shows "\<exists>x. projected_symbol_exposure a i = Inr x \<and> is_finite x
           \<and> dval x = symbol_total (it_symbol i) (ac_position_books a) + dval n"
    and "\<exists>x. projected_gross_exposure a i = Inr x \<and> is_finite x
           \<and> dval x = total_notional (ac_position_books a) + dval n"
proof -
  have rep: "representable (v + dval n)"
    if v: "on_grid k v" "0 \<le> v" "v \<le> total_notional (ac_position_books a)" for v
  proof -
    have "\<bar>v + dval n\<bar> \<le> total_notional (ac_position_books a) + dval n" using v i(4) by simp
    then have "\<bar>v + dval n\<bar> * 10 powi k < 10 ^ 28"
      using room by (meson mult_right_mono le_less_trans less_imp_le p10_pos)
    then show ?thesis
      using grid_booksD(5,6) [OF g] by (intro grid_representable [of k] on_grid_add v(1) i(3)) simp_all
  qed
  obtain s where s: "dsum (map pb_notional (filter (\<lambda>b. pb_symbol b = it_symbol i) (ac_position_books a)))
      = Inr s" "is_finite s" "dval s = symbol_total (it_symbol i) (ac_position_books a)" "on_grid k (dval s)"
    using grid_books_sum [OF g, of "\<lambda>b. pb_symbol b = it_symbol i"] by (auto simp: symbol_total_def)
  have "representable (dval s + dval n)"
    using grid_books_filter_sum [OF g, of "\<lambda>b. pb_symbol b = it_symbol i"] s
    by (intro rep) (simp_all add: symbol_total_def)
  with s i show "\<exists>x. projected_symbol_exposure a i = Inr x \<and> is_finite x
      \<and> dval x = symbol_total (it_symbol i) (ac_position_books a) + dval n"
    using dadd_exact [of s n] by (auto simp: projected_symbol_exposure_def)
  obtain x where x: "calculate_portfolio_exposure a = Inr x" "is_finite (px_gross_exposure x)"
    "dval (px_gross_exposure x) = total_notional (ac_position_books a)"
    using exposure_exact [OF g fin small refl refl] by (auto simp: side_totals)
  have "on_grid k (total_notional (ac_position_books a))" "0 \<le> total_notional (ac_position_books a)"
    using grid_books_sum [OF g, of "\<lambda>_. True"] grid_books_filter_sum [OF g, of "\<lambda>_. True"]
    by (auto simp: total_notional_def)
  then have "representable (dval (px_gross_exposure x) + dval n)" using x(3) by (simp add: rep)
  with x i show "\<exists>x. projected_gross_exposure a i = Inr x \<and> is_finite x
      \<and> dval x = total_notional (ac_position_books a) + dval n"
    using dadd_exact [of "px_gross_exposure x" n] by (auto simp: projected_gross_exposure_def)
qed

text \<open>What an approval projects: the notional of the order on top of the books as they are valued.\<close>

lemma approval_bounds_projection:
  assumes "evaluate_paper_order_risk a i p q None (Some ks) reference = Inr r" and "rr_accepted r"
    and "grid_books k (ac_position_books a)"
    and "list_all is_finite [account_wallet a, ac_liquidation_distance_ratio a, ac_maintenance_margin a]"
    and "\<bar>dval (account_wallet a) * dval (ac_liquidation_distance_ratio a)\<bar> \<le> 10 powi m"
      "\<bar>dval (ac_maintenance_margin a)\<bar> \<le> 10 powi m" "0 \<le> m" "m < 900000"
    and "intent_notional i = Inr n" "is_finite n" "on_grid k (dval n)" "0 \<le> dval n"
    and "(total_notional (ac_position_books a) + dval n) * 10 powi k < 10 ^ 28"
  shows "symbol_total (it_symbol i) (ac_position_books a) + dval n \<le> 50000
    \<and> total_notional (ac_position_books a) + dval n \<le> 100000"
proof -
  obtain x where x: "projected_symbol_exposure a i = Inr x" "is_finite x"
    "dval x = symbol_total (it_symbol i) (ac_position_books a) + dval n"
    using projected_exposures(1) [OF assms(3-13)] by blast
  obtain y where y: "projected_gross_exposure a i = Inr y" "is_finite y"
    "dval y = total_notional (ac_position_books a) + dval n"
    using projected_exposures(2) [OF assms(3-13)] by blast
  have l: "default_limits = (case None of None \<Rightarrow> default_limits | Some z \<Rightarrow> z)" by simp
  have "dgt x (rl_max_symbol_exposure default_limits) = Inr False"
    and "dgt y (rl_max_portfolio_gross_exposure default_limits) = Inr False"
    using risk_approval_vetoes(7,8) [OF assms(1,2) l] x(1) y(1) by auto
  with x y show ?thesis by (simp add: default_limits_def dec_simps)
qed

definition sample_quote :: market_quote where
  "sample_quote =
     \<lparr>qt_symbol = ''BTCUSDC'', qt_best_bid = Dec 650000 (- 1), qt_best_ask = Dec 650005 (- 1),
      qt_bid_size = Dec 42 (- 1), qt_ask_size = Dec 38 (- 1), qt_mark_price = Dec 6500025 (- 2),
      qt_funding_rate_bps = Dec 8 (- 1), qt_volatility_bps = Dec 12 0,
      qt_freshness = fresh_at ''local_paper_simulator'' (Aware 0)\<rparr>"

definition sample_preview :: order_preview where
  "sample_preview =
     \<lparr>pv_intent = sample_intent, pv_accepted = True, pv_reasons = [], pv_maker_first = True,
      pv_post_only_would_cross = False,
      pv_expected_edge =
        \<lparr>ee_notional = Dec 650 0, ee_gross_edge = Dec 52 (- 2), ee_maker_fee = Dec 65 (- 3),
         ee_taker_fee = d0, ee_slippage_cost = Dec 325 (- 4), ee_funding_cost = Dec 52 (- 3),
         ee_adverse_selection_cost = Dec 65 (- 3), ee_expected_edge_after_costs = Dec 3055 (- 4)\<rparr>\<rparr>"

lemma sample_risk_approved:
  "case evaluate_paper_order_risk (seed_account (Aware 0)) sample_intent sample_preview sample_quote
     None (Some default_risk_state) (Aware 0) of Inl _ \<Rightarrow> False | Inr r \<Rightarrow> rr_accepted r"
  by code_simp

lemma sample_risk_halted:
  "case evaluate_paper_order_risk (seed_account (Aware 0)) sample_intent sample_preview sample_quote
     None (Some (default_risk_state\<lparr>rk_panic_halt_active := True\<rparr>)) (Aware 0)
   of Inl _ \<Rightarrow> False | Inr r \<Rightarrow> True"
  by code_simp

theorem kill_switch_vetoes_every_order_witness:
  "\<exists>r. evaluate_paper_order_risk (seed_account (Aware 0)) sample_intent sample_preview sample_quote
     None (Some (default_risk_state\<lparr>rk_panic_halt_active := True\<rparr>)) (Aware 0) = Inr r \<and> \<not> rr_accepted r"
proof -
  let ?k = "default_risk_state\<lparr>rk_panic_halt_active := True\<rparr>"
  obtain r where 2: "evaluate_paper_order_risk (seed_account (Aware 0)) sample_intent sample_preview
      sample_quote None (Some ?k) (Aware 0) = Inr r"
    using sample_risk_halted by (auto split: sum.splits)
  have 1: "rk_panic_halt_active ?k \<or> rk_api_error_active ?k" by simp
  from kill_switch_vetoes_every_order [OF 1 2] 2 show ?thesis by blast
qed

section \<open>Filling an approved order\<close>

text \<open>
  A book on which the settlement of an order at its limit price needs no rounding, and which is valued
  at no less than that price.
\<close>

definition valued_for :: "order_intent \<Rightarrow> position_book \<Rightarrow> bool" where
  "valued_for i b \<longleftrightarrow>
     (let q = dval (it_quantity i); p = dval (it_limit_price i); held = dval (pb_quantity b)
      in is_finite (pb_quantity b) \<and> 0 \<le> held \<and> held * p \<le> dval (pb_notional b)
         \<and> list_all representable [held + q, held - q, (held + q) * p, (held - q) * p])"

definition fills_order :: "order_intent \<Rightarrow> paper_fill \<Rightarrow> bool" where
  "fills_order i f \<longleftrightarrow> fl_symbol f = it_symbol i \<and> fl_book_side f = it_book_side i
     \<and> fl_quantity f = it_quantity i \<and> fl_price f = it_limit_price i
     \<and> is_finite (it_quantity i) \<and> is_finite (it_limit_price i)
     \<and> 0 \<le> dval (it_quantity i) \<and> 0 \<le> dval (it_limit_price i)"

lemma filled_book_notional:
  assumes f: "fills_order i f" and b: "valued_for i b" and key: "pb_symbol b = it_symbol i" "pb_side b = it_book_side i"
    and u: "updated_book f b = Inr b'"
  shows "dval (pb_notional b') \<le> dval (pb_notional b) + dval (it_quantity i) * dval (it_limit_price i)"
proof -
  let ?q = "dval (it_quantity i)" and ?p = "dval (it_limit_price i)" and ?held = "dval (pb_quantity b)"
  have fill: "fl_symbol f = it_symbol i" "fl_book_side f = it_book_side i" "fl_quantity f = it_quantity i"
    "fl_price f = it_limit_price i" "is_finite (it_quantity i)" "is_finite (it_limit_price i)" "0 \<le> ?q" "0 \<le> ?p"
    using f by (simp_all add: fills_order_def)
  have book: "is_finite (pb_quantity b)" "0 \<le> ?held" "?held * ?p \<le> dval (pb_notional b)"
    "representable (?held + ?q)" "representable (?held - ?q)" "representable ((?held + ?q) * ?p)"
    "representable ((?held - ?q) * ?p)"
    using b by (simp_all add: valued_for_def Let_def)
  obtain s where s: "dadd (pb_quantity b) (it_quantity i) = Inr s" "is_finite s" "dval s = ?held + ?q"
    using dadd_exact [OF book(1) fill(5) book(4)] by blast
  obtain m where m: "dmul s (it_limit_price i) = Inr m" "dval m = (?held + ?q) * ?p"
    using dmul_exact [OF s(2) fill(6)] book(6) s(3) by auto
  obtain d where d: "dsub (pb_quantity b) (it_quantity i) = Inr d" "is_finite d" "dval d = ?held - ?q"
    using dsub_exact [OF book(1) fill(5) book(5)] by blast
  obtain n where n: "dmul d (it_limit_price i) = Inr n" "dval n = (?held - ?q) * ?p"
    using dmul_exact [OF d(2) fill(6)] book(7) d(3) by auto
  obtain z where z: "dmul d0 (it_limit_price i) = Inr z" "dval z = 0"
    using dmul_exact [of d0 "it_limit_price i"] fill(6) representableI [of 0 0 0] by auto
  show ?thesis
  proof (cases "book_is_increase f")
    case True
    with u key fill s m have "pb_notional b' = m"
      by (auto simp: updated_book_def bind_res_eq_Inr)
    with m(2) book(3) show ?thesis by (simp add: distrib_right)
  next
    case False
    have pos: "0 \<le> ?q * ?p" "0 \<le> ?held * ?p" using fill(7,8) book(2) by (simp_all only: mult_nonneg_nonneg)
    have new: "pb_notional b' = (if 0 < dval d then n else z)"
      using False u key fill d n z by (auto simp: updated_book_def bind_res_eq_Inr dmax_val split: if_splits)
    show ?thesis
    proof (cases "0 < dval d")
      case True
      then have "dval (pb_notional b') = ?held * ?p - ?q * ?p" using new n(2) by (simp add: left_diff_distrib)
      with pos book(3) show ?thesis by linarith
    next
      case False
      then have "dval (pb_notional b') = 0" using new z(2) by simp
      with pos book(3) show ?thesis by linarith
    qed
  qed
qed

lemma filled_books_total:
  assumes f: "fills_order i f"
    and bs: "mapM_res (updated_book f) bs = Inr bs'" "distinct (book_keys bs)"
    and v: "\<forall>b \<in> set bs. (pb_symbol b, pb_side b) = (it_symbol i, it_book_side i) \<longrightarrow> valued_for i b"
  shows "(\<Sum>b\<leftarrow>filter (\<lambda>b. P (pb_symbol b)) bs'. dval (pb_notional b))
    \<le> (\<Sum>b\<leftarrow>filter (\<lambda>b. P (pb_symbol b)) bs. dval (pb_notional b))
       + (if (it_symbol i, it_book_side i) \<in> set (book_keys bs) then dval (it_quantity i) * dval (it_limit_price i) else 0)"
  using bs v
proof (induction bs arbitrary: bs')
  case (Cons b bs)
  from Cons.prems(1) obtain c cs where c: "updated_book f b = Inr c" "mapM_res (updated_book f) bs = Inr cs" "bs' = c # cs"
    by (auto simp: bind_res_eq_Inr)
  have sym: "pb_symbol c = pb_symbol b" using updated_book_key [OF c(1)] by simp
  note ih = Cons.IH [OF c(2)]
  have worth: "0 \<le> dval (it_quantity i) * dval (it_limit_price i)" using f by (simp add: fills_order_def)
  show ?case
  proof (cases "(pb_symbol b, pb_side b) = (it_symbol i, it_book_side i)")
    case True
    then have "(it_symbol i, it_book_side i) \<notin> set (book_keys bs)" using Cons.prems(2) by (simp add: book_keys_def)
    moreover have "dval (pb_notional c) \<le> dval (pb_notional b) + dval (it_quantity i) * dval (it_limit_price i)"
      using filled_book_notional [OF f _ _ _ c(1)] True Cons.prems(3) by simp
    ultimately show ?thesis using ih Cons.prems(2,3) worth True by (simp add: c(3) sym book_keys_def)
  next
    case False
    then have "c = b" using updated_book_other [of b f] c(1) f by (simp add: fills_order_def)
    with ih Cons.prems(2,3) False show ?thesis by (auto simp: c(3) book_keys_def)
  qed
qed (simp add: book_keys_def)

text \<open>
  C15: An approval bounds the exposure that a complete fill leaves. Under the default limits, let the
  risk gate approve an order, and let one fill of the whole order at its limit price be settled on the
  same account. If the books of the order are valued at no less than that price, at most 50000 of
  notional is then in its symbol, on both sides, and at most 100000 in all. (Books and order lie on a
  decimal grid on which the sums and products involved have at most 28 digits, amounts and prices are
  not negative, and no two books share symbol and side.) Where the price is above the value of the
  books the bound fails, see \<open>approved_fill_can_exceed\<close>.
\<close>

theorem approval_bounds_exposure:
  assumes "evaluate_paper_order_risk a i p q None (Some ks) reference = Inr r" and "rr_accepted r"
    and "grid_books k (ac_position_books a)"
    and "list_all is_finite [account_wallet a, ac_liquidation_distance_ratio a, ac_maintenance_margin a]"
    and "\<bar>dval (account_wallet a) * dval (ac_liquidation_distance_ratio a)\<bar> \<le> 10 powi m"
      "\<bar>dval (ac_maintenance_margin a)\<bar> \<le> 10 powi m" "0 \<le> m" "m < 900000"
    and "on_grid k (dval (it_quantity i) * dval (it_limit_price i))"
    and "(total_notional (ac_position_books a) + dval (it_quantity i) * dval (it_limit_price i)) * 10 powi k < 10 ^ 28"
    and "fills_order i f" and "distinct (book_keys (ac_position_books a))"
    and "\<forall>b \<in> set (ac_position_books a). (pb_symbol b, pb_side b) = (it_symbol i, it_book_side i) \<longrightarrow> valued_for i b"
    and "apply_paper_fill a f = Inr a'"
  shows "symbol_total (it_symbol i) (ac_position_books a') \<le> 50000
    \<and> total_notional (ac_position_books a') \<le> 100000"
proof -
  let ?worth = "dval (it_quantity i) * dval (it_limit_price i)"
  have order: "is_finite (it_quantity i)" "is_finite (it_limit_price i)" "0 \<le> ?worth"
    using assms(11) by (simp_all add: fills_order_def)
  have "0 \<le> total_notional (ac_position_books a)"
    using grid_books_filter_sum(1) [OF assms(3), of "\<lambda>_. True"] by (simp add: total_notional_def)
  then have "\<bar>?worth\<bar> \<le> total_notional (ac_position_books a) + ?worth" using order(3) by simp
  then have "\<bar>?worth\<bar> * 10 powi k < 10 ^ 28"
    using assms(10) by (meson mult_right_mono le_less_trans less_imp_le p10_pos)
  then have "representable ?worth"
    using grid_representable [OF assms(9)] grid_booksD(5,6) [OF assms(3)] by simp
  then obtain n where n: "intent_notional i = Inr n" "is_finite n" "dval n = ?worth"
    using dmul_exact [OF order(1,2)] by (auto simp: intent_notional_def)
  have bound: "symbol_total (it_symbol i) (ac_position_books a) + ?worth \<le> 50000
      \<and> total_notional (ac_position_books a) + ?worth \<le> 100000"
    using approval_bounds_projection [OF assms(1-8) n(1,2)] n(3) assms(9,10) order(3) by simp
  obtain books where books: "mapM_res (updated_book f) (ac_position_books a) = Inr books" "ac_position_books a' = books"
    using apply_paper_fill_result [OF assms(14)] by auto
  note total = filled_books_total [OF assms(11) books(1) assms(12,13)]
  have "symbol_total (it_symbol i) books \<le> symbol_total (it_symbol i) (ac_position_books a) + ?worth"
    using total [of "\<lambda>s. s = it_symbol i"] order(3) by (simp add: symbol_total_def split: if_splits)
  moreover have "total_notional books \<le> total_notional (ac_position_books a) + ?worth"
    using total [of "\<lambda>_. True"] order(3) by (simp add: total_notional_def split: if_splits)
  ultimately show ?thesis using bound books(2) by simp
qed

text \<open>
  The bound needs the valuation: the risk gate adds the notional of the order to books valued at their
  last fill, and the settlement values the whole book at the new price. On a short book of 0.3 at 65000
  the sale of another 0.001 at 1000000 is approved and leaves 301000.
\<close>

definition short_account :: account_state where
  "short_account = (seed_account (Aware 0))\<lparr>ac_position_books :=
     [empty_book ''BTCUSDC'' BS_LONG,
      (empty_book ''BTCUSDC'' BS_SHORT)\<lparr>pb_quantity := Dec 3 (- 1), pb_entry_price := Dec 65000 0,
        pb_mark_price := Dec 65000 0, pb_notional := Dec 195000 (- 1)\<rparr>,
      empty_book ''ETHUSDC'' BS_LONG, empty_book ''ETHUSDC'' BS_SHORT]\<rparr>"

definition distant_sale :: order_intent where
  "distant_sale = sample_intent\<lparr>it_side := SD_SELL, it_book_side := BS_SHORT, it_quantity := Dec 1 (- 3),
     it_limit_price := Dec 1000000 0\<rparr>"

definition distant_fill :: paper_fill where
  "distant_fill = sample_fill\<lparr>fl_quantity := Dec 1 (- 3), fl_price := Dec 1000000 0\<rparr>"

theorem approved_fill_can_exceed:
  "(case evaluate_paper_order_risk short_account distant_sale sample_preview sample_quote None
       (Some default_risk_state) (Aware 0) of Inl _ \<Rightarrow> False | Inr r \<Rightarrow> rr_accepted r)
   \<and> fills_order distant_sale distant_fill
   \<and> (case apply_paper_fill short_account distant_fill of
        Inl _ \<Rightarrow> False | Inr a' \<Rightarrow> symbol_total ''BTCUSDC'' (ac_position_books a') = 301000)"
proof (intro conjI)
  show "case evaluate_paper_order_risk short_account distant_sale sample_preview sample_quote None
       (Some default_risk_state) (Aware 0) of Inl _ \<Rightarrow> False | Inr r \<Rightarrow> rr_accepted r"
    by code_simp
  show "fills_order distant_sale distant_fill"
    by (simp add: fills_order_def distant_sale_def distant_fill_def sample_intent_def sample_fill_def)
  have "map_res (\<lambda>a. map (\<lambda>b. (pb_symbol b, pb_notional b)) (ac_position_books a))
      (apply_paper_fill short_account distant_fill)
    = Inr [(''BTCUSDC'', d0), (''BTCUSDC'', Dec 301000000 (- 3)), (''ETHUSDC'', d0), (''ETHUSDC'', d0)]"
    by code_simp
  then obtain a' where a': "apply_paper_fill short_account distant_fill = Inr a'"
    "map (\<lambda>b. (pb_symbol b, pb_notional b)) (ac_position_books a')
      = [(''BTCUSDC'', d0), (''BTCUSDC'', Dec 301000000 (- 3)), (''ETHUSDC'', d0), (''ETHUSDC'', d0)]"
    by (auto simp: map_res_eq_Inr)
  have "symbol_total t bs = (\<Sum>(u, n)\<leftarrow>filter (\<lambda>(u, n). u = t) (map (\<lambda>b. (pb_symbol b, pb_notional b)) bs). dval n)" for t bs
    by (simp add: symbol_total_def filter_map comp_def)
  with a' have "symbol_total ''BTCUSDC'' (ac_position_books a') = 301000" by (simp add: power_int_minus)
  then show "case apply_paper_fill short_account distant_fill of
        Inl _ \<Rightarrow> False | Inr a' \<Rightarrow> symbol_total ''BTCUSDC'' (ac_position_books a') = 301000"
    using a'(1) by simp
qed

definition sample_buy :: paper_fill where
  "sample_buy = sample_fill\<lparr>fl_side := SD_BUY, fl_book_side := BS_LONG, fl_quantity := Dec 10 (- 3),
     fl_price := Dec 650000 (- 1)\<rparr>"

theorem approval_bounds_exposure_witness:
  "\<exists>a'. apply_paper_fill (seed_account (Aware 0)) sample_buy = Inr a'
     \<and> symbol_total ''BTCUSDC'' (ac_position_books a') \<le> 50000"
proof -
  let ?a = "seed_account (Aware 0)" and ?i = sample_intent
  obtain r where 1: "evaluate_paper_order_risk ?a ?i sample_preview sample_quote None
      (Some default_risk_state) (Aware 0) = Inr r" "rr_accepted r"
    using sample_risk_approved by (auto split: sum.splits)
  have tot: "total_notional (ac_position_books ?a) = 0"
    by (simp add: total_notional_def seed_account_def empty_book_def)
  have 2: "grid_books 4 (ac_position_books ?a)"
    using tot by (auto simp: grid_books_def seed_account_def empty_book_def)
  have 3: "list_all is_finite [account_wallet ?a, ac_liquidation_distance_ratio ?a, ac_maintenance_margin ?a]"
    by (simp add: account_wallet_def seed_account_def)
  have 4: "\<bar>dval (account_wallet ?a) * dval (ac_liquidation_distance_ratio ?a)\<bar> \<le> 10 powi 5"
    "\<bar>dval (ac_maintenance_margin ?a)\<bar> \<le> 10 powi 5" "0 \<le> (5::int)" "(5::int) < 900000"
    by (simp_all add: account_wallet_def seed_account_def)
  have v: "dval (it_quantity ?i) = 1 / 100" "dval (it_limit_price ?i) = 65000"
    by (simp_all add: sample_intent_def power_int_minus)
  have 5: "on_grid 4 (dval (it_quantity ?i) * dval (it_limit_price ?i))"
    unfolding v by (rule on_gridI [of _ 6500000]) (simp add: power_int_minus)
  have 6: "(total_notional (ac_position_books ?a) + dval (it_quantity ?i) * dval (it_limit_price ?i)) * 10 powi 4 < 10 ^ 28"
    unfolding v by (simp add: tot)
  have 7: "fills_order ?i sample_buy"
    by (simp add: fills_order_def sample_buy_def sample_intent_def sample_fill_def)
  have 8: "distinct (book_keys (ac_position_books ?a))"
    by (simp add: seed_account_def book_keys_def empty_book_def)
  have "representable (1 / 100)" "representable (- 1 / 100)" "representable 650" "representable (- 650)"
    using representableI [of "1 / 100" 1 "- 2"] representableI [of "- 1 / 100" "- 1" "- 2"]
      representableI [of 650 650 0] representableI [of "- 650" "- 650" 0]
    by (simp_all add: power_int_minus)
  then have 9: "\<forall>b \<in> set (ac_position_books ?a). (pb_symbol b, pb_side b) = (it_symbol ?i, it_book_side ?i) \<longrightarrow> valued_for ?i b"
    by (simp add: valued_for_def Let_def v seed_account_def empty_book_def)
  have "case apply_paper_fill ?a sample_buy of Inl _ \<Rightarrow> False | Inr a' \<Rightarrow> True" by code_simp
  then obtain a' where 10: "apply_paper_fill ?a sample_buy = Inr a'" by (auto split: sum.splits)
  have "it_symbol ?i = ''BTCUSDC''" by (simp add: sample_intent_def)
  with approval_bounds_exposure [OF 1 2 3 4 5 6 7 8 9 10] 10 show ?thesis by simp
qed

end
