(* ===== verification/Json_Store.thy ===== *)
theory Json_Store
  imports Json_Value "HOL-Library.Sublist"
begin

text \<open>
  \<open>services/storage/json_store.py\<close> and \<open>services/paper_exchange/persistence.py\<close>: JSON files below a
  root directory, and the four files in which the paper exchange mirrors its public state. A file is
  the sequence of the texts written to it: a whole document (\<open>write_json\<close>, indented over several
  lines unless the object is empty) or a line (\<open>append_jsonl\<close>). The texts themselves
  are in \<open>Text_Store\<close>, which refines this store; failures of the file system are not modelled.
\<close>

section \<open>Paths\<close>

fun replace_dots :: "string \<Rightarrow> string" where
  "replace_dots (c # d # cs) =
     (if c = CHR ''.'' \<and> d = CHR ''.'' then CHR ''_'' # replace_dots cs else c # replace_dots (d # cs))"
| "replace_dots cs = cs"

fun split_slash :: "string \<Rightarrow> string list" where
  "split_slash [] = [[]]"
| "split_slash (c # cs) =
     (let r = split_slash cs
      in if c = CHR ''/'' then [] # r else (c # hd r) # tl r)"

text \<open>\<open>name.strip().lstrip("/").replace("..", "_")\<close>\<close>

definition clean_name :: "string \<Rightarrow> string" where
  "clean_name name = replace_dots (dropWhile (\<lambda>c. c = CHR ''/'') (strip name))"

text \<open>
  \<open>root / clean\<close>: a relative name is taken below the root, an absolute one replaces it. A path is
  its list of components, without the empty ones and the single dots that \<open>pathlib\<close> drops.
\<close>

datatype store_path = Under_Root "string list" | Absolute "string list"

definition path_parts :: "string \<Rightarrow> string list" where
  "path_parts s = filter (\<lambda>p. p \<noteq> '''' \<and> p \<noteq> ''.'') (split_slash s)"

definition join_root :: "string \<Rightarrow> store_path" where
  "join_root s = (if take 1 s = ''/'' then Absolute (path_parts s) else Under_Root (path_parts s))"

definition store_path_of :: "string \<Rightarrow> store_path" where
  "store_path_of name = join_root (clean_name name)"

section \<open>The store\<close>

datatype chunk = Doc json | Line json

record json_store =
  js_root :: string
  js_files :: "store_path \<rightharpoonup> chunk list"

definition default_state_dir :: string where "default_state_dir = ''.local_state''"

definition state_dir_from_env :: "(string \<rightharpoonup> string) \<Rightarrow> string" where
  "state_dir_from_env env =
     (case env ''TCP_STATE_DIR'' of None \<Rightarrow> default_state_dir | Some d \<Rightarrow> d)"

text \<open>A store opens a directory that may already hold files.\<close>

definition open_store ::
    "string option \<Rightarrow> (string \<rightharpoonup> string) \<Rightarrow> (store_path \<rightharpoonup> chunk list) \<Rightarrow> json_store" where
  "open_store dir env files =
     \<lparr>js_root = (case dir of None \<Rightarrow> state_dir_from_env env | Some d \<Rightarrow> d), js_files = files\<rparr>"

definition write_json :: "string \<Rightarrow> json \<Rightarrow> json_store \<Rightarrow> json_store" where
  "write_json name payload st = st\<lparr>js_files := (js_files st)(store_path_of name \<mapsto> [Doc payload])\<rparr>"

definition append_jsonl :: "string \<Rightarrow> json \<Rightarrow> json_store \<Rightarrow> json_store" where
  "append_jsonl name payload st =
     (let p = store_path_of name;
          old = (case js_files st p of None \<Rightarrow> [] | Some cs \<Rightarrow> cs)
      in st\<lparr>js_files := (js_files st)(p \<mapsto> old @ [Line payload])\<rparr>)"

definition not_one_document :: "'a res" where
  "not_one_document = Inl (Raise ValueError ''JSONDecodeError'')"

definition read_json :: "string \<Rightarrow> json_store \<Rightarrow> json_object res" where
  "read_json name st =
     (let object = (\<lambda>v. case v of JObj kvs \<Rightarrow> Inr kvs
                      | _ \<Rightarrow> Inl (Raise ValueError (name @ '' must contain a JSON object'')))
      in case js_files st (store_path_of name) of
           None \<Rightarrow> Inr []
         | Some [Doc v] \<Rightarrow> object v
         | Some [Line v] \<Rightarrow> object v
         | Some _ \<Rightarrow> not_one_document)"

text \<open>A row of a JSONL file. A document that spans several lines is no row.\<close>

definition read_row :: "string \<Rightarrow> chunk \<Rightarrow> json_object res" where
  "read_row name c =
     (case c of
        Line (JObj kvs) \<Rightarrow> Inr kvs
      | Doc (JObj []) \<Rightarrow> Inr []
      | Doc (JObj _) \<Rightarrow> not_one_document
      | Doc (JArr (_ # _)) \<Rightarrow> not_one_document
      | _ \<Rightarrow> Inl (Raise ValueError (name @ '' JSONL rows must be objects'')))"

definition read_jsonl :: "string \<Rightarrow> json_store \<Rightarrow> json_object list res" where
  "read_jsonl name st =
     (case js_files st (store_path_of name) of
        None \<Rightarrow> Inr []
      | Some cs \<Rightarrow> mapM_res (read_row name) cs)"

section \<open>The files of the paper exchange\<close>

definition snapshot_row :: "json_object \<Rightarrow> json" where
  "snapshot_row p = JObj
     [(''status'', jget_default p ''status'' JNull),
      (''service'', jget_default p ''service'' JNull),
      (''orders_count'', jget_default p ''orders_count'' JNull),
      (''reconciliation_count'', jget_default p ''reconciliation_count'' JNull),
      (''portfolio'', jget_default p ''portfolio'' JNull),
      (''panic_halted'', jget_default p ''panic_halted'' JNull)]"

definition persist_snapshot :: "json_object \<Rightarrow> json_store \<Rightarrow> json_store" where
  "persist_snapshot p st =
     append_jsonl ''paper/snapshots.jsonl'' (snapshot_row p) (write_json ''paper/latest.json'' (JObj p) st)"

definition persist_orders :: "json_object \<Rightarrow> json_store \<Rightarrow> json_store" where
  "persist_orders p = write_json ''paper/orders.json'' (JObj p)"

definition persist_reconciliation :: "json_object \<Rightarrow> json_store \<Rightarrow> json_store" where
  "persist_reconciliation p = write_json ''paper/reconciliation.json'' (JObj p)"

definition persist_portfolio :: "json_object \<Rightarrow> json_store \<Rightarrow> json_store" where
  "persist_portfolio p = write_json ''paper/portfolio.json'' (JObj p)"

definition latest_snapshot :: "json_store \<Rightarrow> json_object res" where
  "latest_snapshot st = read_json ''paper/latest.json'' st"

section \<open>What the paths can be\<close>

lemma replace_dots_no_pair: "replace_dots s \<noteq> xs @ CHR ''.'' # CHR ''.'' # ys"
proof (induction s arbitrary: xs rule: replace_dots.induct)
  case (1 c d cs)
  show ?case
  proof (cases "c = CHR ''.'' \<and> d = CHR ''.''")
    case True
    then show ?thesis using "1.IH"(1) by (cases xs) auto
  next
    case False
    have hd: "replace_dots (d # cs) = CHR ''.'' # zs \<Longrightarrow> d = CHR ''.''" for zs
      by (cases cs) (auto split: if_splits)
    show ?thesis
      using False "1.IH"(2) hd by (cases xs) (auto split: if_splits)
  qed
qed auto

lemma replace_dots_no_slash: "take 1 s \<noteq> ''/'' \<Longrightarrow> take 1 (replace_dots s) \<noteq> ''/''"
  by (cases s rule: replace_dots.cases) auto

lemma split_slash_not_Nil [simp]: "split_slash s \<noteq> []"
  by (cases s) (simp_all add: Let_def)

lemma split_slash_head: "prefix (hd (split_slash s)) s"
  by (induction s) (simp_all add: Let_def)

lemma split_slash_sublist: "p \<in> set (split_slash s) \<Longrightarrow> sublist p s"
proof (induction s arbitrary: p)
  case (Cons c cs)
  obtain r rs where r: "split_slash cs = r # rs" by (meson list.exhaust split_slash_not_Nil)
  have "prefix r cs" using split_slash_head [of cs] r by simp
  with Cons r show ?case
    by (cases "c = CHR ''/''") (auto simp: Let_def sublist_Cons_right)
qed simp

section \<open>The interface of a document store\<close>

locale document_store =
  fixes put :: "string \<Rightarrow> json \<Rightarrow> 'st \<Rightarrow> 'st"
    and get :: "string \<Rightarrow> 'st \<Rightarrow> json_object res"
    and location :: "string \<Rightarrow> 'p"
  assumes read_written: "get n (put n (JObj v) st) = Inr v"
    and read_other: "location n \<noteq> location m \<Longrightarrow> get n (put m w st) = get n st"
begin

lemma last_write_wins: "get n (put n (JObj v) (put n w st)) = Inr v"
  by (rule read_written)

lemma writes_commute_for_read:
  "location a \<noteq> location b \<Longrightarrow> get a (put b w (put a (JObj v) st)) = Inr v"
  by (simp add: read_other read_written)

end

interpretation files: document_store write_json read_json store_path_of
  by unfold_locales (auto simp: read_json_def write_json_def)

lemma append_jsonl_other: "store_path_of n \<noteq> store_path_of m \<Longrightarrow> read_json n (append_jsonl m v st) = read_json n st"
  by (simp add: read_json_def append_jsonl_def Let_def)

lemma append_read_jsonl:
  "read_jsonl n st = Inr rows \<Longrightarrow> read_jsonl n (append_jsonl n (JObj v) st) = Inr (rows @ [v])"
  by (auto simp: read_jsonl_def append_jsonl_def Let_def mapM_res_append read_row_def split: option.splits)

lemma write_json_other:
  "store_path_of m \<noteq> store_path_of n \<Longrightarrow> read_jsonl m (write_json n (JObj v) st) = read_jsonl m st"
  by (simp add: read_jsonl_def write_json_def)

lemma paper_paths:
  "store_path_of ''paper/latest.json'' = Under_Root [''paper'', ''latest.json'']"
  "store_path_of ''paper/snapshots.jsonl'' = Under_Root [''paper'', ''snapshots.jsonl'']"
  "store_path_of ''paper/orders.json'' = Under_Root [''paper'', ''orders.json'']"
  "store_path_of ''paper/reconciliation.json'' = Under_Root [''paper'', ''reconciliation.json'']"
  "store_path_of ''paper/portfolio.json'' = Under_Root [''paper'', ''portfolio.json'']"
  by code_simp+

section \<open>Properties\<close>

text \<open>
  C39: A file of the store never lies outside its root directory: whatever name is asked for, the
  path is relative to the root and has no parent component.
\<close>

theorem store_path_contained:
  "\<exists>parts. store_path_of name = Under_Root parts
     \<and> ''..'' \<notin> set parts \<and> '''' \<notin> set parts \<and> ''.'' \<notin> set parts"
proof -
  let ?t = "dropWhile (\<lambda>c. c = CHR ''/'') (strip name)"
  have "take 1 ?t \<noteq> ''/''"
  proof (cases ?t)
    case (Cons c cs)
    then have "c \<noteq> CHR ''/''" using hd_dropWhile [of "\<lambda>c. c = CHR ''/''" "strip name"] by simp
    with Cons show ?thesis by simp
  qed (simp only: take_Nil, simp)
  then have rel: "take 1 (clean_name name) \<noteq> ''/''"
    unfolding clean_name_def by (rule replace_dots_no_slash)
  have "''..'' \<notin> set (path_parts (clean_name name))"
  proof
    assume "''..'' \<in> set (path_parts (clean_name name))"
    then have "''..'' \<in> set (split_slash (clean_name name))" by (simp add: path_parts_def)
    from split_slash_sublist [OF this] show False
      by (auto simp: clean_name_def replace_dots_no_pair sublist_def)
  qed
  with rel show ?thesis by (simp add: store_path_of_def join_root_def path_parts_def)
qed

text \<open>
  Reading back. After a write, the file reads as the object written, whatever it held, and
  every other file reads as before; a row appended to a readable JSONL file reads as its last row.
\<close>

theorem store_reads_back:
  "read_json n (write_json n (JObj v) st) = Inr v
   \<and> (\<forall>m. store_path_of m \<noteq> store_path_of n \<longrightarrow>
        read_json m (write_json n (JObj v) st) = read_json m st
        \<and> read_jsonl m (write_json n (JObj v) st) = read_jsonl m st)
   \<and> (\<forall>rows. read_jsonl n st = Inr rows \<longrightarrow>
        read_jsonl n (append_jsonl n (JObj v) st) = Inr (rows @ [v]))"
proof -
  show ?thesis
    by (simp add: files.read_written files.read_other append_read_jsonl write_json_other)
qed

theorem store_reads_back_witness:
  "read_jsonl ''a.jsonl'' (append_jsonl ''a.jsonl'' (JObj [(''k'', JInt 1)]) (open_store None (\<lambda>_. None) (\<lambda>_. None)))
     = Inr [[(''k'', JInt 1)]]"
proof -
  have "read_jsonl ''a.jsonl'' (open_store None (\<lambda>_. None) (\<lambda>_. None)) = Inr []"
    by (simp add: read_jsonl_def open_store_def)
  with store_reads_back [of "''a.jsonl''" "[(''k'', JInt 1)]" "open_store None (\<lambda>_. None) (\<lambda>_. None)"]
  show ?thesis by simp
qed

end
