(* ===== verification/Numbered_Log.thy ===== *)
theory Numbered_Log
  imports Prelude
begin

text \<open>
  The append-only lists of the services (orders, reconciliation events, ledger entries), whose
  entries are named after their position: \<open>f"paper-order-{len(self._orders) + 1:06d}"\<close>. The
  locale states what adding an entry must do; from it follow that names are distinct, that a search
  by name finds one entry, and that a replacement by name changes that entry only.
\<close>

definition well_numbered :: "string \<Rightarrow> ('e \<Rightarrow> string) \<Rightarrow> 'e list \<Rightarrow> bool" where
  "well_numbered prefix id_of xs \<longleftrightarrow>
     (\<forall>i < length xs. id_of (xs ! i) = numbered_id prefix (Suc i))"

text \<open>\<open>[updated if item.id == key else item for item in xs]\<close>\<close>

definition replace_by_id :: "('e \<Rightarrow> string) \<Rightarrow> string \<Rightarrow> 'e \<Rightarrow> 'e list \<Rightarrow> 'e list" where
  "replace_by_id id_of k u xs = map (\<lambda>e. if id_of e = k then u else e) xs"

text \<open>The position a \<open>for index, item in enumerate(...)\<close> loop stops at.\<close>

fun find_index :: "('a \<Rightarrow> bool) \<Rightarrow> 'a list \<Rightarrow> nat option" where
  "find_index P [] = None"
| "find_index P (x # xs) = (if P x then Some 0 else map_option Suc (find_index P xs))"

lemma find_index_Some: "find_index P xs = Some i \<Longrightarrow> i < length xs \<and> P (xs ! i)"
  by (induction xs arbitrary: i) (auto split: if_splits)

lemma find_index_None: "find_index P xs = None \<longleftrightarrow> (\<forall>x \<in> set xs. \<not> P x)"
  by (induction xs) auto

lemma well_numbered_Nil [simp]: "well_numbered p f []"
  by (simp add: well_numbered_def)

lemma well_numbered_snoc:
  "well_numbered p f (xs @ [e]) \<longleftrightarrow> well_numbered p f xs \<and> f e = numbered_id p (Suc (length xs))"
  by (auto simp: well_numbered_def nth_append less_Suc_eq)

lemma well_numbered_nth: "well_numbered p f xs \<Longrightarrow> i < length xs \<Longrightarrow> f (xs ! i) = numbered_id p (Suc i)"
  by (simp add: well_numbered_def)

lemma well_numbered_same:
  "well_numbered p f xs \<Longrightarrow> i < length xs \<Longrightarrow> j < length xs \<Longrightarrow> f (xs ! i) = f (xs ! j) \<longleftrightarrow> i = j"
  by (simp add: well_numbered_nth)

lemma well_numbered_distinct: "well_numbered p f xs \<Longrightarrow> distinct (map f xs)"
  by (simp add: distinct_conv_nth well_numbered_same)

lemma well_numbered_cong_ids:
  assumes "well_numbered p f xs" and "map f ys = map f xs"
  shows "well_numbered p f ys"
proof -
  from assms(2) have "length ys = length xs" by (rule map_eq_imp_length_eq)
  moreover have "f (ys ! i) = f (xs ! i)" if "i < length xs" for i
    using assms(2) that calculation by (metis nth_map)
  ultimately show ?thesis using assms(1) by (simp add: well_numbered_def)
qed

lemma replace_by_id_ids: "f u = k \<Longrightarrow> map f (replace_by_id f k u xs) = map f xs"
  by (simp add: replace_by_id_def)

lemma replace_by_id_length [simp]: "length (replace_by_id f k u xs) = length xs"
  by (simp add: replace_by_id_def)

lemma replace_by_id_nth:
  "i < length xs \<Longrightarrow> replace_by_id f k u xs ! i = (if f (xs ! i) = k then u else xs ! i)"
  by (simp add: replace_by_id_def)

locale numbered_log =
  fixes prefix :: string and id_of :: "'e \<Rightarrow> string" and enter :: "'x \<Rightarrow> 'e list \<Rightarrow> 'e list"
  assumes enter_appends:
    "\<exists>e. enter x xs = xs @ [e] \<and> id_of e = numbered_id prefix (Suc (length xs))"
begin

lemma enter_numbered: "well_numbered prefix id_of xs \<Longrightarrow> well_numbered prefix id_of (enter x xs)"
  using enter_appends [of x xs] by (auto simp: well_numbered_snoc)

lemma enter_length [simp]: "length (enter x xs) = Suc (length xs)"
  using enter_appends [of x xs] by auto

lemma enter_old: "i < length xs \<Longrightarrow> enter x xs ! i = xs ! i"
  using enter_appends [of x xs] by (auto simp: nth_append)

lemma enter_fresh: "well_numbered prefix id_of xs \<Longrightarrow> id_of (last (enter x xs)) \<notin> id_of ` set xs"
  using enter_appends [of x xs] by (auto simp: well_numbered_def in_set_conv_nth)

lemma find_unique:
  assumes "well_numbered prefix id_of xs" "i < length xs"
  shows "List.find (\<lambda>e. id_of e = id_of (xs ! i)) xs = Some (xs ! i)"
proof -
  have "\<forall>j < i. id_of (xs ! j) \<noteq> id_of (xs ! i)"
    using assms by (simp add: well_numbered_same)
  with assms(2) show ?thesis by (auto simp: find_Some_iff)
qed

lemma replace_numbered:
  "well_numbered prefix id_of xs \<Longrightarrow> id_of u = k \<Longrightarrow> well_numbered prefix id_of (replace_by_id id_of k u xs)"
  by (rule well_numbered_cong_ids) (simp_all add: replace_by_id_ids)

lemma replace_at:
  assumes "well_numbered prefix id_of xs" "i < length xs" "k = id_of (xs ! i)"
  shows "replace_by_id id_of k u xs = xs[i := u]"
  by (rule nth_equalityI)
    (use assms in \<open>simp_all add: replace_by_id_nth well_numbered_same nth_list_update\<close>)

end

end
