(* ===== verification/Paper_Exchange.thy ===== *)
theory Paper_Exchange
  imports Paper_Risk Exec_Policy Json_Store Numbered_Log Lifecycle
begin

text \<open>
  \<open>services/paper_exchange/exchange.py\<close>: the in-memory paper exchange. Its state is a record with
  the fields of the class; every method is an operation on that record that returns a result or an
  exception together with the state it leaves behind. A method reads the system clock as often as
  the code does: \<open>clk n\<close> is its reading number \<open>n\<close>, counted from zero.
\<close>

type_synonym clock = "nat \<Rightarrow> datetime"

section \<open>Market data and prices\<close>

definition paper_source :: string where "paper_source = ''local_paper_simulator''"

definition default_quotes :: "datetime \<Rightarrow> (string \<times> market_quote) list" where
  "default_quotes reference =
     [(''BTCUSDC'',
        \<lparr>qt_symbol = ''BTCUSDC'', qt_best_bid = Dec 650000 (- 1), qt_best_ask = Dec 650005 (- 1),
         qt_bid_size = Dec 42 (- 1), qt_ask_size = Dec 38 (- 1), qt_mark_price = Dec 6500025 (- 2),
         qt_funding_rate_bps = Dec 8 (- 1), qt_volatility_bps = Dec 12 0,
         qt_freshness = fresh_at paper_source reference\<rparr>),
      (''ETHUSDC'',
        \<lparr>qt_symbol = ''ETHUSDC'', qt_best_bid = Dec 320000 (- 2), qt_best_ask = Dec 320005 (- 2),
         qt_bid_size = Dec 90 0, qt_ask_size = Dec 84 0, qt_mark_price = Dec 3200025 (- 3),
         qt_funding_rate_bps = Dec 6 (- 1), qt_volatility_bps = Dec 15 0,
         qt_freshness = fresh_at paper_source reference\<rparr>)]"

definition quote_for_symbol :: "string \<Rightarrow> datetime \<Rightarrow> market_quote option" where
  "quote_for_symbol symbol now = map_of (default_quotes now) symbol"

definition metadata_for :: "account_state \<Rightarrow> string \<Rightarrow> symbol_metadata option" where
  "metadata_for a symbol = List.find (\<lambda>m. sm_symbol m = symbol) (ac_symbol_metadata a)"

definition fee_for :: "account_state \<Rightarrow> string \<Rightarrow> fee_policy option" where
  "fee_for a symbol = List.find (\<lambda>p. fe_symbol p = symbol) (ac_fee_policies a)"

definition is_multiple :: "decimal \<Rightarrow> decimal \<Rightarrow> bool res" where
  "is_multiple v stride =
     bind_res (dle stride d0) (\<lambda>no_step.
     if no_step then Inr False
     else bind_res (dmod v stride) (\<lambda>r. deq r d0))"

definition queue_base :: "bool res \<Rightarrow> bool res \<Rightarrow> decimal res" where
  "queue_base inside at_touch =
     bind_res inside (\<lambda>i. if i then Inr (Dec 78 (- 2))
     else bind_res at_touch (\<lambda>t. Inr (if t then Dec 58 (- 2) else Dec 32 (- 2))))"

definition queue_fill_probability :: "order_intent \<Rightarrow> market_quote \<Rightarrow> decimal res" where
  "queue_fill_probability i q =
     bind_res
       (if it_side i = SD_BUY
        then queue_base (dgt (it_limit_price i) (qt_best_bid q)) (deq (it_limit_price i) (qt_best_bid q))
        else queue_base (dlt (it_limit_price i) (qt_best_ask q)) (deq (it_limit_price i) (qt_best_ask q)))
       (\<lambda>base.
     bind_res (if it_side i = SD_BUY then dsub (qt_ask_size q) (qt_bid_size q)
               else dsub (qt_bid_size q) (qt_ask_size q)) (\<lambda>gap.
     bind_res (dadd (qt_bid_size q) (qt_ask_size q)) (\<lambda>depth.
     bind_res (ddiv gap depth) (\<lambda>imbalance_bonus.
     bind_res (dmul imbalance_bonus (Dec 15 (- 2))) (\<lambda>bonus.
     bind_res (dadd base bonus) (\<lambda>probability.
     bind_res (dmax (Dec 5 (- 2)) probability) (\<lambda>floored. dmin (Dec 95 (- 2)) floored)))))))"

section \<open>Expected edge\<close>

definition per_ten_thousand :: "decimal \<Rightarrow> decimal \<Rightarrow> decimal res" where
  "per_ten_thousand notional bps = bind_res (dmul notional bps) (\<lambda>x. ddiv x (Dec 10000 0))"

definition calculate_expected_edge ::
    "order_intent \<Rightarrow> fee_policy \<Rightarrow> market_quote \<Rightarrow> edge_breakdown res" where
  "calculate_expected_edge i p q =
     bind_res (intent_notional i) (\<lambda>n.
     bind_res (per_ten_thousand n (it_expected_alpha_bps i)) (\<lambda>gross_edge.
     bind_res (dmul n (fe_maker_fee_rate p)) (\<lambda>maker.
     bind_res (if it_allow_taker i then dmul n (fe_taker_fee_rate p) else Inr d0) (\<lambda>taker.
     bind_res (per_ten_thousand n (it_slippage_bps i)) (\<lambda>slippage.
     bind_res (bind_res (dabs (qt_funding_rate_bps q)) (per_ten_thousand n)) (\<lambda>funding.
     bind_res (per_ten_thousand n (it_adverse_selection_bps i)) (\<lambda>adverse.
     bind_res (foldM_res dsub gross_edge [maker, taker, slippage, funding, adverse]) (\<lambda>edge.
     Inr \<lparr>ee_notional = n, ee_gross_edge = gross_edge, ee_maker_fee = maker,
          ee_taker_fee = taker, ee_slippage_cost = slippage, ee_funding_cost = funding,
          ee_adverse_selection_cost = adverse, ee_expected_edge_after_costs = edge\<rparr>))))))))"

section \<open>The state\<close>

record exchange =
  ex_account :: account_state
  ex_orders :: "paper_order list"
  ex_events :: "recon_event list"
  ex_taker_gate :: bool
  ex_risk_state :: risk_state
  ex_store :: "json_store option"
  ex_halted :: bool

definition new_exchange ::
    "account_state option \<Rightarrow> bool \<Rightarrow> json_store option \<Rightarrow> datetime \<Rightarrow> exchange res" where
  "new_exchange account gate store now =
     bind_res (case account of Some a \<Rightarrow> Inr a | None \<Rightarrow> default_account_state now) (\<lambda>a.
     Inr \<lparr>ex_account = a, ex_orders = [], ex_events = [], ex_taker_gate = gate,
          ex_risk_state = default_risk_state, ex_store = store, ex_halted = False\<rparr>)"

definition default_paper_exchange ::
    "(string \<rightharpoonup> string) \<Rightarrow> (store_path \<rightharpoonup> chunk list) \<Rightarrow> datetime \<Rightarrow> exchange res" where
  "default_paper_exchange env files now = new_exchange None False (Some (open_store None env files)) now"

definition is_open :: "order_status \<Rightarrow> bool" where
  "is_open s \<longleftrightarrow> s = ST_NEW \<or> s = ST_PARTIALLY_FILLED"

text \<open>The next event of the log, and the next order of the book.\<close>

definition append_event ::
    "string \<times> reconciliation_status \<times> string \<times> datetime \<Rightarrow> recon_event list \<Rightarrow> recon_event list" where
  "append_event = (\<lambda>(order_id, status, reason, created) evs. evs @
     [\<lparr>re_event_id = numbered_id ''paper-recon-'' (Suc (length evs)), re_order_id = order_id,
       re_status = status, re_reason = reason, re_created_at = created\<rparr>])"

definition append_order :: "order_intent \<times> datetime \<Rightarrow> paper_order list \<Rightarrow> paper_order list" where
  "append_order = (\<lambda>(intent, now) orders. orders @
     [\<lparr>po_order_id = numbered_id ''paper-order-'' (Suc (length orders)), po_intent = intent,
       po_status = ST_NEW, po_created_at = now, po_updated_at = now, po_fill = None,
       po_fills = [], po_filled_quantity = d0\<rparr>])"

definition log_event ::
    "string \<Rightarrow> reconciliation_status \<Rightarrow> string \<Rightarrow> datetime \<Rightarrow> (exchange, recon_event) act" where
  "log_event order_id status reason created =
     bind_act (modify (\<lambda>x. x\<lparr>ex_events := append_event (order_id, status, reason, created) (ex_events x)\<rparr>))
       (\<lambda>_. gets (\<lambda>x. last (ex_events x)))"

section \<open>Payloads and persistence\<close>

definition orders_payload :: "exchange \<Rightarrow> json_object res" where
  "orders_payload x =
     bind_res (mapM_res order_to_public_dict (ex_orders x)) (\<lambda>orders.
     Inr [(''status'', JStr ''ok''), (''service'', JStr ''paper_exchange''), (''orders'', JArr orders)])"

definition exchange_portfolio_payload :: "exchange \<Rightarrow> json_object res" where
  "exchange_portfolio_payload x =
     bind_res (portfolio_payload (ex_account x)) (\<lambda>p. Inr (p @ [(''execution'', JStr ''paper_only'')]))"

definition reconciliation_payload :: "exchange \<Rightarrow> json_object" where
  "reconciliation_payload x =
     [(''status'', JStr ''ok''), (''service'', JStr ''paper_exchange''),
      (''reconciliation_events'', JArr (map event_to_public_dict (ex_events x)))]"

definition maker_baseline_note :: "account_state \<Rightarrow> string res" where
  "maker_baseline_note a =
     (case ac_fee_policies a of
        [] \<Rightarrow> Inl (Raise IndexError ''tuple index out of range'')
      | p # _ \<Rightarrow> Inr (''fees use '' @ format_f (fe_maker_fee_rate p) @ '' maker baseline''))"

definition summary_payload :: "exchange \<Rightarrow> datetime \<Rightarrow> json_object res" where
  "summary_payload x now =
     bind_res (exchange_portfolio_payload x) (\<lambda>portfolio.
     bind_res (mapM_res (\<lambda>q. quote_to_public_dict q now) (map snd (default_quotes now))) (\<lambda>quotes.
     bind_res (maker_baseline_note (ex_account x)) (\<lambda>fees.
     Inr
       [(''status'', JStr ''ok''), (''service'', JStr ''paper_exchange''),
        (''phase'', JStr ''paper_trading_control_loop''), (''execution'', JStr ''paper_only''),
        (''taker_gate_enabled'', JBool (ex_taker_gate x)),
        (''panic_halted'', JBool (ex_halted x)),
        (''orders_count'', JInt (int (length (ex_orders x)))),
        (''reconciliation_count'', JInt (int (length (ex_events x)))),
        (''portfolio'', JObj portfolio), (''quotes'', JArr quotes),
        (''notes'', jstrs
          [''local deterministic paper simulator'', ''no Binance connectivity'',
           ''maker-first by default'', fees])])))"

definition on_store :: "(json_store \<Rightarrow> json_store) \<Rightarrow> exchange \<Rightarrow> exchange" where
  "on_store f x = x\<lparr>ex_store := map_option f (ex_store x)\<rparr>"

text \<open>The four files are written one after the other, each payload computed when its turn comes.\<close>

definition write_payload ::
    "(exchange \<Rightarrow> json_object res) \<Rightarrow> (json_object \<Rightarrow> json_store \<Rightarrow> json_store) \<Rightarrow> (exchange, unit) act" where
  "write_payload payload file =
     bind_act (gets payload) (\<lambda>m. bind_act (of_res m) (\<lambda>p. modify (on_store (file p))))"

definition persist_state :: "datetime \<Rightarrow> (exchange, unit) act" where
  "persist_state now =
     bind_act (gets ex_store) (\<lambda>store.
       case store of
         None \<Rightarrow> ret ()
       | Some _ \<Rightarrow>
           bind_act (write_payload orders_payload persist_orders) (\<lambda>_.
           bind_act (write_payload (\<lambda>x. Inr (reconciliation_payload x)) persist_reconciliation) (\<lambda>_.
           bind_act (write_payload exchange_portfolio_payload persist_portfolio) (\<lambda>_.
           write_payload (\<lambda>x. summary_payload x now) persist_snapshot))))"

section \<open>Preview and submission\<close>

definition missing_fee_policy :: "string \<Rightarrow> datetime \<Rightarrow> fee_policy" where
  "missing_fee_policy symbol now =
     \<lparr>fe_symbol = symbol, fe_maker_fee_rate = d1, fe_taker_fee_rate = d1,
      fe_source = ''missing_fee_policy'', fe_freshness = fresh_at paper_source now,
      fe_promotion = None\<rparr>"

definition missing_quote :: "string \<Rightarrow> datetime \<Rightarrow> market_quote" where
  "missing_quote symbol now =
     \<lparr>qt_symbol = symbol, qt_best_bid = d0, qt_best_ask = d0, qt_bid_size = d0, qt_ask_size = d0,
      qt_mark_price = d0, qt_funding_rate_bps = d0, qt_volatility_bps = d0,
      qt_freshness = fresh_at paper_source now\<rparr>"

definition metadata_checks ::
    "symbol_metadata option \<Rightarrow> order_intent \<Rightarrow> datetime \<Rightarrow> string list res list" where
  "metadata_checks metadata i now =
     (case metadata of
        None \<Rightarrow> [Inr [it_symbol i @ '' metadata is unavailable'']]
      | Some m \<Rightarrow>
          if sm_role m \<noteq> IR_EXECUTABLE then [Inr [it_symbol i @ '' is not executable'']]
          else case sm_filters m of
            None \<Rightarrow> [Inr [it_symbol i @ '' executable filters are unavailable'']]
          | Some f \<Rightarrow>
              [metadata_errors m now,
               reason_if (dle (it_quantity i) d0) ''quantity must be positive'',
               reason_if (dle (it_limit_price i) d0) ''limit_price must be positive'',
               reason_if (map_res Not (is_multiple (it_quantity i) (sf_lot_size f)))
                 ''quantity does not align to lot size'',
               reason_if (map_res Not (is_multiple (it_limit_price i) (sf_tick_size f)))
                 ''limit_price does not align to tick size'',
               reason_if (bind_res (intent_notional i) (\<lambda>n. dlt n (sf_min_notional f)))
                 ''order notional is below min notional''])"

definition fee_check :: "fee_policy option \<Rightarrow> order_intent \<Rightarrow> datetime \<Rightarrow> string list res" where
  "fee_check fee i now =
     (case fee of
        None \<Rightarrow> Inr [it_symbol i @ '' fee policy is unavailable'']
      | Some p \<Rightarrow> fee_policy_errors p now)"

definition quote_check :: "market_quote option \<Rightarrow> order_intent \<Rightarrow> datetime \<Rightarrow> string list res" where
  "quote_check quote i now =
     (case quote of
        None \<Rightarrow> Inr [it_symbol i @ '' market quote is unavailable'']
      | Some q \<Rightarrow> freshness_errors (qt_freshness q) now (it_symbol i @ '' quote''))"

definition preview_order :: "exchange \<Rightarrow> order_intent \<Rightarrow> datetime \<Rightarrow> order_preview res" where
  "preview_order x i now =
     (let metadata = metadata_for (ex_account x) (it_symbol i);
          fee = fee_for (ex_account x) (it_symbol i);
          quote = quote_for_symbol (it_symbol i) now;
          p = (case fee of None \<Rightarrow> missing_fee_policy (it_symbol i) now | Some p \<Rightarrow> p);
          q = (case quote of None \<Rightarrow> missing_quote (it_symbol i) now | Some q \<Rightarrow> q)
      in bind_res (collect
           ([reason_when (ex_halted x) ''paper exchange is halted'']
            @ metadata_checks metadata i now
            @ [fee_check fee i now, quote_check quote i now,
               reason_when (pt_value (it_order_type i) \<noteq> ''LIMIT'')
                 ''paper exchange only supports limit order intents''])) (\<lambda>rs.
         bind_res (validate_maker_first_intent i q (ex_taker_gate x)) (\<lambda>check.
         bind_res (calculate_expected_edge i p q) (\<lambda>edge.
         bind_res (reason_if (dle (ee_expected_edge_after_costs edge) d0)
           ''expected_edge_after_costs must be positive'') (\<lambda>rs'.
         let reasons = rs @ xr_reasons check @ rs'
         in Inr \<lparr>pv_intent = i, pv_accepted = (reasons = []), pv_reasons = reasons,
                 pv_maker_first = True,
                 pv_post_only_would_cross = xr_post_only_would_cross check,
                 pv_expected_edge = edge\<rparr>)))))"

record submit_result =
  sr_accepted :: bool
  sr_preview :: order_preview
  sr_order :: "paper_order option"
  sr_event :: recon_event
  sr_risk :: "risk_result option"

definition submit_result_to_public_dict :: "submit_result \<Rightarrow> json res" where
  "submit_result_to_public_dict r =
     bind_res (preview_to_public_dict (sr_preview r)) (\<lambda>preview.
     bind_res (case sr_order r of None \<Rightarrow> Inr JNull | Some o' \<Rightarrow> order_to_public_dict o') (\<lambda>order.
     Inr (JObj
       [(''accepted'', JBool (sr_accepted r)), (''preview'', preview),
        (''risk'', jopt risk_result_to_public_dict (sr_risk r)), (''order'', order),
        (''reconciliation_event'', event_to_public_dict (sr_event r)),
        (''execution'', JStr ''paper_only'')])))"

text \<open>A refusal: one REJECTED event under the id the order would have had, and the state persisted.\<close>

definition reject_order ::
    "clock \<Rightarrow> nat \<Rightarrow> string \<Rightarrow> datetime \<Rightarrow> string list \<Rightarrow> order_preview \<Rightarrow> risk_result option
     \<Rightarrow> (exchange, submit_result) act" where
  "reject_order clk n order_id now reasons preview risk =
     bind_act (log_event order_id RS_REJECTED (join ''; '' reasons) now) (\<lambda>e.
     bind_act (persist_state (clk n)) (\<lambda>_.
     ret \<lparr>sr_accepted = False, sr_preview = preview, sr_order = None, sr_event = e, sr_risk = risk\<rparr>))"

definition accept_order ::
    "clock \<Rightarrow> nat \<Rightarrow> order_intent \<Rightarrow> datetime \<Rightarrow> order_preview \<Rightarrow> risk_result
     \<Rightarrow> (exchange, submit_result) act" where
  "accept_order clk n i now preview risk =
     bind_act (modify (\<lambda>x. x\<lparr>ex_orders := append_order (i, now) (ex_orders x)\<rparr>)) (\<lambda>_.
     bind_act (gets (\<lambda>x. last (ex_orders x))) (\<lambda>order.
     bind_act (log_event (po_order_id order) RS_RESTING
       ''deterministic paper order accepted onto local book'' now) (\<lambda>e.
     bind_act (persist_state (clk n)) (\<lambda>_.
     ret \<lparr>sr_accepted = True, sr_preview = preview, sr_order = Some order, sr_event = e,
          sr_risk = Some risk\<rparr>))))"

text \<open>
  \<open>now = reference_time or now_utc()\<close>: without a reference time the first clock reading is spent on
  \<open>now\<close>, and the persisted summary takes the next.
\<close>

definition reference_now :: "clock \<Rightarrow> datetime option \<Rightarrow> datetime" where
  "reference_now clk reference = (case reference of Some t \<Rightarrow> t | None \<Rightarrow> clk 0)"

definition readings_used :: "datetime option \<Rightarrow> nat" where
  "readings_used reference = (case reference of Some _ \<Rightarrow> 0 | None \<Rightarrow> 1)"

definition submit_order ::
    "clock \<Rightarrow> datetime option \<Rightarrow> order_intent \<Rightarrow> (exchange, submit_result) act" where
  "submit_order clk reference i =
     (let now = reference_now clk reference; n = readings_used reference
      in bind_act (gets (\<lambda>x. preview_order x i now)) (\<lambda>m.
         bind_act (of_res m) (\<lambda>preview.
         bind_act (gets (\<lambda>x. numbered_id ''paper-order-'' (Suc (length (ex_orders x))))) (\<lambda>order_id.
         if \<not> pv_accepted preview
         then reject_order clk n order_id now (pv_reasons preview) preview None
         else case quote_for_symbol (it_symbol i) now of
             None \<Rightarrow> of_res (Inl (Raise RuntimeError ''accepted preview cannot have missing quote''))
           | Some q \<Rightarrow>
               bind_act (gets (\<lambda>x. evaluate_paper_order_risk (ex_account x) i preview q None
                 (Some (ex_risk_state x)) now)) (\<lambda>m'.
               bind_act (of_res m') (\<lambda>risk.
               if \<not> rr_accepted risk
               then reject_order clk n order_id now (rr_reasons risk) preview (Some risk)
               else accept_order clk n i now preview risk))))))"

section \<open>Fills\<close>

definition fill_order :: "paper_order \<Rightarrow> decimal \<Rightarrow> datetime \<Rightarrow> (exchange, paper_order) act" where
  "fill_order order fill_quantity created =
     bind_act (of_res (bind_res (remaining_quantity order) (\<lambda>r. dmin r fill_quantity))) (\<lambda>quantity.
     bind_act (of_res (dle quantity d0)) (\<lambda>nothing.
     if nothing then ret order
     else
       bind_act (gets (\<lambda>x. case fee_for (ex_account x) (it_symbol (po_intent order)) of
           Some p \<Rightarrow> fe_maker_fee_rate p | None \<Rightarrow> d0)) (\<lambda>fee_rate.
       bind_act (gets (\<lambda>x. sum_list (map (\<lambda>o'. length (po_fills o')) (ex_orders x)))) (\<lambda>count.
       bind_act (of_res (bind_res (dmul quantity (it_limit_price (po_intent order)))
           (\<lambda>amount. dmul amount fee_rate))) (\<lambda>fee.
       let fill = \<lparr>fl_fill_id = numbered_id ''paper-fill-'' (Suc count),
              fl_order_id = po_order_id order, fl_symbol = it_symbol (po_intent order),
              fl_side = it_side (po_intent order), fl_book_side = it_book_side (po_intent order),
              fl_quantity = quantity, fl_price = it_limit_price (po_intent order),
              fl_liquidity = ''maker'', fl_fee = fee, fl_created_at = created\<rparr>
       in bind_act (of_res (dadd (po_filled_quantity order) quantity)) (\<lambda>filled.
          bind_act (of_res (dge filled (it_quantity (po_intent order)))) (\<lambda>complete.
          let status = (if complete then ST_FILLED else ST_PARTIALLY_FILLED);
              updated = order\<lparr>po_status := status, po_updated_at := created,
                po_fill := Some fill, po_fills := po_fills order @ [fill],
                po_filled_quantity := filled\<rparr>
          in bind_act (modify (\<lambda>x. x\<lparr>ex_orders :=
                 replace_by_id po_order_id (po_order_id order) updated (ex_orders x)\<rparr>)) (\<lambda>_.
             bind_act (gets (\<lambda>x. apply_paper_fill (ex_account x) fill)) (\<lambda>m.
             bind_act (of_res m) (\<lambda>account.
             bind_act (modify (\<lambda>x. x\<lparr>ex_account := account\<rparr>)) (\<lambda>_.
             bind_act (log_event (po_order_id order)
               (if complete then RS_MATCHED else RS_PARTIALLY_FILLED)
               ''deterministic maker queue fill applied'' created) (\<lambda>_.
             ret updated))))))))))))"

definition processed_entry :: "paper_order \<Rightarrow> decimal \<Rightarrow> json res" where
  "processed_entry updated probability =
     bind_res (remaining_quantity updated) (\<lambda>rest.
     Inr (JObj
       [(''order_id'', JStr (po_order_id updated)),
        (''status'', JStr (st_value (po_status updated))),
        (''filled_quantity'', JStr (format_f (po_filled_quantity updated))),
        (''remaining_quantity'', JStr (format_f rest)),
        (''queue_fill_probability'', JStr (format_f probability))]))"

text \<open>
  How far an order of the snapshot gets: filled up when the queue probability is high or it was
  partly filled before, by half when the probability is middling. When it is too low the order
  itself is not stored again, only its copy with a new time stamp is reported.
\<close>

definition advance_order :: "datetime \<Rightarrow> paper_order \<Rightarrow> decimal \<Rightarrow> (exchange, paper_order) act" where
  "advance_order now order probability =
     bind_act (of_res (dge probability (Dec 60 (- 2)))) (\<lambda>likely.
     if likely \<or> po_status order = ST_PARTIALLY_FILLED
     then bind_act (of_res (remaining_quantity order)) (\<lambda>rest. fill_order order rest now)
     else bind_act (of_res (dge probability (Dec 25 (- 2)))) (\<lambda>possible.
       if possible
       then bind_act (of_res (bind_res (remaining_quantity order) (\<lambda>rest.
              bind_res (ddiv (it_quantity (po_intent order)) (Dec 2 0)) (\<lambda>half.
              dmin rest half)))) (\<lambda>part. fill_order order part now)
       else ret (order\<lparr>po_updated_at := now\<rparr>)))"

definition process_order :: "datetime \<Rightarrow> paper_order \<Rightarrow> (exchange, json list) act" where
  "process_order now order =
     (if \<not> is_open (po_status order) then ret []
      else case quote_for_symbol (it_symbol (po_intent order)) now of
        None \<Rightarrow> ret []
      | Some q \<Rightarrow>
          bind_act (of_res (queue_fill_probability (po_intent order) q)) (\<lambda>probability.
          bind_act (advance_order now order probability) (\<lambda>updated.
          bind_act (of_res (processed_entry updated probability)) (\<lambda>entry. ret [entry]))))"

definition process_open_orders :: "clock \<Rightarrow> datetime option \<Rightarrow> (exchange, json_object) act" where
  "process_open_orders clk reference =
     (let now = reference_now clk reference; n = readings_used reference
      in bind_act (gets ex_orders) (\<lambda>snapshot.
         bind_act (map_act (process_order now) snapshot) (\<lambda>processed.
         bind_act (persist_state (clk n)) (\<lambda>_.
         ret [(''status'', JStr ''ok''), (''service'', JStr ''paper_exchange''),
              (''execution'', JStr ''paper_only''), (''processed'', JArr (concat processed))]))))"

section \<open>Cancellation, expiry, panic and reset\<close>

definition not_found_payload :: "string \<Rightarrow> json_object" where
  "not_found_payload order_id =
     [(''status'', JStr ''not_found''), (''service'', JStr ''paper_exchange''),
      (''order_id'', JStr order_id)]"

definition expire_order :: "clock \<Rightarrow> string \<Rightarrow> (exchange, json_object) act" where
  "expire_order clk order_id =
     bind_act (gets (\<lambda>x. map_option (\<lambda>i. (i, ex_orders x ! i))
         (find_index (\<lambda>o'. po_order_id o' = order_id) (ex_orders x)))) (\<lambda>found.
     case found of
       None \<Rightarrow> ret (not_found_payload order_id)
     | Some (i, order) \<Rightarrow>
         if \<not> is_open (po_status order)
         then ret [(''status'', JStr ''ok''), (''service'', JStr ''paper_exchange''),
                   (''order_id'', JStr order_id), (''expired'', JBool False),
                   (''reason'', JStr ''only open paper orders can expire'')]
         else
           bind_act (modify (\<lambda>x. x\<lparr>ex_orders := (ex_orders x)[i :=
             order\<lparr>po_status := ST_EXPIRED, po_updated_at := clk 0\<rparr>]\<rparr>)) (\<lambda>_.
           bind_act (log_event order_id RS_EXPIRED
             ''paper order expired by deterministic lifecycle'' (clk 0)) (\<lambda>e.
           bind_act (persist_state (clk 1)) (\<lambda>_.
           ret [(''status'', JStr ''ok''), (''service'', JStr ''paper_exchange''),
                (''order_id'', JStr order_id), (''expired'', JBool True),
                (''reconciliation_event'', event_to_public_dict e)]))))"

text \<open>
  Cancelling an open order reads the clock for the order and again for the event; a terminal order
  is left alone, but the request is recorded as a CANCELED event all the same.
\<close>

definition cancel_order :: "clock \<Rightarrow> string \<Rightarrow> (exchange, json_object) act" where
  "cancel_order clk order_id =
     bind_act (gets (\<lambda>x. List.find (\<lambda>o'. po_order_id o' = order_id) (ex_orders x))) (\<lambda>found.
     case found of
       None \<Rightarrow> ret (not_found_payload order_id)
     | Some order \<Rightarrow>
         let opened = is_open (po_status order); n = (if opened then 1 else 0)
         in bind_act
              (if opened
               then modify (\<lambda>x. x\<lparr>ex_orders := replace_by_id po_order_id order_id
                 (order\<lparr>po_status := ST_CANCELED, po_updated_at := clk 0\<rparr>) (ex_orders x)\<rparr>)
               else ret ()) (\<lambda>_.
            bind_act (log_event order_id RS_CANCELED ''paper cancel request recorded'' (clk n)) (\<lambda>e.
            bind_act (persist_state (clk (Suc n))) (\<lambda>_.
            ret [(''status'', JStr ''ok''), (''service'', JStr ''paper_exchange''),
                 (''order_id'', JStr order_id), (''canceled'', JBool opened),
                 (''reason'', JStr (if opened then ''paper order canceled''
                    else ''terminal paper orders cannot be canceled'')),
                 (''reconciliation_event'', event_to_public_dict e)]))))"

definition reset_exchange :: "clock \<Rightarrow> (exchange, unit) act" where
  "reset_exchange clk =
     bind_act (of_res (default_account_state (clk 0))) (\<lambda>a.
     bind_act (modify (\<lambda>x. x\<lparr>ex_account := a, ex_orders := [], ex_events := [], ex_halted := False\<rparr>)) (\<lambda>_.
     persist_state (clk 1)))"

definition panic_halt :: "clock \<Rightarrow> (exchange, json_object) act" where
  "panic_halt clk =
     bind_act (modify (\<lambda>x. x\<lparr>ex_halted := True,
       ex_risk_state := default_risk_state\<lparr>rk_panic_halt_active := True\<rparr>\<rparr>)) (\<lambda>_.
     bind_act (persist_state (clk 0)) (\<lambda>_.
     ret [(''status'', JStr ''ok''), (''service'', JStr ''paper_exchange''),
          (''panic_halt'', JBool True), (''execution'', JStr ''paper_only'')]))"

definition cancel_if_open :: "datetime \<Rightarrow> paper_order \<Rightarrow> paper_order" where
  "cancel_if_open now order =
     (if is_open (po_status order) then order\<lparr>po_status := ST_CANCELED, po_updated_at := now\<rparr> else order)"

definition panic_cancel_open_orders :: "clock \<Rightarrow> (exchange, json_object) act" where
  "panic_cancel_open_orders clk =
     bind_act (gets (\<lambda>x. length (filter (\<lambda>o'. is_open (po_status o')) (ex_orders x)))) (\<lambda>count.
     bind_act (modify (\<lambda>x. x\<lparr>ex_orders := map (cancel_if_open (clk 0)) (ex_orders x)\<rparr>)) (\<lambda>_.
     bind_act (log_event ''all-open-paper-orders'' RS_CANCELED ''paper panic cancel recorded'' (clk 0)) (\<lambda>e.
     bind_act (persist_state (clk 1)) (\<lambda>_.
     ret [(''status'', JStr ''ok''), (''service'', JStr ''paper_exchange''),
          (''execution'', JStr ''paper_only''), (''open_orders_canceled'', JInt (int count)),
          (''reconciliation_event'', event_to_public_dict e)]))))"

definition panic_flatten_positions :: "clock \<Rightarrow> (exchange, json_object) act" where
  "panic_flatten_positions clk =
     bind_act (of_res (default_account_state (clk 0))) (\<lambda>a.
     bind_act (modify (\<lambda>x. x\<lparr>ex_account := a\<rparr>)) (\<lambda>_.
     bind_act (log_event ''all-paper-positions'' RS_MATCHED
       ''paper positions flattened by resetting local hedge books'' (clk 1)) (\<lambda>e.
     bind_act (persist_state (clk 2)) (\<lambda>_.
     bind_act (gets exchange_portfolio_payload) (\<lambda>m.
     bind_act (of_res m) (\<lambda>portfolio.
     ret [(''status'', JStr ''ok''), (''service'', JStr ''paper_exchange''),
          (''execution'', JStr ''paper_only''), (''flattened'', JBool True),
          (''portfolio'', JObj portfolio),
          (''reconciliation_event'', event_to_public_dict e)]))))))"

end
