(* ===== verification/Exchange_Runs.thy ===== *)
theory Exchange_Runs
  imports Paper_Exchange
begin

text \<open>
  The paper exchange as a transition system: the calls a client can make, the states they lead to,
  and what every one of them does to the order book and the event log. The other theories about
  the exchange rest on the lemmas here.
\<close>

section \<open>Calls and runs\<close>

datatype exchange_call =
    Submit "datetime option" order_intent
  | Process "datetime option"
  | Expire string
  | Cancel string
  | Reset
  | Panic_Halt
  | Panic_Cancel
  | Panic_Flatten

text \<open>The state a call leaves behind, whether it returns or raises.\<close>

fun after_call :: "clock \<Rightarrow> exchange_call \<Rightarrow> exchange \<Rightarrow> exchange" where
  "after_call clk (Submit r i) x = snd (submit_order clk r i x)"
| "after_call clk (Process r) x = snd (process_open_orders clk r x)"
| "after_call clk (Expire k) x = snd (expire_order clk k x)"
| "after_call clk (Cancel k) x = snd (cancel_order clk k x)"
| "after_call clk Reset x = snd (reset_exchange clk x)"
| "after_call clk Panic_Halt x = snd (panic_halt clk x)"
| "after_call clk Panic_Cancel x = snd (panic_cancel_open_orders clk x)"
| "after_call clk Panic_Flatten x = snd (panic_flatten_positions clk x)"

inductive exchange_step :: "exchange_call \<Rightarrow> exchange \<Rightarrow> exchange \<Rightarrow> bool" where
  call: "exchange_step c x (after_call clk c x)"

inductive_cases exchange_stepE: "exchange_step c x y"

inductive exchange_run :: "exchange_call list \<Rightarrow> exchange \<Rightarrow> exchange \<Rightarrow> bool" where
  run_Nil: "exchange_run [] x x"
| run_Cons: "exchange_step c x y \<Longrightarrow> exchange_run cs y z \<Longrightarrow> exchange_run (c # cs) x z"

inductive_cases exchange_run_NilE: "exchange_run [] x y"
inductive_cases exchange_run_ConsE: "exchange_run (c # cs) x z"

lemma exchange_run_append:
  "exchange_run (cs @ ds) x z \<longleftrightarrow> (\<exists>y. exchange_run cs x y \<and> exchange_run ds y z)"
proof (induction cs arbitrary: x)
  case Nil
  then show ?case by (auto elim: exchange_run_NilE intro: run_Nil)
next
  case (Cons c cs)
  then show ?case
    by (auto elim!: exchange_run_ConsE intro: run_Cons) (meson Cons.IH run_Cons)+
qed

lemma exchange_run_one: "exchange_run [c] x (after_call clk c x)"
  by (rule run_Cons [OF call run_Nil])

lemma exchange_run_invariant:
  assumes "exchange_run cs x y" and "P x" and "\<And>c x clk. P x \<Longrightarrow> c \<in> set cs \<Longrightarrow> P (after_call clk c x)"
  shows "P y"
  using assms by (induction rule: exchange_run.induct) (auto elim!: exchange_stepE)

section \<open>Persisting touches the store only\<close>

definition core :: "exchange \<Rightarrow> exchange" where
  "core x = x\<lparr>ex_store := None\<rparr>"

lemma core_on_store [simp]: "core (on_store f x) = core x"
  by (simp add: core_def on_store_def)

lemma core_persist [simp]: "core (snd (persist_state t x)) = core x"
proof -
  have "keeps (\<lambda>y. core y = core x) (persist_state t)"
    unfolding persist_state_def write_payload_def by (intro keeps_intros) simp_all
  from keepsD [OF this] show ?thesis by simp
qed

lemma core_fields:
  "ex_orders (core x) = ex_orders x" "ex_events (core x) = ex_events x"
  "ex_account (core x) = ex_account x" "ex_halted (core x) = ex_halted x"
  "ex_risk_state (core x) = ex_risk_state x" "ex_taker_gate (core x) = ex_taker_gate x"
  by (simp_all add: core_def)

lemma persist_fields [simp]:
  "ex_orders (snd (persist_state t x)) = ex_orders x"
  "ex_events (snd (persist_state t x)) = ex_events x"
  "ex_account (snd (persist_state t x)) = ex_account x"
  "ex_halted (snd (persist_state t x)) = ex_halted x"
  "ex_risk_state (snd (persist_state t x)) = ex_risk_state x"
  "ex_taker_gate (snd (persist_state t x)) = ex_taker_gate x"
  using core_persist [of t x] by (metis core_fields)+

lemma log_event_run [simp]:
  "log_event k s r t x = (Inr (last (append_event (k, s, r, t) (ex_events x))),
     x\<lparr>ex_events := append_event (k, s, r, t) (ex_events x)\<rparr>)"
  by (simp add: log_event_def act_run)

lemma bind_log_event [simp]:
  "bind_act (log_event k s r t) f x =
     f (last (append_event (k, s, r, t) (ex_events x)))
       (x\<lparr>ex_events := append_event (k, s, r, t) (ex_events x)\<rparr>)"
  by (simp add: bind_act_def)

section \<open>The numbered logs\<close>

interpretation orders_log: numbered_log "''paper-order-''" po_order_id append_order
  by unfold_locales (simp add: append_order_def split: prod.splits)

interpretation events_log: numbered_log "''paper-recon-''" re_event_id append_event
  by unfold_locales (simp add: append_event_def split: prod.splits)

definition logs_ok :: "exchange \<Rightarrow> bool" where
  "logs_ok x \<longleftrightarrow> well_numbered ''paper-order-'' po_order_id (ex_orders x)
     \<and> well_numbered ''paper-recon-'' re_event_id (ex_events x)"

text \<open>The event log only grows, one numbered event at a time.\<close>

definition log_extends :: "recon_event list \<Rightarrow> recon_event list \<Rightarrow> bool" where
  "log_extends es es' \<longleftrightarrow> (\<exists>news. es' = fold append_event news es)"

lemma log_extends_refl [simp, intro]: "log_extends es es"
  unfolding log_extends_def by (rule exI [of _ "[]"]) simp

lemma log_extends_append [simp, intro]: "log_extends es (append_event e es)"
  unfolding log_extends_def by (rule exI [of _ "[e]"]) simp

lemma log_extends_trans [trans]: "log_extends a b \<Longrightarrow> log_extends b c \<Longrightarrow> log_extends a c"
  unfolding log_extends_def by (metis fold_append comp_apply)

lemma log_extends_numbered:
  assumes "log_extends es es'" and "well_numbered ''paper-recon-'' re_event_id es"
  shows "well_numbered ''paper-recon-'' re_event_id es'"
proof -
  have "well_numbered ''paper-recon-'' re_event_id (fold append_event news es)" for news
    using assms(2) by (induction news arbitrary: es) (simp_all add: events_log.enter_numbered)
  with assms(1) show ?thesis by (auto simp: log_extends_def)
qed

section \<open>What each call does to the book, the log and the switches\<close>

text \<open>Two states with the same account, switches and risk state.\<close>

definition same_desk :: "exchange \<Rightarrow> exchange \<Rightarrow> bool" where
  "same_desk x y \<longleftrightarrow> ex_account y = ex_account x \<and> ex_halted y = ex_halted x
     \<and> ex_risk_state y = ex_risk_state x \<and> ex_taker_gate y = ex_taker_gate x"

lemma reject_order_effect:
  "same_desk x (snd (reject_order clk n k now rs p risk x))
   \<and> ex_orders (snd (reject_order clk n k now rs p risk x)) = ex_orders x
   \<and> ex_events (snd (reject_order clk n k now rs p risk x))
       = append_event (k, RS_REJECTED, join ''; '' rs, now) (ex_events x)"
  by (simp add: reject_order_def same_desk_def)

lemma accept_order_effect:
  "same_desk x (snd (accept_order clk n i now p risk x))
   \<and> ex_orders (snd (accept_order clk n i now p risk x)) = append_order (i, now) (ex_orders x)
   \<and> ex_events (snd (accept_order clk n i now p risk x))
       = append_event (numbered_id ''paper-order-'' (Suc (length (ex_orders x))), RS_RESTING,
           ''deterministic paper order accepted onto local book'', now) (ex_events x)"
  by (simp add: accept_order_def same_desk_def append_order_def)

text \<open>The verdict on an order, apart from what is done about it.\<close>

definition submit_gate :: "exchange \<Rightarrow> order_intent \<Rightarrow> datetime \<Rightarrow> (order_preview \<times> risk_result option) res" where
  "submit_gate x i now =
     bind_res (preview_order x i now) (\<lambda>p.
     if \<not> pv_accepted p then Inr (p, None)
     else case quote_for_symbol (it_symbol i) now of
         None \<Rightarrow> Inl (Raise RuntimeError ''accepted preview cannot have missing quote'')
       | Some q \<Rightarrow> map_res (\<lambda>r. (p, Some r))
           (evaluate_paper_order_risk (ex_account x) i p q None (Some (ex_risk_state x)) now))"

fun gate_passed :: "order_preview \<times> risk_result option \<Rightarrow> bool" where
  "gate_passed (p, Some r) = rr_accepted r"
| "gate_passed (p, None) = False"

fun gate_reasons :: "order_preview \<times> risk_result option \<Rightarrow> string list" where
  "gate_reasons (p, Some r) = rr_reasons r"
| "gate_reasons (p, None) = pv_reasons p"

lemma submit_order_gate:
  "submit_order clk reference i x =
     (let now = reference_now clk reference; n = readings_used reference
      in case submit_gate x i now of
           Inl e \<Rightarrow> (Inl e, x)
         | Inr (p, None) \<Rightarrow> reject_order clk n (numbered_id ''paper-order-'' (Suc (length (ex_orders x))))
             now (pv_reasons p) p None x
         | Inr (p, Some r) \<Rightarrow>
             if rr_accepted r then accept_order clk n i now p r x
             else reject_order clk n (numbered_id ''paper-order-'' (Suc (length (ex_orders x))))
               now (rr_reasons r) p (Some r) x)"
proof (cases "preview_order x i (reference_now clk reference)")
  case (Inl e)
  then show ?thesis by (simp add: submit_order_def submit_gate_def Let_def)
next
  case (Inr p)
  show ?thesis
  proof (cases "pv_accepted p")
    case False
    with Inr show ?thesis by (simp add: submit_order_def submit_gate_def Let_def)
  next
    case True
    show ?thesis
    proof (cases "quote_for_symbol (it_symbol i) (reference_now clk reference)")
      case None
      with Inr True show ?thesis
        by (simp add: submit_order_def submit_gate_def Let_def act_run)
    next
      case (Some q)
      with Inr True show ?thesis
        by (cases "evaluate_paper_order_risk (ex_account x) i p q None (Some (ex_risk_state x))
              (reference_now clk reference)")
          (simp_all add: submit_order_def submit_gate_def Let_def)
    qed
  qed
qed

definition gate_opens :: "exchange \<Rightarrow> order_intent \<Rightarrow> datetime \<Rightarrow> bool" where
  "gate_opens x i now \<longleftrightarrow> (\<exists>p r. submit_gate x i now = Inr (p, Some r) \<and> rr_accepted r)"

lemma submit_order_effect:
  defines "y \<equiv> \<lambda>clk reference i x. snd (submit_order clk reference i x)"
  shows "same_desk x (y clk reference i x)"
    and "ex_orders (y clk reference i x) = (if gate_opens x i (reference_now clk reference)
           then append_order (i, reference_now clk reference) (ex_orders x) else ex_orders x)"
    and "log_extends (ex_events x) (ex_events (y clk reference i x))"
proof -
  show "same_desk x (y clk reference i x)"
    using reject_order_effect accept_order_effect
    by (auto simp: y_def submit_order_gate Let_def same_desk_def split: sum.splits prod.splits option.splits)
  show "ex_orders (y clk reference i x) = (if gate_opens x i (reference_now clk reference)
      then append_order (i, reference_now clk reference) (ex_orders x) else ex_orders x)"
    using reject_order_effect accept_order_effect
    by (auto simp: y_def submit_order_gate gate_opens_def Let_def split: sum.splits prod.splits option.splits)
  show "log_extends (ex_events x) (ex_events (y clk reference i x))"
    using reject_order_effect accept_order_effect
    by (auto simp: y_def submit_order_gate Let_def split: sum.splits prod.splits option.splits)
qed

lemma submit_accepted:
  assumes "submit_order clk reference i x = (Inr s, y)"
  shows "sr_accepted s \<longleftrightarrow> gate_opens x i (reference_now clk reference)"
  using assms
  by (auto simp: submit_order_gate gate_opens_def Let_def reject_order_def accept_order_def
      bind_act_run act_run split: sum.splits prod.splits option.splits if_splits)

section \<open>The life of an order\<close>

fun order_level :: "order_status \<Rightarrow> nat" where
  "order_level ST_NEW = 0"
| "order_level ST_PARTIALLY_FILLED = 1"
| "order_level ST_FILLED = 2"
| "order_level ST_CANCELED = 2"
| "order_level ST_EXPIRED = 2"

definition order_move :: "order_status \<Rightarrow> order_status \<Rightarrow> bool" where
  "order_move a b \<longleftrightarrow> b = a \<or> (is_open a \<and> order_level a < order_level b)"

interpretation paper_life: absorbing_lifecycle order_level order_move "\<lambda>s. \<not> is_open s"
  by unfold_locales (auto simp: order_move_def)

lemma order_move_refl [simp]: "order_move a a"
  by (simp add: order_move_def)

lemma order_move_trans: "order_move a b \<Longrightarrow> order_move b c \<Longrightarrow> order_move a c"
  by (auto simp: order_move_def)

definition evolves :: "paper_order \<Rightarrow> paper_order \<Rightarrow> bool" where
  "evolves a b \<longleftrightarrow>
     po_order_id b = po_order_id a \<and> po_intent b = po_intent a \<and> po_created_at b = po_created_at a
     \<and> order_move (po_status a) (po_status b) \<and> (\<not> is_open (po_status a) \<longrightarrow> b = a)
     \<and> (\<exists>news. po_fills b = po_fills a @ news)"

lemma evolves_refl [simp]: "evolves a a"
  by (simp add: evolves_def)

lemma evolves_trans: "evolves a b \<Longrightarrow> evolves b c \<Longrightarrow> evolves a c"
  by (auto simp: evolves_def intro: order_move_trans)

definition book_evolves :: "paper_order list \<Rightarrow> paper_order list \<Rightarrow> bool" where
  "book_evolves xs ys \<longleftrightarrow> length xs \<le> length ys \<and> (\<forall>i < length xs. evolves (xs ! i) (ys ! i))"

lemma book_evolves_refl [simp]: "book_evolves xs xs"
  by (simp add: book_evolves_def)

lemma book_evolves_trans: "book_evolves xs ys \<Longrightarrow> book_evolves ys zs \<Longrightarrow> book_evolves xs zs"
  unfolding book_evolves_def by (meson evolves_trans le_trans less_le_trans)

lemma book_evolves_append [simp]: "book_evolves xs (append_order e xs)"
  by (simp add: book_evolves_def orders_log.enter_old)

lemma book_evolves_update:
  "i < length xs \<Longrightarrow> evolves (xs ! i) u \<Longrightarrow> book_evolves xs (xs[i := u])"
  by (simp add: book_evolves_def nth_list_update)

lemma book_evolves_map:
  "(\<And>a. a \<in> set xs \<Longrightarrow> evolves a (f a)) \<Longrightarrow> book_evolves xs (map f xs)"
  by (simp add: book_evolves_def)

lemma book_evolves_numbered:
  assumes "book_evolves xs ys" and "length ys = length xs"
    and "well_numbered ''paper-order-'' po_order_id xs"
  shows "well_numbered ''paper-order-'' po_order_id ys"
  using assms by (simp add: well_numbered_def book_evolves_def evolves_def)

section \<open>Fills\<close>

text \<open>What a fill will be, before anything is changed: nothing, or the fill and the order after it.\<close>

definition fill_plan ::
    "exchange \<Rightarrow> paper_order \<Rightarrow> decimal \<Rightarrow> datetime \<Rightarrow> (paper_fill \<times> paper_order \<times> bool) option res" where
  "fill_plan x order fill_quantity created =
     bind_res (remaining_quantity order) (\<lambda>r.
     bind_res (dmin r fill_quantity) (\<lambda>quantity.
     bind_res (dle quantity d0) (\<lambda>nothing.
     if nothing then Inr None
     else
       let rate = (case fee_for (ex_account x) (it_symbol (po_intent order)) of
             Some p \<Rightarrow> fe_maker_fee_rate p | None \<Rightarrow> d0)
       in bind_res (dmul quantity (it_limit_price (po_intent order))) (\<lambda>amount.
          bind_res (dmul amount rate) (\<lambda>fee.
          let fill = \<lparr>fl_fill_id = numbered_id ''paper-fill-''
                (Suc (sum_list (map (\<lambda>o'. length (po_fills o')) (ex_orders x)))),
              fl_order_id = po_order_id order, fl_symbol = it_symbol (po_intent order),
              fl_side = it_side (po_intent order), fl_book_side = it_book_side (po_intent order),
              fl_quantity = quantity, fl_price = it_limit_price (po_intent order),
              fl_liquidity = ''maker'', fl_fee = fee, fl_created_at = created\<rparr>
          in bind_res (dadd (po_filled_quantity order) quantity) (\<lambda>filled.
             bind_res (dge filled (it_quantity (po_intent order))) (\<lambda>full.
             Inr (Some (fill, order\<lparr>po_status := (if full then ST_FILLED else ST_PARTIALLY_FILLED),
                po_updated_at := created, po_fill := Some fill, po_fills := po_fills order @ [fill],
                po_filled_quantity := filled\<rparr>, full)))))))))"

lemma fill_order_plan:
  "fill_order order q created x =
     (case fill_plan x order q created of
        Inl e \<Rightarrow> (Inl e, x)
      | Inr None \<Rightarrow> (Inr order, x)
      | Inr (Some (fill, updated, full)) \<Rightarrow>
          let x1 = x\<lparr>ex_orders := replace_by_id po_order_id (po_order_id order) updated (ex_orders x)\<rparr>
          in case apply_paper_fill (ex_account x) fill of
               Inl e \<Rightarrow> (Inl e, x1)
             | Inr account \<Rightarrow> (Inr updated, x1\<lparr>ex_account := account,
                 ex_events := append_event (po_order_id order,
                   if full then RS_MATCHED else RS_PARTIALLY_FILLED,
                   ''deterministic maker queue fill applied'', created) (ex_events x)\<rparr>))"
  by (simp add: fill_order_def fill_plan_def Let_def bind_act_of_res bind_res_def act_run
      split: sum.splits option.splits)

lemma fill_plan_order:
  assumes "fill_plan x order q created = Inr (Some (fill, updated, full))"
    and "is_open (po_status order)"
  shows "evolves order updated \<and> po_fills updated = po_fills order @ [fill]
    \<and> po_fill updated = Some fill
    \<and> po_status updated = (if full then ST_FILLED else ST_PARTIALLY_FILLED)
    \<and> fl_order_id fill = po_order_id order \<and> fl_symbol fill = it_symbol (po_intent order)
    \<and> fl_side fill = it_side (po_intent order) \<and> fl_book_side fill = it_book_side (po_intent order)
    \<and> fl_price fill = it_limit_price (po_intent order)"
  using assms
  by (auto simp: fill_plan_def Let_def bind_res_eq_Inr evolves_def order_move_def is_open_def
      split: if_splits)

definition same_switches :: "exchange \<Rightarrow> exchange \<Rightarrow> bool" where
  "same_switches x y \<longleftrightarrow> ex_halted y = ex_halted x \<and> ex_risk_state y = ex_risk_state x
     \<and> ex_taker_gate y = ex_taker_gate x"

definition settled :: "account_state \<Rightarrow> account_state \<Rightarrow> bool" where
  "settled a b \<longleftrightarrow> (\<exists>fills. foldM_res apply_paper_fill a fills = Inr b)"

lemma settled_refl [simp]: "settled a a"
  unfolding settled_def by (rule exI [of _ "[]"]) simp

lemma settled_step: "apply_paper_fill a f = Inr b \<Longrightarrow> settled a b"
  unfolding settled_def by (rule exI [of _ "[f]"]) simp

lemma settled_trans: "settled a b \<Longrightarrow> settled b c \<Longrightarrow> settled a c"
  unfolding settled_def by (metis foldM_res_append bind_res_Inr)

text \<open>What one order's turn may do: change that order, settle fills, log events.\<close>

definition turn :: "nat \<Rightarrow> exchange \<Rightarrow> exchange \<Rightarrow> bool" where
  "turn i x y \<longleftrightarrow> same_switches x y \<and> log_extends (ex_events x) (ex_events y)
     \<and> settled (ex_account x) (ex_account y)
     \<and> (\<exists>u. evolves (ex_orders x ! i) u \<and> ex_orders y = (ex_orders x)[i := u])"

lemma turn_refl: "i < length (ex_orders x) \<Longrightarrow> turn i x x"
  unfolding turn_def same_switches_def by (metis evolves_refl list_update_id log_extends_refl settled_refl)

lemma fill_order_turn:
  assumes n: "well_numbered ''paper-order-'' po_order_id (ex_orders x)"
    and i: "i < length (ex_orders x)" "is_open (po_status (ex_orders x ! i))"
  shows "turn i x (snd (fill_order (ex_orders x ! i) q created x))"
    and "fst (fill_order (ex_orders x ! i) q created x) = Inr r \<Longrightarrow>
      ex_orders (snd (fill_order (ex_orders x ! i) q created x)) = (ex_orders x)[i := r]"
proof -
  let ?o = "ex_orders x ! i" and ?f = "fill_order (ex_orders x ! i) q created x"
  have rep: "replace_by_id po_order_id (po_order_id ?o) u (ex_orders x) = (ex_orders x)[i := u]" for u
    using orders_log.replace_at [OF n i(1) refl] .
  have "turn i x (snd ?f) \<and> (fst ?f = Inr r \<longrightarrow> ex_orders (snd ?f) = (ex_orders x)[i := r])"
  proof (cases "fill_plan x ?o q created")
    case (Inl e)
    then show ?thesis using turn_refl [OF i(1)] by (simp add: fill_order_plan)
  next
    case (Inr plan)
    show ?thesis
    proof (cases plan)
      case None
      with Inr show ?thesis using turn_refl [OF i(1)] by (auto simp: fill_order_plan)
    next
      case (Some p)
      obtain fill u full where p: "p = (fill, u, full)" by (cases p)
      have ev: "evolves ?o u" using fill_plan_order [of x ?o q created fill u full] Inr Some p i(2) by simp
      show ?thesis
        using Inr Some p ev settled_step [of "ex_account x" fill]
        by (cases "apply_paper_fill (ex_account x) fill")
          (auto simp: fill_order_plan rep turn_def same_switches_def Let_def)
    qed
  qed
  then show "turn i x (snd ?f)" "fst ?f = Inr r \<Longrightarrow> ex_orders (snd ?f) = (ex_orders x)[i := r]"
    by blast+
qed

lemma snd_bind_of_res:
  "(\<And>r. m = Inr r \<Longrightarrow> Q (snd (f r x))) \<Longrightarrow> Q x \<Longrightarrow> Q (snd (bind_act (of_res m) f x))"
  by (cases m) simp_all

lemma advance_order_turn:
  assumes n: "well_numbered ''paper-order-'' po_order_id (ex_orders x)"
    and i: "i < length (ex_orders x)" "is_open (po_status (ex_orders x ! i))"
  shows "turn i x (snd (advance_order now (ex_orders x ! i) p x))"
proof -
  note fill = fill_order_turn(1) [OF n i] and same = turn_refl [OF i(1)]
  show ?thesis
    unfolding advance_order_def
    by (intro snd_bind_of_res [where Q = "turn i x"])
      (auto intro!: snd_bind_of_res [where Q = "turn i x"] fill same)
qed

text \<open>A report at the end of an action does not touch the state.\<close>

lemma snd_bind_report:
  "snd (bind_act m (\<lambda>u. bind_act (of_res (g u)) (\<lambda>e. ret (h e))) s) = snd (m s)"
  by (auto simp: bind_act_run act_run split: prod.splits sum.splits)

lemma process_order_turn:
  assumes n: "well_numbered ''paper-order-'' po_order_id (ex_orders x)"
    and i: "i < length (ex_orders x)"
  shows "turn i x (snd (process_order now (ex_orders x ! i) x))"
proof (cases "is_open (po_status (ex_orders x ! i))")
  case False
  then show ?thesis using turn_refl [OF i] by (simp add: process_order_def)
next
  case True
  show ?thesis
    using True turn_refl [OF i] advance_order_turn [OF n i True]
    by (auto simp: process_order_def snd_bind_report split: option.splits
        intro!: snd_bind_of_res [where Q = "turn i x"])
qed

section \<open>A pass over the open orders\<close>

definition swept :: "exchange \<Rightarrow> exchange \<Rightarrow> bool" where
  "swept x y \<longleftrightarrow> same_switches x y \<and> log_extends (ex_events x) (ex_events y)
     \<and> settled (ex_account x) (ex_account y)"

lemma swept_refl [simp]: "swept x x"
  by (simp add: swept_def same_switches_def)

lemma swept_trans: "swept x y \<Longrightarrow> swept y z \<Longrightarrow> swept x z"
  unfolding swept_def same_switches_def by (metis log_extends_trans settled_trans)

lemma turn_swept: "turn i x y \<Longrightarrow> swept x y"
  by (simp add: turn_def swept_def)

lemma evolves_id: "evolves a b \<Longrightarrow> po_order_id b = po_order_id a"
  by (simp add: evolves_def)

lemma snd_bind_cases:
  "snd (bind_act m f x) = snd (m x) \<or> (\<exists>r. fst (m x) = Inr r \<and> snd (bind_act m f x) = snd (f r (snd (m x))))"
  by (cases "m x"; cases "fst (m x)") (simp_all add: bind_act_run)

lemma process_orders_sweep:
  assumes "ex_orders s = pre @ ys" and "well_numbered ''paper-order-'' po_order_id (pre @ ys)"
  shows "swept s (snd (map_act (process_order now) ys s))
    \<and> (\<exists>ys'. ex_orders (snd (map_act (process_order now) ys s)) = pre @ ys' \<and> list_all2 evolves ys ys')"
  using assms
proof (induction ys arbitrary: pre s)
  case Nil
  then show ?case by simp
next
  case (Cons a ys)
  let ?t = "snd (process_order now a s)" and ?i = "length pre"
  have a: "a = ex_orders s ! ?i" and i: "?i < length (ex_orders s)"
    and n: "well_numbered ''paper-order-'' po_order_id (ex_orders s)"
    using Cons.prems by (simp_all add: nth_append)
  have t: "turn ?i s ?t" using process_order_turn [OF n i] a by simp
  then obtain u where u: "evolves a u" "ex_orders ?t = (pre @ [u]) @ ys"
    using Cons.prems(1) by (auto simp: turn_def nth_append list_update_append)
  have n': "well_numbered ''paper-order-'' po_order_id ((pre @ [u]) @ ys)"
    using evolves_id [OF u(1)] by (intro well_numbered_cong_ids [OF Cons.prems(2)]) simp
  note rest = Cons.IH [OF u(2) n']
  have refl: "list_all2 evolves ys ys" by (simp add: list.rel_refl)
  have same: "snd (bind_act (map_act (process_order now) ys) (\<lambda>ys. ret (r # ys)) ?t)
      = snd (map_act (process_order now) ys ?t)" for r
    by simp
  from snd_bind_cases [of "process_order now a" "\<lambda>y. bind_act (map_act (process_order now) ys) (\<lambda>ys. ret (y # ys))" s]
  show ?case
  proof
    assume "snd (bind_act (process_order now a)
        (\<lambda>y. bind_act (map_act (process_order now) ys) (\<lambda>ys. ret (y # ys))) s) = ?t"
    then have y: "snd (map_act (process_order now) (a # ys) s) = ?t" by simp
    show ?thesis
      unfolding y using turn_swept [OF t] u refl by auto
  next
    assume "\<exists>r. fst (process_order now a s) = Inr r \<and> snd (bind_act (process_order now a)
        (\<lambda>y. bind_act (map_act (process_order now) ys) (\<lambda>ys. ret (y # ys))) s)
        = snd (bind_act (map_act (process_order now) ys) (\<lambda>ys. ret (r # ys)) ?t)"
    then have y: "snd (map_act (process_order now) (a # ys) s) = snd (map_act (process_order now) ys ?t)"
      by auto
    show ?thesis
      unfolding y using rest turn_swept [OF t] u(1) by (auto intro: swept_trans)
  qed
qed

lemma process_open_orders_state:
  defines "m \<equiv> \<lambda>clk reference x. map_act (process_order (reference_now clk reference)) (ex_orders x)"
  shows "snd (process_open_orders clk reference x) = snd (m clk reference x x)
    \<or> (\<exists>t. snd (process_open_orders clk reference x) = snd (persist_state t (snd (m clk reference x x))))"
proof -
  have "snd (bind_act a (\<lambda>p. bind_act (persist_state t) (\<lambda>_. ret (g p))) x) = snd (a x)
      \<or> snd (bind_act a (\<lambda>p. bind_act (persist_state t) (\<lambda>_. ret (g p))) x) = snd (persist_state t (snd (a x)))"
    for t and a :: "(exchange, json list list) act" and g :: "json list list \<Rightarrow> json_object"
    by (cases "a x"; cases "fst (a x)") (simp_all add: bind_act_run [of a])
  from this [of "m clk reference x" "clk (readings_used reference)" "\<lambda>processed. [(''status'', JStr ''ok''),
      (''service'', JStr ''paper_exchange''), (''execution'', JStr ''paper_only''),
      (''processed'', JArr (concat processed))]"]
  show ?thesis unfolding process_open_orders_def Let_def m_def by auto
qed

lemma process_open_orders_effect:
  assumes n: "well_numbered ''paper-order-'' po_order_id (ex_orders x)"
  shows "swept x (snd (process_open_orders clk reference x))"
    and "list_all2 evolves (ex_orders x) (ex_orders (snd (process_open_orders clk reference x)))"
  using process_orders_sweep [of x "[]" "ex_orders x" "reference_now clk reference"] n
    process_open_orders_state [of clk reference x]
  by (auto simp: swept_def same_switches_def)

text \<open>What every turn keeps, a pass keeps.\<close>

lemma process_orders_invariant:
  assumes step: "\<And>i s. P s \<Longrightarrow> well_numbered ''paper-order-'' po_order_id (ex_orders s) \<Longrightarrow>
      i < length (ex_orders s) \<Longrightarrow> P (snd (process_order now (ex_orders s ! i) s))"
    and "ex_orders s = pre @ ys" and "well_numbered ''paper-order-'' po_order_id (pre @ ys)" and "P s"
  shows "P (snd (map_act (process_order now) ys s))"
  using assms(2-)
proof (induction ys arbitrary: pre s)
  case Nil
  then show ?case by simp
next
  case (Cons a ys)
  let ?t = "snd (process_order now a s)" and ?i = "length pre"
  have a: "a = ex_orders s ! ?i" and i: "?i < length (ex_orders s)"
    and n: "well_numbered ''paper-order-'' po_order_id (ex_orders s)"
    using Cons.prems by (simp_all add: nth_append)
  have t: "turn ?i s ?t" using process_order_turn [OF n i] a by simp
  then obtain u where u: "evolves a u" "ex_orders ?t = (pre @ [u]) @ ys"
    using Cons.prems(1) by (auto simp: turn_def nth_append list_update_append)
  have n': "well_numbered ''paper-order-'' po_order_id ((pre @ [u]) @ ys)"
    using evolves_id [OF u(1)] by (intro well_numbered_cong_ids [OF Cons.prems(2)]) simp
  have p: "P ?t" using step [OF Cons.prems(3) n i] a by simp
  from snd_bind_cases [of "process_order now a" "\<lambda>y. bind_act (map_act (process_order now) ys) (\<lambda>ys. ret (y # ys))" s]
  show ?case using p Cons.IH [OF u(2) n' p] by auto
qed

lemma process_open_orders_invariant:
  assumes "\<And>i s. P s \<Longrightarrow> well_numbered ''paper-order-'' po_order_id (ex_orders s) \<Longrightarrow>
      i < length (ex_orders s) \<Longrightarrow> P (snd (process_order (reference_now clk reference) (ex_orders s ! i) s))"
    and "\<And>t s. P s \<Longrightarrow> P (snd (persist_state t s))"
    and "well_numbered ''paper-order-'' po_order_id (ex_orders x)" and "P x"
  shows "P (snd (process_open_orders clk reference x))"
  using process_open_orders_state [of clk reference x] assms(2)
    process_orders_invariant [of P "reference_now clk reference" x "[]" "ex_orders x"] assms(1,3,4)
  by auto

section \<open>The other calls\<close>

text \<open>What a cancellation or an expiry does to an order: close it if it is open.\<close>

definition closes :: "paper_order \<Rightarrow> paper_order \<Rightarrow> bool" where
  "closes a b \<longleftrightarrow> b = a \<or> is_open (po_status a)
     \<and> (\<exists>s t. s \<in> {ST_CANCELED, ST_EXPIRED} \<and> b = a\<lparr>po_status := s, po_updated_at := t\<rparr>)"

lemma closes_refl [simp]: "closes a a"
  by (simp add: closes_def)

lemma closesI [intro]:
  "is_open (po_status a) \<Longrightarrow> s \<in> {ST_CANCELED, ST_EXPIRED} \<Longrightarrow>
   closes a (a\<lparr>po_status := s, po_updated_at := t\<rparr>)"
  unfolding closes_def by blast

lemma closes_evolves: "closes a b \<Longrightarrow> evolves a b"
  by (auto simp: closes_def evolves_def order_move_def is_open_def)

lemma closes_all: "list_all2 closes xs ys \<Longrightarrow> list_all2 evolves xs ys"
  by (auto intro: list_all2_mono closes_evolves)

lemma expire_order_effect:
  "same_desk x (snd (expire_order clk k x)) \<and> log_extends (ex_events x) (ex_events (snd (expire_order clk k x)))
   \<and> list_all2 closes (ex_orders x) (ex_orders (snd (expire_order clk k x)))"
proof (cases "find_index (\<lambda>o'. po_order_id o' = k) (ex_orders x)")
  case None
  then show ?thesis by (simp add: expire_order_def same_desk_def list.rel_refl)
next
  case (Some i)
  note i = find_index_Some [OF Some]
  show ?thesis
  proof (cases "is_open (po_status (ex_orders x ! i))")
    case True
    with Some i show ?thesis
      by (auto simp: expire_order_def same_desk_def list_all2_conv_all_nth nth_list_update closesI)
  next
    case False
    with Some show ?thesis by (simp add: expire_order_def same_desk_def list.rel_refl)
  qed
qed

lemma cancel_order_effect:
  assumes n: "well_numbered ''paper-order-'' po_order_id (ex_orders x)"
  shows "same_desk x (snd (cancel_order clk k x)) \<and> log_extends (ex_events x) (ex_events (snd (cancel_order clk k x)))
   \<and> list_all2 closes (ex_orders x) (ex_orders (snd (cancel_order clk k x)))"
proof (cases "List.find (\<lambda>o'. po_order_id o' = k) (ex_orders x)")
  case None
  then show ?thesis by (simp add: cancel_order_def same_desk_def list.rel_refl)
next
  case (Some a)
  then obtain i where i: "i < length (ex_orders x)" "a = ex_orders x ! i" "po_order_id a = k"
    by (auto simp: find_Some_iff)
  have rep: "replace_by_id po_order_id k u (ex_orders x) = (ex_orders x)[i := u]" for u
    using orders_log.replace_at [OF n i(1)] i by simp
  show ?thesis
  proof (cases "is_open (po_status a)")
    case True
    with Some i show ?thesis
      by (auto simp: cancel_order_def Let_def same_desk_def rep list_all2_conv_all_nth nth_list_update closesI)
  next
    case False
    with Some show ?thesis by (simp add: cancel_order_def Let_def same_desk_def list.rel_refl)
  qed
qed

lemma panic_cancel_effect:
  "same_desk x (snd (panic_cancel_open_orders clk x))
   \<and> log_extends (ex_events x) (ex_events (snd (panic_cancel_open_orders clk x)))
   \<and> ex_orders (snd (panic_cancel_open_orders clk x)) = map (cancel_if_open (clk 0)) (ex_orders x)"
  by (simp add: panic_cancel_open_orders_def same_desk_def)

lemma cancel_if_open_closes: "closes a (cancel_if_open t a)"
  by (auto simp: cancel_if_open_def)

lemma panic_halt_effect:
  "ex_orders (snd (panic_halt clk x)) = ex_orders x" "ex_events (snd (panic_halt clk x)) = ex_events x"
  "ex_account (snd (panic_halt clk x)) = ex_account x" "ex_halted (snd (panic_halt clk x))"
  "rk_panic_halt_active (ex_risk_state (snd (panic_halt clk x)))"
  "ex_taker_gate (snd (panic_halt clk x)) = ex_taker_gate x"
  by (simp_all add: panic_halt_def)

lemma reset_effect:
  "ex_orders (snd (reset_exchange clk x)) = []" "ex_events (snd (reset_exchange clk x)) = []"
  "ex_account (snd (reset_exchange clk x)) = seed_account (clk 0)"
  "\<not> ex_halted (snd (reset_exchange clk x))"
  "ex_risk_state (snd (reset_exchange clk x)) = ex_risk_state x"
  "ex_taker_gate (snd (reset_exchange clk x)) = ex_taker_gate x"
  by (simp_all add: reset_exchange_def default_account_state_eq)

lemma panic_flatten_effect:
  "ex_orders (snd (panic_flatten_positions clk x)) = ex_orders x
   \<and> log_extends (ex_events x) (ex_events (snd (panic_flatten_positions clk x)))
   \<and> ex_account (snd (panic_flatten_positions clk x)) = seed_account (clk 0)
   \<and> same_switches x (snd (panic_flatten_positions clk x))"
proof -
  have "snd (bind_act (persist_state t) (\<lambda>_. bind_act (gets f) (\<lambda>m. bind_act (of_res m) (\<lambda>p. ret (g p)))) y)
      = snd (persist_state t y)"
    for t and f :: "exchange \<Rightarrow> json_object res" and g :: "json_object \<Rightarrow> json_object" and y
    by (auto simp: bind_act_run act_run split: prod.splits sum.splits)
  then show ?thesis
    by (simp add: panic_flatten_positions_def default_account_state_eq same_switches_def)
qed

end
