(* ===== verification/Exchange_Safety.thy ===== *)
theory Exchange_Safety
  imports Exchange_Runs
begin

text \<open>
  Safety of the paper exchange: what an accepted order has passed, what a refused one leaves behind,
  that identifiers are unique, that orders only move forward, and that a panic halt is final.
\<close>

section \<open>What an accepted order has passed\<close>

lemma preview_verdict:
  "preview_order x i now = Inr p \<Longrightarrow> (pv_accepted p \<longleftrightarrow> pv_reasons p = []) \<and> pv_intent p = i"
  by (auto simp: preview_order_def Let_def bind_res_eq_Inr)

text \<open>The conditions on the order itself, as the code states them.\<close>

definition order_fits :: "exchange \<Rightarrow> order_intent \<Rightarrow> datetime \<Rightarrow> bool" where
  "order_fits x i now \<longleftrightarrow>
     (\<exists>m f p q. metadata_for (ex_account x) (it_symbol i) = Some m \<and> sm_role m = IR_EXECUTABLE
        \<and> sm_filters m = Some f \<and> metadata_ok m now
        \<and> fee_for (ex_account x) (it_symbol i) = Some p \<and> fee_policy_ok p now
        \<and> quote_for_symbol (it_symbol i) now = Some q \<and> freshness_ok (qt_freshness q) now
        \<and> dle (it_quantity i) d0 = Inr False \<and> dle (it_limit_price i) d0 = Inr False
        \<and> is_multiple (it_quantity i) (sf_lot_size f) = Inr True
        \<and> is_multiple (it_limit_price i) (sf_tick_size f) = Inr True
        \<and> (\<exists>n. intent_notional i = Inr n \<and> dlt n (sf_min_notional f) = Inr False)
        \<and> it_time_in_force i = TIF_GTX \<and> it_post_only i \<and> (it_allow_taker i \<longrightarrow> ex_taker_gate x)
        \<and> would_cross i q = Inr False
        \<and> (\<exists>e. calculate_expected_edge i p q = Inr e
             \<and> dle (ee_expected_edge_after_costs e) d0 = Inr False))"

lemma metadata_checks_pass:
  assumes "\<forall>r \<in> set (metadata_checks metadata i now). r = Inr []"
  shows "\<exists>m f. metadata = Some m \<and> sm_role m = IR_EXECUTABLE \<and> sm_filters m = Some f
    \<and> metadata_ok m now \<and> dle (it_quantity i) d0 = Inr False \<and> dle (it_limit_price i) d0 = Inr False
    \<and> is_multiple (it_quantity i) (sf_lot_size f) = Inr True
    \<and> is_multiple (it_limit_price i) (sf_tick_size f) = Inr True
    \<and> (\<exists>n. intent_notional i = Inr n \<and> dlt n (sf_min_notional f) = Inr False)"
  using assms
  by (auto simp: metadata_checks_def res_simps map_res_Not split: option.splits if_splits)

lemma preview_accepted_fits:
  assumes "preview_order x i now = Inr p" and "pv_accepted p"
  shows "order_fits x i now \<and> \<not> ex_halted x"
proof -
  let ?fee = "fee_for (ex_account x) (it_symbol i)" and ?quote = "quote_for_symbol (it_symbol i) now"
  let ?p = "case ?fee of None \<Rightarrow> missing_fee_policy (it_symbol i) now | Some p \<Rightarrow> p"
  let ?q = "case ?quote of None \<Rightarrow> missing_quote (it_symbol i) now | Some q \<Rightarrow> q"
  let ?ms = "[reason_when (ex_halted x) ''paper exchange is halted'']
      @ metadata_checks (metadata_for (ex_account x) (it_symbol i)) i now
      @ [fee_check ?fee i now, quote_check ?quote i now,
         reason_when (pt_value (it_order_type i) \<noteq> ''LIMIT'')
           ''paper exchange only supports limit order intents'']"
  from assms obtain c e where rs: "collect ?ms = Inr []"
    and c: "validate_maker_first_intent i ?q (ex_taker_gate x) = Inr c" "xr_reasons c = []"
    and e: "calculate_expected_edge i ?p ?q = Inr e"
      "dle (ee_expected_edge_after_costs e) d0 = Inr False"
    by (auto simp: preview_order_def Let_def bind_res_eq_Inr reason_if_Nil)
  from rs have all: "\<forall>m \<in> set ?ms. m = Inr []" by (simp only: collect_Nil_iff)
  then have "\<not> ex_halted x" and fee: "fee_check ?fee i now = Inr []" and quote: "quote_check ?quote i now = Inr []"
    and meta: "\<forall>m \<in> set (metadata_checks (metadata_for (ex_account x) (it_symbol i)) i now). m = Inr []"
    by (auto simp: reason_when_Nil)
  from fee obtain p' where p': "?fee = Some p'" "fee_policy_ok p' now"
    by (auto simp: fee_check_def fee_policy_errors_Nil split: option.splits)
  from quote obtain q' where q': "?quote = Some q'" "freshness_ok (qt_freshness q') now"
    by (auto simp: quote_check_def freshness_errors_Nil split: option.splits)
  have "order_fits x i now"
    using metadata_checks_pass [OF meta] validate_maker_first_result [OF c(1)] c(2) e p' q'
    unfolding order_fits_def by auto
  with \<open>\<not> ex_halted x\<close> show ?thesis by blast
qed

lemma gate_opens_requires:
  assumes "gate_opens x i now"
  shows "order_fits x i now" "\<not> ex_halted x" "account_ok (ex_account x) now"
    "\<not> rk_panic_halt_active (ex_risk_state x)" "\<not> rk_api_error_active (ex_risk_state x)"
    "\<exists>n. projected_symbol_exposure (ex_account x) i = Inr n \<and> dgt n (Dec 50000 0) = Inr False"
    "\<exists>n. projected_gross_exposure (ex_account x) i = Inr n \<and> dgt n (Dec 100000 0) = Inr False"
proof -
  from assms obtain p r q where g: "preview_order x i now = Inr p" "pv_accepted p"
    "evaluate_paper_order_risk (ex_account x) i p q None (Some (ex_risk_state x)) now = Inr r" "rr_accepted r"
    by (auto simp: gate_opens_def submit_gate_def bind_res_eq_Inr map_res_eq_Inr
        split: if_splits option.splits)
  show "order_fits x i now" "\<not> ex_halted x" using preview_accepted_fits [OF g(1,2)] by blast+
  have l: "default_limits = (case None of None \<Rightarrow> default_limits | Some z \<Rightarrow> z)" by simp
  note v = risk_approval_vetoes [OF g(3,4) l]
  show "account_ok (ex_account x) now" "\<not> rk_panic_halt_active (ex_risk_state x)"
    "\<not> rk_api_error_active (ex_risk_state x)"
    by (rule v(1) v(2) v(3))+
  show "\<exists>n. projected_symbol_exposure (ex_account x) i = Inr n \<and> dgt n (Dec 50000 0) = Inr False"
    "\<exists>n. projected_gross_exposure (ex_account x) i = Inr n \<and> dgt n (Dec 100000 0) = Inr False"
    using v(7,8) by (simp_all add: default_limits_def)
qed

lemma gate_opens_risk:
  assumes "gate_opens x i now"
  shows "\<exists>p q. preview_order x i now = Inr p \<and> quote_for_symbol (it_symbol i) now = Some q
    \<and> standing_ok (ex_account x) i p q (ex_risk_state x) now \<and> projections_ok (ex_account x) i"
  using assms risk_approval_exact
  by (auto simp: gate_opens_def submit_gate_def bind_res_eq_Inr map_res_eq_Inr split: if_splits option.splits)

section \<open>Invariants of the calls\<close>

lemma list_all2_evolves_book: "list_all2 evolves xs ys \<Longrightarrow> book_evolves xs ys \<and> length ys = length xs"
  by (auto simp: book_evolves_def list_all2_conv_all_nth)

lemma call_book:
  assumes "logs_ok x"
  shows "c \<noteq> Reset \<Longrightarrow> book_evolves (ex_orders x) (ex_orders (after_call clk c x))"
    and "c \<noteq> Reset \<Longrightarrow> log_extends (ex_events x) (ex_events (after_call clk c x))"
    and "logs_ok (after_call clk c x)"
proof -
  have n: "well_numbered ''paper-order-'' po_order_id (ex_orders x)"
    and m: "well_numbered ''paper-recon-'' re_event_id (ex_events x)"
    using assms by (simp_all add: logs_ok_def)
  have "(c \<noteq> Reset \<longrightarrow> book_evolves (ex_orders x) (ex_orders (after_call clk c x))
        \<and> log_extends (ex_events x) (ex_events (after_call clk c x)))
      \<and> well_numbered ''paper-order-'' po_order_id (ex_orders (after_call clk c x))
      \<and> (c = Reset \<longrightarrow> ex_events (after_call clk c x) = [])"
  proof (cases c)
    case (Submit r i)
    then show ?thesis
      using submit_order_effect [where x = x and clk = clk and reference = r and i = i] n by (simp add: orders_log.enter_numbered)
  next
    case (Process r)
    then show ?thesis
      using process_open_orders_effect [OF n, where clk = clk and reference = r] list_all2_evolves_book n book_evolves_numbered
      by (auto simp: swept_def)
  next
    case (Expire k)
    then show ?thesis
      using expire_order_effect [where x = x and clk = clk and k = k] list_all2_evolves_book [OF closes_all]
        n book_evolves_numbered by auto
  next
    case (Cancel k)
    then show ?thesis
      using cancel_order_effect [OF n, where clk = clk and k = k] list_all2_evolves_book [OF closes_all]
        n book_evolves_numbered by auto
  next
    case Reset
    then show ?thesis by (simp add: reset_effect)
  next
    case Panic_Halt
    then show ?thesis using n by (simp add: panic_halt_effect)
  next
    case Panic_Cancel
    have "book_evolves (ex_orders x) (map (cancel_if_open (clk 0)) (ex_orders x))"
      by (intro book_evolves_map closes_evolves cancel_if_open_closes)
    with Panic_Cancel show ?thesis
      using panic_cancel_effect [where x = x and clk = clk] book_evolves_numbered [OF _ _ n] by simp
  next
    case Panic_Flatten
    then show ?thesis using panic_flatten_effect [where x = x and clk = clk] n by simp
  qed
  then show "c \<noteq> Reset \<Longrightarrow> book_evolves (ex_orders x) (ex_orders (after_call clk c x))"
    and "c \<noteq> Reset \<Longrightarrow> log_extends (ex_events x) (ex_events (after_call clk c x))"
    and "logs_ok (after_call clk c x)"
    using m log_extends_numbered by (auto simp: logs_ok_def)
qed

lemma run_logs_ok: "exchange_run cs x y \<Longrightarrow> logs_ok x \<Longrightarrow> logs_ok y"
  by (rule exchange_run_invariant [where P = logs_ok]) (auto intro: call_book(3))

lemma run_book:
  assumes "exchange_run cs x y" and "logs_ok x" and "Reset \<notin> set cs"
  shows "book_evolves (ex_orders x) (ex_orders y)"
  using assms
proof (induction rule: exchange_run.induct)
  case (run_Cons c x y cs z)
  from run_Cons.hyps(1) obtain clk where y: "y = after_call clk c x" by (auto elim: exchange_stepE)
  from run_Cons.prems have "book_evolves (ex_orders x) (ex_orders y)" "logs_ok y"
    unfolding y by (auto intro: call_book)
  with run_Cons show ?case by (auto intro: book_evolves_trans)
qed simp

lemma new_exchange_logs_ok: "new_exchange a g s now = Inr x \<Longrightarrow> logs_ok x"
  by (auto simp: new_exchange_def bind_res_eq_Inr logs_ok_def)

lemma call_account:
  assumes "logs_ok x" and "c \<noteq> Reset" "c \<noteq> Panic_Flatten"
  shows "settled (ex_account x) (ex_account (after_call clk c x))"
proof -
  have n: "well_numbered ''paper-order-'' po_order_id (ex_orders x)"
    using assms(1) by (simp add: logs_ok_def)
  show ?thesis
  proof (cases c)
    case (Submit r i)
    then show ?thesis using submit_order_effect(1) [where x = x and clk = clk and reference = r and i = i]
      by (simp add: same_desk_def)
  next
    case (Process r)
    then show ?thesis using process_open_orders_effect(1) [OF n, where clk = clk and reference = r]
      by (simp add: swept_def)
  next
    case (Expire k)
    then show ?thesis using expire_order_effect [where x = x and clk = clk and k = k]
      by (simp add: same_desk_def)
  next
    case (Cancel k)
    then show ?thesis using cancel_order_effect [OF n, where clk = clk and k = k]
      by (simp add: same_desk_def)
  next
    case Panic_Cancel
    then show ?thesis using panic_cancel_effect [where x = x and clk = clk] by (simp add: same_desk_def)
  qed (use assms(2,3) in \<open>simp_all add: panic_halt_effect\<close>)
qed

lemma run_account:
  assumes "exchange_run cs x y" and "logs_ok x" and "Reset \<notin> set cs" "Panic_Flatten \<notin> set cs"
  shows "settled (ex_account x) (ex_account y)"
  using assms
proof (induction rule: exchange_run.induct)
  case (run_Cons c x y cs z)
  from run_Cons.hyps(1) obtain clk where y: "y = after_call clk c x" by (auto elim: exchange_stepE)
  from run_Cons.prems have "settled (ex_account x) (ex_account y)" "logs_ok y"
    unfolding y by (auto intro!: call_account call_book(3))
  with run_Cons show ?case by (auto intro: settled_trans)
qed simp

lemma settled_account_ok: "settled a b \<Longrightarrow> account_ok b reference \<longleftrightarrow> account_ok a reference"
  by (auto simp: settled_def accounting.settle_all_account_ok)

lemma call_panic:
  assumes "logs_ok x" and "rk_panic_halt_active (ex_risk_state x)"
  shows "rk_panic_halt_active (ex_risk_state (after_call clk c x))"
proof -
  have n: "well_numbered ''paper-order-'' po_order_id (ex_orders x)"
    using assms(1) by (simp add: logs_ok_def)
  show ?thesis
    using assms(2)
      submit_order_effect(1) [where x = x and clk = clk]
      process_open_orders_effect(1) [OF n, where clk = clk]
      expire_order_effect [where x = x and clk = clk]
      cancel_order_effect [OF n, where clk = clk]
      panic_cancel_effect [where x = x and clk = clk] panic_flatten_effect [where x = x and clk = clk]
    by (cases c) (simp_all add: same_desk_def swept_def same_switches_def reset_effect panic_halt_effect)
qed

section \<open>A concrete desk\<close>

definition demo_exchange :: exchange where
  "demo_exchange =
     \<lparr>ex_account = seed_account (Aware 0), ex_orders = [], ex_events = [], ex_taker_gate = False,
      ex_risk_state = default_risk_state, ex_store = None, ex_halted = False\<rparr>"

definition demo_clock :: clock where
  "demo_clock = (\<lambda>n. Aware (int n))"

lemma demo_exchange_new: "new_exchange None False None (Aware 0) = Inr demo_exchange"
  by (simp add: new_exchange_def default_account_state_eq demo_exchange_def)

lemma demo_verdict:
  "case submit_gate demo_exchange sample_intent (Aware 0) of Inl _ \<Rightarrow> False | Inr v \<Rightarrow> gate_passed v"
  by code_simp

lemma demo_gate_opens: "gate_opens demo_exchange sample_intent (Aware 0)"
proof -
  obtain v where "submit_gate demo_exchange sample_intent (Aware 0) = Inr v" "gate_passed v"
    using demo_verdict by (auto split: sum.splits)
  then show ?thesis
    by (cases v; cases "snd v") (auto simp: gate_opens_def)
qed

lemma persist_without_store: "ex_store x = None \<Longrightarrow> persist_state t x = (Inr (), x)"
  by (simp add: persist_state_def act_run)

lemma submit_without_store:
  assumes "ex_store x = None" and "gate_opens x i (reference_now clk reference)"
  shows "\<exists>s y. submit_order clk reference i x = (Inr s, y) \<and> sr_accepted s"
  using assms
  by (auto simp: submit_order_gate gate_opens_def Let_def accept_order_def bind_act_run [of "persist_state _"]
      persist_without_store act_run)

lemma demo_submit:
  "\<exists>s y. submit_order demo_clock (Some (Aware 0)) sample_intent demo_exchange = (Inr s, y) \<and> sr_accepted s"
  by (rule submit_without_store)
    (simp_all add: reference_now_def demo_gate_opens, simp add: demo_exchange_def)

lemma gate_reasons_nonempty:
  assumes "submit_gate x i now = Inr v" and "\<not> gate_passed v"
  shows "gate_reasons v \<noteq> []"
  using assms preview_verdict [of x i now] risk_result_accepted
  by (auto simp: submit_gate_def bind_res_eq_Inr map_res_eq_Inr split: if_splits option.splits)

text \<open>The reasons of a refusal: those of the preview, or of the risk evaluation that follows an accepted one.\<close>

definition refusal_reasons ::
    "exchange \<Rightarrow> order_intent \<Rightarrow> datetime \<Rightarrow> order_preview \<Rightarrow> risk_result option \<Rightarrow> string list \<Rightarrow> bool" where
  "refusal_reasons x i now p risk reasons \<longleftrightarrow> preview_order x i now = Inr p \<and>
     (case risk of
        None \<Rightarrow> \<not> pv_accepted p \<and> reasons = pv_reasons p
      | Some r \<Rightarrow> pv_accepted p \<and> \<not> rr_accepted r \<and> reasons = rr_reasons r
          \<and> (\<exists>q. quote_for_symbol (it_symbol i) now = Some q
               \<and> evaluate_paper_order_risk (ex_account x) i p q None (Some (ex_risk_state x)) now = Inr r))"

lemma gate_refusal:
  assumes "submit_gate x i now = Inr (p, risk)" and "\<not> gate_passed (p, risk)"
  shows "refusal_reasons x i now p risk (gate_reasons (p, risk))"
  using assms
  by (cases risk)
    (auto simp: refusal_reasons_def submit_gate_def bind_res_eq_Inr map_res_eq_Inr split: if_splits option.splits)

lemma submit_refused:
  assumes "submit_order clk reference i x = (Inr s, y)" and "\<not> sr_accepted s"
  shows "\<exists>n rs p risk. rs \<noteq> [] \<and> refusal_reasons x i (reference_now clk reference) p risk rs
    \<and> submit_order clk reference i x =
      reject_order clk n (numbered_id ''paper-order-'' (Suc (length (ex_orders x))))
        (reference_now clk reference) rs p risk x"
proof -
  let ?now = "reference_now clk reference"
  obtain p r where v: "submit_gate x i ?now = Inr (p, r)"
    using assms(1) by (cases "submit_gate x i ?now") (auto simp: submit_order_gate Let_def)
  have shut: "\<not> gate_passed (p, r)"
    using submit_accepted [OF assms(1)] assms(2) v by (cases r) (auto simp: gate_opens_def)
  have "submit_order clk reference i x =
      reject_order clk (readings_used reference) (numbered_id ''paper-order-'' (Suc (length (ex_orders x))))
        ?now (gate_reasons (p, r)) p r x"
    using shut v by (cases r) (simp_all add: submit_order_gate Let_def)
  with gate_reasons_nonempty [OF v shut] gate_refusal [OF v shut] show ?thesis by blast
qed

section \<open>Properties\<close>

text \<open>
  C1: An accepted order has passed every gate. The exchange was not halted. The order fits
  (\<open>order_fits\<close>): the instrument is executable with fresh metadata, fee policy and quote, quantity and
  price are positive multiples of lot and tick, the notional reaches the minimum, the order is GTX,
  post-only, does not cross and has a positive edge after costs. The risk evaluation found nothing: the
  account is valid, no kill switch is active, daily loss, drawdown and order count are below their
  limits, edge, spread, funding, volatility and liquidation distance are in bounds, and with the
  notional of the order the exposure of the symbol, the gross, sector, correlated and beta exposure,
  the leg imbalance and the leverage stay within the default limits, on an account with collateral and
  both hedge books. The order then rests as the last order of the book, as NEW, under the next number,
  and the account is as before.
\<close>

theorem accepted_order_passed_every_gate:
  assumes "submit_order clk reference i x = (Inr s, y)" and "sr_accepted s"
    and "now = reference_now clk reference"
  shows "order_fits x i now \<and> \<not> ex_halted x
    \<and> (\<exists>p q. preview_order x i now = Inr p \<and> quote_for_symbol (it_symbol i) now = Some q
         \<and> standing_ok (ex_account x) i p q (ex_risk_state x) now)
    \<and> projections_ok (ex_account x) i
    \<and> (\<exists>order. sr_order s = Some order \<and> ex_orders y = ex_orders x @ [order]
         \<and> po_status order = ST_NEW \<and> po_intent order = i
         \<and> po_order_id order = numbered_id ''paper-order-'' (Suc (length (ex_orders x))))
    \<and> ex_account y = ex_account x"
proof -
  have open_gate: "gate_opens x i now" using submit_accepted [OF assms(1)] assms(2,3) by simp
  have "ex_orders y = append_order (i, now) (ex_orders x)" "ex_account y = ex_account x"
    using submit_order_effect(1,2) [where x = x and clk = clk and reference = reference and i = i]
      assms(1,3) open_gate by (simp_all add: same_desk_def)
  moreover have "sr_order s = Some (last (append_order (i, now) (ex_orders x)))"
    using assms(1,3) open_gate
    by (auto simp: submit_order_gate gate_opens_def Let_def accept_order_def bind_act_Inr [of "persist_state _"]
        act_run)
  ultimately show ?thesis
    using gate_opens_requires(1,2) [OF open_gate] gate_opens_risk [OF open_gate]
    by (simp add: append_order_def, blast)
qed

theorem accepted_order_passed_every_gate_witness:
  "\<exists>s y. submit_order demo_clock (Some (Aware 0)) sample_intent demo_exchange = (Inr s, y)
     \<and> length (ex_orders y) = 1"
proof -
  obtain s y where 1: "submit_order demo_clock (Some (Aware 0)) sample_intent demo_exchange = (Inr s, y)"
    and 2: "sr_accepted s" using demo_submit by blast
  from accepted_order_passed_every_gate [OF 1 2 refl] have "length (ex_orders y) = 1"
    by (auto simp: demo_exchange_def)
  with 1 show ?thesis by blast
qed

text \<open>
  C13: A refused order leaves only its refusal. Account, book and switches are as before; the log has
  one more event, REJECTED, under the identifier the order would have had. Its text is the reasons,
  joined: those of the preview when the preview refuses, else those of the risk evaluation, and never
  none. The result reports that preview and that evaluation, and no order.
\<close>

theorem refused_order_leaves_one_event:
  assumes "submit_order clk reference i x = (Inr s, y)" and "\<not> sr_accepted s"
  shows "ex_account y = ex_account x \<and> ex_orders y = ex_orders x \<and> ex_halted y = ex_halted x
    \<and> ex_risk_state y = ex_risk_state x \<and> sr_order s = None
    \<and> (\<exists>reasons. refusal_reasons x i (reference_now clk reference) (sr_preview s) (sr_risk s) reasons
        \<and> reasons \<noteq> [] \<and> ex_events y = ex_events x @
        [\<lparr>re_event_id = numbered_id ''paper-recon-'' (Suc (length (ex_events x))),
          re_order_id = numbered_id ''paper-order-'' (Suc (length (ex_orders x))),
          re_status = RS_REJECTED, re_reason = join ''; '' reasons,
          re_created_at = reference_now clk reference\<rparr>])"
proof -
  let ?now = "reference_now clk reference"
  let ?k = "numbered_id ''paper-order-'' (Suc (length (ex_orders x)))"
  obtain n rs p risk where r: "submit_order clk reference i x = reject_order clk n ?k ?now rs p risk x"
    "rs \<noteq> []" "refusal_reasons x i ?now p risk rs"
    using submit_refused [OF assms] by blast
  have "sr_order s = None \<and> sr_preview s = p \<and> sr_risk s = risk"
    using assms(1) unfolding r(1) by (auto simp: reject_order_def bind_act_Inr [of "persist_state _"] act_run)
  moreover have "y = snd (reject_order clk n ?k ?now rs p risk x)" using assms(1) r(1) by simp
  ultimately show ?thesis
    using reject_order_effect [where x = x and clk = clk and n = n and k = ?k and now = ?now and rs = rs
        and p = p and risk = risk] r(2,3)
    by (auto simp: same_desk_def append_event_def)
qed


theorem refused_order_leaves_one_event_witness:
  "\<exists>s y. submit_order demo_clock (Some (Aware 0)) sample_intent (demo_exchange\<lparr>ex_halted := True\<rparr>) = (Inr s, y)
     \<and> ex_orders y = []"
proof -
  let ?x = "demo_exchange\<lparr>ex_halted := True\<rparr>"
  have "case preview_order ?x sample_intent (Aware 0) of Inl _ \<Rightarrow> False | Inr p \<Rightarrow> \<not> pv_accepted p"
    by code_simp
  then obtain p where p: "preview_order ?x sample_intent (Aware 0) = Inr p" "\<not> pv_accepted p"
    by (auto split: sum.splits)
  have store: "ex_store demo_exchange = None" by (simp add: demo_exchange_def)
  from p obtain s y where 1: "submit_order demo_clock (Some (Aware 0)) sample_intent ?x = (Inr s, y)"
    and 2: "\<not> sr_accepted s"
    by (auto simp: submit_order_gate submit_gate_def reference_now_def Let_def reject_order_def
        bind_act_run [of "persist_state _"] persist_without_store store act_run)
  from refused_order_leaves_one_event [OF 1 2] 1 show ?thesis by (auto simp: demo_exchange_def)
qed


lemma after_panic_refuses:
  assumes "logs_ok x" "exchange_run later (after_call clk0 Panic_Halt x) y"
    and "submit_order clk reference i y = (Inr s, z)"
  shows "\<not> sr_accepted s"
proof -
  have "logs_ok (after_call clk0 Panic_Halt x)" using assms(1) by (rule call_book(3))
  then have "logs_ok (after_call clk0 Panic_Halt x)
      \<and> rk_panic_halt_active (ex_risk_state (after_call clk0 Panic_Halt x))"
    by (simp add: panic_halt_effect)
  with assms(2) have "logs_ok y \<and> rk_panic_halt_active (ex_risk_state y)"
    by (rule exchange_run_invariant [where P = "\<lambda>y. logs_ok y \<and> rk_panic_halt_active (ex_risk_state y)"])
      (auto intro: call_book(3) call_panic)
  then show ?thesis using submit_accepted [OF assms(3)] gate_opens_requires(4) by blast
qed

text \<open>
  C2: A panic halt is final. After it, whatever calls follow - a reset included - no submission is
  ever accepted again: the reset clears the halt flag, but not the risk state of the exchange.
\<close>

theorem panic_halt_is_final:
  assumes "new_exchange account gate store t = Inr x0"
    and "exchange_run (before @ [Panic_Halt] @ later) x0 y"
    and "submit_order clk reference i y = (Inr s, z)"
  shows "\<not> sr_accepted s"
proof -
  from assms(2) obtain x clk0 where x: "exchange_run before x0 x"
    and y: "exchange_run later (after_call clk0 Panic_Halt x) y"
    by (auto simp: exchange_run_append elim!: exchange_run_ConsE exchange_stepE)
  have "logs_ok x" using run_logs_ok [OF x] new_exchange_logs_ok [OF assms(1)] by blast
  then show ?thesis using after_panic_refuses y assms(3) by blast
qed

theorem panic_halt_is_final_witness:
  "\<exists>y s z. exchange_run ([] @ [Panic_Halt] @ [Reset]) demo_exchange y \<and> \<not> ex_halted y
     \<and> submit_order demo_clock (Some (Aware 0)) sample_intent y = (Inr s, z) \<and> \<not> sr_accepted s"
proof -
  let ?h = "after_call demo_clock Panic_Halt demo_exchange"
  let ?y = "after_call demo_clock Reset ?h"
  have 1: "exchange_run ([] @ [Panic_Halt] @ [Reset]) demo_exchange ?y"
    unfolding exchange_run_append using run_Nil exchange_run_one by blast
  have y: "?y = demo_exchange\<lparr>ex_risk_state := default_risk_state\<lparr>rk_panic_halt_active := True\<rparr>\<rparr>"
    by (simp add: panic_halt_def reset_exchange_def persist_without_store demo_exchange_def
        default_account_state_eq demo_clock_def act_run)
  have "case submit_gate (demo_exchange\<lparr>ex_risk_state := default_risk_state\<lparr>rk_panic_halt_active := True\<rparr>\<rparr>)
      sample_intent (Aware 0) of Inl _ \<Rightarrow> False | Inr v \<Rightarrow> True"
    by code_simp
  then obtain p r where v: "submit_gate ?y sample_intent (Aware 0) = Inr (p, r)"
    unfolding y by (auto split: sum.splits)
  have store: "ex_store ?y = None" unfolding y by (simp add: demo_exchange_def)
  have "\<exists>s z. submit_order demo_clock (Some (Aware 0)) sample_intent ?y = (Inr s, z)"
    using v store
    by (cases r) (auto simp: submit_order_gate reference_now_def Let_def reject_order_def accept_order_def
        bind_act_run [of "persist_state _"] persist_without_store act_run)
  then obtain s z where 2: "submit_order demo_clock (Some (Aware 0)) sample_intent ?y = (Inr s, z)" by blast
  have "\<not> ex_halted ?y" unfolding y by (simp add: demo_exchange_def)
  with panic_halt_is_final [OF demo_exchange_new 1 2] 1 2 show ?thesis by blast
qed

text \<open>
  C14: The default desk goes stale. Only a reset and a panic flatten refresh its account snapshot: in
  every state that an exchange created at time \<open>t\<close> with the default account reaches without one of
  these two, whatever else happens, each submission later than five minutes after \<open>t\<close> is refused.
\<close>

theorem desk_goes_stale:
  assumes "new_exchange None gate store (Aware t) = Inr x0" and "exchange_run cs x0 y"
    and "Reset \<notin> set cs" "Panic_Flatten \<notin> set cs"
    and "submit_order clk reference i y = (Inr s, z)"
    and "micros (reference_now clk reference) > t + 300 * micros_per_second"
  shows "\<not> sr_accepted s"
proof
  assume "sr_accepted s"
  then have "account_ok (ex_account y) (reference_now clk reference)"
    using submit_accepted [OF assms(5)] gate_opens_requires(3) by blast
  moreover have "ex_account x0 = seed_account (Aware t)"
    using assms(1) by (auto simp: new_exchange_def default_account_state_eq bind_res_eq_Inr)
  then have "settled (seed_account (Aware t)) (ex_account y)"
    using run_account [OF assms(2) new_exchange_logs_ok [OF assms(1)] assms(3,4)] by simp
  ultimately have ok: "account_ok (seed_account (Aware t)) (reference_now clk reference)"
    using settled_account_ok by blast
  then have "is_aware (reference_now clk reference)" by (simp add: account_ok_def freshness_ok_def)
  then obtain r where "reference_now clk reference = Aware r"
    by (cases "reference_now clk reference") simp_all
  with ok assms(6) show False by (simp add: seed_account_ok)
qed

theorem desk_goes_stale_witness:
  "\<exists>s z. submit_order demo_clock (Some (Aware 300000001)) sample_intent demo_exchange = (Inr s, z)
     \<and> \<not> sr_accepted s"
proof -
  have "case preview_order demo_exchange sample_intent (Aware 300000001) of Inl _ \<Rightarrow> False | Inr p \<Rightarrow> \<not> pv_accepted p"
    by code_simp
  then obtain p where p: "preview_order demo_exchange sample_intent (Aware 300000001) = Inr p" "\<not> pv_accepted p"
    by (auto split: sum.splits)
  have store: "ex_store demo_exchange = None" by (simp add: demo_exchange_def)
  from p obtain s z where 1:
    "submit_order demo_clock (Some (Aware 300000001)) sample_intent demo_exchange = (Inr s, z)"
    by (auto simp: submit_order_gate submit_gate_def reference_now_def Let_def reject_order_def
        bind_act_run [of "persist_state _"] persist_without_store store act_run)
  have 2: "micros (reference_now demo_clock (Some (Aware 300000001))) > 0 + 300 * micros_per_second"
    by (simp add: reference_now_def micros_per_second_def)
  have 3: "Reset \<notin> set []" "Panic_Flatten \<notin> set []" by simp_all
  from desk_goes_stale [OF demo_exchange_new run_Nil 3 1 2] 1 show ?thesis by blast
qed

text \<open>
  C11: Identifiers are unique and never reused while the book lives. In every reachable state the
  n-th order is \<open>paper-order-n\<close> and the n-th event \<open>paper-recon-n\<close> (six digits at least), so no two
  orders and no two events share an identifier.
\<close>

theorem identifiers_unique:
  assumes "new_exchange account gate store t = Inr x0" and "exchange_run cs x0 y"
  shows "(\<forall>i < length (ex_orders y). po_order_id (ex_orders y ! i) = numbered_id ''paper-order-'' (Suc i))
    \<and> (\<forall>i < length (ex_events y). re_event_id (ex_events y ! i) = numbered_id ''paper-recon-'' (Suc i))
    \<and> distinct (map po_order_id (ex_orders y)) \<and> distinct (map re_event_id (ex_events y))"
proof -
  have "logs_ok y" using run_logs_ok [OF assms(2) new_exchange_logs_ok [OF assms(1)]] .
  then show ?thesis
    by (auto simp: logs_ok_def well_numbered_nth dest: well_numbered_distinct)
qed

theorem identifiers_unique_witness:
  "distinct (map po_order_id (ex_orders (after_call demo_clock (Submit (Some (Aware 0)) sample_intent) demo_exchange)))
   \<and> length (ex_orders (after_call demo_clock (Submit (Some (Aware 0)) sample_intent) demo_exchange)) = 1"
  using identifiers_unique [OF demo_exchange_new exchange_run_one
      [of "Submit (Some (Aware 0)) sample_intent" demo_exchange demo_clock]]
    submit_order_effect(2) [of demo_clock "Some (Aware 0)" sample_intent demo_exchange] demo_gate_opens
    orders_log.enter_length [of "(sample_intent, Aware 0)" "[]"]
  by (simp add: reference_now_def, simp add: demo_exchange_def)

text \<open>
  C12: Orders move forward only. Along any calls without a reset, every order of the book stays at
  its place with its identifier, intent and creation time, its status moves only from NEW over
  PARTIALLY_FILLED to one terminal status, its fills are only appended, and an order in a terminal
  status never changes in any field.
\<close>

theorem orders_move_forward:
  assumes "new_exchange account gate store t = Inr x0" and "exchange_run before x0 x"
    and "exchange_run cs x y" and "Reset \<notin> set cs" and "i < length (ex_orders x)"
  shows "i < length (ex_orders y)
    \<and> po_order_id (ex_orders y ! i) = po_order_id (ex_orders x ! i)
    \<and> po_intent (ex_orders y ! i) = po_intent (ex_orders x ! i)
    \<and> po_created_at (ex_orders y ! i) = po_created_at (ex_orders x ! i)
    \<and> (po_status (ex_orders y ! i) = po_status (ex_orders x ! i)
       \<or> is_open (po_status (ex_orders x ! i))
          \<and> order_level (po_status (ex_orders x ! i)) < order_level (po_status (ex_orders y ! i)))
    \<and> (\<exists>news. po_fills (ex_orders y ! i) = po_fills (ex_orders x ! i) @ news)
    \<and> (\<not> is_open (po_status (ex_orders x ! i)) \<longrightarrow> ex_orders y ! i = ex_orders x ! i)"
proof -
  have "logs_ok x" using run_logs_ok [OF assms(2) new_exchange_logs_ok [OF assms(1)]] .
  from run_book [OF assms(3) this assms(4)] assms(5)
  have len: "i < length (ex_orders y)" and ev: "evolves (ex_orders x ! i) (ex_orders y ! i)"
    by (simp_all add: book_evolves_def)
  show ?thesis using ev len unfolding evolves_def order_move_def by blast
qed

theorem orders_move_forward_witness:
  "\<exists>x y. exchange_run [Submit (Some (Aware 0)) sample_intent] demo_exchange x
     \<and> exchange_run [Panic_Cancel] x y \<and> po_intent (ex_orders y ! 0) = po_intent (ex_orders x ! 0)"
proof -
  let ?x = "after_call demo_clock (Submit (Some (Aware 0)) sample_intent) demo_exchange"
  have 1: "exchange_run [Submit (Some (Aware 0)) sample_intent] demo_exchange ?x" by (rule exchange_run_one)
  have 2: "exchange_run [Panic_Cancel] ?x (after_call demo_clock Panic_Cancel ?x)" by (rule exchange_run_one)
  have 3: "Reset \<notin> set [Panic_Cancel]" by simp
  have "ex_orders ?x = append_order (sample_intent, Aware 0) []"
    using submit_order_effect(2) [of demo_clock "Some (Aware 0)" sample_intent demo_exchange] demo_gate_opens
    by (simp add: reference_now_def, simp add: demo_exchange_def)
  then have 4: "0 < length (ex_orders ?x)" by simp
  have "po_intent (ex_orders (after_call demo_clock Panic_Cancel ?x) ! 0) = po_intent (ex_orders ?x ! 0)"
    using orders_move_forward [OF demo_exchange_new 1 2 3 4] by (elim conjE)
  with 1 2 show ?thesis by (intro exI conjI)
qed

end
