(* ===== verification/Exchange_Fills.thy ===== *)
theory Exchange_Fills
  imports Exchange_Safety
begin

text \<open>
  Quantities of the paper exchange. On the default desk an accepted order lies on the lot and tick
  grids and is small enough for exact decimal arithmetic; the fills then add up exactly to the
  filled quantity, never beyond the order, and two passes of the matching loop complete an order.
\<close>

section \<open>Accepted orders are on the grid\<close>

text \<open>Written with fewer than a million decimals, the subnormal limit of the decimal context.\<close>

definition sane_intent :: "order_intent \<Rightarrow> bool" where
  "sane_intent i \<longleftrightarrow> Etiny \<le> dexp (it_quantity i) \<and> Etiny \<le> dexp (it_limit_price i)"

definition sized :: "order_intent \<Rightarrow> bool" where
  "sized i \<longleftrightarrow> is_finite (it_quantity i) \<and> is_finite (it_limit_price i)
     \<and> on_grid 3 (dval (it_quantity i)) \<and> on_grid 2 (dval (it_limit_price i))
     \<and> 0 < dval (it_quantity i) \<and> 0 < dval (it_limit_price i)
     \<and> dval (it_quantity i) * dval (it_limit_price i) < 100000"

definition on_desk :: "account_state \<Rightarrow> bool" where
  "on_desk a \<longleftrightarrow> (\<exists>t. ac_symbol_metadata a = seed_metadata t \<and> ac_fee_policies a = default_fee_policies t)"

definition books_nonneg :: "account_state \<Rightarrow> bool" where
  "books_nonneg a \<longleftrightarrow> (\<forall>b \<in> set (ac_position_books a).
     is_finite (pb_quantity b) \<and> is_finite (pb_notional b)
     \<and> 0 \<le> dval (pb_quantity b) \<and> 0 \<le> dval (pb_notional b))"

lemma on_grid_pos_ge: "on_grid k v \<Longrightarrow> 0 < v \<Longrightarrow> 10 powi (- k) \<le> v"
proof -
  assume "on_grid k v" "0 < v"
  then obtain c :: int where c: "v = of_int c * 10 powi (- k)" by (auto simp: on_grid_def)
  with \<open>0 < v\<close> have "0 < (of_int c :: rat)" by (simp add: zero_less_mult_iff)
  then have "1 \<le> (of_int c :: rat)" by simp
  then show ?thesis using c mult_right_mono [of 1 "of_int c :: rat" "10 powi (- k)"] by simp
qed

lemma is_multiple_grid:
  assumes m: "is_multiple v (Dec 1 (- k)) = Inr True" and pos: "dle v d0 = Inr False"
    and e: "Etiny \<le> dexp v" and k: "0 \<le> k" "k \<le> 1000"
  shows "is_finite v \<and> 0 < dval v \<and> on_grid k (dval v)"
proof -
  from m obtain r where r: "dmod v (Dec 1 (- k)) = Inr r" "deq r d0 = Inr True"
    by (auto simp: is_multiple_def bind_res_eq_Inr split: if_splits)
  have f: "is_finite v"
  proof (cases v)
    case (NaN s q p)
    with pos show ?thesis by (simp add: dle_def invalid_def)
  next
    case (Infin s)
    with r show ?thesis by (simp add: dmod_def invalid_def)
  qed simp_all
  have lo: "Etiny \<le> dexp (Dec 1 (- k))" using k by (simp add: Etiny_def)
  have "is_finite (Dec 1 (- k))" by simp
  from dmod_zero_multiple [OF f this e lo r] obtain c :: int where "dval v = of_int c * dval (Dec 1 (- k))"
    by blast
  then have "on_grid k (dval v)" by (intro on_gridI [of _ c]) simp
  moreover have "0 < dval v" using pos f by (simp add: dec_simps)
  ultimately show ?thesis using f by blast
qed

lemma dsum_nonneg:
  assumes "\<forall>x \<in> set xs. is_finite x \<and> 0 \<le> dval x" and "dsum xs = Inr d"
  shows "is_finite d \<and> 0 \<le> dval d"
proof -
  have "foldM_res dadd d0 xs = Inr d" using assms(2) by (simp add: dsum_def)
  then show ?thesis
  proof (rule foldM_res_invariant [where P = "\<lambda>d. is_finite d \<and> 0 \<le> dval d"])
    fix a x a'
    assume a: "is_finite a \<and> 0 \<le> dval a" and x: "x \<in> set xs" and s: "dadd a x = Inr a'"
    from assms(1) x have x': "is_finite x" "0 \<le> dval x" by blast+
    show "is_finite a' \<and> 0 \<le> dval a'"
      using dadd_nonneg(1) [OF conjunct1 [OF a] x'(1) conjunct2 [OF a] x'(2) s] .
  qed simp
qed

lemma desk_filters:
  assumes "on_desk a" and "metadata_for a s = Some m" and "sm_role m = IR_EXECUTABLE"
    and "sm_filters m = Some f"
  shows "sf_lot_size f = Dec 1 (- 3) \<and> (sf_tick_size f = Dec 1 (- 1) \<or> sf_tick_size f = Dec 1 (- 2))"
proof -
  obtain t where t: "ac_symbol_metadata a = seed_metadata t" using assms(1) by (auto simp: on_desk_def)
  have "m \<in> set (seed_metadata t)"
    using assms(2) by (auto simp: metadata_for_def t find_Some_iff)
  moreover have "\<forall>m \<in> set (seed_metadata t). sm_role m = IR_EXECUTABLE \<longrightarrow> (\<forall>f. sm_filters m = Some f \<longrightarrow>
      sf_lot_size f = Dec 1 (- 3) \<and> (sf_tick_size f = Dec 1 (- 1) \<or> sf_tick_size f = Dec 1 (- 2)))"
    by (simp add: seed_metadata_def btc_filters_def eth_filters_def)
  ultimately show ?thesis using assms(3,4) by blast
qed

lemma gate_sized:
  assumes g: "gate_opens x i now" and s: "sane_intent i"
    and desk: "on_desk (ex_account x)" and books: "books_nonneg (ex_account x)"
  shows "sized i"
proof -
  let ?q = "it_quantity i" and ?p = "it_limit_price i"
  from gate_opens_requires(1) [OF g] obtain m f n where m:
    "metadata_for (ex_account x) (it_symbol i) = Some m" "sm_role m = IR_EXECUTABLE" "sm_filters m = Some f"
    and pos: "dle ?q d0 = Inr False" "dle ?p d0 = Inr False"
    and mult: "is_multiple ?q (sf_lot_size f) = Inr True" "is_multiple ?p (sf_tick_size f) = Inr True"
    and n: "intent_notional i = Inr n"
    by (auto simp: order_fits_def)
  note f = desk_filters [OF desk m]
  have q: "is_finite ?q \<and> 0 < dval ?q \<and> on_grid 3 (dval ?q)"
    using is_multiple_grid [of ?q 3] mult(1) pos(1) s f by (simp add: sane_intent_def)
  have p: "is_finite ?p \<and> 0 < dval ?p \<and> on_grid 2 (dval ?p)"
    using is_multiple_grid [of ?p 1] is_multiple_grid [of ?p 2] mult(2) pos(2) s f
      on_grid_finer [of 1 "dval ?p" 2] by (auto simp: sane_intent_def)
  have "dval ?q * dval ?p < 100000"
  proof (rule ccontr)
    assume "\<not> dval ?q * dval ?p < 100000"
    then have big: "10 powi 5 \<le> dval ?q * dval ?p" by simp
    have tiny: "Etiny \<le> 5" by (simp add: Etiny_def)
    have n': "is_finite n" "0 \<le> dval n" "10 powi 5 \<le> dval n"
      using dmul_nonneg(1) [of ?q ?p n] dmul_nonneg(2) [of ?q ?p n 5] n q p big tiny
      by (simp_all only: intent_notional_def less_imp_le simp_thms)
    from gate_opens_requires(6) [OF g] obtain c s where c:
      "dsum (map pb_notional (filter (\<lambda>b. pb_symbol b = it_symbol i) (ac_position_books (ex_account x)))) = Inr c"
      "dadd c n = Inr s" "dgt s (Dec 50000 0) = Inr False"
      using n by (auto simp: projected_symbol_exposure_def bind_res_eq_Inr)
    have c': "is_finite c \<and> 0 \<le> dval c"
      using dsum_nonneg [OF _ c(1)] books by (auto simp: books_nonneg_def)
    have "is_finite s" "10 powi 5 \<le> dval s"
      using dadd_nonneg(1) [of c n s] dadd_nonneg(2) [of c n s 5] c(2) c' n' tiny by (simp_all del: power_int_numeral)
    with c(3) show False by (simp add: dec_simps)
  qed
  with q p show ?thesis by (simp add: sized_def)
qed

section \<open>Sound orders\<close>

definition fill_of :: "paper_order \<Rightarrow> paper_fill \<Rightarrow> bool" where
  "fill_of a f \<longleftrightarrow> fl_order_id f = po_order_id a \<and> fl_symbol f = it_symbol (po_intent a)
     \<and> fl_side f = it_side (po_intent a) \<and> fl_book_side f = it_book_side (po_intent a)
     \<and> fl_price f = it_limit_price (po_intent a)
     \<and> is_finite (fl_quantity f) \<and> 0 < dval (fl_quantity f)"

definition filled_value :: "paper_order \<Rightarrow> rat" where
  "filled_value a = (\<Sum>f\<leftarrow>po_fills a. dval (fl_quantity f))"

definition order_sound :: "paper_order \<Rightarrow> bool" where
  "order_sound a \<longleftrightarrow> sized (po_intent a)
     \<and> is_finite (po_filled_quantity a) \<and> on_grid 4 (dval (po_filled_quantity a))
     \<and> 0 \<le> dval (po_filled_quantity a)
     \<and> dval (po_filled_quantity a) \<le> dval (it_quantity (po_intent a))
     \<and> list_all (fill_of a) (po_fills a) \<and> filled_value a = dval (po_filled_quantity a)
     \<and> (case po_status a of
          ST_NEW \<Rightarrow> dval (po_filled_quantity a) = 0
        | ST_PARTIALLY_FILLED \<Rightarrow> 0 < dval (po_filled_quantity a)
            \<and> dval (po_filled_quantity a) < dval (it_quantity (po_intent a))
        | ST_FILLED \<Rightarrow> dval (po_filled_quantity a) = dval (it_quantity (po_intent a))
        | _ \<Rightarrow> dval (po_filled_quantity a) < dval (it_quantity (po_intent a)))"

lemma sized_quantity_small:
  assumes "sized i" and "0 \<le> v" "v \<le> dval (it_quantity i)" and "on_grid 4 v"
  shows "representable v"
proof -
  let ?q = "dval (it_quantity i)" and ?p = "dval (it_limit_price i)"
  have q: "0 \<le> ?q" and qp: "?q * ?p < 100000" using assms(1) by (simp_all add: sized_def)
  have "10 powi (- 2) \<le> ?p" using assms(1) by (intro on_grid_pos_ge) (simp_all add: sized_def)
  then have "1 / 100 \<le> ?p" by (simp add: power_int_minus)
  from mult_left_mono [OF this q] qp have "?q < 10000000" by simp
  then show ?thesis using assms(2-4) by (intro grid_representable [of 4]) simp_all
qed

lemma new_order_sound: "sized i \<Longrightarrow> order_sound (last (append_order (i, now) xs))"
  by (simp add: order_sound_def append_order_def filled_value_def sized_def less_imp_le)

lemma closed_order_sound:
  assumes "order_sound a" "is_open (po_status a)" and "s \<in> {ST_CANCELED, ST_EXPIRED}"
  shows "order_sound (a\<lparr>po_status := s, po_updated_at := t\<rparr>)"
proof -
  have "fill_of (a\<lparr>po_status := s, po_updated_at := t\<rparr>) = fill_of a" by (simp add: fun_eq_iff fill_of_def)
  then show ?thesis
    using assms by (auto simp: order_sound_def filled_value_def is_open_def sized_def)
qed

lemma remaining_exact:
  assumes "order_sound a"
  shows "\<exists>r. remaining_quantity a = Inr r \<and> is_finite r
    \<and> dval r = dval (it_quantity (po_intent a)) - dval (po_filled_quantity a) \<and> on_grid 4 (dval r)"
proof -
  let ?q = "it_quantity (po_intent a)" and ?f = "po_filled_quantity a"
  have s: "sized (po_intent a)" and f: "is_finite ?f" "on_grid 4 (dval ?f)" "0 \<le> dval ?f" "dval ?f \<le> dval ?q"
    using assms by (simp_all add: order_sound_def)
  have q: "is_finite ?q" "on_grid 4 (dval ?q)"
    using s on_grid_finer [of 3 "dval ?q" 4] by (simp_all add: sized_def)
  have g: "on_grid 4 (dval ?q - dval ?f)" using q(2) f(2) by (rule on_grid_diff)
  have "representable (dval ?q - dval ?f)"
    using f g by (intro sized_quantity_small [OF s]) simp_all
  from dsub_exact [OF q(1) f(1) this] obtain r where r: "dsub ?q ?f = Inr r" "is_finite r"
    "dval r = dval ?q - dval ?f" by blast
  then obtain m where "dmax d0 r = Inr m" "is_finite m" "dval m = dval r"
    using f(4) by (auto simp: dec_simps)
  with r g show ?thesis by (auto simp: remaining_quantity_def)
qed

section \<open>A fill keeps its order sound\<close>

lemma fill_of_same:
  "po_order_id b = po_order_id a \<Longrightarrow> po_intent b = po_intent a \<Longrightarrow> fill_of b = fill_of a"
  by (simp add: fun_eq_iff fill_of_def)

lemma fill_plan_cases:
  assumes "fill_plan x a q t = Inr (Some (fill, u, full))" and "remaining_quantity a = Inr r"
    and "is_finite r" "is_finite q"
  shows "\<exists>v filled. dmin r q = Inr v \<and> dle v d0 = Inr False
    \<and> dadd (po_filled_quantity a) v = Inr filled \<and> dge filled (it_quantity (po_intent a)) = Inr full
    \<and> fl_quantity fill = v \<and> fl_order_id fill = po_order_id a \<and> fl_symbol fill = it_symbol (po_intent a)
    \<and> fl_side fill = it_side (po_intent a) \<and> fl_book_side fill = it_book_side (po_intent a)
    \<and> fl_price fill = it_limit_price (po_intent a)
    \<and> u = a\<lparr>po_status := (if full then ST_FILLED else ST_PARTIALLY_FILLED), po_updated_at := t,
             po_fill := Some fill, po_fills := po_fills a @ [fill], po_filled_quantity := filled\<rparr>"
  using assms by (auto simp: fill_plan_def Let_def bind_res_eq_Inr split: if_splits)

lemma fill_plan_sound:
  assumes a: "order_sound a" and q: "is_finite q" "on_grid 4 (dval q)"
    and plan: "fill_plan x a q t = Inr (Some (fill, u, full))"
  shows "order_sound u" and "is_finite (fl_quantity fill)" "0 < dval (fl_quantity fill)"
    and "is_finite (fl_price fill)" "0 < dval (fl_price fill)"
proof -
  let ?n = "it_quantity (po_intent a)" and ?f = "po_filled_quantity a"
  have s: "sized (po_intent a)" and f: "is_finite ?f" "on_grid 4 (dval ?f)" "0 \<le> dval ?f"
    using a by (simp_all add: order_sound_def)
  have n: "is_finite ?n" using s by (simp add: sized_def)
  from remaining_exact [OF a] obtain r where r: "remaining_quantity a = Inr r" "is_finite r"
    "dval r = dval ?n - dval ?f" "on_grid 4 (dval r)" by blast
  from fill_plan_cases [OF plan r(1,2) q(1)] obtain v filled where p: "dmin r q = Inr v"
    "dle v d0 = Inr False" "dadd ?f v = Inr filled" "dge filled ?n = Inr full" "fl_quantity fill = v"
    and fo: "fl_order_id fill = po_order_id a" "fl_symbol fill = it_symbol (po_intent a)"
    "fl_side fill = it_side (po_intent a)" "fl_book_side fill = it_book_side (po_intent a)"
    "fl_price fill = it_limit_price (po_intent a)"
    and u: "u = a\<lparr>po_status := (if full then ST_FILLED else ST_PARTIALLY_FILLED), po_updated_at := t,
             po_fill := Some fill, po_fills := po_fills a @ [fill], po_filled_quantity := filled\<rparr>"
    by blast
  have v: "is_finite v" "on_grid 4 (dval v)" "dval v \<le> dval r"
    using p(1) r q by (auto simp: dmin_val split: if_splits)
  have pos: "0 < dval v" using p(2) v(1) by (simp add: dec_simps)
  have g: "on_grid 4 (dval ?f + dval v)" using f(2) v(2) by (rule on_grid_add)
  have le: "dval ?f + dval v \<le> dval ?n" using v(3) r(3) by simp
  have "representable (dval ?f + dval v)"
    using sized_quantity_small [OF s _ le g] f(3) pos by simp
  from dadd_exact [OF f(1) v(1) this] p(3) have filled: "is_finite filled" "dval filled = dval ?f + dval v"
    by auto
  have full: "full \<longleftrightarrow> dval ?n \<le> dval ?f + dval v"
    using p(4) filled n by (auto simp: dec_simps)
  have fo': "fill_of a fill" using fo v(1) pos p(5) by (simp add: fill_of_def)
  have same: "fill_of u = fill_of a" by (rule fill_of_same) (simp_all add: u)
  have sum: "filled_value u = filled_value a + dval v" by (simp add: u filled_value_def p(5))
  have fills: "po_fills u = po_fills a @ [fill]" by (simp add: u)
  have lst: "list_all (fill_of u) (po_fills u)"
    unfolding fills same using a fo' by (simp add: order_sound_def)
  have val: "filled_value u = dval (po_filled_quantity u)"
    using a sum filled(2) by (simp add: u order_sound_def)
  show "order_sound u"
    unfolding order_sound_def
    using lst val s filled f(3) pos le g full by (auto simp: u)
  show "is_finite (fl_quantity fill)" "0 < dval (fl_quantity fill)" using v pos p(5) by simp_all
  show "is_finite (fl_price fill)" "0 < dval (fl_price fill)" using fo(5) s by (simp_all add: sized_def)
qed

section \<open>Settlement keeps the books non-negative\<close>

lemma updated_book_nonneg:
  assumes u: "updated_book f b = Inr b'" and q: "is_finite (pb_quantity b)" "0 \<le> dval (pb_quantity b)"
    and n: "is_finite (pb_notional b)" "0 \<le> dval (pb_notional b)"
    and fq: "is_finite (fl_quantity f)" "0 < dval (fl_quantity f)"
    and fp: "is_finite (fl_price f)" "0 < dval (fl_price f)"
  shows "is_finite (pb_quantity b') \<and> is_finite (pb_notional b')
    \<and> 0 \<le> dval (pb_quantity b') \<and> 0 \<le> dval (pb_notional b')"
proof (cases "pb_symbol b \<noteq> fl_symbol f \<or> pb_side b \<noteq> fl_book_side f")
  case True
  with u q n show ?thesis by (auto simp: updated_book_def)
next
  case False
  have "is_finite (pb_quantity b') \<and> 0 \<le> dval (pb_quantity b')
      \<and> dmul (pb_quantity b') (fl_price f) = Inr (pb_notional b')"
  proof (cases "book_is_increase f")
    case True
    with u False have Q: "dadd (pb_quantity b) (fl_quantity f) = Inr (pb_quantity b')"
      "dmul (pb_quantity b') (fl_price f) = Inr (pb_notional b')"
      by (auto simp: updated_book_def bind_res_eq_Inr)
    show ?thesis using dadd_nonneg(1) [OF q(1) fq(1) q(2) less_imp_le [OF fq(2)] Q(1)] Q(2) by blast
  next
    case dec: False
    with u False obtain r where Q: "dsub (pb_quantity b) (fl_quantity f) = Inr r"
      "dmax d0 r = Inr (pb_quantity b')" "dmul (pb_quantity b') (fl_price f) = Inr (pb_notional b')"
      by (auto simp: updated_book_def bind_res_eq_Inr)
    have "is_finite r" by (rule dsub_finite [OF q(1) fq(1) Q(1)])
    then have "pb_quantity b' = (if dval d0 < dval r then r else d0)"
      using Q(2) by (simp add: dmax_val)
    with \<open>is_finite r\<close> have "is_finite (pb_quantity b') \<and> 0 \<le> dval (pb_quantity b')" by simp
    with Q(3) show ?thesis by blast
  qed
  then have Q: "is_finite (pb_quantity b')" "0 \<le> dval (pb_quantity b')"
    "dmul (pb_quantity b') (fl_price f) = Inr (pb_notional b')" by blast+
  note N = dmul_nonneg(1) [OF Q(1) fp(1) Q(2) less_imp_le [OF fp(2)] Q(3)]
  show ?thesis using Q(1,2) N by blast
qed

lemma settle_nonneg:
  assumes s: "apply_paper_fill a f = Inr a'" and b: "books_nonneg a"
    and f: "is_finite (fl_quantity f)" "0 < dval (fl_quantity f)" "is_finite (fl_price f)" "0 < dval (fl_price f)"
  shows "books_nonneg a'"
proof -
  from apply_paper_fill_result [OF s] have m:
    "mapM_res (updated_book f) (ac_position_books a) = Inr (ac_position_books a')" by auto
  have "is_finite (pb_quantity y) \<and> is_finite (pb_notional y) \<and> 0 \<le> dval (pb_quantity y) \<and> 0 \<le> dval (pb_notional y)"
    if "y \<in> set (ac_position_books a')" for y
  proof -
    from that obtain i where i: "i < length (ac_position_books a')" "y = ac_position_books a' ! i"
      by (metis in_set_conv_nth)
    have len: "i < length (ac_position_books a)" using i mapM_res_length [OF m] by simp
    then have x: "ac_position_books a ! i \<in> set (ac_position_books a)" by simp
    from updated_book_nonneg [OF mapM_res_nth [OF m len]] b x f i(2) show ?thesis
      by (simp add: books_nonneg_def)
  qed
  then show ?thesis by (simp add: books_nonneg_def)
qed

lemma settle_desk: "apply_paper_fill a f = Inr a' \<Longrightarrow> on_desk a \<Longrightarrow> on_desk a'"
  by (drule apply_paper_fill_result) (auto simp: on_desk_def)

section \<open>The invariant of the runs\<close>

definition desk_sound :: "exchange \<Rightarrow> bool" where
  "desk_sound x \<longleftrightarrow> on_desk (ex_account x) \<and> books_nonneg (ex_account x)
     \<and> list_all order_sound (ex_orders x)"

lemma fill_order_sound:
  assumes x: "desk_sound x" and n: "well_numbered ''paper-order-'' po_order_id (ex_orders x)"
    and i: "i < length (ex_orders x)" and q: "is_finite q" "on_grid 4 (dval q)"
  shows "desk_sound (snd (fill_order (ex_orders x ! i) q t x))"
proof -
  let ?o = "ex_orders x ! i"
  have o: "order_sound ?o" using x i by (simp add: desk_sound_def list_all_length)
  have rep: "replace_by_id po_order_id (po_order_id ?o) u (ex_orders x) = (ex_orders x)[i := u]" for u
    using orders_log.replace_at [OF n i refl] .
  show ?thesis
  proof (cases "fill_plan x ?o q t")
    case (Inl e)
    with x show ?thesis by (simp add: fill_order_plan)
  next
    case (Inr plan)
    show ?thesis
    proof (cases plan)
      case None
      with Inr x show ?thesis by (simp add: fill_order_plan)
    next
      case (Some p)
      obtain fill u full where p: "p = (fill, u, full)" by (cases p)
      with Inr Some have plan: "fill_plan x ?o q t = Inr (Some (fill, u, full))" by simp
      note s = fill_plan_sound [OF o q plan]
      have orders: "list_all order_sound ((ex_orders x)[i := u])"
        using x s(1) by (auto simp: desk_sound_def list_all_iff dest: set_update_subset_insert [THEN subsetD])
      show ?thesis
        using x orders settle_nonneg [OF _ _ s(2-5)] settle_desk
        by (cases "apply_paper_fill (ex_account x) fill")
          (auto simp: fill_order_plan plan rep Let_def desk_sound_def)
    qed
  qed
qed

lemma half_exact:
  assumes "sized i"
  shows "\<exists>h. ddiv (it_quantity i) (Dec 2 0) = Inr h \<and> is_finite h
    \<and> dval h = dval (it_quantity i) / 2 \<and> on_grid 4 (dval h)"
proof -
  have q: "is_finite (it_quantity i)" "0 < dval (it_quantity i)" using assms by (simp_all add: sized_def)
  obtain c :: int where c: "dval (it_quantity i) = of_int c * 10 powi (- 3)"
    using assms by (auto simp: sized_def on_grid_def)
  have g: "on_grid 4 (dval (it_quantity i) / 2)"
    by (rule on_gridI [of _ "5 * c"]) (simp add: c power_int_minus)
  have "representable (dval (it_quantity i) / dval (Dec 2 0))"
    using sized_quantity_small [OF assms _ _ g] q by simp
  from ddiv_exact [OF q(1) _ _ this] obtain h where
    h: "ddiv (it_quantity i) (Dec 2 0) = Inr h" "is_finite h" "dval h = dval (it_quantity i) / 2" by auto
  from g have "on_grid 4 (dval h)" unfolding h(3) .
  with h show ?thesis by blast
qed

lemma advance_order_sound:
  assumes x: "desk_sound x" and n: "well_numbered ''paper-order-'' po_order_id (ex_orders x)"
    and i: "i < length (ex_orders x)"
  shows "desk_sound (snd (advance_order now (ex_orders x ! i) p x))"
proof -
  let ?o = "ex_orders x ! i"
  have o: "order_sound ?o" using x i by (simp add: desk_sound_def list_all_length)
  from remaining_exact [OF o] obtain r where r: "remaining_quantity ?o = Inr r" "is_finite r" "on_grid 4 (dval r)"
    by blast
  have "sized (po_intent ?o)" using o by (simp add: order_sound_def)
  from half_exact [OF this] obtain h where h: "ddiv (it_quantity (po_intent ?o)) (Dec 2 0) = Inr h"
    "is_finite h" "on_grid 4 (dval h)" by blast
  note fill = fill_order_sound [OF x n i]
  show ?thesis
    unfolding advance_order_def
    by (intro snd_bind_of_res [where Q = desk_sound])
      (auto simp: r h dmin_val intro!: snd_bind_of_res [where Q = desk_sound] fill x)
qed

lemma process_order_sound:
  assumes x: "desk_sound x" and n: "well_numbered ''paper-order-'' po_order_id (ex_orders x)"
    and i: "i < length (ex_orders x)"
  shows "desk_sound (snd (process_order now (ex_orders x ! i) x))"
  using x advance_order_sound [OF x n i]
  by (auto simp: process_order_def snd_bind_report split: option.splits
      intro!: snd_bind_of_res [where Q = desk_sound])

lemma desk_sound_persist: "desk_sound x \<Longrightarrow> desk_sound (snd (persist_state t x))"
  by (simp add: desk_sound_def)

lemma seed_desk: "on_desk (seed_account t)" "books_nonneg (seed_account t)"
  by (auto simp: on_desk_def books_nonneg_def seed_account_def empty_book_def)

lemma desk_sound_orders:
  "desk_sound x \<Longrightarrow> ex_account y = ex_account x \<Longrightarrow> list_all order_sound (ex_orders y) \<Longrightarrow> desk_sound y"
  by (simp add: desk_sound_def)

fun sane_call :: "exchange_call \<Rightarrow> bool" where
  "sane_call (Submit r i) = sane_intent i"
| "sane_call c = True"

lemma closes_sound: "order_sound a \<Longrightarrow> closes a b \<Longrightarrow> order_sound b"
  unfolding closes_def by (auto intro: closed_order_sound)

lemma list_all_rel2: "list_all P xs \<Longrightarrow> list_all2 R xs ys \<Longrightarrow> (\<And>a b. P a \<Longrightarrow> R a b \<Longrightarrow> P b) \<Longrightarrow> list_all P ys"
  by (auto simp: list_all2_conv_all_nth list_all_length)

lemma call_sound:
  assumes x: "desk_sound x" and m: "logs_ok x" and c: "sane_call c"
  shows "desk_sound (after_call clk c x)"
proof -
  have n: "well_numbered ''paper-order-'' po_order_id (ex_orders x)" using m by (simp add: logs_ok_def)
  have orders: "list_all order_sound (ex_orders x)" using x by (simp add: desk_sound_def)
  show ?thesis
  proof (cases c)
    case (Submit r i)
    let ?now = "reference_now clk r"
    note e = submit_order_effect(1,2) [where x = x and clk = clk and reference = r and i = i]
    have "gate_opens x i ?now \<Longrightarrow> sized i"
      using gate_sized [of x i ?now] x c Submit by (simp add: desk_sound_def)
    then have "list_all order_sound (ex_orders (snd (submit_order clk r i x)))"
      using e(2) orders new_order_sound [of i ?now "ex_orders x"]
      by (auto simp: append_order_def split: if_splits)
    with e(1) x Submit show ?thesis by (simp add: desk_sound_def same_desk_def)
  next
    case (Process r)
    show ?thesis
      unfolding Process after_call.simps
      by (rule process_open_orders_invariant [where P = desk_sound])
        (use x n in \<open>simp_all add: process_order_sound desk_sound_persist\<close>)
  next
    case (Expire k)
    with expire_order_effect [where x = x and clk = clk and k = k] list_all_rel2 [OF orders] closes_sound x
    show ?thesis by (auto simp: desk_sound_def same_desk_def)
  next
    case (Cancel k)
    with cancel_order_effect [OF n, where clk = clk and k = k] list_all_rel2 [OF orders] closes_sound x
    show ?thesis by (auto simp: desk_sound_def same_desk_def)
  next
    case Reset
    then show ?thesis by (simp add: desk_sound_def reset_effect seed_desk)
  next
    case Panic_Halt
    with x show ?thesis by (simp add: desk_sound_def panic_halt_effect)
  next
    case Panic_Cancel
    have "list_all order_sound (map (cancel_if_open (clk 0)) (ex_orders x))"
      using orders closes_sound [OF _ cancel_if_open_closes] by (auto simp: list_all_iff)
    with panic_cancel_effect [where x = x and clk = clk] Panic_Cancel x
    show ?thesis by (simp add: desk_sound_def same_desk_def)
  next
    case Panic_Flatten
    with panic_flatten_effect [where x = x and clk = clk] orders
    show ?thesis by (simp add: desk_sound_def seed_desk)
  qed
qed

lemma run_sound:
  assumes "new_exchange None gate store t = Inr x0" and "exchange_run cs x0 y" and "list_all sane_call cs"
  shows "desk_sound y"
proof -
  have "desk_sound x0" using assms(1)
    by (auto simp: new_exchange_def default_account_state_eq desk_sound_def seed_desk)
  with new_exchange_logs_ok [OF assms(1)] have "desk_sound x0 \<and> logs_ok x0" by simp
  with assms(2) have "desk_sound y \<and> logs_ok y"
    by (rule exchange_run_invariant)
      (use assms(3) in \<open>auto simp: list_all_iff intro: call_sound call_book(3)\<close>)
  then show ?thesis by simp
qed

section \<open>Properties\<close>

text \<open>
  C3: Fills add up and never exceed the order. On a desk that starts from the default account, in every
  state its calls can reach, each order has been filled by exactly the sum of its fills, all of them
  for its own symbol and side at its limit price; that sum stays between zero and the ordered
  quantity, and the status tells where it stands: NEW has no fill, PARTIALLY_FILLED some, FILLED all,
  and a canceled or expired order was not completely filled. Books and notionals never turn negative.
\<close>

theorem fills_add_up:
  assumes "new_exchange None gate store t = Inr x0" and "exchange_run cs x0 y" and "list_all sane_call cs"
    and "a \<in> set (ex_orders y)"
  defines "filled \<equiv> dval (po_filled_quantity a)" and "ordered \<equiv> dval (it_quantity (po_intent a))"
  shows "filled = (\<Sum>f\<leftarrow>po_fills a. dval (fl_quantity f)) \<and> 0 \<le> filled \<and> filled \<le> ordered
    \<and> (\<forall>f \<in> set (po_fills a). fl_order_id f = po_order_id a \<and> fl_symbol f = it_symbol (po_intent a)
         \<and> fl_price f = it_limit_price (po_intent a) \<and> 0 < dval (fl_quantity f))
    \<and> (po_status a = ST_NEW \<longrightarrow> filled = 0)
    \<and> (po_status a = ST_PARTIALLY_FILLED \<longrightarrow> 0 < filled \<and> filled < ordered)
    \<and> (po_status a = ST_FILLED \<longleftrightarrow> filled = ordered)
    \<and> (\<forall>b \<in> set (ac_position_books (ex_account y)). 0 \<le> dval (pb_quantity b) \<and> 0 \<le> dval (pb_notional b))"
proof -
  have y: "desk_sound y" by (rule run_sound [OF assms(1-3)])
  then have a: "order_sound a" using assms(4) by (auto simp: desk_sound_def list_all_iff)
  then have q: "0 < ordered" by (simp add: order_sound_def sized_def ordered_def)
  have fills: "\<forall>f \<in> set (po_fills a). fill_of a f" using a by (simp add: order_sound_def list_all_iff)
  from a q have s: "filled = (\<Sum>f\<leftarrow>po_fills a. dval (fl_quantity f)) \<and> 0 \<le> filled \<and> filled \<le> ordered
    \<and> (po_status a = ST_NEW \<longrightarrow> filled = 0)
    \<and> (po_status a = ST_PARTIALLY_FILLED \<longrightarrow> 0 < filled \<and> filled < ordered)
    \<and> (po_status a = ST_FILLED \<longleftrightarrow> filled = ordered)"
    by (auto simp: order_sound_def filled_value_def filled_def ordered_def split: order_status.splits)
  show ?thesis using s fills y by (auto simp: fill_of_def desk_sound_def books_nonneg_def)
qed

lemma sample_sane: "sane_intent sample_intent"
  by code_simp

theorem fills_add_up_witness:
  "\<exists>y a. exchange_run [Submit (Some (Aware 0)) sample_intent, Process (Some (Aware 0))] demo_exchange y
     \<and> a \<in> set (ex_orders y) \<and> dval (po_filled_quantity a) = (\<Sum>f\<leftarrow>po_fills a. dval (fl_quantity f))"
proof -
  let ?c = "Submit (Some (Aware 0)) sample_intent" and ?d = "Process (Some (Aware 0))"
  define x where "x = after_call demo_clock ?c demo_exchange"
  define y where "y = after_call demo_clock ?d x"
  have run: "exchange_run [?c, ?d] demo_exchange y"
    unfolding x_def y_def
    by (rule run_Cons [OF call, where cs = "[?d]", OF run_Cons [OF call, OF run_Nil]])
  have "ex_orders x = append_order (sample_intent, Aware 0) []"
    using submit_order_effect(2) [where x = demo_exchange and clk = demo_clock
        and reference = "Some (Aware 0)" and i = sample_intent] demo_gate_opens
    by (simp add: x_def reference_now_def demo_exchange_def)
  then have "length (ex_orders x) = 1" by (simp add: append_order_def)
  moreover have "logs_ok x"
    unfolding x_def by (rule call_book(3)) (rule new_exchange_logs_ok [OF demo_exchange_new])
  ultimately have "length (ex_orders y) = 1"
    using list_all2_lengthD [OF process_open_orders_effect(2) [of x demo_clock "Some (Aware 0)"]]
    by (simp add: y_def logs_ok_def)
  then obtain a where a: "a \<in> set (ex_orders y)" by (cases "ex_orders y") auto
  have "list_all sane_call [?c, ?d]" by (simp add: sample_sane)
  from fills_add_up [OF demo_exchange_new run this a] run a show ?thesis by blast
qed

end
