(* ===== verification/Exchange_Liveness.thy ===== *)
theory Exchange_Liveness
  imports Exchange_Fills
begin

text \<open>
  Progress of the paper exchange: on the seeded quotes every order has a fill probability of at least
  a quarter, so the first matching pass fills at least half of a fresh order and the second one the
  rest; no arithmetic error can stop it while the amounts of the account are within bounds.
\<close>

section \<open>The queue always moves\<close>

text \<open>The imbalance bonus on the seeded book sizes, and what it leaves of each base probability.\<close>

definition queue_bonus :: "bool \<Rightarrow> decimal \<Rightarrow> decimal \<Rightarrow> decimal res" where
  "queue_bonus buy bid ask = bind_res (if buy then dsub ask bid else dsub bid ask) (\<lambda>gap.
     bind_res (dadd bid ask) (\<lambda>depth.
     bind_res (ddiv gap depth) (\<lambda>imbalance_bonus. dmul imbalance_bonus (Dec 15 (- 2)))))"

definition capped :: "decimal \<Rightarrow> decimal \<Rightarrow> decimal res" where
  "capped bonus base = bind_res (dadd base bonus) (\<lambda>probability.
     bind_res (dmax (Dec 5 (- 2)) probability) (\<lambda>floored. dmin (Dec 95 (- 2)) floored))"

definition likely :: "decimal \<Rightarrow> bool" where
  "likely bonus = list_all (\<lambda>base. case capped bonus base of Inl _ \<Rightarrow> False
     | Inr p \<Rightarrow> is_finite p \<and> dle (Dec 25 (- 2)) p = Inr True) [Dec 78 (- 2), Dec 58 (- 2), Dec 32 (- 2)]"

lemma bonus_btc_buy: "queue_bonus True (Dec 42 (- 1)) (Dec 38 (- 1)) = Inr (Dec (- 75) (- 4))"
  by code_simp

lemma bonus_btc_sell: "queue_bonus False (Dec 42 (- 1)) (Dec 38 (- 1)) = Inr (Dec 75 (- 4))"
  by code_simp

lemma bonus_eth_buy:
  "queue_bonus True (Dec 90 0) (Dec 84 0) = Inr (Dec (- 5172413793103448275862068965) (- 30))"
  by code_simp

lemma bonus_eth_sell:
  "queue_bonus False (Dec 90 0) (Dec 84 0) = Inr (Dec 5172413793103448275862068965 (- 30))"
  by code_simp

lemma likely_btc_buy: "likely (Dec (- 75) (- 4))" by code_simp
lemma likely_btc_sell: "likely (Dec 75 (- 4))" by code_simp
lemma likely_eth_buy: "likely (Dec (- 5172413793103448275862068965) (- 30))" by code_simp
lemma likely_eth_sell: "likely (Dec 5172413793103448275862068965 (- 30))" by code_simp

lemma likely_base:
  "likely b \<Longrightarrow> base \<in> {Dec 78 (- 2), Dec 58 (- 2), Dec 32 (- 2)} \<Longrightarrow>
   \<exists>p. capped b base = Inr p \<and> is_finite p \<and> dle (Dec 25 (- 2)) p = Inr True"
  by (auto simp: likely_def split: sum.splits)

lemma queue_base_total:
  "inside = Inr x \<Longrightarrow> touch = Inr y \<Longrightarrow>
   \<exists>base. queue_base inside touch = Inr base \<and> base \<in> {Dec 78 (- 2), Dec 58 (- 2), Dec 32 (- 2)}"
  by (simp add: queue_base_def)

lemma queue_probability_split:
  "queue_fill_probability i q =
     bind_res (if it_side i = SD_BUY
       then queue_base (dgt (it_limit_price i) (qt_best_bid q)) (deq (it_limit_price i) (qt_best_bid q))
       else queue_base (dlt (it_limit_price i) (qt_best_ask q)) (deq (it_limit_price i) (qt_best_ask q)))
     (\<lambda>base. bind_res (queue_bonus (it_side i = SD_BUY) (qt_bid_size q) (qt_ask_size q))
     (\<lambda>bonus. capped bonus base))"
  by (simp add: queue_fill_probability_def queue_bonus_def capped_def bind_res_assoc)

lemma queue_likely:
  assumes q: "quote_for_symbol s now = Some q" and p: "is_finite (it_limit_price i)"
  shows "\<exists>p. queue_fill_probability i q = Inr p \<and> is_finite p \<and> dle (Dec 25 (- 2)) p = Inr True"
proof -
  have "q \<in> set (map snd (default_quotes now))"
    using q by (auto simp: quote_for_symbol_def dest!: map_of_SomeD intro: rev_image_eqI)
  then have fin: "is_finite (qt_best_bid q)" "is_finite (qt_best_ask q)"
    and sizes: "qt_bid_size q = Dec 42 (- 1) \<and> qt_ask_size q = Dec 38 (- 1)
      \<or> qt_bid_size q = Dec 90 0 \<and> qt_ask_size q = Dec 84 0"
    by (auto simp: default_quotes_def)
  obtain base where base: "(if it_side i = SD_BUY
       then queue_base (dgt (it_limit_price i) (qt_best_bid q)) (deq (it_limit_price i) (qt_best_bid q))
       else queue_base (dlt (it_limit_price i) (qt_best_ask q)) (deq (it_limit_price i) (qt_best_ask q)))
      = Inr base" "base \<in> {Dec 78 (- 2), Dec 58 (- 2), Dec 32 (- 2)}"
    using queue_base_total [OF dlt_val deq_val, OF fin(1) p p fin(1)]
      queue_base_total [OF dlt_val deq_val, OF p fin(2) p fin(2)]
    by (cases "it_side i = SD_BUY") auto
  have "\<exists>b. queue_bonus (it_side i = SD_BUY) (qt_bid_size q) (qt_ask_size q) = Inr b \<and> likely b"
    using sizes bonus_btc_buy bonus_btc_sell bonus_eth_buy bonus_eth_sell
      likely_btc_buy likely_btc_sell likely_eth_buy likely_eth_sell
    by (cases "it_side i = SD_BUY") (elim disjE conjE; simp)+
  then obtain b where b: "queue_bonus (it_side i = SD_BUY) (qt_bid_size q) (qt_ask_size q) = Inr b" "likely b"
    by blast
  have "queue_fill_probability i q = capped b base"
    by (simp only: queue_probability_split base(1) b(1) bind_res_Inr)
  with likely_base [OF b(2) base(2)] show ?thesis by simp
qed

section \<open>Settlement cannot fail on bounded accounts\<close>

definition tame :: "int \<Rightarrow> account_state \<Rightarrow> bool" where
  "tame n a \<longleftrightarrow> (\<forall>b \<in> set (ac_position_books a). sized_within n (pb_quantity b)
       \<and> 0 \<le> dval (pb_quantity b) \<and> sized_within n (pb_entry_price b))
     \<and> (\<forall>c \<in> set (ac_collateral_assets a). sized_within n (ca_wallet_balance c) \<and> sized_within n (ca_available_balance c))"

definition tame_fill :: "paper_fill \<Rightarrow> bool" where
  "tame_fill f \<longleftrightarrow> sized_within 7 (fl_quantity f) \<and> 10 powi (- 4) \<le> dval (fl_quantity f)
     \<and> sized_within 8 (fl_price f) \<and> sized_within 15 (fl_fee f)"

lemma updated_book_total:
  assumes q: "sized_within n (pb_quantity b)" "0 \<le> dval (pb_quantity b)" and e: "sized_within n (pb_entry_price b)"
    and f: "tame_fill f" and n: "15 \<le> n" "n \<le> 100000"
  shows "\<exists>b'. updated_book f b = Inr b' \<and> sized_within (3 * n) (pb_quantity b') \<and> 0 \<le> dval (pb_quantity b')
    \<and> sized_within (3 * n) (pb_entry_price b')"
proof (cases "pb_symbol b \<noteq> fl_symbol f \<or> pb_side b \<noteq> fl_book_side f")
  case True
  with q e n show ?thesis by (auto simp: updated_book_def intro: sized_within_mono)
next
  case key: False
  have fq: "sized_within n (fl_quantity f)" and fp: "sized_within n (fl_price f)" and lo: "10 powi (- 4) \<le> dval (fl_quantity f)"
    using f n by (auto simp: tame_fill_def intro: sized_within_mono)
  have fq0: "0 \<le> dval (fl_quantity f)" using lo p10_pos [of "- 4"] by linarith
  show ?thesis
  proof (cases "book_is_increase f")
    case True
    from sized_within_add [OF q(1) fq] n obtain Q where Q: "dadd (pb_quantity b) (fl_quantity f) = Inr Q"
      "sized_within (n + 1) Q" by auto
    have tiny: "Etiny \<le> - 4" by (simp add: Etiny_def)
    have fin: "is_finite (pb_quantity b)" "is_finite (fl_quantity f)" "is_finite Q"
      using q fq Q(2) by (simp_all add: sized_within_def)
    have "10 powi (- 4) \<le> dval (pb_quantity b) + dval (fl_quantity f)" using q(2) lo by linarith
    from dadd_nonneg(2) [OF fin(1,2) q(2) fq0 Q(1) tiny this] have Qlo: "10 powi (- 4) \<le> dval Q" .
    then have Qpos: "0 < dval Q" using p10_pos [of "- 4"] by linarith
    from sized_within_mul [OF q(1) e] n obtain c1 where c1:
      "dmul (pb_quantity b) (pb_entry_price b) = Inr c1" "sized_within (n + n) c1" by auto
    from sized_within_mul [OF fq fp] n obtain c2 where c2:
      "dmul (fl_quantity f) (fl_price f) = Inr c2" "sized_within (n + n) c2" by auto
    from sized_within_add [OF c1(2) c2(2)] n obtain c where c: "dadd c1 c2 = Inr c" "sized_within (n + n + 1) c" by auto
    from sized_within_div [OF c(2) fin(3) Qlo] n obtain p where p: "ddiv c Q = Inr p" "sized_within (n + n + 1 + 4) p"
      by auto
    from sized_within_mul [OF Q(2) fp] n obtain N where N: "dmul Q (fl_price f) = Inr N" by auto
    have "dgt Q d0 = Inr True" using fin(3) Qpos by (simp add: dec_simps)
    with key True Q(1) c1(1) c2(1) c(1) p(1) N have "updated_book f b = Inr (b\<lparr>pb_quantity := Q,
        pb_entry_price := p, pb_mark_price := fl_price f, pb_notional := N, pb_unrealized_pnl := d0\<rparr>)"
      by (simp add: updated_book_def)
    moreover have "sized_within (3 * n) Q" "sized_within (3 * n) p"
      using n by (auto intro: sized_within_mono [OF Q(2)] sized_within_mono [OF p(2)])
    ultimately show ?thesis using Qpos by simp
  next
    case False
    from sized_within_sub [OF q(1) fq] n obtain r where r: "dsub (pb_quantity b) (fl_quantity f) = Inr r"
      "sized_within (n + 1) r" by auto
    define Q where "Q = (if dval d0 < dval r then r else d0)"
    have Q: "dmax d0 r = Inr Q" "sized_within (n + 1) Q" "0 \<le> dval Q"
      using r(2) by (auto simp: Q_def dmax_val sized_within_def)
    from sized_within_mul [OF Q(2) fp] n obtain N where N: "dmul Q (fl_price f) = Inr N" by auto
    have "dgt Q d0 = Inr (0 < dval Q)" using Q(2) by (simp add: dec_simps sized_within_def)
    with key False r(1) Q(1) N have "updated_book f b = Inr (b\<lparr>pb_quantity := Q,
        pb_entry_price := (if 0 < dval Q then pb_entry_price b else d0),
        pb_mark_price := fl_price f, pb_notional := N, pb_unrealized_pnl := d0\<rparr>)"
      by (simp add: updated_book_def)
    moreover have "sized_within (3 * n) Q" "sized_within (3 * n) (pb_entry_price b)"
      using n by (auto intro: sized_within_mono [OF Q(2)] sized_within_mono [OF e])
    ultimately show ?thesis using Q(3) by simp
  qed
qed

lemma settle_total:
  assumes a: "tame n a" and f: "tame_fill f" and n: "15 \<le> n" "n \<le> 100000"
  shows "\<exists>a'. apply_paper_fill a f = Inr a' \<and> tame (3 * n) a'"
proof -
  have ok: "\<exists>b'. updated_book f b = Inr b' \<and> sized_within (3 * n) (pb_quantity b') \<and> 0 \<le> dval (pb_quantity b')
      \<and> sized_within (3 * n) (pb_entry_price b')" if "b \<in> set (ac_position_books a)" for b
    using a that by (intro updated_book_total [OF _ _ _ f n]) (simp_all add: tame_def)
  then obtain books where books: "mapM_res (updated_book f) (ac_position_books a) = Inr books"
    using mapM_res_total [of "ac_position_books a" "updated_book f"] by blast
  have tame_books: "\<forall>b \<in> set books. sized_within (3 * n) (pb_quantity b) \<and> 0 \<le> dval (pb_quantity b)
      \<and> sized_within (3 * n) (pb_entry_price b)"
  proof
    fix b assume "b \<in> set books"
    then obtain i where i: "i < length books" "b = books ! i" by (metis in_set_conv_nth)
    have len: "i < length (ac_position_books a)" using i mapM_res_length [OF books] by simp
    from ok [OF nth_mem [OF len]] mapM_res_nth [OF books len] i(2)
    show "sized_within (3 * n) (pb_quantity b) \<and> 0 \<le> dval (pb_quantity b) \<and> sized_within (3 * n) (pb_entry_price b)"
      by auto
  qed
  have fee: "sized_within n (fl_fee f)" using f n by (auto simp: tame_fill_def intro: sized_within_mono)
  have "\<exists>cs. (case ac_collateral_assets a of [] \<Rightarrow> Inr []
      | c # cs \<Rightarrow> bind_res (debit_fee (fl_fee f) c) (\<lambda>c'. Inr (c' # cs))) = Inr cs
      \<and> (\<forall>c \<in> set cs. sized_within (3 * n) (ca_wallet_balance c) \<and> sized_within (3 * n) (ca_available_balance c))"
  proof (cases "ac_collateral_assets a")
    case (Cons c cs)
    have c: "sized_within n (ca_wallet_balance c)" "sized_within n (ca_available_balance c)"
      and cs: "\<forall>c \<in> set cs. sized_within n (ca_wallet_balance c) \<and> sized_within n (ca_available_balance c)"
      using a Cons by (simp_all add: tame_def)
    from sized_within_sub [OF c(1) fee] n obtain w where w: "dsub (ca_wallet_balance c) (fl_fee f) = Inr w"
      "sized_within (n + 1) w" by auto
    from sized_within_sub [OF c(2) fee] n obtain v where v: "dsub (ca_available_balance c) (fl_fee f) = Inr v"
      "sized_within (n + 1) v" by auto
    have "n \<le> 3 * n" "n + 1 \<le> 3 * n" using n by auto
    then show ?thesis
      using Cons w v cs by (auto simp: debit_fee_def intro: sized_within_mono)
  qed simp
  with books tame_books show ?thesis by (auto simp: apply_paper_fill_def tame_def)
qed

lemma seed_tame: "tame 15 (seed_account t)"
  by (auto simp: tame_def seed_account_def empty_book_def sized_within_def)

section \<open>One turn of a lone order\<close>

lemma sized_price:
  assumes "sized i"
  shows "sized_within 7 (it_quantity i)" "sized_within 8 (it_limit_price i)"
proof -
  let ?q = "dval (it_quantity i)" and ?p = "dval (it_limit_price i)"
  have pos: "0 < ?q" "0 < ?p" and qp: "?q * ?p < 100000" and fin: "is_finite (it_quantity i)" "is_finite (it_limit_price i)"
    and grid: "on_grid 3 ?q" "on_grid 2 ?p"
    using assms by (simp_all add: sized_def)
  have "1 / 1000 \<le> ?q" using on_grid_pos_ge [OF grid(1) pos(1)] by (simp add: power_int_minus)
  from mult_right_mono [OF this less_imp_le [OF pos(2)]] qp have p: "?p < 100000000" by simp
  have "1 / 100 \<le> ?p" using on_grid_pos_ge [OF grid(2) pos(2)] by (simp add: power_int_minus)
  from mult_left_mono [OF this less_imp_le [OF pos(1)]] qp have q: "?q < 10000000" by simp
  show "sized_within 7 (it_quantity i)" "sized_within 8 (it_limit_price i)"
    using p q pos fin by (simp_all add: sized_within_def)
qed

lemma desk_fee: "on_desk a \<Longrightarrow> fee_for a s = Some p \<Longrightarrow> sized_within 0 (fe_maker_fee_rate p)"
proof -
  assume d: "on_desk a" and p: "fee_for a s = Some p"
  obtain t where t: "ac_fee_policies a = default_fee_policies t" using d by (auto simp: on_desk_def)
  have "p \<in> set (default_fee_policies t)" using p by (auto simp: fee_for_def t find_Some_iff)
  then show ?thesis
    by (auto simp: default_fee_policies_def default_fee_policy_def sized_within_def power_int_minus)
qed

lemma open_remaining:
  assumes "order_sound a" "is_open (po_status a)"
  shows "\<exists>r. remaining_quantity a = Inr r \<and> is_finite r \<and> on_grid 4 (dval r) \<and> 0 < dval r
    \<and> dval r = dval (it_quantity (po_intent a)) - dval (po_filled_quantity a)"
proof -
  have "dval (po_filled_quantity a) < dval (it_quantity (po_intent a))"
    using assms by (auto simp: order_sound_def is_open_def sized_def split: order_status.splits)
  with remaining_exact [OF assms(1)] show ?thesis by auto
qed

lemma fill_plan_total:
  assumes a: "order_sound a" "is_open (po_status a)" and q: "is_finite q" "on_grid 4 (dval q)" "0 < dval q"
    and desk: "on_desk (ex_account x)"
  shows "\<exists>fill u full. fill_plan x a q t = Inr (Some (fill, u, full)) \<and> tame_fill fill
    \<and> (remaining_quantity a = Inr q \<longrightarrow> full)"
proof -
  let ?i = "po_intent a"
  have s: "sized ?i" and f: "is_finite (po_filled_quantity a)" "on_grid 4 (dval (po_filled_quantity a))"
    "0 \<le> dval (po_filled_quantity a)" using a(1) by (simp_all add: order_sound_def)
  note qp = sized_price [OF s]
  have n: "is_finite (it_quantity ?i)" using s by (simp add: sized_def)
  from open_remaining [OF a] obtain r where r: "remaining_quantity a = Inr r" "is_finite r"
    "on_grid 4 (dval r)" "0 < dval r" "dval r = dval (it_quantity ?i) - dval (po_filled_quantity a)" by blast
  define v where "v = (if dval q < dval r then q else r)"
  have m: "dmin r q = Inr v" using r(2) q(1) by (simp add: dmin_val v_def)
  have v: "is_finite v" "on_grid 4 (dval v)" "0 < dval v" "dval v \<le> dval r"
    using r q by (simp_all add: v_def)
  have lo: "10 powi (- 4) \<le> dval v" by (rule on_grid_pos_ge [OF v(2,3)])
  have hi: "sized_within 7 v" using qp(1) v r(5) f(3) by (auto simp: sized_within_def)
  have nz: "dle v d0 = Inr False" using v by (simp add: dle_val)
  from sized_within_mul [OF hi qp(2)] obtain amount where am: "dmul v (it_limit_price ?i) = Inr amount"
    "sized_within (7 + 8) amount" by auto
  define rate where "rate = (case fee_for (ex_account x) (it_symbol ?i) of Some p \<Rightarrow> fe_maker_fee_rate p | None \<Rightarrow> d0)"
  have "sized_within 0 rate" using desk_fee [OF desk] by (auto simp: rate_def split: option.splits)
  from sized_within_mul [OF am(2) this] obtain fee where fee: "dmul amount rate = Inr fee"
    "sized_within (7 + 8 + 0) fee" by auto
  have g: "on_grid 4 (dval (po_filled_quantity a) + dval v)" using f(2) v(2) by (rule on_grid_add)
  have "representable (dval (po_filled_quantity a) + dval v)"
    using sized_quantity_small [OF s _ _ g] f(3) v r(5) by simp
  from dadd_exact [OF f(1) v(1) this] obtain w where w: "dadd (po_filled_quantity a) v = Inr w" "is_finite w"
    "dval w = dval (po_filled_quantity a) + dval v" by blast
  have full: "dge w (it_quantity ?i) = Inr (dval r \<le> dval v)"
    using w n r(5) by (auto simp: dle_val)
  have "remaining_quantity a = Inr q \<longrightarrow> dval r \<le> dval v" using r(1) by (auto simp: v_def)
  with full m nz am fee w(1) r(1) hi lo qp(2) show ?thesis
    by (simp add: fill_plan_def Let_def rate_def [symmetric] tame_fill_def)
qed

lemma fill_order_total:
  assumes a: "order_sound a" "is_open (po_status a)" and q: "is_finite q" "on_grid 4 (dval q)" "0 < dval q"
    and x: "ex_orders x = [a]" "on_desk (ex_account x)" "tame n (ex_account x)" and n: "15 \<le> n" "n \<le> 100000"
  shows "\<exists>u y. fill_order a q t x = (Inr u, y) \<and> ex_orders y = [u] \<and> ex_store y = ex_store x
    \<and> on_desk (ex_account y) \<and> tame (3 * n) (ex_account y) \<and> order_sound u \<and> po_intent u = po_intent a
    \<and> po_status u \<in> {ST_FILLED, ST_PARTIALLY_FILLED} \<and> (remaining_quantity a = Inr q \<longrightarrow> po_status u = ST_FILLED)"
proof -
  from fill_plan_total [OF a q x(2)] obtain fill u full where p: "fill_plan x a q t = Inr (Some (fill, u, full))"
    "tame_fill fill" "remaining_quantity a = Inr q \<longrightarrow> full" by blast
  from settle_total [OF x(3) p(2) n] obtain a' where s: "apply_paper_fill (ex_account x) fill = Inr a'"
    "tame (3 * n) a'" by blast
  note u = fill_plan_order [OF p(1) a(2)]
  have rep: "replace_by_id po_order_id (po_order_id a) u (ex_orders x) = [u]"
    by (simp add: x(1) replace_by_id_def)
  show ?thesis
    using p(1,3) s u settle_desk [OF s(1) x(2)] fill_plan_sound(1) [OF a(1) q(1,2) p(1)]
    by (auto simp: fill_order_plan Let_def rep evolves_def)
qed

lemma advance_order_total:
  assumes a: "order_sound a" "is_open (po_status a)"
    and p: "is_finite p" "dle (Dec 25 (- 2)) p = Inr True"
    and x: "ex_orders x = [a]" "on_desk (ex_account x)" "tame n (ex_account x)" and n: "15 \<le> n" "n \<le> 100000"
  shows "\<exists>u y. advance_order t a p x = (Inr u, y) \<and> ex_orders y = [u] \<and> ex_store y = ex_store x
    \<and> on_desk (ex_account y) \<and> tame (3 * n) (ex_account y) \<and> order_sound u \<and> po_intent u = po_intent a
    \<and> po_status u \<in> {ST_FILLED, ST_PARTIALLY_FILLED}
    \<and> (po_status a = ST_PARTIALLY_FILLED \<longrightarrow> po_status u = ST_FILLED)"
proof -
  from open_remaining [OF a] obtain r where r: "remaining_quantity a = Inr r" "is_finite r"
    "on_grid 4 (dval r)" "0 < dval r" by blast
  note fill = fill_order_total [OF a _ _ _ x n]
  have s: "sized (po_intent a)" using a(1) by (simp add: order_sound_def)
  show ?thesis
  proof (cases "dval (Dec 60 (- 2)) \<le> dval p \<or> po_status a = ST_PARTIALLY_FILLED")
    case True
    then have "advance_order t a p x = fill_order a r t x"
      using p(1) r(1) by (simp add: advance_order_def dle_val)
    with fill [OF r(2-4), of t] r(1) show ?thesis by auto
  next
    case False
    from half_exact [OF s] obtain h where h: "ddiv (it_quantity (po_intent a)) (Dec 2 0) = Inr h"
      "is_finite h" "on_grid 4 (dval h)" "dval h = dval (it_quantity (po_intent a)) / 2" by blast
    define v where "v = (if dval h < dval r then h else r)"
    have m: "dmin r h = Inr v" using r(2) h(2) by (simp add: dmin_val v_def)
    have v: "is_finite v" "on_grid 4 (dval v)" "0 < dval v"
      unfolding v_def using r h(2,3) s h(4) by (simp_all only: sized_def split: if_splits) auto
    have "advance_order t a p x = fill_order a v t x"
      using False p r(1) h(1) m by (simp add: advance_order_def dle_val)
    with fill [OF v, of t] False show ?thesis by auto
  qed
qed

lemma process_lone_order:
  assumes a: "order_sound a" "is_open (po_status a)" and q: "quote_for_symbol (it_symbol (po_intent a)) t = Some q"
    and x: "ex_orders x = [a]" "on_desk (ex_account x)" "tame n (ex_account x)" "ex_store x = None"
    and n: "15 \<le> n" "n \<le> 100000" and t: "t = reference_now clk reference"
  shows "\<exists>payload u y. process_open_orders clk reference x = (Inr payload, y) \<and> ex_orders y = [u]
    \<and> ex_store y = None \<and> on_desk (ex_account y) \<and> tame (3 * n) (ex_account y) \<and> order_sound u
    \<and> po_intent u = po_intent a \<and> po_status u \<in> {ST_FILLED, ST_PARTIALLY_FILLED}
    \<and> (po_status a = ST_PARTIALLY_FILLED \<longrightarrow> po_status u = ST_FILLED)"
proof -
  have "is_finite (it_limit_price (po_intent a))" using a(1) by (simp add: order_sound_def sized_def)
  from queue_likely [OF q this] obtain p where p: "queue_fill_probability (po_intent a) q = Inr p"
    "is_finite p" "dle (Dec 25 (- 2)) p = Inr True" by blast
  from advance_order_total [OF a p(2,3) x(1-3) n, of t] obtain u y where u:
    "advance_order t a p x = (Inr u, y)" "ex_orders y = [u]" "ex_store y = ex_store x"
    "on_desk (ex_account y)" "tame (3 * n) (ex_account y)" "order_sound u" "po_intent u = po_intent a"
    "po_status u \<in> {ST_FILLED, ST_PARTIALLY_FILLED}"
    "po_status a = ST_PARTIALLY_FILLED \<longrightarrow> po_status u = ST_FILLED" by blast
  from remaining_exact [OF u(6)] obtain r where "remaining_quantity u = Inr r" by blast
  then obtain e where e: "processed_entry u p = Inr e" by (simp add: processed_entry_def)
  have "process_order t a x = (Inr [e], y)"
    using a(2) q p(1) u(1) e by (simp add: process_order_def bind_act_run [of "advance_order t a p"] act_run)
  then have "process_open_orders clk reference x = (Inr [(''status'', JStr ''ok''),
      (''service'', JStr ''paper_exchange''), (''execution'', JStr ''paper_only''), (''processed'', JArr [e])], y)"
    using x(1,4) u(3) persist_without_store [of y "clk (readings_used reference)"]
    by (simp add: process_open_orders_def Let_def t [symmetric] bind_act_Inr act_run)
  with u x(4) show ?thesis by auto
qed

lemma pass_over_closed:
  assumes "ex_orders x = [a]" "\<not> is_open (po_status a)" "ex_store x = None"
  shows "\<exists>p. process_open_orders clk reference x = (Inr p, x)"
  using assms persist_without_store [of x]
  by (simp add: process_open_orders_def process_order_def Let_def bind_act_Inr act_run)

lemma quote_any_time:
  "quote_for_symbol s t = Some q \<Longrightarrow> \<exists>q. quote_for_symbol s t' = Some q"
  by (auto simp: quote_for_symbol_def default_quotes_def split: if_splits)

lemma submit_store:
  assumes "submit_order clk reference i x = (r, y)" and "ex_store x = None"
  shows "ex_store y = None"
  using assms
  by (auto simp: submit_order_gate Let_def accept_order_def reject_order_def persist_without_store
      bind_act_run [of "persist_state _"] act_run split: sum.splits prod.splits option.splits if_splits)

section \<open>Properties\<close>

text \<open>
  C4: Progress. An order accepted as the first of a fresh default desk is completely filled after two
  passes of the matching loop, whenever and with whatever clocks they run: both passes return, and
  after the second the order is FILLED with exactly its quantity. Nothing but the passes is needed.
\<close>

theorem accepted_order_gets_filled:
  assumes "new_exchange None gate None t = Inr x0" and "submit_order clk reference i x0 = (Inr s, x)"
    and "sr_accepted s" and "sane_intent i"
  shows "\<exists>p y p' z a. process_open_orders clk1 reference1 x = (Inr p, y)
    \<and> process_open_orders clk2 reference2 y = (Inr p', z)
    \<and> ex_orders z = [a] \<and> po_intent a = i \<and> po_status a = ST_FILLED
    \<and> dval (po_filled_quantity a) = dval (it_quantity i)
    \<and> (\<Sum>f\<leftarrow>po_fills a. dval (fl_quantity f)) = dval (it_quantity i)"
proof -
  let ?now = "reference_now clk reference" and ?t1 = "reference_now clk1 reference1"
  have x0: "ex_account x0 = seed_account t" "ex_orders x0 = []" "ex_store x0 = None"
    using assms(1) by (auto simp: new_exchange_def default_account_state_eq)
  have g: "gate_opens x0 i ?now" using submit_accepted [OF assms(2)] assms(3) by simp
  have x: "ex_account x = seed_account t" "ex_orders x = append_order (i, ?now) []"
    using submit_order_effect(1,2) [where x = x0 and clk = clk and reference = reference and i = i]
      assms(2) g x0 by (simp_all add: same_desk_def)
  have store: "ex_store x = None" using submit_store [OF assms(2) x0(3)] .
  have "sized i" by (rule gate_sized [OF g assms(4)]) (simp_all add: x0 seed_desk)
  from new_order_sound [OF this, of ?now "[]"] obtain a where a: "ex_orders x = [a]" "order_sound a"
    "po_intent a = i" "po_status a = ST_NEW" using x(2) by (simp add: append_order_def)
  obtain q where "quote_for_symbol (it_symbol i) ?now = Some q"
    using gate_opens_requires(1) [OF g] by (auto simp: order_fits_def)
  then have quote: "\<exists>q. quote_for_symbol (it_symbol i) t' = Some q" for t' by (rule quote_any_time)
  have desk: "on_desk (ex_account x)" "tame 15 (ex_account x)" by (simp_all add: x seed_desk seed_tame)
  have opened: "is_open (po_status a)" using a(4) by (simp add: is_open_def)
  obtain q1 where q1: "quote_for_symbol (it_symbol (po_intent a)) ?t1 = Some q1" using quote a(3) by blast
  from process_lone_order [OF a(2) opened q1 a(1) desk store _ _ refl]
  obtain p u y where y: "process_open_orders clk1 reference1 x = (Inr p, y)" "ex_orders y = [u]"
    "ex_store y = None" "on_desk (ex_account y)" "tame (3 * 15) (ex_account y)" "order_sound u"
    "po_intent u = i" "po_status u \<in> {ST_FILLED, ST_PARTIALLY_FILLED}" using a(3) by auto
  have "\<exists>p' z a. process_open_orders clk2 reference2 y = (Inr p', z) \<and> ex_orders z = [a]
      \<and> po_intent a = i \<and> po_status a = ST_FILLED \<and> order_sound a"
  proof (cases "po_status u = ST_FILLED")
    case True
    then show ?thesis using pass_over_closed [OF y(2) _ y(3), of clk2 reference2] y(2,6,7)
      by (auto simp: is_open_def)
  next
    case False
    then have "is_open (po_status u)" "po_status u = ST_PARTIALLY_FILLED" using y(8) by (auto simp: is_open_def)
    note u = this
    obtain q2 where q2: "quote_for_symbol (it_symbol (po_intent u)) (reference_now clk2 reference2) = Some q2"
      using quote y(7) by blast
    from process_lone_order [OF y(6) u(1) q2 y(2,4,5,3) _ _ refl] u(2) y(7) show ?thesis by auto
  qed
  then obtain p' z b where z: "process_open_orders clk2 reference2 y = (Inr p', z)" "ex_orders z = [b]"
    "po_intent b = i" "po_status b = ST_FILLED" "order_sound b" by blast
  have "dval (po_filled_quantity b) = dval (it_quantity i) \<and> filled_value b = dval (it_quantity i)"
    using z(3-5) by (auto simp: order_sound_def)
  with y(1) z show ?thesis by (auto simp: filled_value_def)
qed

theorem accepted_order_gets_filled_witness:
  "\<exists>s x p y p' z. submit_order demo_clock (Some (Aware 0)) sample_intent demo_exchange = (Inr s, x)
     \<and> process_open_orders demo_clock None x = (Inr p, y) \<and> process_open_orders demo_clock None y = (Inr p', z)
     \<and> map po_status (ex_orders z) = [ST_FILLED]"
proof -
  obtain s x where 1: "submit_order demo_clock (Some (Aware 0)) sample_intent demo_exchange = (Inr s, x)"
    and 2: "sr_accepted s" using demo_submit by blast
  from accepted_order_gets_filled [OF demo_exchange_new 1 2 sample_sane, of demo_clock None demo_clock None]
  obtain p y p' z a where "process_open_orders demo_clock None x = (Inr p, y)"
    "process_open_orders demo_clock None y = (Inr p', z)" "ex_orders z = [a]" "po_status a = ST_FILLED" by blast
  with 1 show ?thesis by auto
qed

end
