(* ===== verification/Sha256.thy ===== *)
theory Sha256
  imports Json_Value "HOL-Library.Word"
begin

text \<open>
  SHA-256 of the standard library's \<open>hashlib\<close>, on the bytes of an ASCII text, as the audit records
  use it for their fingerprints, and the HMAC on top of it: padding to blocks of 64 bytes, the message schedule, the 64 rounds,
  and the digest in hexadecimal.
\<close>

unbundle bit_operations_syntax

type_synonym w32 = "32 word"

definition round_constants :: "w32 list" where
  "round_constants =
    [0x428A2F98, 0x71374491, 0xB5C0FBCF, 0xE9B5DBA5, 0x3956C25B, 0x59F111F1,
     0x923F82A4, 0xAB1C5ED5, 0xD807AA98, 0x12835B01, 0x243185BE, 0x550C7DC3,
     0x72BE5D74, 0x80DEB1FE, 0x9BDC06A7, 0xC19BF174, 0xE49B69C1, 0xEFBE4786,
     0x0FC19DC6, 0x240CA1CC, 0x2DE92C6F, 0x4A7484AA, 0x5CB0A9DC, 0x76F988DA,
     0x983E5152, 0xA831C66D, 0xB00327C8, 0xBF597FC7, 0xC6E00BF3, 0xD5A79147,
     0x06CA6351, 0x14292967, 0x27B70A85, 0x2E1B2138, 0x4D2C6DFC, 0x53380D13,
     0x650A7354, 0x766A0ABB, 0x81C2C92E, 0x92722C85, 0xA2BFE8A1, 0xA81A664B,
     0xC24B8B70, 0xC76C51A3, 0xD192E819, 0xD6990624, 0xF40E3585, 0x106AA070,
     0x19A4C116, 0x1E376C08, 0x2748774C, 0x34B0BCB5, 0x391C0CB3, 0x4ED8AA4A,
     0x5B9CCA4F, 0x682E6FF3, 0x748F82EE, 0x78A5636F, 0x84C87814, 0x8CC70208,
     0x90BEFFFA, 0xA4506CEB, 0xBEF9A3F7, 0xC67178F2]"

definition initial_state :: "w32 list" where
  "initial_state =
    [0x6A09E667, 0xBB67AE85, 0x3C6EF372, 0xA54FF53A, 0x510E527F, 0x9B05688C,
     0x1F83D9AB, 0x5BE0CD19]"

text \<open>Bytes are integers below 256; a length is written in eight of them, the highest first.\<close>

definition big_endian :: "nat \<Rightarrow> int \<Rightarrow> int list" where
  "big_endian n v = map (\<lambda>i. v div 256 ^ (n - Suc i) mod 256) [0..<n]"

definition sha_pad :: "int list \<Rightarrow> int list" where
  "sha_pad m = m @ [128] @ replicate (nat ((55 - int (length m)) mod 64)) 0
     @ big_endian 8 (8 * int (length m))"

fun be_words :: "int list \<Rightarrow> w32 list" where
  "be_words (a # b # c # d # bs) =
     word_of_int (((a * 256 + b) * 256 + c) * 256 + d) # be_words bs"
| "be_words _ = []"

definition small_sigma0 :: "w32 \<Rightarrow> w32" where
  "small_sigma0 x = (word_rotr 7 x XOR word_rotr 18 x) XOR drop_bit 3 x"

definition small_sigma1 :: "w32 \<Rightarrow> w32" where
  "small_sigma1 x = (word_rotr 17 x XOR word_rotr 19 x) XOR drop_bit 10 x"

definition big_sigma0 :: "w32 \<Rightarrow> w32" where
  "big_sigma0 x = (word_rotr 2 x XOR word_rotr 13 x) XOR word_rotr 22 x"

definition big_sigma1 :: "w32 \<Rightarrow> w32" where
  "big_sigma1 x = (word_rotr 6 x XOR word_rotr 11 x) XOR word_rotr 25 x"

fun schedule :: "nat \<Rightarrow> w32 list \<Rightarrow> w32 list" where
  "schedule 0 ws = ws"
| "schedule (Suc n) ws =
     (let t = length ws
      in schedule n (ws @ [small_sigma1 (ws ! (t - 2)) + ws ! (t - 7)
                           + small_sigma0 (ws ! (t - 15)) + ws ! (t - 16)]))"

fun sha_round :: "w32 list \<Rightarrow> w32 \<times> w32 \<Rightarrow> w32 list" where
  "sha_round [a, b, c, d, e, f, g, h] (k, w) =
     (let t1 = h + big_sigma1 e + ((e AND f) XOR (NOT e AND g)) + k + w;
          t2 = big_sigma0 a + (((a AND b) XOR (a AND c)) XOR (b AND c))
      in [t1 + t2, a, b, c, d + t1, e, f, g])"
| "sha_round s _ = s"

definition sha_block :: "w32 list \<Rightarrow> w32 list \<Rightarrow> w32 list" where
  "sha_block s ws = map2 (+) s (foldl sha_round s (zip round_constants (schedule 48 ws)))"

fun sha_blocks :: "nat \<Rightarrow> w32 list \<Rightarrow> w32 list \<Rightarrow> w32 list" where
  "sha_blocks 0 s ws = s"
| "sha_blocks (Suc n) s ws = sha_blocks n (sha_block s (take 16 ws)) (drop 16 ws)"

definition hex_word :: "w32 \<Rightarrow> string" where
  "hex_word w = map (\<lambda>i. hex_digit (uint w div 16 ^ (7 - i) mod 16)) [0..<8]"

definition sha_words :: "int list \<Rightarrow> w32 list" where
  "sha_words m = (let ws = be_words (sha_pad m) in sha_blocks (length ws div 16) initial_state ws)"

definition sha256_hex :: "string \<Rightarrow> string" where
  "sha256_hex s = concat (map hex_word (sha_words (map of_char s)))"

text \<open>
  \<open>hmac.new(key, message, hashlib.sha256).hexdigest()\<close>: the key, hashed when it is longer than a
  block, is padded with zeros to 64 bytes and masked for the inner and the outer hash.
\<close>

definition word_bytes :: "w32 \<Rightarrow> int list" where
  "word_bytes w = big_endian 4 (uint w)"

definition sha_bytes :: "int list \<Rightarrow> int list" where
  "sha_bytes m = concat (map word_bytes (sha_words m))"

definition hmac_key :: "int list \<Rightarrow> int list" where
  "hmac_key key =
     (let k = (if 64 < length key then sha_bytes key else key) in k @ replicate (64 - length k) 0)"

definition hmac_sha256_hex :: "string \<Rightarrow> string \<Rightarrow> string" where
  "hmac_sha256_hex key message =
     (let k = hmac_key (map of_char key);
          inner = sha_bytes (map (\<lambda>b. b XOR 0x36) k @ map of_char message)
      in concat (map hex_word (sha_words (map (\<lambda>b. b XOR 0x5C) k @ inner))))"

lemma sha_pad_blocks: "length (sha_pad m) mod 64 = 0"
proof -
  have "int (length (sha_pad m)) mod 64 = (int (length m) + 9 + (55 - int (length m)) mod 64) mod 64"
    by (simp add: sha_pad_def big_endian_def add.assoc)
  also have "\<dots> = 0" by (simp add: mod_simps)
  finally show ?thesis by presburger
qed

lemma sha_round_length: "length s = 8 \<Longrightarrow> length (sha_round s p) = 8"
  by (induction s p rule: sha_round.induct) (simp_all add: Let_def)

lemma sha_block_length: "length s = 8 \<Longrightarrow> length (sha_block s ws) = 8"
proof -
  have "length (foldl sha_round s xs) = 8" if "length s = 8" for xs s
    using that by (induction xs arbitrary: s) (simp_all add: sha_round_length)
  then show "length s = 8 \<Longrightarrow> length (sha_block s ws) = 8" by (simp add: sha_block_def)
qed

text \<open>A digest has 64 hexadecimal digits.\<close>

lemma digest_length: "length (sha256_hex s) = 64"
proof -
  have blocks: "length (sha_blocks n s ws) = 8" if "length s = 8" for n s ws
    using that by (induction n arbitrary: s ws) (simp_all add: sha_block_length)
  have "length (sha_words m) = 8" for m
    unfolding sha_words_def Let_def by (rule blocks) (simp add: initial_state_def)
  moreover have "length (concat (map hex_word ws)) = 8 * length ws" for ws
    by (induction ws) (simp_all add: hex_word_def)
  ultimately show ?thesis by (simp add: sha256_hex_def)
qed

end
