(* ===== verification/Json_Text.thy ===== *)
theory Json_Text
  imports Json_Value "HOL-Library.List_Lexorder" "HOL-Library.Char_ord"
begin

text \<open>
  JSON as text: \<open>json.dumps\<close> with \<open>sort_keys=True\<close> in the three layouts the services ask for, and
  \<open>json.loads\<close>. A character is a code point below 256. What the texts of instants, durations and
  floats are, and how the strings of the model stand for other code points, is a codec, a parameter.
  The bound of 4300 digits on an integer is that of \<open>int\<close>; the bound of the interpreter on the depth
  of nesting is not modelled. Printed values read back as themselves, whatever text follows.
\<close>

record codec =
  cd_iso :: "datetime \<Rightarrow> string"
  cd_seconds :: "int \<Rightarrow> string"
  cd_float :: "string \<Rightarrow> string"
  cd_wide :: "int \<Rightarrow> string"

text \<open>A codec for examples: floats as they are, every instant the epoch, every duration half a second.\<close>

definition plain_codec :: codec where
  "plain_codec = \<lparr>cd_iso = \<lambda>_. ''1970-01-01T00:00:00+00:00'', cd_seconds = \<lambda>_. ''0.5'', cd_float = id,
     cd_wide = \<lambda>_. ''?''\<rparr>"

section \<open>Printing\<close>

text \<open>
  The value a payload stands for: instants are their \<open>isoformat\<close>, durations floats, and the keys of
  an object are in the order in which they are printed.
\<close>

fun decoded :: "codec \<Rightarrow> json \<Rightarrow> json" where
  "decoded cd (JTime t) = JStr (cd_iso cd t)"
| "decoded cd (JSeconds n) = JFloat (cd_seconds cd n)"
| "decoded cd (JArr xs) = JArr (map (decoded cd) xs)"
| "decoded cd (JObj kvs) = JObj (sort_key fst (map (\<lambda>(k, v). (k, decoded cd v)) kvs))"
| "decoded cd v = v"

definition decoded_object :: "codec \<Rightarrow> json_object \<Rightarrow> json_object" where
  "decoded_object cd kvs = sort_key fst (map (\<lambda>(k, v). (k, decoded cd v)) kvs)"

definition json_escape :: "char \<Rightarrow> string" where
  "json_escape c =
     (let n = (of_char c :: int); bs = CHR 0x5C
      in if c = CHR 0x22 \<or> c = bs then [bs, c]
         else if n = 10 then [bs, CHR ''n''] else if n = 13 then [bs, CHR ''r'']
         else if n = 9 then [bs, CHR ''t''] else if n = 12 then [bs, CHR ''f'']
         else if n = 8 then [bs, CHR ''b'']
         else if n < 32 \<or> 126 < n then [bs, CHR ''u'', CHR ''0'', CHR ''0'', hex_digit (n div 16), hex_digit (n mod 16)]
         else [c])"

definition json_quote :: "string \<Rightarrow> string" where
  "json_quote s = [CHR 0x22] @ concat (map json_escape s) @ [CHR 0x22]"

definition float_text :: "string \<Rightarrow> string" where
  "float_text t = (if t = ''nan'' then ''NaN'' else if t = ''inf'' then ''Infinity''
     else if t = ''-inf'' then ''-Infinity'' else t)"

text \<open>\<open>separators=(",", ":")\<close>, the default, and \<open>indent=2\<close>.\<close>

datatype layout = Compact | Spaced | Indented

definition line_at :: "nat \<Rightarrow> string" where
  "line_at level = CHR 0x0A # replicate (2 * level) (CHR '' '')"

definition open_text :: "layout \<Rightarrow> nat \<Rightarrow> string" where
  "open_text l level = (if l = Indented then line_at (Suc level) else '''')"

definition separator :: "layout \<Rightarrow> nat \<Rightarrow> string" where
  "separator l level = (case l of Compact \<Rightarrow> '','' | Spaced \<Rightarrow> '', '' | Indented \<Rightarrow> '','' @ line_at (Suc level))"

definition close_text :: "layout \<Rightarrow> nat \<Rightarrow> string" where
  "close_text l level = (if l = Indented then line_at level else '''')"

definition colon :: "layout \<Rightarrow> string" where
  "colon l = (if l = Compact then '':'' else '': '')"

fun print_json :: "layout \<Rightarrow> nat \<Rightarrow> json \<Rightarrow> string" where
  "print_json l level JNull = ''null''"
| "print_json l level (JBool b) = (if b then ''true'' else ''false'')"
| "print_json l level (JInt i) = show_int i"
| "print_json l level (JFloat t) = float_text t"
| "print_json l level (JStr s) = json_quote s"
| "print_json l level (JTime t) = json_quote ''datetime''"
| "print_json l level (JSeconds n) = show_int n"
| "print_json l level (JArr xs) =
     (if xs = [] then ''[]'' else ''['' @ open_text l level
        @ join (separator l level) (map (print_json l (Suc level)) xs) @ close_text l level @ '']'')"
| "print_json l level (JObj kvs) =
     (if kvs = [] then ''{}'' else ''{'' @ open_text l level
        @ join (separator l level) (map (\<lambda>kv. json_quote (fst kv) @ colon l @ print_json l (Suc level) (snd kv)) kvs)
        @ close_text l level @ ''}'')"

definition dumps :: "codec \<Rightarrow> layout \<Rightarrow> json \<Rightarrow> string" where
  "dumps cd l v = print_json l 0 (decoded cd v)"

section \<open>Reading\<close>

definition is_blank :: "char \<Rightarrow> bool" where
  "is_blank c \<longleftrightarrow> c \<in> {CHR '' '', CHR 0x09, CHR 0x0A, CHR 0x0D}"

definition skip :: "string \<Rightarrow> string" where
  "skip = dropWhile is_blank"

text \<open>The rest of a text after an expected word.\<close>

definition after :: "string \<Rightarrow> string \<Rightarrow> string option" where
  "after w s = (if take (length w) s = w then Some (drop (length w) s) else None)"

definition hex_value :: "char \<Rightarrow> int option" where
  "hex_value c =
     (let n = (of_char c :: int)
      in if 48 \<le> n \<and> n \<le> 57 then Some (n - 48) else if 97 \<le> n \<and> n \<le> 102 then Some (n - 87)
         else if 65 \<le> n \<and> n \<le> 70 then Some (n - 55) else None)"

definition hex4 :: "string \<Rightarrow> int option" where
  "hex4 s = (case map hex_value (take 4 s) of
     [Some a, Some b, Some c, Some d] \<Rightarrow> Some (((a * 16 + b) * 16 + c) * 16 + d) | _ \<Rightarrow> None)"

definition simple_escape :: "char \<Rightarrow> char option" where
  "simple_escape c = map_of
     [(CHR 0x22, CHR 0x22), (CHR 0x5C, CHR 0x5C), (CHR ''/'', CHR ''/''), (CHR ''b'', CHR 0x08),
      (CHR ''f'', CHR 0x0C), (CHR ''n'', CHR 0x0A), (CHR ''r'', CHR 0x0D), (CHR ''t'', CHR 0x09)] c"

text \<open>
  A code unit after \<open>\u\<close>, and how many characters it took: a high surrogate followed by the escape
  of a low one is one code point.
\<close>

definition code_point :: "string \<Rightarrow> (int \<times> nat) option" where
  "code_point s = (case hex4 s of
     None \<Rightarrow> None
   | Some u \<Rightarrow>
       (case (if 0xD800 \<le> u \<and> u \<le> 0xDBFF then Option.bind (after [CHR 0x5C, CHR ''u''] (drop 4 s)) hex4 else None) of
          Some w \<Rightarrow> if 0xDC00 \<le> w \<and> w \<le> 0xDFFF
                    then Some (0x10000 + (u - 0xD800) * 0x400 + (w - 0xDC00), 10) else Some (u, 4)
        | None \<Rightarrow> Some (u, 4)))"

definition code_text :: "codec \<Rightarrow> int \<Rightarrow> string" where
  "code_text cd n = (if n < 256 then [char_of n] else cd_wide cd n)"

function scan_string :: "codec \<Rightarrow> string \<Rightarrow> (string \<times> string) option" where
  "scan_string cd [] = None"
| "scan_string cd (c # cs) =
     (if c = CHR 0x22 then Some ([], cs)
      else if c = CHR 0x5C then
        (case cs of
           [] \<Rightarrow> None
         | e # es \<Rightarrow>
             (case simple_escape e of
                Some d \<Rightarrow> map_option (\<lambda>(t, r). (d # t, r)) (scan_string cd es)
              | None \<Rightarrow>
                  if e = CHR ''u''
                  then (case code_point es of
                      None \<Rightarrow> None
                    | Some (n, k) \<Rightarrow> map_option (\<lambda>(t, r). (code_text cd n @ t, r)) (scan_string cd (drop k es)))
                  else None))
      else if of_char c < (32 :: int) then None
      else map_option (\<lambda>(t, r). (c # t, r)) (scan_string cd cs))"
  by pat_completeness auto
termination
  by (relation "measure (\<lambda>(cd, s). length s)") auto

text \<open>
  \<open>-?(0|[1-9][0-9]*)(\.[0-9]+)?([eE][-+]?[0-9]+)?\<close>: the digits before the point, the rest of the
  number, and what follows.
\<close>

definition scan_fraction :: "string \<Rightarrow> string \<times> string" where
  "scan_fraction s =
     (case s of
        c # r \<Rightarrow> (if c = CHR ''.'' \<and> takeWhile is_digit r \<noteq> []
                  then (c # takeWhile is_digit r, dropWhile is_digit r) else ([], s))
      | [] \<Rightarrow> ([], s))"

definition scan_exponent :: "string \<Rightarrow> string \<times> string" where
  "scan_exponent s =
     (case s of
        c # r \<Rightarrow>
          (let sign = (if take 1 r = ''-'' \<or> take 1 r = ''+'' then take 1 r else []);
               ds = takeWhile is_digit (drop (length sign) r)
           in if (c = CHR ''e'' \<or> c = CHR ''E'') \<and> ds \<noteq> []
              then (c # sign @ ds, dropWhile is_digit (drop (length sign) r)) else ([], s))
      | [] \<Rightarrow> ([], s))"

definition scan_number :: "string \<Rightarrow> (string \<times> string \<times> string) option" where
  "scan_number s =
     (let sign = (if take 1 s = ''-'' then ''-'' else []);
          t = drop (length sign) s;
          ds = (if take 1 t = ''0'' then ''0'' else takeWhile is_digit t);
          (f, r) = scan_fraction (drop (length ds) t);
          (e, r') = scan_exponent r
      in if ds = [] then None else Some (sign @ ds, f @ e, r'))"


definition parse_number :: "codec \<Rightarrow> string \<Rightarrow> (json \<times> string) option" where
  "parse_number cd s =
     (case scan_number s of
        None \<Rightarrow> None
      | Some (whole, part, r) \<Rightarrow>
          if part \<noteq> [] then Some (JFloat (cd_float cd (whole @ part)), r)
          else
            (let neg = (take 1 whole = ''-''); ds = (if neg then drop 1 whole else whole)
             in if length ds > max_int_digits then None
                else Some (JInt (if neg then - read_nn ds else read_nn ds), r)))"

text \<open>\<open>dict[key] = value\<close>: the value of a key that is there is replaced in its place.\<close>

definition dict_put :: "json_object \<Rightarrow> string \<Rightarrow> json \<Rightarrow> json_object" where
  "dict_put obj k v = (if k \<in> set (map fst obj) then map (\<lambda>(k', v'). (k', if k' = k then v else v')) obj
     else obj @ [(k, v)])"

definition dict_of :: "json_object \<Rightarrow> json_object" where
  "dict_of kvs = fold (\<lambda>(k, v) obj. dict_put obj k v) kvs []"

definition words :: "(string \<times> json) list" where
  "words = [(''null'', JNull), (''true'', JBool True), (''false'', JBool False), (''NaN'', JFloat ''nan''),
     (''Infinity'', JFloat ''inf''), (''-Infinity'', JFloat ''-inf'')]"

definition parse_word :: "string \<Rightarrow> (json \<times> string) option" where
  "parse_word s = (case List.find (\<lambda>(w, v). after w s \<noteq> None) words of
     None \<Rightarrow> None | Some (w, v) \<Rightarrow> Some (v, drop (length w) s))"

text \<open>
  The recursive descent of the scanner. Every call gets one unit of fuel less, and a character is read
  at least on every second call, so that fuel beyond twice the length of the text is never used up.
\<close>

fun parse_value :: "codec \<Rightarrow> nat \<Rightarrow> string \<Rightarrow> (json \<times> string) option"
and parse_items :: "codec \<Rightarrow> nat \<Rightarrow> string \<Rightarrow> (json list \<times> string) option"
and parse_members :: "codec \<Rightarrow> nat \<Rightarrow> string \<Rightarrow> (json_object \<times> string) option" where
  "parse_value cd 0 s = None"
| "parse_value cd (Suc n) s =
     (case s of
        [] \<Rightarrow> None
      | c # cs \<Rightarrow>
          if c = CHR 0x22 then map_option (\<lambda>(t, r). (JStr t, r)) (scan_string cd cs)
          else if c = CHR ''{'' then
            (case after ''}'' (skip cs) of
               Some r \<Rightarrow> Some (JObj [], r)
             | None \<Rightarrow> map_option (\<lambda>(kvs, r). (JObj (dict_of kvs), r)) (parse_members cd n (skip cs)))
          else if c = CHR ''['' then
            (case after '']'' (skip cs) of
               Some r \<Rightarrow> Some (JArr [], r)
             | None \<Rightarrow> map_option (\<lambda>(xs, r). (JArr xs, r)) (parse_items cd n (skip cs)))
          else (case parse_word s of Some x \<Rightarrow> Some x | None \<Rightarrow> parse_number cd s))"
| "parse_items cd 0 s = None"
| "parse_items cd (Suc n) s =
     Option.bind (parse_value cd n s) (\<lambda>(v, r).
       (case after '']'' (skip r) of
          Some r' \<Rightarrow> Some ([v], r')
        | None \<Rightarrow>
            Option.bind (after '','' (skip r)) (\<lambda>r'.
            Option.bind (parse_items cd n (skip r')) (\<lambda>(vs, r''). Some (v # vs, r'')))))"
| "parse_members cd 0 s = None"
| "parse_members cd (Suc n) s =
     Option.bind (Option.bind (after [CHR 0x22] s) (scan_string cd)) (\<lambda>(k, r).
     Option.bind (after '':'' (skip r)) (\<lambda>r'.
     Option.bind (parse_value cd n (skip r')) (\<lambda>(v, r'').
       (case after ''}'' (skip r'') of
          Some z \<Rightarrow> Some ([(k, v)], z)
        | None \<Rightarrow>
            Option.bind (after '','' (skip r'')) (\<lambda>z.
            Option.bind (parse_members cd n (skip z)) (\<lambda>(kvs, z'). Some ((k, v) # kvs, z')))))))"

definition loads :: "codec \<Rightarrow> string \<Rightarrow> json option" where
  "loads cd s = Option.bind (parse_value cd (Suc (2 * length s)) (skip s)) (\<lambda>(v, r). if skip r = [] then Some v else None)"

section \<open>Strings\<close>

lemma hex_value_digit: "0 \<le> d \<Longrightarrow> d < 16 \<Longrightarrow> hex_value (hex_digit d) = Some d"
proof -
  have "list_all (\<lambda>d. hex_value (hex_digit d) = Some d) [0..15]" by code_simp
  then show "0 \<le> d \<Longrightarrow> d < 16 \<Longrightarrow> hex_value (hex_digit d) = Some d" by (simp add: list_all_iff)
qed

lemma char_code: "0 \<le> (of_char c :: int)" "(of_char c :: int) < 256"
  using nat_of_char_less_256 [of c] by (simp_all flip: of_nat_of_char [of c, where 'a = int])

lemma simple_escapes [simp]:
  "simple_escape (CHR 0x22) = Some (CHR 0x22)" "simple_escape (CHR 0x5C) = Some (CHR 0x5C)"
  "simple_escape (CHR ''n'') = Some (CHR 0x0A)" "simple_escape (CHR ''r'') = Some (CHR 0x0D)"
  "simple_escape (CHR ''t'') = Some (CHR 0x09)" "simple_escape (CHR ''f'') = Some (CHR 0x0C)"
  "simple_escape (CHR ''b'') = Some (CHR 0x08)" "simple_escape (CHR ''u'') = None"
  by (simp_all add: simple_escape_def)

lemma control_chars [simp]:
  "char_of (8 :: int) = CHR 0x08" "char_of (9 :: int) = CHR 0x09" "char_of (10 :: int) = CHR 0x0A"
  "char_of (12 :: int) = CHR 0x0C" "char_of (13 :: int) = CHR 0x0D"
  by code_simp+

lemma escape_step:
  "scan_string cd (json_escape c @ r) = map_option (\<lambda>(t, z). (c # t, z)) (scan_string cd r)"
proof -
  define n where "n = (of_char c :: int)"
  have n: "0 \<le> n" "n < 256" "c = char_of n" unfolding n_def using char_code [of c] by simp_all
  have div: "0 \<le> n div 16" "n div 16 < 16" "0 \<le> n mod 16" "n mod 16 < 16" using n by auto
  have "hex4 (CHR ''0'' # CHR ''0'' # hex_digit (n div 16) # hex_digit (n mod 16) # r) = Some n"
    using hex_value_digit [OF div(1,2)] hex_value_digit [OF div(3,4)]
    by (simp add: hex4_def) (simp add: hex_value_def)
  then have point: "code_point (CHR ''0'' # CHR ''0'' # hex_digit (n div 16) # hex_digit (n mod 16) # r) = Some (n, 4)"
    using n(2) by (simp add: code_point_def)
  have decoded: "code_text cd n = [c]" using n by (simp add: code_text_def)
  consider "c = CHR 0x22 \<or> c = CHR 0x5C" | "n = 10 \<or> n = 13 \<or> n = 9 \<or> n = 12 \<or> n = 8"
    | "c \<noteq> CHR 0x22" "c \<noteq> CHR 0x5C" "n \<notin> {10, 13, 9, 12, 8}" "n < 32 \<or> 126 < n"
    | "c \<noteq> CHR 0x22" "c \<noteq> CHR 0x5C" "\<not> (n < 32 \<or> 126 < n)" by blast
  then show ?thesis
  proof cases
    case 1
    then show ?thesis by (auto simp: json_escape_def Let_def)
  next
    case 2
    then show ?thesis using n(3) by (auto simp: json_escape_def Let_def)
  next
    case 3
    then show ?thesis using point decoded by (simp add: json_escape_def Let_def flip: n_def)
  next
    case 4
    then show ?thesis by (auto simp: json_escape_def Let_def n_def)
  qed
qed

lemma scan_quoted: "scan_string cd (concat (map json_escape s) @ CHR 0x22 # r) = Some (s, r)"
  by (induction s) (simp_all add: escape_step)

section \<open>Numbers\<close>

text \<open>What may follow a value without becoming part of it.\<close>

definition ends_value :: "string \<Rightarrow> bool" where
  "ends_value r = (case r of [] \<Rightarrow> True
     | c # _ \<Rightarrow> \<not> is_digit c \<and> c \<noteq> CHR ''.'' \<and> c \<noteq> CHR ''e'' \<and> c \<noteq> CHR ''E'')"

lemma ends_value_digits: "ends_value r \<Longrightarrow> takeWhile is_digit (s @ r) = takeWhile is_digit s"
  by (induction s) (auto simp: ends_value_def split: list.splits)

lemma ends_value_rest: "ends_value r \<Longrightarrow> dropWhile is_digit (s @ r) = dropWhile is_digit s @ r"
  by (induction s) (auto simp: ends_value_def split: list.splits)

lemma fraction_rest: "ends_value r \<Longrightarrow> scan_fraction (s @ r) = (fst (scan_fraction s), snd (scan_fraction s) @ r)"
  by (cases s; cases r)
    (auto simp: scan_fraction_def ends_value_digits ends_value_rest ends_value_def [of "_ # _"])

lemma exponent_rest:
  assumes r: "ends_value r" and s: "scan_exponent s = (e, [])"
  shows "scan_exponent (s @ r) = (e, r)"
proof (cases s)
  case Nil
  with r s show ?thesis by (cases r) (auto simp: scan_exponent_def ends_value_def)
next
  case (Cons c z)
  define sign where "sign = (\<lambda>z. if take 1 z = ''-'' \<or> take 1 z = ''+'' then take 1 z else ([] :: string))"
  have step: "scan_exponent (c # z) =
      (if (c = CHR ''e'' \<or> c = CHR ''E'') \<and> takeWhile is_digit (drop (length (sign z)) z) \<noteq> []
       then (c # sign z @ takeWhile is_digit (drop (length (sign z)) z), dropWhile is_digit (drop (length (sign z)) z))
       else ([], c # z))" for z
    by (simp only: scan_exponent_def list.case Let_def sign_def)
  from s have e: "c = CHR ''e'' \<or> c = CHR ''E''" "takeWhile is_digit (drop (length (sign z)) z) \<noteq> []"
    "e = c # sign z @ takeWhile is_digit (drop (length (sign z)) z)" "dropWhile is_digit (drop (length (sign z)) z) = []"
    unfolding Cons step by (simp_all split: if_splits)
  then have z: "z \<noteq> []" by auto
  then have rest: "sign (z @ r) = sign z" "drop (length (sign z)) (z @ r) = drop (length (sign z)) z @ r"
    by (cases z; simp add: sign_def)+
  show ?thesis
    by (simp only: Cons append_Cons step rest ends_value_digits [OF r] ends_value_rest [OF r] e(4) append_Nil)
      (use e(1-3) in simp)
qed

lemma number_rest:
  assumes r: "ends_value r" and s: "scan_number s = Some (w, p, [])"
  shows "scan_number (s @ r) = Some (w, p, r)"
proof -
  define sign where "sign = (\<lambda>s :: string. if take 1 s = ''-'' then ''-'' else [])"
  define ds where "ds = (\<lambda>t. if take 1 t = ''0'' then ''0'' else takeWhile is_digit t)"
  have step: "scan_number s = (case scan_fraction (drop (length (ds (drop (length (sign s)) s))) (drop (length (sign s)) s)) of
      (f, z) \<Rightarrow> case scan_exponent z of (e, z') \<Rightarrow> if ds (drop (length (sign s)) s) = [] then None
        else Some (sign s @ ds (drop (length (sign s)) s), f @ e, z'))" for s
    by (simp only: scan_number_def Let_def sign_def ds_def)
  define t where "t = drop (length (sign s)) s"
  obtain f z where f: "scan_fraction (drop (length (ds t)) t) = (f, z)" by fastforce
  from s f obtain e where e: "scan_exponent z = (e, [])" "w = sign s @ ds t" "p = f @ e" "ds t \<noteq> []"
    by (auto simp: step t_def [symmetric] split: prod.splits if_splits)
  have t: "t \<noteq> []" using e(4) by (auto simp: ds_def)
  then have "sign (s @ r) = sign s" "drop (length (sign s)) (s @ r) = t @ r"
    by (cases s; simp add: sign_def t_def)+
  moreover have "ds (t @ r) = ds t"
    using t by (cases t) (simp_all add: ds_def ends_value_digits [OF r] flip: append_Cons)
  moreover have "length (ds t) \<le> length t"
    using t length_takeWhile_le [of is_digit t] by (cases t) (auto simp: ds_def)
  then have "drop (length (ds t)) (t @ r) = drop (length (ds t)) t @ r" by simp
  ultimately show ?thesis
    using e fraction_rest [OF r, of "drop (length (ds t)) t"] exponent_rest [OF r e(1)] f by (simp add: step)
qed

lemma show_nn_zero: "0 \<le> n \<Longrightarrow> take 1 (show_nn n) = ''0'' \<Longrightarrow> show_nn n = ''0''"
proof (induction n rule: show_nn.induct)
  case (1 n)
  show ?case
  proof (cases "n < 10")
    case True
    then show ?thesis using "1.prems" by (simp add: show_nn.simps [of n])
  next
    case False
    then have "take 1 (show_nn (n div 10)) = ''0''"
      using "1.prems" by (cases "show_nn (n div 10)") (simp_all add: show_nn.simps [of n])
    then have "show_nn (n div 10) = ''0''" using 1 False by simp
    then have "read_nn (show_nn (n div 10)) = 0" by (simp add: read_nn_def)
    with False show ?thesis by simp
  qed
qed

lemma scan_digits:
  assumes "0 \<le> n"
  shows "scan_number (show_nn n) = Some (show_nn n, [], [])"
proof -
  have "\<forall>c \<in> set (show_nn n). is_digit c" by (rule show_nn_digits [OF assms])
  then have d: "takeWhile is_digit (show_nn n) = show_nn n" "take 1 (show_nn n) \<noteq> ''-''"
    by (simp, cases "show_nn n") (auto simp: is_digit_iff)
  with show_nn_zero [OF assms] show ?thesis
    by (auto simp: scan_number_def Let_def scan_fraction_def scan_exponent_def simp del: takeWhile_eq_all_conv)
qed

lemma negative_digits:
  assumes "0 \<le> n"
  shows "scan_number (CHR ''-'' # show_nn n) = Some (CHR ''-'' # show_nn n, [], [])"
  using scan_digits [OF assms] show_nn_digits [OF assms]
  by (cases "show_nn n") (auto simp: scan_number_def Let_def is_digit_iff split: prod.splits if_splits)

lemma parse_printed_int:
  assumes "ends_value r" and "length (show_nn \<bar>i\<bar>) \<le> max_int_digits"
  shows "parse_number cd (show_int i @ r) = Some (JInt i, r)"
proof -
  have "take 1 (show_nn i) \<noteq> ''-''" if "0 \<le> i"
    using show_nn_digits [OF that] by (cases "show_nn i") (auto simp: is_digit_iff)
  with assms number_rest [OF assms(1) scan_digits, of i] number_rest [OF assms(1) negative_digits, of "- i"]
  show ?thesis by (cases "i < 0") (simp_all add: parse_number_def show_int_def Let_def)
qed

text \<open>A number splits the text: what was read, and the rest.\<close>

lemma fraction_split: "fst (scan_fraction s) @ snd (scan_fraction s) = s"
  by (cases s) (simp_all add: scan_fraction_def)

lemma exponent_split: "fst (scan_exponent s) @ snd (scan_exponent s) = s"
proof (cases s)
  case (Cons c z)
  have "take 1 z = ''-'' \<or> take 1 z = ''+'' \<Longrightarrow> take 1 z @ drop (length (take 1 z)) z = z" by (cases z) auto
  then show ?thesis by (auto simp: Cons scan_exponent_def Let_def)
qed (simp add: scan_exponent_def)

lemma number_split:
  assumes "scan_number s = Some (w, p, r)"
  shows "s = w @ p @ r" and "w \<noteq> []"
proof -
  define sign where "sign = (if take 1 s = ''-'' then ''-'' else [])"
  define t where "t = drop (length sign) s"
  define ds where "ds = (if take 1 t = ''0'' then ''0'' else takeWhile is_digit t)"
  have step: "scan_number s = (case scan_fraction (drop (length ds) t) of
      (f, z) \<Rightarrow> case scan_exponent z of (e, z') \<Rightarrow> if ds = [] then None else Some (sign @ ds, f @ e, z'))"
    by (simp only: scan_number_def Let_def sign_def ds_def t_def)
  have "sign @ t = s" by (cases s) (auto simp: sign_def t_def)
  moreover have "ds @ drop (length ds) t = t"
    by (cases t) (auto simp: ds_def dropWhile_eq_drop [symmetric])
  ultimately show "s = w @ p @ r" "w \<noteq> []"
    using assms fraction_split [of "drop (length ds) t"] exponent_split [of "snd (scan_fraction (drop (length ds) t))"]
    by (auto simp: step split: prod.splits if_splits)
qed

lemma parse_printed_float:
  assumes "ends_value r" and "cd_float cd t = t" and "scan_number t = Some (w, p, [])" "p \<noteq> []"
  shows "parse_number cd (t @ r) = Some (JFloat t, r)"
  using number_rest [OF assms(1,3)] assms(2,4) number_split(1) [OF assms(3)] by (simp add: parse_number_def)

section \<open>What printed values look like\<close>

definition printable_float :: "codec \<Rightarrow> string \<Rightarrow> bool" where
  "printable_float cd t \<longleftrightarrow> t = ''nan'' \<or> t = ''inf'' \<or> t = ''-inf'' \<or> cd_float cd t = t \<and>
     (case scan_number t of Some (w, p, r) \<Rightarrow> p \<noteq> [] \<and> r = [] | None \<Rightarrow> False)"

fun textual :: "codec \<Rightarrow> json \<Rightarrow> bool" where
  "textual cd (JTime t) = False"
| "textual cd (JSeconds n) = False"
| "textual cd (JInt i) = (length (show_nn \<bar>i\<bar>) \<le> max_int_digits)"
| "textual cd (JFloat t) = printable_float cd t"
| "textual cd (JArr xs) = list_all (textual cd) xs"
| "textual cd (JObj kvs) = (distinct (map fst kvs) \<and> list_all (\<lambda>kv. textual cd (snd kv)) kvs)"
| "textual cd _ = True"

lemma no_word_number: "s \<noteq> [] \<Longrightarrow> is_digit (hd s) \<Longrightarrow> parse_word s = None"
  by (cases s) (auto simp: parse_word_def words_def after_def is_digit_iff)

lemma no_word_negative: "parse_word (CHR ''-'' # s) = None" if "s \<noteq> []" "is_digit (hd s)" for s
  using that by (cases s) (auto simp: parse_word_def words_def after_def is_digit_iff)

lemma number_head:
  assumes "scan_number s = Some (w, p, r)"
  shows "is_digit (hd s) \<or> (\<exists>z. s = CHR ''-'' # z \<and> z \<noteq> [] \<and> is_digit (hd z))"
proof (cases s)
  case (Cons c z)
  have *: "takeWhile is_digit t \<noteq> [] \<or> take 1 t = ''0'' \<Longrightarrow> t \<noteq> [] \<and> is_digit (hd t)" for t
    by (cases t) (auto split: if_splits)
  show ?thesis using assms *[of s] *[of z] unfolding Cons
    by (auto simp: scan_number_def Let_def split: if_splits prod.splits)
qed (use assms in \<open>simp add: scan_number_def\<close>)

section \<open>The scanner reads on\<close>

lemma after_iff: "after w s = Some r \<longleftrightarrow> s = w @ r"
  by (auto simp: after_def) (metis append_take_drop_id)

lemma after_Cons [simp]: "after [c] (d # s) = (if c = d then Some s else None)" "after [c] [] = None"
  by (auto simp: after_def)

lemma skip_shorter: "length (skip s) \<le> length s"
  by (simp add: skip_def length_dropWhile_le)

lemma after_skip: "after [c] (skip s) = Some r \<Longrightarrow> length r < length s"
  using skip_shorter [of s] by (simp add: after_iff)

lemma string_shorter: "scan_string cd s = Some (t, r) \<Longrightarrow> length r < length s"
  by (induction cd s arbitrary: t r rule: scan_string.induct)
    (fastforce split: if_splits option.splits list.splits)+

lemma word_shorter: "parse_word s = Some (v, r) \<Longrightarrow> length r < length s"
  by (auto simp: parse_word_def words_def after_iff split: if_splits)

lemma number_shorter:
  assumes "parse_number cd s = Some (v, r)"
  shows "length r < length s"
proof -
  obtain w p where "scan_number s = Some (w, p, r)"
    using assms by (auto simp: parse_number_def Let_def split: option.splits if_splits)
  from number_split [OF this] show ?thesis by simp
qed

lemma parse_shorter:
  "parse_value cd k s = Some (v, r) \<Longrightarrow> length r < length s"
  "parse_items cd k s = Some (vs, r) \<Longrightarrow> length r < length s"
  "parse_members cd k s = Some (kvs, r) \<Longrightarrow> length r < length s"
proof (induction k arbitrary: s v vs kvs r)
  case (Suc k)
  note less = less_trans le_less_trans less_le_trans
  {
    case 1
    then show ?case
      by (cases s) (auto split: if_splits option.splits dest!: after_skip string_shorter word_shorter number_shorter Suc.IH(2,3)
          intro: less_le_trans [OF _ order_trans [OF skip_shorter]] less_SucI)
  next
    case 2
    then obtain w z where w: "parse_value cd k s = Some (w, z)" by (auto simp: bind_eq_Some_conv)
    show ?case
    proof (cases "after '']'' (skip z)")
      case (Some y)
      with 2 w show ?thesis by (auto dest!: after_skip Suc.IH(1) intro: less_trans)
    next
      case None
      with 2 w show ?thesis
        by (auto simp: bind_eq_Some_conv dest!: after_skip Suc.IH(1,2)
            intro: less_trans less_le_trans [OF _ skip_shorter])
    qed
  next
    case 3
    then obtain a z key y y' w u where head: "s = CHR 0x22 # a" "scan_string cd a = Some (key, z)"
      "after '':'' (skip z) = Some y" "parse_value cd k (skip y) = Some (w, u)"
      by (auto simp: bind_eq_Some_conv after_iff [of _ s])
    then have u: "length u < length s"
      using string_shorter [OF head(2)] after_skip [OF head(3)] Suc.IH(1) [OF head(4)] skip_shorter [of y] by simp
    show ?case
    proof (cases "after ''}'' (skip u)")
      case (Some x)
      with 3 head u show ?thesis by (auto dest!: after_skip)
    next
      case None
      with 3 head u show ?thesis
        by (auto simp: bind_eq_Some_conv dest!: after_skip Suc.IH(3)
            intro: less_SucI less_trans less_le_trans [OF _ skip_shorter])
    qed
  }
qed simp_all

text \<open>Fuel beyond twice the length of the text makes no difference.\<close>

lemma fuel_enough:
  "2 * length s < k \<Longrightarrow> 2 * length s < m \<Longrightarrow> parse_value cd k s = parse_value cd m s"
  "2 * length s + 1 < k \<Longrightarrow> 2 * length s + 1 < m \<Longrightarrow> parse_items cd k s = parse_items cd m s"
  "2 * length s + 1 < k \<Longrightarrow> 2 * length s + 1 < m \<Longrightarrow> parse_members cd k s = parse_members cd m s"
proof (induction k arbitrary: s m)
  case (Suc k)
  {
    case 1
    then obtain m' where m: "m = Suc m'" by (cases m) auto
    show ?case
    proof (cases s)
      case (Cons c cs)
      then have "2 * length (skip cs) + 1 < k" "2 * length (skip cs) + 1 < m'"
        using 1 m skip_shorter [of cs] by auto
      from Suc.IH(2,3) [OF this] show ?thesis by (simp add: m Cons split: option.split)
    qed (simp add: m)
  next
    case 2
    then obtain m' where m: "m = Suc m'" by (cases m) auto
    then have head: "parse_value cd k s = parse_value cd m' s" using 2 by (intro Suc.IH(1)) simp_all
    have rest: "parse_items cd k (skip z) = parse_items cd m' (skip z)" if "length z < length s" for z
      using that 2 m skip_shorter [of z] by (intro Suc.IH(2)) auto
    show ?case
    proof (cases "parse_value cd m' s")
      case (Some x)
      then obtain v z where x: "parse_value cd m' s = Some (v, z)" by (cases x) simp
      have "parse_items cd k (skip y) = parse_items cd m' (skip y)" if "after '','' (skip z) = Some y" for y
        using after_skip [OF that] parse_shorter(1) [OF x] by (intro rest) simp
      with x head show ?thesis
        by (cases "after '','' (skip z)") (simp_all add: m split: option.split)
    qed (simp add: m head)
  next
    case 3
    then obtain m' where m: "m = Suc m'" by (cases m) auto
    have head: "parse_value cd k (skip z) = parse_value cd m' (skip z)" if "length z < length s" for z
      using that 3 m skip_shorter [of z] by (intro Suc.IH(1)) auto
    have rest: "parse_members cd k (skip z) = parse_members cd m' (skip z)" if "length z < length s" for z
      using that 3 m skip_shorter [of z] by (intro Suc.IH(3)) auto
    show ?case
    proof (cases "Option.bind (after [CHR 0x22] s) (scan_string cd)")
      case (Some x)
      then obtain key z where x: "Option.bind (after [CHR 0x22] s) (scan_string cd) = Some (key, z)" by (cases x) simp
      then have z: "length z < length s" by (auto simp: bind_eq_Some_conv after_iff [of _ s] dest!: string_shorter)
      show ?thesis
      proof (cases "after '':'' (skip z)")
        case (Some y)
        then have y: "length y < length s" using z after_skip by fastforce
        note v = head [OF y]
        show ?thesis
        proof (cases "parse_value cd m' (skip y)")
          case (Some u)
          then obtain v' u' where u: "parse_value cd m' (skip y) = Some (v', u')" by (cases u) simp
          have "length u' < length s" using parse_shorter(1) [OF u] skip_shorter [of y] y by simp
          then have "parse_members cd k (skip q) = parse_members cd m' (skip q)" if "after '','' (skip u') = Some q" for q
            using after_skip [OF that] by (intro rest) simp
          with x u v \<open>after '':'' (skip z) = Some y\<close> show ?thesis
            by (cases "after '','' (skip u')") (simp_all add: m split: option.split)
        qed (use x v Some in \<open>simp add: m\<close>)
      qed (use x in \<open>simp add: m\<close>)
    qed (simp add: m)
  }
qed simp_all

section \<open>Printed values read back\<close>

lemma dict_of_distinct: "distinct (map fst kvs) \<Longrightarrow> dict_of kvs = kvs"
proof -
  have "distinct (map fst (obj @ kvs)) \<Longrightarrow> fold (\<lambda>(k, v) obj. dict_put obj k v) kvs obj = obj @ kvs" for obj
    by (induction kvs arbitrary: obj) (auto simp: dict_put_def)
  from this [of "[]"] show "distinct (map fst kvs) \<Longrightarrow> dict_of kvs = kvs" by (simp add: dict_of_def)
qed

lemma skip_blanks: "list_all is_blank b \<Longrightarrow> skip (b @ s) = skip s"
  by (induction b) (simp_all add: skip_def)

lemma skip_solid [simp]: "\<not> is_blank c \<Longrightarrow> skip (c # s) = c # s"
  by (simp add: skip_def)

lemma solid [simp]:
  "\<not> is_blank (CHR 0x22)" "\<not> is_blank (CHR ''{'')" "\<not> is_blank (CHR ''}'')" "\<not> is_blank (CHR ''['')"
  "\<not> is_blank (CHR '']'')" "\<not> is_blank (CHR '','')" "\<not> is_blank (CHR '':'')"
  by (simp_all add: is_blank_def)

lemma line_blanks: "list_all is_blank (line_at n)"
  by (simp add: line_at_def list_all_iff is_blank_def)

lemma layout_blanks:
  "list_all is_blank (open_text l n)" "list_all is_blank (close_text l n)"
  by (simp_all add: open_text_def close_text_def line_blanks)

lemma separator_blanks: obtains b where "separator l n = CHR '','' # b" "list_all is_blank b"
proof (cases l)
  case Indented
  with that [of "line_at (Suc n)"] show ?thesis by (simp add: separator_def line_blanks)
qed (use that [of "[]"] that [of "'' ''"] in \<open>simp_all add: separator_def is_blank_def\<close>)

lemma colon_blanks: obtains b where "colon l = CHR '':'' # b" "list_all is_blank b"
  using that [of "[]"] that [of "'' ''"] by (cases "l = Compact") (simp_all add: colon_def is_blank_def)

text \<open>The first character of a printed value is no blank and no delimiter.\<close>

definition starts_value :: "string \<Rightarrow> bool" where
  "starts_value s = (case s of [] \<Rightarrow> False | c # _ \<Rightarrow> \<not> is_blank c \<and> c \<noteq> CHR '']'' \<and> c \<noteq> CHR ''}'')"

lemma digit_starts: "is_digit c \<Longrightarrow> starts_value (c # s) \<and> c \<noteq> CHR 0x22 \<and> c \<noteq> CHR ''{'' \<and> c \<noteq> CHR ''[''"
  by (auto simp: starts_value_def is_digit_iff is_blank_def)

lemma minus_starts: "starts_value (CHR ''-'' # s)"
  by (simp add: starts_value_def is_blank_def)

lemma literal_starts:
  "starts_value (CHR ''n'' # s)" "starts_value (CHR ''t'' # s)" "starts_value (CHR ''f'' # s)"
  "starts_value (CHR ''N'' # s)" "starts_value (CHR ''I'' # s)" "starts_value (CHR 0x22 # s)"
  "starts_value (CHR ''{'' # s)" "starts_value (CHR ''['' # s)"
  by (simp_all add: starts_value_def is_blank_def)

lemma printed_starts:
  assumes "textual cd v"
  shows "starts_value (print_json l n v @ r)"
proof (cases v)
  case (JInt i)
  have "show_nn \<bar>i\<bar> \<noteq> []" by simp
  then obtain c z where "show_nn \<bar>i\<bar> = c # z" "is_digit c"
    using show_nn_digits [of "\<bar>i\<bar>"] by (cases "show_nn \<bar>i\<bar>") auto
  then show ?thesis using JInt by (cases "i < 0") (simp_all add: show_int_def minus_starts digit_starts)
next
  case (JFloat t)
  have "\<exists>w p r. scan_number t = Some (w, p, r)" if "t \<noteq> ''nan''" "t \<noteq> ''inf''" "t \<noteq> ''-inf''"
    using assms that JFloat by (auto simp: printable_float_def split: option.splits)
  then have "t = ''nan'' \<or> t = ''inf'' \<or> t = ''-inf'' \<or> t \<noteq> [] \<and> (is_digit (hd t) \<or> (\<exists>z. t = CHR ''-'' # z))"
    using number_head number_split by blast
  then consider "t \<in> {''nan'', ''inf'', ''-inf''}" | c z where "t = c # z" "is_digit c"
      "t \<notin> {''nan'', ''inf'', ''-inf''}" | z where "t = CHR ''-'' # z" "t \<notin> {''nan'', ''inf'', ''-inf''}"
    by (cases t) auto
  then show ?thesis
    by cases (use JFloat in \<open>auto simp: float_text_def literal_starts minus_starts digit_starts\<close>)
qed (use assms in \<open>simp_all add: literal_starts json_quote_def\<close>)

lemma starts_skip: "starts_value s \<Longrightarrow> skip s = s" "starts_value s \<Longrightarrow> after '']'' s = None" "starts_value s \<Longrightarrow> after ''}'' s = None"
  by (cases s; auto simp: starts_value_def)+

lemma ends_value_closers: "ends_value (CHR '']'' # r)" "ends_value (CHR ''}'' # r)" "ends_value (CHR '','' # r)"
  by (simp_all add: ends_value_def is_digit_iff)

lemma blank_ends: "is_blank c \<Longrightarrow> ends_value (c # s)"
  unfolding is_blank_def by (elim insertE) (simp_all add: ends_value_def is_digit_iff)

lemma ends_value_blanks: "list_all is_blank b \<Longrightarrow> ends_value s \<Longrightarrow> ends_value (b @ s)"
  by (cases b) (simp_all add: blank_ends)

lemma parse_words:
  "parse_word (CHR ''n'' # CHR ''u'' # CHR ''l'' # CHR ''l'' # r) = Some (JNull, r)"
  "parse_word (CHR ''t'' # CHR ''r'' # CHR ''u'' # CHR ''e'' # r) = Some (JBool True, r)"
  "parse_word (CHR ''f'' # CHR ''a'' # CHR ''l'' # CHR ''s'' # CHR ''e'' # r) = Some (JBool False, r)"
  "parse_word (''NaN'' @ r) = Some (JFloat ''nan'', r)"
  "parse_word (''Infinity'' @ r) = Some (JFloat ''inf'', r)"
  "parse_word (''-Infinity'' @ r) = Some (JFloat ''-inf'', r)"
  by (simp_all add: parse_word_def words_def after_def)

lemma parse_value_number:
  assumes "scan_number s = Some (w, p, [])" and "ends_value r"
  shows "parse_value cd (Suc k) (s @ r) = parse_number cd (s @ r)"
proof -
  from number_head [OF number_rest [OF assms(2,1)]] number_split [OF assms(1)]
  consider "s @ r \<noteq> []" "is_digit (hd (s @ r))" | z where "s @ r = CHR ''-'' # z" "z \<noteq> []" "is_digit (hd z)" by auto
  then show ?thesis
  proof cases
    case 1
    then obtain c z where "s @ r = c # z" "is_digit c" by (cases "s @ r") auto
    with digit_starts [of c] no_word_number [OF 1] show ?thesis by simp
  next
    case 2
    with no_word_negative [OF 2(2,3)] show ?thesis by simp
  qed
qed

lemma parse_scalar:
  assumes "textual cd v" and r: "ends_value r" and "\<forall>xs. v \<noteq> JArr xs" "\<forall>kvs. v \<noteq> JObj kvs" and "0 < k"
  shows "parse_value cd k (print_json l n v @ r) = Some (v, r)"
proof -
  obtain m where k: "k = Suc m" using assms(5) by (cases k) auto
  show ?thesis
  proof (cases v)
    case (JInt i)
    have "\<exists>w p. scan_number (show_int i) = Some (w, p, [])"
      using scan_digits [of i] negative_digits [of "- i"] by (cases "i < 0") (simp_all add: show_int_def)
    then show ?thesis
      using parse_value_number [OF _ r, of "show_int i"] parse_printed_int [OF r, of i] assms(1) JInt k by auto
  next
    case (JFloat t)
    show ?thesis
    proof (cases "t = ''nan'' \<or> t = ''inf'' \<or> t = ''-inf''")
      case True
      then show ?thesis using JFloat k parse_words(4-6) [of r] by (auto simp: float_text_def)
    next
      case False
      then obtain w p where "scan_number t = Some (w, p, [])" "p \<noteq> []" "cd_float cd t = t"
        using assms(1) JFloat by (auto simp: printable_float_def split: option.splits)
      with parse_value_number [OF this(1) r] parse_printed_float [OF r this(3,1,2)] False show ?thesis
        by (simp add: JFloat k float_text_def)
    qed
  next
    case (JStr s)
    then show ?thesis by (simp add: k json_quote_def scan_quoted)
  qed (use assms k parse_words(1-3) [of r] in simp_all)
qed

lemma join_starts:
  "xs \<noteq> [] \<Longrightarrow> \<forall>x \<in> set xs. \<forall>r. starts_value (p x @ r) \<Longrightarrow> starts_value (join s (map p xs) @ r)"
  by (cases xs; cases "tl xs") auto

lemma parse_items_printed:
  fixes p :: "json \<Rightarrow> string"
  assumes "xs \<noteq> []" and "\<forall>x \<in> set xs. \<forall>r. starts_value (p x @ r)"
    and "\<And>x k r. x \<in> set xs \<Longrightarrow> ends_value r \<Longrightarrow> 2 * length (p x @ r) < k \<Longrightarrow> parse_value cd k (p x @ r) = Some (x, r)"
    and "2 * length (join (separator l n) (map p xs) @ close_text l n @ CHR '']'' # r) + 1 < k"
  shows "parse_items cd k (join (separator l n) (map p xs) @ close_text l n @ CHR '']'' # r) = Some (xs, r)"
  using assms
proof (induction xs arbitrary: k rule: induct_list012)
  case (2 x)
  obtain m where k: "k = Suc m" using "2.prems"(4) by (cases k) auto
  have "ends_value (close_text l n @ CHR '']'' # r)"
    by (rule ends_value_blanks [OF layout_blanks(2) ends_value_closers(1)])
  from "2.prems"(3) [OF _ this, of x m] "2.prems"(4) show ?case
    by (simp add: k skip_blanks [OF layout_blanks(2)])
next
  case (3 x y zs)
  obtain m where k: "k = Suc m" using "3.prems"(4) by (cases k) auto
  obtain b where b: "separator l n = CHR '','' # b" "list_all is_blank b" by (rule separator_blanks)
  define t where "t = join (separator l n) (map p (y # zs)) @ close_text l n @ CHR '']'' # r"
  have whole: "join (separator l n) (map p (x # y # zs)) @ close_text l n @ CHR '']'' # r = p x @ CHR '','' # b @ t"
    by (simp add: b(1) t_def)
  have head: "parse_value cd m (p x @ CHR '','' # b @ t) = Some (x, CHR '','' # b @ t)"
    using "3.prems"(4) unfolding whole by (intro "3.prems"(3) ends_value_closers) (simp_all add: k)
  have "starts_value t" unfolding t_def using "3.prems"(2) by (intro join_starts) auto
  then have skip: "skip (b @ t) = t" by (simp add: skip_blanks [OF b(2)] starts_skip)
  have "parse_items cd m t = Some (y # zs, r)"
    using "3.prems" unfolding whole unfolding t_def by (intro "3.IH"(2)) (simp_all add: k)
  then show ?case unfolding whole k by (simp add: head skip)
qed simp

lemma parse_member:
  assumes "starts_value (t @ z)" and "parse_value cd m (t @ z) = Some (v, z)"
  shows "parse_members cd (Suc m) (json_quote key @ colon l @ t @ z) =
    (case after ''}'' (skip z) of
       Some z' \<Rightarrow> Some ([(key, v)], z')
     | None \<Rightarrow> Option.bind (after '','' (skip z)) (\<lambda>z.
         Option.bind (parse_members cd m (skip z)) (\<lambda>(kvs, z'). Some ((key, v) # kvs, z'))))"
proof -
  obtain b where b: "colon l = CHR '':'' # b" "list_all is_blank b" by (rule colon_blanks)
  show ?thesis
    using assms by (simp add: json_quote_def scan_quoted b(1) skip_blanks [OF b(2)] starts_skip)
qed

lemma parse_members_printed:
  fixes p :: "json \<Rightarrow> string" and l :: layout
  defines "q \<equiv> \<lambda>kv. json_quote (fst kv) @ colon l @ p (snd kv)"
  assumes "kvs \<noteq> []" and "\<forall>kv \<in> set kvs. \<forall>r. starts_value (p (snd kv) @ r)"
    and "\<And>kv k r. kv \<in> set kvs \<Longrightarrow> ends_value r \<Longrightarrow> 2 * length (p (snd kv) @ r) < k
      \<Longrightarrow> parse_value cd k (p (snd kv) @ r) = Some (snd kv, r)"
    and "2 * length (join (separator l n) (map q kvs) @ close_text l n @ CHR ''}'' # r) + 1 < k"
  shows "parse_members cd k (join (separator l n) (map q kvs) @ close_text l n @ CHR ''}'' # r) = Some (kvs, r)"
  using assms(2-)
proof (induction kvs arbitrary: k rule: induct_list012)
  case (2 x)
  obtain m where k: "k = Suc m" using "2.prems"(4) by (cases k) auto
  let ?z = "close_text l n @ CHR ''}'' # r"
  have "ends_value ?z" by (rule ends_value_blanks [OF layout_blanks(2) ends_value_closers(2)])
  from "2.prems"(3) [OF _ this, of x m] "2.prems"(4)
  have head: "parse_value cd m (p (snd x) @ ?z) = Some (snd x, ?z)" by (simp add: k q_def json_quote_def)
  show ?case using parse_member [OF _ head] "2.prems"(2)
    by (simp add: k q_def skip_blanks [OF layout_blanks(2)])
next
  case (3 x y zs)
  obtain m where k: "k = Suc m" using "3.prems"(4) by (cases k) auto
  obtain b where b: "separator l n = CHR '','' # b" "list_all is_blank b" by (rule separator_blanks)
  define t where "t = join (separator l n) (map q (y # zs)) @ close_text l n @ CHR ''}'' # r"
  let ?z = "CHR '','' # b @ t"
  have whole: "join (separator l n) (map q (x # y # zs)) @ close_text l n @ CHR ''}'' # r
      = json_quote (fst x) @ colon l @ p (snd x) @ ?z"
    by (simp add: b(1) q_def t_def)
  have head: "parse_value cd m (p (snd x) @ ?z) = Some (snd x, ?z)"
    using "3.prems"(4) unfolding whole by (intro "3.prems"(3) ends_value_closers) (simp_all add: k json_quote_def)
  have "starts_value t" unfolding t_def by (cases zs) (simp_all add: q_def json_quote_def starts_value_def)
  then have skip: "skip (b @ t) = t" by (simp add: skip_blanks [OF b(2)] starts_skip)
  have rest: "parse_members cd m t = Some (y # zs, r)"
    using "3.prems" unfolding whole unfolding t_def by (intro "3.IH"(2)) (simp_all add: k)
  have "parse_members cd (Suc m) (json_quote (fst x) @ colon l @ p (snd x) @ ?z)
      = Option.bind (parse_members cd m t) (\<lambda>(kvs, z'). Some ((fst x, snd x) # kvs, z'))"
    using "3.prems"(2) by (subst parse_member [OF _ head]) (simp_all add: skip)
  then show ?case unfolding whole k by (simp add: rest)
qed simp

theorem parse_printed:
  assumes "textual cd v" and "ends_value r" and "2 * length (print_json l n v @ r) < k"
  shows "parse_value cd k (print_json l n v @ r) = Some (v, r)"
  using assms
proof (induction v arbitrary: n r k)
  case (JArr xs)
  obtain m where k: "k = Suc m" using JArr.prems(3) by (cases k) auto
  show ?case
  proof (cases "xs = []")
    case False
    let ?t = "join (separator l n) (map (print_json l (Suc n)) xs) @ close_text l n @ CHR '']'' # r"
    have starts: "\<forall>x \<in> set xs. \<forall>r. starts_value (print_json l (Suc n) x @ r)"
      using JArr.prems(1) printed_starts by (auto simp: list_all_iff)
    then have "starts_value ?t" using False by (intro join_starts) auto
    moreover have "parse_items cd m ?t = Some (xs, r)"
      using JArr.prems False starts by (intro parse_items_printed JArr.IH) (auto simp: k list_all_iff)
    ultimately show ?thesis using False by (simp add: k skip_blanks [OF layout_blanks(1)] starts_skip)
  qed (simp add: k)
next
  case (JObj kvs)
  obtain m where k: "k = Suc m" using JObj.prems(3) by (cases k) auto
  show ?case
  proof (cases "kvs = []")
    case False
    let ?q = "\<lambda>kv. json_quote (fst kv) @ colon l @ print_json l (Suc n) (snd kv)"
    let ?t = "join (separator l n) (map ?q kvs) @ close_text l n @ CHR ''}'' # r"
    have "\<forall>kv \<in> set kvs. \<forall>r. starts_value (print_json l (Suc n) (snd kv) @ r)"
      using JObj.prems(1) printed_starts by (auto simp: list_all_iff)
    then have "parse_members cd m ?t = Some (kvs, r)"
      using JObj.prems False by (intro parse_members_printed JObj.IH) (auto simp: k list_all_iff snds.simps)
    moreover have "starts_value ?t"
      using False by (cases kvs; cases "tl kvs") (auto simp: json_quote_def starts_value_def)
    ultimately show ?thesis using False JObj.prems(1)
      by (simp add: k skip_blanks [OF layout_blanks(1)] starts_skip dict_of_distinct)
  qed (simp add: k)
qed (rule parse_scalar; simp)+

section \<open>The text of a value\<close>

lemma ends_value_text: "r = [] \<or> is_blank (hd r) \<Longrightarrow> ends_value r"
  using blank_ends by (cases r) (auto simp: ends_value_def)

lemma parse_document:
  assumes "textual cd v" and "r = [] \<or> is_blank (hd r)"
  shows "loads cd (print_json l n v @ r) = (if skip r = [] then Some v else None)"
proof -
  have "skip (print_json l n v @ r) = print_json l n v @ r"
    by (rule starts_skip(1) [OF printed_starts [OF assms(1)]])
  moreover have "parse_value cd (Suc (2 * length (print_json l n v @ r))) (print_json l n v @ r) = Some (v, r)"
    by (rule parse_printed [OF assms(1) ends_value_text [OF assms(2)]]) simp
  ultimately show ?thesis unfolding loads_def by simp
qed

lemma loads_dumps:
  assumes "textual cd (decoded cd v)" and "list_all is_blank b"
  shows "loads cd (dumps cd l v @ b) = Some (decoded cd v)"
proof -
  have "b = [] \<or> is_blank (hd b)" using assms(2) by (cases b) auto
  with parse_document [OF assms(1) this] show ?thesis
    using skip_blanks [OF assms(2), of "[]"] by (simp add: dumps_def skip_def)
qed

text \<open>Printed text consists of printable ASCII characters, and of line feeds where it is indented.\<close>

definition printable :: "char \<Rightarrow> bool" where
  "printable c \<longleftrightarrow> 32 \<le> (of_char c :: int) \<and> of_char c \<le> (126 :: int)"

lemma printable_literals [simp]:
  "printable (CHR 0x22)" "printable (CHR 0x5C)" "printable (CHR ''n'')" "printable (CHR ''r'')"
  "printable (CHR ''t'')" "printable (CHR ''f'')" "printable (CHR ''b'')" "printable (CHR ''u'')"
  "printable (CHR ''0'')" "printable (CHR ''-'')" "printable (CHR ''.'')" "printable (CHR ''e'')"
  "printable (CHR ''E'')" "printable (CHR ''+'')" "printable (CHR ''{'')" "printable (CHR ''}'')"
  "printable (CHR ''['')" "printable (CHR '']'')" "printable (CHR '':'')" "printable (CHR '','')"
  "printable (CHR '' '')" "printable (CHR ''l'')" "printable (CHR ''a'')" "printable (CHR ''s'')"
  "printable (CHR ''N'')" "printable (CHR ''I'')" "printable (CHR ''i'')" "printable (CHR ''y'')"
  by (simp_all add: printable_def)

lemma printable_digits: "is_digit c \<Longrightarrow> printable c"
  by (auto simp: is_digit_iff printable_def)

lemma printable_hex: "0 \<le> d \<Longrightarrow> d < 16 \<Longrightarrow> printable (hex_digit d)"
proof -
  have "list_all (\<lambda>d. printable (hex_digit d)) [0..15]" by code_simp
  then show "0 \<le> d \<Longrightarrow> d < 16 \<Longrightarrow> printable (hex_digit d)" by (simp add: list_all_iff)
qed

lemma printable_escape: "list_all printable (json_escape c)"
proof -
  define n where "n = (of_char c :: int)"
  have "printable (hex_digit (n div 16))" "printable (hex_digit (n mod 16))"
    using char_code [of c] unfolding n_def by (intro printable_hex; simp)+
  moreover have "32 \<le> n \<Longrightarrow> n \<le> 126 \<Longrightarrow> printable c" by (simp add: printable_def n_def)
  ultimately show ?thesis
    by (auto simp: json_escape_def Let_def simp flip: n_def)
qed

lemma printable_quote: "list_all printable (json_quote s)"
  using printable_escape by (auto simp: json_quote_def list_all_iff)

lemma printable_number:
  assumes "scan_number s = Some (w, p, [])"
  shows "list_all printable s"
proof -
  have digits: "list_all printable (takeWhile is_digit t)" for t
    using printable_digits by (auto simp: list_all_iff dest: set_takeWhileD)
  have f: "list_all printable (fst (scan_fraction t))" for t
    using digits by (cases t) (simp_all add: scan_fraction_def)
  have sign: "t = [] \<or> t = ''-'' \<or> t = ''+'' \<Longrightarrow> list_all printable t" for t
    by (auto simp: printable_def)
  have e: "list_all printable (fst (scan_exponent t))" for t
    using digits by (cases t) (auto simp: scan_exponent_def Let_def)
  define sign where "sign = (if take 1 s = ''-'' then ''-'' else [])"
  define t where "t = drop (length sign) s"
  define ds where "ds = (if take 1 t = ''0'' then ''0'' else takeWhile is_digit t)"
  have "scan_number s = (case scan_fraction (drop (length ds) t) of
      (f, z) \<Rightarrow> case scan_exponent z of (e, z') \<Rightarrow> if ds = [] then None else Some (sign @ ds, f @ e, z'))"
    by (simp only: scan_number_def Let_def sign_def ds_def t_def)
  with assms f [of "drop (length ds) t"] e [of "snd (scan_fraction (drop (length ds) t))"]
  have "w = sign @ ds" "list_all printable p" by (auto split: prod.splits if_splits)
  moreover have "list_all printable sign" "list_all printable ds" using digits by (simp_all add: sign_def ds_def)
  ultimately show ?thesis using number_split(1) [OF assms] by simp
qed

lemma printable_int: "list_all printable (show_int i)"
  using show_nn_digits [of "\<bar>i\<bar>"] printable_digits
  by (auto simp: show_int_def list_all_iff)

text \<open>Line feeds come from the indented layout only.\<close>

definition laid_out :: "layout \<Rightarrow> string \<Rightarrow> bool" where
  "laid_out l = list_all (\<lambda>c. printable c \<or> l = Indented \<and> c = CHR 0x0A)"

lemma laid_out_printable: "list_all printable s \<Longrightarrow> laid_out l s"
  by (auto simp: laid_out_def elim: list.pred_mono_strong)

lemma laid_out_simps [simp]:
  "laid_out l []" "laid_out l (s @ t) = (laid_out l s \<and> laid_out l t)"
  "laid_out l (c # s) = ((printable c \<or> l = Indented \<and> c = CHR 0x0A) \<and> laid_out l s)"
  by (simp_all add: laid_out_def)

lemma laid_out_layout [simp]:
  "laid_out l (open_text l n)" "laid_out l (close_text l n)" "laid_out l (separator l n)" "laid_out l (colon l)"
  by (cases l; simp add: open_text_def close_text_def separator_def colon_def line_at_def laid_out_def list_all_iff)+

lemma laid_out_join: "laid_out l s \<Longrightarrow> list_all (laid_out l) xs \<Longrightarrow> laid_out l (join s xs)"
  by (induction s xs rule: join.induct) simp_all

lemma printed_chars: "textual cd v \<Longrightarrow> laid_out l (print_json l n v)"
proof (induction v arbitrary: n)
  case (JFloat t)
  then show ?case
    by (auto simp: float_text_def printable_float_def split: option.splits intro: laid_out_printable printable_number)
next
  case (JArr xs)
  then show ?case by (auto simp: list_all_iff intro!: laid_out_join)
next
  case (JObj kvs)
  have "laid_out l (json_quote (fst kv) @ colon l @ print_json l (Suc n) (snd kv))" if "kv \<in> set kvs" for kv
    using that JObj by (auto simp: list_all_iff snds.simps intro: laid_out_printable printable_quote)
  then show ?case by (auto simp: list_all_iff intro!: laid_out_join)
qed (simp_all add: laid_out_printable printable_int printable_quote)

text \<open>
  A text of one line unless it is indented; indented, a value with members begins with a line that is
  no JSON.
\<close>

lemma one_line: "textual cd v \<Longrightarrow> l \<noteq> Indented \<Longrightarrow> list_all printable (print_json l n v)"
  using printed_chars [of cd v l n] by (simp add: laid_out_def)

lemma broken_lines [simp]: "loads cd ''{'' = None" "loads cd ''['' = None"
  by (simp_all add: loads_def skip_def is_blank_def numeral_2_eq_2)

lemma loads_empty_object: "loads cd ''{}'' = Some (JObj [])"
  using loads_dumps [of cd "JObj []" "[]" Compact] by (simp add: dumps_def)

section \<open>Objects in the order of their keys\<close>

lemma distinct_sorted: "distinct (map fst (sort_key fst kvs)) = distinct (map fst (kvs :: (string \<times> 'a) list))"
  by (simp add: distinct_map)

lemma map_of_sorted: "distinct (map fst kvs) \<Longrightarrow> map_of (sort_key fst kvs) = map_of (kvs :: (string \<times> 'a) list)"
proof (rule ext)
  fix k
  assume d: "distinct (map fst kvs)"
  then have "map_of (sort_key fst kvs) k = Some v \<longleftrightarrow> map_of kvs k = Some v" for v
    using distinct_sorted [of kvs] by simp
  then show "map_of (sort_key fst kvs) k = map_of kvs k" by (metis not_None_eq)
qed

lemma decoded_lookup:
  assumes "distinct (map fst kvs)"
  shows "map_of (decoded_object cd kvs) k = map_option (decoded cd) (map_of kvs k)"
proof -
  have "fst \<circ> (\<lambda>(k :: string, v). (k, decoded cd v)) = fst" by (simp add: fun_eq_iff split_def)
  with assms have "map_of (decoded_object cd kvs) = map_of (map (\<lambda>(k, v). (k, decoded cd v)) kvs)"
    unfolding decoded_object_def by (intro map_of_sorted) simp
  then show ?thesis by (simp add: map_of_map)
qed

lemma textual_object:
  "textual cd (decoded cd (JObj kvs)) \<longleftrightarrow>
    distinct (map fst kvs) \<and> list_all (\<lambda>kv. textual cd (decoded cd (snd kv))) kvs"
proof -
  have "fst \<circ> (\<lambda>(k :: string, v). (k, decoded cd v)) = fst" by (simp add: fun_eq_iff split_def)
  then show ?thesis by (auto simp: distinct_sorted list_all_iff)
qed

end
