(* ===== verification/Audit_Records.thy ===== *)
theory Audit_Records
  imports Sha256 Json_Store Json_Text Numbered_Log
begin

text \<open>
  \<open>services/audit/records.py\<close>: every decision on a command is recorded with the keys of its payload
  and a fingerprint of the payload's shape, never with its values. Texts are ASCII, whose order by
  characters is the order of Python's strings.
\<close>

section \<open>Redaction\<close>

text \<open>\<open>fragment in text\<close>\<close>

fun occurs_in :: "string \<Rightarrow> string \<Rightarrow> bool" where
  "occurs_in p [] = (p = [])"
| "occurs_in p (c # cs) = (take (length p) (c # cs) = p \<or> occurs_in p cs)"

definition sensitive_key_fragments :: "string list" where
  "sensitive_key_fragments =
     [''api_key'', ''apikey'', ''credential'', ''jwt'', ''password'', ''private'', ''secret'', ''token'']"

definition is_sensitive_key :: "string \<Rightarrow> bool" where
  "is_sensitive_key key = list_ex (\<lambda>fragment. occurs_in fragment (lower key)) sensitive_key_fragments"

fun type_text :: "json \<Rightarrow> string" where
  "type_text JNull = ''<NoneType>''"
| "type_text (JBool _) = ''<bool>''"
| "type_text (JInt _) = ''<int>''"
| "type_text (JFloat _) = ''<float>''"
| "type_text (JStr _) = ''<str>''"
| "type_text (JTime _) = ''<str>''"
| "type_text (JSeconds _) = ''<float>''"
| "type_text (JArr _) = ''<list>''"
| "type_text (JObj _) = ''<dict>''"

fun shape_only :: "json \<Rightarrow> json" where
  "shape_only (JObj kvs) =
     JObj (sort_key fst (map (\<lambda>(k, v). (k, if is_sensitive_key k then JStr ''<redacted>'' else shape_only v)) kvs))"
| "shape_only (JArr xs) = JArr (map shape_only xs)"
| "shape_only JNull = JNull"
| "shape_only v = JStr (type_text v)"

section \<open>The fingerprint\<close>

text \<open>\<open>json.dumps(shape, sort_keys=True, separators=(",", ":"))\<close>, with \<open>ensure_ascii\<close>.\<close>

definition payload_fingerprint :: "json_object \<Rightarrow> string" where
  "payload_fingerprint payload = take 16 (sha256_hex (print_json Compact 0 (shape_only (JObj payload))))"

section \<open>The recorder\<close>

record audit_record =
  ar_record_id :: string
  ar_command_type :: string
  ar_actor_id :: string
  ar_decision :: string
  ar_reasons :: "string list"
  ar_payload_keys :: "string list"
  ar_payload_fingerprint :: string
  ar_runtime :: json_object
  ar_created_at :: string

definition audit_to_public_dict :: "audit_record \<Rightarrow> json" where
  "audit_to_public_dict r = JObj
     [(''record_id'', JStr (ar_record_id r)),
      (''command_type'', JStr (ar_command_type r)),
      (''actor_id'', JStr (ar_actor_id r)),
      (''decision'', JStr (ar_decision r)),
      (''reasons'', jstrs (ar_reasons r)),
      (''payload_keys'', jstrs (ar_payload_keys r)),
      (''payload_fingerprint'', JStr (ar_payload_fingerprint r)),
      (''runtime'', JObj (ar_runtime r)),
      (''created_at'', JStr (ar_created_at r))]"

text \<open>What a caller says of a decision; the time is the recorder's own reading of the clock.\<close>

record decision_facts =
  df_command_type :: string
  df_actor_id :: string
  df_decision :: string
  df_reasons :: "string list"
  df_payload :: json_object
  df_runtime :: json_object

definition append_record :: "decision_facts \<times> datetime \<Rightarrow> audit_record list \<Rightarrow> audit_record list" where
  "append_record = (\<lambda>(d, now) records. records @
     [\<lparr>ar_record_id = numbered_id ''audit-'' (Suc (length records)),
       ar_command_type = df_command_type d, ar_actor_id = df_actor_id d,
       ar_decision = df_decision d, ar_reasons = df_reasons d,
       ar_payload_keys = sort (map fst (df_payload d)),
       ar_payload_fingerprint = payload_fingerprint (df_payload d),
       ar_runtime = df_runtime d, ar_created_at = isoformat now\<rparr>])"

definition record_decision :: "decision_facts \<Rightarrow> datetime \<Rightarrow> (audit_record list, audit_record) act" where
  "record_decision d now =
     bind_act (modify (append_record (d, now))) (\<lambda>_. gets last)"

definition records_to_public_list :: "audit_record list \<Rightarrow> json list" where
  "records_to_public_list = map audit_to_public_dict"

section \<open>The file-backed recorder\<close>

text \<open>
  Rows of the file are read with \<open>str\<close>, \<open>tuple\<close> and \<open>dict\<close> around their fields: a missing field
  raises \<open>KeyError\<close>, a value that cannot be iterated \<open>TypeError\<close>. A text iterates over its
  characters, an object over its keys. \<open>dict\<close> accepts an object or pairs; keys that are no texts
  count as unhashable.
\<close>

fun py_iter :: "json \<Rightarrow> json list res" where
  "py_iter (JArr xs) = Inr xs"
| "py_iter (JStr s) = Inr (map (\<lambda>c. JStr [c]) s)"
| "py_iter (JObj kvs) = Inr (map (JStr \<circ> fst) kvs)"
| "py_iter _ = Inl (Raise TypeError ''object is not iterable'')"

definition dict_pair :: "json_object \<Rightarrow> json \<Rightarrow> json_object res" where
  "dict_pair obj item = bind_res (py_iter item) (\<lambda>parts.
     case parts of
       [JStr k, v] \<Rightarrow> Inr (dict_put obj k v)
     | [_, _] \<Rightarrow> Inl (Raise TypeError ''unhashable type'')
     | _ \<Rightarrow> Inl (Raise ValueError ''dictionary update sequence element has the wrong length''))"

fun py_dict :: "json \<Rightarrow> json_object res" where
  "py_dict (JObj kvs) = Inr kvs"
| "py_dict v = bind_res (py_iter v) (foldM_res dict_pair [])"

definition row_texts :: "json_object \<Rightarrow> string \<Rightarrow> string list res" where
  "row_texts row k = map_res (map py_str) (py_iter (jget_default row k (JArr [])))"

definition record_from_row :: "json_object \<Rightarrow> audit_record res" where
  "record_from_row row =
     bind_res (field_of row ''record_id'') (\<lambda>record_id.
     bind_res (field_of row ''command_type'') (\<lambda>command_type.
     bind_res (field_of row ''actor_id'') (\<lambda>actor_id.
     bind_res (field_of row ''decision'') (\<lambda>decision.
     bind_res (row_texts row ''reasons'') (\<lambda>reasons.
     bind_res (row_texts row ''payload_keys'') (\<lambda>keys.
     bind_res (field_of row ''payload_fingerprint'') (\<lambda>fingerprint.
     bind_res (py_dict (jget_default row ''runtime'' (JObj []))) (\<lambda>runtime.
     bind_res (field_of row ''created_at'') (\<lambda>created_at.
     Inr \<lparr>ar_record_id = py_str record_id, ar_command_type = py_str command_type,
          ar_actor_id = py_str actor_id, ar_decision = py_str decision, ar_reasons = reasons,
          ar_payload_keys = keys, ar_payload_fingerprint = py_str fingerprint,
          ar_runtime = runtime, ar_created_at = py_str created_at\<rparr>)))))))))"

record file_recorder =
  fr_records :: "audit_record list"
  fr_store :: json_store
  fr_jsonl_name :: string

definition default_jsonl_name :: string where "default_jsonl_name = ''audit/records.jsonl''"

definition open_recorder :: "json_store \<Rightarrow> string \<Rightarrow> file_recorder res" where
  "open_recorder st name =
     bind_res (read_jsonl name st) (\<lambda>rows.
     bind_res (mapM_res record_from_row rows) (\<lambda>records.
     Inr \<lparr>fr_records = records, fr_store = st, fr_jsonl_name = name\<rparr>))"

definition file_record_decision :: "decision_facts \<Rightarrow> datetime \<Rightarrow> (file_recorder, audit_record) act" where
  "file_record_decision d now =
     bind_act (modify (\<lambda>r. r\<lparr>fr_records := append_record (d, now) (fr_records r)\<rparr>)) (\<lambda>_.
     bind_act (gets (\<lambda>r. last (fr_records r))) (\<lambda>entry.
     bind_act (modify (\<lambda>r. r\<lparr>fr_store := append_jsonl (fr_jsonl_name r) (audit_to_public_dict entry) (fr_store r)\<rparr>)) (\<lambda>_.
     bind_act (modify (\<lambda>r. r\<lparr>fr_store := write_json ''audit/latest.json''
       (JObj [(''records'', JArr (records_to_public_list (fr_records r)))]) (fr_store r)\<rparr>)) (\<lambda>_.
     ret entry))))"

section \<open>Payloads that differ in values only\<close>

definition is_scalar :: "json \<Rightarrow> bool" where
  "is_scalar v = (case v of JArr _ \<Rightarrow> False | JObj _ \<Rightarrow> False | _ \<Rightarrow> True)"

text \<open>
  The same keys in the same places, and values of the same types; below a sensitive key anything.
\<close>

inductive masks :: "json \<Rightarrow> json \<Rightarrow> bool" where
  masks_scalar: "is_scalar v \<Longrightarrow> is_scalar w \<Longrightarrow> type_text v = type_text w \<Longrightarrow> masks v w"
| masks_list: "list_all2 masks xs ys \<Longrightarrow> masks (JArr xs) (JArr ys)"
| masks_dict: "list_all2 (\<lambda>a b. fst a = fst b \<and> (is_sensitive_key (fst a) \<or> masks (snd a) (snd b))) kvs lws \<Longrightarrow>
    masks (JObj kvs) (JObj lws)"
monos list_all2_mono

inductive_cases masks_dictE: "masks (JObj kvs) (JObj lws)"

lemma list_all2_map_eq: "list_all2 R xs ys \<Longrightarrow> (\<And>x y. R x y \<Longrightarrow> f x = f y) \<Longrightarrow> map f xs = map f ys"
  by (simp add: list_all2_conv_all_nth list_eq_iff_nth_eq)

lemma shape_scalar: "is_scalar v \<Longrightarrow> shape_only v = (if v = JNull then JNull else JStr (type_text v))"
  by (cases v) (simp_all add: is_scalar_def)

lemma shape_only_masks: "masks v w \<Longrightarrow> shape_only v = shape_only w"
proof (induction rule: masks.induct)
  case (masks_scalar v w)
  then show ?case by (cases v; cases w) (simp_all add: is_scalar_def)
next
  case (masks_list xs ys)
  then have "map shape_only xs = map shape_only ys" by (intro list_all2_map_eq [where R = "\<lambda>v w. masks v w \<and> shape_only v = shape_only w"]) auto
  then show ?case by simp
next
  case (masks_dict kvs lws)
  let ?f = "\<lambda>(k, v). (k, if is_sensitive_key k then JStr ''<redacted>'' else shape_only v)"
  have "map ?f kvs = map ?f lws"
    by (rule list_all2_map_eq [OF masks_dict]) (auto split: prod.splits)
  then show ?case by simp
qed

lemma masks_keys: "masks (JObj kvs) (JObj lws) \<Longrightarrow> map fst kvs = map fst lws"
  by (erule masks_dictE) (auto simp: is_scalar_def intro!: list_all2_map_eq)

section \<open>The log of records\<close>

interpretation audit_log: numbered_log "''audit-''" ar_record_id append_record
  by unfold_locales (auto simp: append_record_def split: prod.splits)

lemma row_of_record: "\<exists>row. audit_to_public_dict r = JObj row \<and> record_from_row row = Inr r"
proof -
  have texts: "map (py_str \<circ> JStr) xs = xs" for xs by (simp add: py_str_def comp_def)
  show ?thesis
    by (simp add: audit_to_public_dict_def record_from_row_def field_of_def row_texts_def
        jget_default_def jstrs_def texts py_str_def)
qed

section \<open>A recorder and its file\<close>

lemma latest_path: "store_path_of default_jsonl_name \<noteq> store_path_of ''audit/latest.json''"
  by code_simp

definition mirrors :: "file_recorder \<Rightarrow> bool" where
  "mirrors r \<longleftrightarrow> fr_jsonl_name r = default_jsonl_name
     \<and> (\<exists>rows. read_jsonl default_jsonl_name (fr_store r) = Inr rows
          \<and> mapM_res record_from_row rows = Inr (fr_records r))"

lemma open_mirrors: "open_recorder st default_jsonl_name = Inr r \<Longrightarrow> mirrors r"
  unfolding open_recorder_def mirrors_def
  by (auto simp: bind_res_eq_Inr)

lemma mirrors_open: "mirrors r \<Longrightarrow> open_recorder (fr_store r) default_jsonl_name = Inr r"
  by (auto simp: open_recorder_def mirrors_def)

lemma file_record_decision_state:
  "snd (file_record_decision d now r) =
     (let entry = last (append_record (d, now) (fr_records r))
      in r\<lparr>fr_records := append_record (d, now) (fr_records r),
           fr_store := write_json ''audit/latest.json''
             (JObj [(''records'', JArr (records_to_public_list (append_record (d, now) (fr_records r))))])
             (append_jsonl (fr_jsonl_name r) (audit_to_public_dict entry) (fr_store r))\<rparr>)"
  by (simp add: file_record_decision_def Let_def)

lemma record_mirrors:
  assumes "mirrors r"
  shows "mirrors (snd (file_record_decision d now r))"
proof -
  let ?rs = "append_record (d, now) (fr_records r)"
  obtain rows where rows: "read_jsonl default_jsonl_name (fr_store r) = Inr rows"
    "mapM_res record_from_row rows = Inr (fr_records r)" using assms by (auto simp: mirrors_def)
  obtain e where e: "?rs = fr_records r @ [e]" by (auto simp: append_record_def)
  from row_of_record [of e] obtain row where row: "audit_to_public_dict e = JObj row"
    "record_from_row row = Inr e" by blast
  have "mapM_res record_from_row (rows @ [row]) = Inr ?rs"
    using rows(2) row(2) by (simp add: mapM_res_append e)
  moreover have "read_jsonl default_jsonl_name (fr_store (snd (file_record_decision d now r))) = Inr (rows @ [row])"
    using assms append_read_jsonl [OF rows(1), of row] write_json_other [OF latest_path]
    by (simp add: file_record_decision_state Let_def mirrors_def e row(1))
  ultimately show ?thesis
    using assms by (simp add: mirrors_def file_record_decision_state Let_def)
qed

text \<open>A stream of decisions with the times they were recorded at.\<close>

definition record_all :: "(decision_facts \<times> datetime) list \<Rightarrow> file_recorder \<Rightarrow> file_recorder" where
  "record_all ds r = foldl (\<lambda>r (d, now). snd (file_record_decision d now r)) r ds"

lemma record_all_mirrors: "mirrors r \<Longrightarrow> mirrors (record_all ds r)"
  by (induction ds arbitrary: r) (auto simp: record_all_def record_mirrors)

lemma record_all_records:
  "\<exists>news. fr_records (record_all ds r) = fr_records r @ news \<and> length news = length ds"
proof (induction ds arbitrary: r)
  case (Cons p ds)
  obtain d now where p: "p = (d, now)" by (cases p)
  let ?r = "snd (file_record_decision d now r)"
  obtain e where e: "fr_records ?r = fr_records r @ [e]"
    by (auto simp: file_record_decision_state Let_def append_record_def)
  have all: "record_all (p # ds) r = record_all ds ?r" by (simp add: record_all_def p)
  from Cons.IH [of ?r] obtain news where "fr_records (record_all ds ?r) = fr_records ?r @ news"
    "length news = length ds" by blast
  then show ?case by (simp add: all e)
qed (simp add: record_all_def)

definition sample_decision :: decision_facts where
  "sample_decision =
     \<lparr>df_command_type = ''paper.submit_order'', df_actor_id = ''operator'', df_decision = ''approved'',
      df_reasons = [], df_payload = [(''api_key'', JStr ''k1''), (''quantity'', JStr ''1'')], df_runtime = []\<rparr>"

section \<open>Properties\<close>

text \<open>
  C22: Audit records hide values. Two commands whose payloads differ in values only - in values of the
  same type anywhere, and in anything at all below a key that looks sensitive - leave exactly the
  same audit record: nothing in the log depends on a secret.
\<close>

theorem audit_hides_values:
  assumes "masks (JObj (df_payload d)) (JObj p)"
  shows "append_record (d\<lparr>df_payload := p\<rparr>, now) rs = append_record (d, now) rs"
  using shape_only_masks [OF assms] masks_keys [OF assms]
  by (simp add: append_record_def payload_fingerprint_def del: shape_only.simps)

text \<open>
  The file-backed recorder survives a restart. After any stream of decisions, a recorder opened on
  the same store has exactly the records of the one that was running, among them all those that it
  had read at its own start, in order.
\<close>

theorem audit_survives_restart:
  assumes "open_recorder st default_jsonl_name = Inr r0" and "r = record_all ds r0"
  shows "open_recorder (fr_store r) default_jsonl_name = Inr r
    \<and> (\<exists>news. fr_records r = fr_records r0 @ news \<and> length news = length ds)"
  using mirrors_open [OF record_all_mirrors [OF open_mirrors [OF assms(1)]]] record_all_records
  by (simp add: assms(2))

theorem audit_hides_values_witness:
  "append_record (sample_decision\<lparr>df_payload := [(''api_key'', JInt 7), (''quantity'', JStr ''22'')]\<rparr>, Aware 0) []
     = append_record (sample_decision, Aware 0) []"
proof -
  have k: "is_sensitive_key ''api_key''" by code_simp
  have "masks (JObj (df_payload sample_decision)) (JObj [(''api_key'', JInt 7), (''quantity'', JStr ''22'')])"
    using k by (auto simp: sample_decision_def is_scalar_def intro!: masks_dict masks_scalar)
  then show ?thesis by (rule audit_hides_values)
qed

theorem audit_survives_restart_witness:
  "\<exists>r0. open_recorder (open_store None (\<lambda>_. None) (\<lambda>_. None)) default_jsonl_name = Inr r0
     \<and> open_recorder (fr_store (record_all [(sample_decision, Aware 0)] r0)) default_jsonl_name
       = Inr (record_all [(sample_decision, Aware 0)] r0)"
proof -
  obtain r0 where r0: "open_recorder (open_store None (\<lambda>_. None) (\<lambda>_. None)) default_jsonl_name = Inr r0"
    by (simp add: open_recorder_def read_jsonl_def open_store_def)
  from audit_survives_restart [OF r0 refl, of "[(sample_decision, Aware 0)]"] r0 show ?thesis by blast
qed

end
