(* ===== verification/Audit_Ledger.thy ===== *)
theory Audit_Ledger
  imports Audit_Records
begin

text \<open>
  \<open>services/audit/ledger.py\<close>: the command ledger. Every command is entered once under its idempotency
  key; a repeated request gets the entry it made before, a different request under a used key is an
  error. The state is the list of entries and the index of the latest entry by key.
\<close>

section \<open>Entries\<close>

datatype command_status = CL_RECEIVED | CL_ACCEPTED | CL_REJECTED | CL_COMPLETED | CL_FAILED

fun cl_value :: "command_status \<Rightarrow> string" where
  "cl_value CL_RECEIVED = ''received''"
| "cl_value CL_ACCEPTED = ''accepted''"
| "cl_value CL_REJECTED = ''rejected''"
| "cl_value CL_COMPLETED = ''completed''"
| "cl_value CL_FAILED = ''failed''"

record ledger_entry =
  le_command_id :: string
  le_idempotency_key :: string
  le_command_type :: string
  le_actor_id :: string
  le_payload_fingerprint :: string
  le_status :: command_status
  le_runtime :: json_object
  le_audit_record_id :: "string option"
  le_created_at :: string
  le_updated_at :: string
  le_duplicate :: bool

definition entry_to_public_dict :: "ledger_entry \<Rightarrow> json" where
  "entry_to_public_dict e = JObj
     [(''command_id'', JStr (le_command_id e)),
      (''idempotency_key'', JStr (le_idempotency_key e)),
      (''command_type'', JStr (le_command_type e)),
      (''actor_id'', JStr (le_actor_id e)),
      (''payload_fingerprint'', JStr (le_payload_fingerprint e)),
      (''status'', JStr (cl_value (le_status e))),
      (''runtime'', JObj (le_runtime e)),
      (''audit_record_id'', jopt JStr (le_audit_record_id e)),
      (''created_at'', JStr (le_created_at e)),
      (''updated_at'', JStr (le_updated_at e)),
      (''duplicate'', JBool (le_duplicate e))]"

section \<open>The ledger\<close>

record ledger =
  lg_entries :: "ledger_entry list"
  lg_by_key :: "string \<rightharpoonup> ledger_entry"

definition empty_ledger :: ledger where
  "empty_ledger = \<lparr>lg_entries = [], lg_by_key = (\<lambda>_. None)\<rparr>"

record received_command =
  rq_command_type :: string
  rq_actor_id :: string
  rq_payload :: json_object
  rq_runtime :: json_object
  rq_idempotency_key :: string

definition append_entry :: "received_command \<times> datetime \<Rightarrow> ledger_entry list \<Rightarrow> ledger_entry list" where
  "append_entry = (\<lambda>(c, now) entries. entries @
     [\<lparr>le_command_id = numbered_id ''cmd-'' (Suc (length entries)),
       le_idempotency_key = rq_idempotency_key c, le_command_type = rq_command_type c,
       le_actor_id = rq_actor_id c, le_payload_fingerprint = payload_fingerprint (rq_payload c),
       le_status = CL_RECEIVED, le_runtime = rq_runtime c, le_audit_record_id = None,
       le_created_at = isoformat now, le_updated_at = isoformat now, le_duplicate = False\<rparr>])"

definition record_received :: "received_command \<Rightarrow> datetime \<Rightarrow> (ledger, ledger_entry) act" where
  "record_received c now =
     (if rq_idempotency_key c = [] then of_res (Inl (Raise CommandLedgerError ''idempotency_key is required''))
      else bind_act (gets (\<lambda>l. lg_by_key l (rq_idempotency_key c))) (\<lambda>existing.
        case existing of
          Some e \<Rightarrow>
            if le_command_type e \<noteq> rq_command_type c
               \<or> le_payload_fingerprint e \<noteq> payload_fingerprint (rq_payload c)
            then of_res (Inl (Raise CommandLedgerError
              ''idempotency_key was already used for a different command''))
            else ret (e\<lparr>le_duplicate := True\<rparr>)
        | None \<Rightarrow>
            bind_act (modify (\<lambda>l. l\<lparr>lg_entries := append_entry (c, now) (lg_entries l)\<rparr>)) (\<lambda>_.
            bind_act (gets (\<lambda>l. last (lg_entries l))) (\<lambda>e.
            bind_act (modify (\<lambda>l. l\<lparr>lg_by_key := (lg_by_key l)(rq_idempotency_key c \<mapsto> e)\<rparr>)) (\<lambda>_.
            ret e)))))"

text \<open>\<open>_replace\<close>: the first entry with the identifier is updated, in the list and in the index.\<close>

definition replace_entry ::
    "string \<Rightarrow> command_status \<Rightarrow> string option \<Rightarrow> datetime \<Rightarrow> (ledger, ledger_entry) act" where
  "replace_entry command_id status audit_id now =
     bind_act (gets (\<lambda>l. map_option (\<lambda>i. (i, lg_entries l ! i))
       (find_index (\<lambda>e. le_command_id e = command_id) (lg_entries l)))) (\<lambda>found.
     case found of
       None \<Rightarrow> of_res (Inl (Raise CommandLedgerError (''unknown command_id: '' @ command_id)))
     | Some (i, e) \<Rightarrow>
         let updated = e\<lparr>le_status := status,
               le_audit_record_id := (case audit_id of None \<Rightarrow> le_audit_record_id e | Some a \<Rightarrow> Some a),
               le_updated_at := isoformat now\<rparr>
         in bind_act (modify (\<lambda>l. l\<lparr>lg_entries := (lg_entries l)[i := updated],
              lg_by_key := (lg_by_key l)(le_idempotency_key updated \<mapsto> updated)\<rparr>)) (\<lambda>_.
            ret updated))"

definition ledger_record_decision ::
    "string \<Rightarrow> bool \<Rightarrow> string option \<Rightarrow> datetime \<Rightarrow> (ledger, ledger_entry) act" where
  "ledger_record_decision command_id accepted audit_id =
     replace_entry command_id (if accepted then CL_ACCEPTED else CL_REJECTED) audit_id"

definition record_completed :: "string \<Rightarrow> datetime \<Rightarrow> (ledger, ledger_entry) act" where
  "record_completed command_id = replace_entry command_id CL_COMPLETED None"

definition ledger_public_list :: "ledger \<Rightarrow> json list" where
  "ledger_public_list l = map entry_to_public_dict (lg_entries l)"

section \<open>Runs of the ledger\<close>

datatype ledger_call =
    Receive received_command
  | Decide string bool "string option"
  | Complete string

fun after_ledger_call :: "ledger_call \<Rightarrow> datetime \<Rightarrow> ledger \<Rightarrow> ledger" where
  "after_ledger_call (Receive c) t l = snd (record_received c t l)"
| "after_ledger_call (Decide k ok a) t l = snd (ledger_record_decision k ok a t l)"
| "after_ledger_call (Complete k) t l = snd (record_completed k t l)"

inductive ledger_run :: "(ledger_call \<times> datetime) list \<Rightarrow> ledger \<Rightarrow> ledger \<Rightarrow> bool" where
  ledger_Nil: "ledger_run [] l l"
| ledger_Cons: "ledger_run cs (after_ledger_call c t l) m \<Longrightarrow> ledger_run ((c, t) # cs) l m"

inductive_cases ledger_run_ConsE: "ledger_run (p # cs) l m"

interpretation ledger_log: numbered_log "''cmd-''" le_command_id append_entry
  by unfold_locales (simp add: append_entry_def split: prod.splits)

text \<open>The index is exact: it holds precisely the entries, each under its own key.\<close>

definition ledger_ok :: "ledger \<Rightarrow> bool" where
  "ledger_ok l \<longleftrightarrow> well_numbered ''cmd-'' le_command_id (lg_entries l)
     \<and> distinct (map le_idempotency_key (lg_entries l))
     \<and> list_all (\<lambda>e. \<not> le_duplicate e) (lg_entries l)
     \<and> (\<forall>k e. lg_by_key l k = Some e \<longleftrightarrow> e \<in> set (lg_entries l) \<and> le_idempotency_key e = k)"

text \<open>What may happen to an entry: status, audit record and update time change, nothing else.\<close>

definition amends :: "ledger_entry \<Rightarrow> ledger_entry \<Rightarrow> bool" where
  "amends a b \<longleftrightarrow> (\<exists>s r t. b = a\<lparr>le_status := s, le_audit_record_id := r, le_updated_at := t\<rparr>)"

definition ledger_grows :: "ledger \<Rightarrow> ledger \<Rightarrow> bool" where
  "ledger_grows l m \<longleftrightarrow> (\<forall>i < length (lg_entries l). i < length (lg_entries m)
     \<and> amends (lg_entries l ! i) (lg_entries m ! i))"

lemma amends_refl [simp]: "amends a a"
  unfolding amends_def by (rule exI [of _ "le_status a"], rule exI [of _ "le_audit_record_id a"],
      rule exI [of _ "le_updated_at a"]) simp

lemma amends_trans: "amends a b \<Longrightarrow> amends b c \<Longrightarrow> amends a c"
  unfolding amends_def by (elim exE) (simp, blast)

lemma amends_keeps:
  "amends a b \<Longrightarrow> le_command_id b = le_command_id a \<and> le_idempotency_key b = le_idempotency_key a
     \<and> le_command_type b = le_command_type a \<and> le_payload_fingerprint b = le_payload_fingerprint a
     \<and> le_actor_id b = le_actor_id a \<and> le_created_at b = le_created_at a
     \<and> le_duplicate b = le_duplicate a"
  by (auto simp: amends_def)

lemma ledger_grows_refl [simp]: "ledger_grows l l"
  by (simp add: ledger_grows_def)

lemma ledger_grows_trans: "ledger_grows l m \<Longrightarrow> ledger_grows m n \<Longrightarrow> ledger_grows l n"
  unfolding ledger_grows_def by (meson amends_trans)

lemma ledger_ok_empty: "ledger_ok empty_ledger"
  by (simp add: ledger_ok_def empty_ledger_def)

text \<open>One update at a position, and one new entry, keep the ledger in order.\<close>

lemma ledger_ok_update:
  assumes l: "ledger_ok l" and i: "i < length (lg_entries l)" and u: "amends (lg_entries l ! i) u"
  shows "ledger_ok (l\<lparr>lg_entries := (lg_entries l)[i := u], lg_by_key := (lg_by_key l)(le_idempotency_key u \<mapsto> u)\<rparr>)"
proof -
  let ?xs = "lg_entries l"
  note k = amends_keeps [OF u]
  have keys: "map le_idempotency_key (?xs[i := u]) = map le_idempotency_key ?xs"
    using i k by (simp add: map_update list_update_same_conv)
  have ids: "map le_command_id (?xs[i := u]) = map le_command_id ?xs"
    using i k by (simp add: map_update list_update_same_conv)
  have dis: "distinct (map le_idempotency_key ?xs)" using l by (simp add: ledger_ok_def)
  have mem: "e \<in> set (?xs[i := u]) \<longleftrightarrow> (if le_idempotency_key e = le_idempotency_key u then e = u else e \<in> set ?xs)"
    for e
  proof
    assume "e \<in> set (?xs[i := u])"
    then obtain j where j: "j < length ?xs" "e = ?xs[i := u] ! j" by (metis in_set_conv_nth length_list_update)
    show "if le_idempotency_key e = le_idempotency_key u then e = u else e \<in> set ?xs"
      using j i k dis by (cases "j = i") (auto simp: distinct_conv_nth)
  next
    assume e: "if le_idempotency_key e = le_idempotency_key u then e = u else e \<in> set ?xs"
    show "e \<in> set (?xs[i := u])"
    proof (cases "le_idempotency_key e = le_idempotency_key u")
      case True
      then show ?thesis using e i by (simp add: set_update_memI)
    next
      case False
      with e obtain j where j: "j < length ?xs" "e = ?xs ! j" by (auto simp: in_set_conv_nth)
      with False k have "j \<noteq> i" by auto
      then have "?xs[i := u] ! j = e" using j by simp
      then show ?thesis using j by (metis length_list_update nth_mem)
    qed
  qed
  have "list_all (\<lambda>e. \<not> le_duplicate e) ?xs" using l by (simp add: ledger_ok_def)
  then have "list_all (\<lambda>e. \<not> le_duplicate e) (?xs[i := u])"
    using i k by (simp add: list_all_length nth_list_update)
  then show ?thesis
    using l keys mem well_numbered_cong_ids [OF _ ids] dis
    by (auto simp: ledger_ok_def split: if_splits)
qed

lemma ledger_ok_enter:
  assumes l: "ledger_ok l" and fresh: "lg_by_key l (rq_idempotency_key c) = None"
    and e: "e = last (append_entry (c, t) (lg_entries l))"
  shows "ledger_ok (l\<lparr>lg_entries := append_entry (c, t) (lg_entries l),
    lg_by_key := (lg_by_key l)(rq_idempotency_key c \<mapsto> e)\<rparr>)"
proof -
  have app: "append_entry (c, t) (lg_entries l) = lg_entries l @ [e]" "le_idempotency_key e = rq_idempotency_key c"
    by (simp_all add: append_entry_def e)
  have new: "\<not> le_duplicate e" by (simp add: append_entry_def e)
  have "\<forall>x \<in> set (lg_entries l). le_idempotency_key x \<noteq> rq_idempotency_key c"
    using l fresh unfolding ledger_ok_def by (metis option.distinct(1))
  then show ?thesis
    using l ledger_log.enter_numbered [of "lg_entries l" "(c, t)"] app new by (auto simp: ledger_ok_def)
qed

section \<open>Every call, returning or raising\<close>

lemma record_received_state:
  "record_received c t l =
     (if rq_idempotency_key c = [] then (Inl (Raise CommandLedgerError ''idempotency_key is required''), l)
      else case lg_by_key l (rq_idempotency_key c) of
        Some e \<Rightarrow>
          (if le_command_type e = rq_command_type c \<and> le_payload_fingerprint e = payload_fingerprint (rq_payload c)
           then Inr (e\<lparr>le_duplicate := True\<rparr>)
           else Inl (Raise CommandLedgerError ''idempotency_key was already used for a different command''), l)
      | None \<Rightarrow>
          let e = last (append_entry (c, t) (lg_entries l))
          in (Inr e, l\<lparr>lg_entries := append_entry (c, t) (lg_entries l),
               lg_by_key := (lg_by_key l)(rq_idempotency_key c \<mapsto> e)\<rparr>))"
  by (auto simp: record_received_def Let_def act_run split: option.splits)

lemma replace_entry_effect:
  assumes "ledger_ok l"
  shows "ledger_ok (snd (replace_entry k s a t l)) \<and> ledger_grows l (snd (replace_entry k s a t l))"
proof (cases "find_index (\<lambda>e. le_command_id e = k) (lg_entries l)")
  case None
  with assms show ?thesis by (simp add: replace_entry_def act_run)
next
  case (Some i)
  note i = find_index_Some [OF Some]
  define u where "u = (lg_entries l ! i)\<lparr>le_status := s,
    le_audit_record_id := (case a of None \<Rightarrow> le_audit_record_id (lg_entries l ! i) | Some b \<Rightarrow> Some b),
    le_updated_at := isoformat t\<rparr>"
  have am: "amends (lg_entries l ! i) u" unfolding amends_def u_def by blast
  have st: "snd (replace_entry k s a t l) =
      l\<lparr>lg_entries := (lg_entries l)[i := u], lg_by_key := (lg_by_key l)(le_idempotency_key u \<mapsto> u)\<rparr>"
    using Some by (simp add: replace_entry_def Let_def u_def)
  show ?thesis
    unfolding st using ledger_ok_update [OF assms conjunct1 [OF i] am] am i
    by (simp add: ledger_grows_def nth_list_update)
qed

lemma ledger_call_effect:
  assumes "ledger_ok l"
  shows "ledger_ok (after_ledger_call c t l) \<and> ledger_grows l (after_ledger_call c t l)"
proof (cases c)
  case (Receive r)
  then show ?thesis
    using assms ledger_ok_enter [OF assms _ refl, of r t]
    by (auto simp: record_received_state Let_def ledger_grows_def ledger_log.enter_old split: option.splits)
qed (use replace_entry_effect [OF assms] in \<open>simp_all add: ledger_record_decision_def record_completed_def\<close>)

lemma ledger_run_effect:
  "ledger_run cs l m \<Longrightarrow> ledger_ok l \<Longrightarrow> ledger_ok m \<and> ledger_grows l m"
proof (induction rule: ledger_run.induct)
  case (ledger_Cons cs c t l m)
  from ledger_call_effect [OF ledger_Cons.prems, of c t] ledger_Cons.IH
  show ?case by (blast intro: ledger_grows_trans)
qed simp

section \<open>Entering and deciding a command\<close>

text \<open>A request may enter under a key that is unused or was used for the same command.\<close>

definition may_enter :: "received_command \<Rightarrow> ledger \<Rightarrow> bool" where
  "may_enter c l \<longleftrightarrow> rq_idempotency_key c \<noteq> []
     \<and> (case lg_by_key l (rq_idempotency_key c) of
          None \<Rightarrow> True
        | Some e \<Rightarrow> le_command_type e = rq_command_type c \<and> le_payload_fingerprint e = payload_fingerprint (rq_payload c))"

lemma received_entry:
  assumes l: "ledger_ok l" and c: "may_enter c l"
  obtains e m where "fst (record_received c t l) = Inr e" "snd (record_received c t l) = m" "ledger_ok m"
    and "lg_by_key m (rq_idempotency_key c) = Some (e\<lparr>le_duplicate := False\<rparr>)"
    and "case lg_by_key l (rq_idempotency_key c) of None \<Rightarrow> le_status e = CL_RECEIVED | Some _ \<Rightarrow> m = l"
proof (cases "lg_by_key l (rq_idempotency_key c)")
  case None
  let ?e = "last (append_entry (c, t) (lg_entries l))"
  have "?e\<lparr>le_duplicate := False\<rparr> = ?e" "le_status ?e = CL_RECEIVED" by (simp_all add: append_entry_def)
  then show thesis
    using that ledger_ok_enter [OF l None refl, of t] None c by (simp add: record_received_state may_enter_def Let_def)
next
  case (Some e)
  then have "e \<in> set (lg_entries l)" using l by (simp add: ledger_ok_def)
  then have "\<not> le_duplicate e" using l by (simp add: ledger_ok_def list_all_iff)
  then have "e\<lparr>le_duplicate := False\<rparr> = e" by simp
  with that [of "e\<lparr>le_duplicate := True\<rparr>" l] l Some c show thesis
    by (simp add: record_received_state may_enter_def)
qed

lemma decided_entry:
  assumes l: "ledger_ok l" and e: "lg_by_key l k = Some e"
  obtains u m where
    "u = e\<lparr>le_status := if ok then CL_ACCEPTED else CL_REJECTED, le_audit_record_id := Some a, le_updated_at := isoformat t\<rparr>"
    and "ledger_record_decision (le_command_id e) ok (Some a) t l = (Inr u, m)"
    and "lg_by_key m k = Some u"
proof -
  have mem: "e \<in> set (lg_entries l)" "le_idempotency_key e = k" using l e by (auto simp: ledger_ok_def)
  then obtain i where found: "find_index (\<lambda>x. le_command_id x = le_command_id e) (lg_entries l) = Some i"
    using find_index_None [of "\<lambda>x. le_command_id x = le_command_id e" "lg_entries l"] by fastforce
  note i = find_index_Some [OF found]
  from mem obtain j where j: "j < length (lg_entries l)" "lg_entries l ! j = e" by (auto simp: in_set_conv_nth)
  have "lg_entries l ! i = e"
    using l i j well_numbered_same [of "''cmd-''" le_command_id "lg_entries l" i j] by (simp add: ledger_ok_def)
  with found mem(2) that show thesis
    by (simp add: ledger_record_decision_def replace_entry_def act_run Let_def)
qed

section \<open>A sample command\<close>

definition sample_command :: received_command where
  "sample_command = \<lparr>rq_command_type = ''paper.submit_order'', rq_actor_id = ''operator'',
     rq_payload = [(''quantity'', JStr ''1'')], rq_runtime = [], rq_idempotency_key = ''key-1''\<rparr>"

section \<open>Properties\<close>

text \<open>
  C24: Commands are entered once. Whatever calls a ledger has served, the index holds exactly the
  entries, no two entries share an idempotency key or an identifier, the n-th entry is \<open>cmd-n\<close>, and
  no entry is marked as a duplicate.
\<close>

theorem commands_entered_once:
  assumes "ledger_run cs empty_ledger l"
  shows "distinct (map le_idempotency_key (lg_entries l)) \<and> distinct (map le_command_id (lg_entries l))
    \<and> (\<forall>i < length (lg_entries l). le_command_id (lg_entries l ! i) = numbered_id ''cmd-'' (Suc i))
    \<and> list_all (\<lambda>e. \<not> le_duplicate e) (lg_entries l)
    \<and> (\<forall>k e. lg_by_key l k = Some e \<longleftrightarrow> e \<in> set (lg_entries l) \<and> le_idempotency_key e = k)"
  using ledger_run_effect [OF assms ledger_ok_empty] well_numbered_distinct
  by (auto simp: ledger_ok_def well_numbered_def)


theorem commands_entered_once_witness:
  "\<exists>l. ledger_run [(Receive sample_command, Aware 0), (Receive sample_command, Aware 1)] empty_ledger l
     \<and> length (lg_entries l) = 1
     \<and> (\<forall>i < length (lg_entries l). le_command_id (lg_entries l ! i) = numbered_id ''cmd-'' (Suc i))"
proof -
  define l where "l = after_ledger_call (Receive sample_command) (Aware 1)
    (after_ledger_call (Receive sample_command) (Aware 0) empty_ledger)"
  have run: "ledger_run [(Receive sample_command, Aware 0), (Receive sample_command, Aware 1)] empty_ledger l"
    unfolding l_def by (intro ledger_Cons ledger_Nil)
  have len: "length (lg_entries l) = 1"
    by (simp add: l_def record_received_state sample_command_def empty_ledger_def append_entry_def Let_def)
  from commands_entered_once [OF run] run len show ?thesis by blast
qed


end
