(* ===== verification/Security.thy ===== *)
theory Security
  imports Sha256
begin

text \<open>
  \<open>libs/security\<close> and \<open>services/storage/postgres.py\<close>: the token check of the single operator, the
  CSRF check, the providers of exchange credentials with their redacted metadata, and the settings
  of the production database. Environments and tokens are ASCII; what the macOS keychain holds is a
  parameter.
\<close>

section \<open>Operator authentication\<close>

definition upper_char :: "char \<Rightarrow> char" where
  "upper_char c =
     (if 97 \<le> (of_char c :: int) \<and> (of_char c :: int) \<le> 122 then char_of (of_char c - 32 :: int) else c)"

definition upper :: "string \<Rightarrow> string" where
  "upper s = map upper_char s"

datatype operator_role = OR_OWNER

fun or_value :: "operator_role \<Rightarrow> string" where
  "or_value OR_OWNER = ''owner''"

record operator_identity =
  oi_actor_id :: string
  oi_role :: operator_role

definition identity_to_public_dict :: "operator_identity \<Rightarrow> json" where
  "identity_to_public_dict i = JObj
     [(''actor_id'', JStr (oi_actor_id i)), (''role'', JStr (or_value (oi_role i)))]"

record auth_config =
  au_admin_token_hash :: "string option"
  au_csrf_token_hash :: "string option"
  au_actor_id :: string

definition nonempty :: "string option \<Rightarrow> bool" where
  "nonempty s = (case s of None \<Rightarrow> False | Some t \<Rightarrow> t \<noteq> '''')"

text \<open>\<open>token_hash or (_sha256(token) if token else None)\<close>\<close>

definition hash_or_token :: "string option \<Rightarrow> string option \<Rightarrow> string option" where
  "hash_or_token hash token =
     (if nonempty hash then hash else if nonempty token then map_option sha256_hex token else None)"

definition auth_from_env :: "(string \<rightharpoonup> string) \<Rightarrow> auth_config" where
  "auth_from_env env =
     \<lparr>au_admin_token_hash = hash_or_token (env ''TCP_ADMIN_TOKEN_SHA256'') (env ''TCP_ADMIN_TOKEN''),
      au_csrf_token_hash = hash_or_token (env ''TCP_CSRF_TOKEN_SHA256'') (env ''TCP_CSRF_TOKEN''),
      au_actor_id = (case env ''TCP_ACTOR_ID'' of None \<Rightarrow> ''local_owner'' | Some a \<Rightarrow> a)\<rparr>"

definition auth_configured :: "auth_config \<Rightarrow> bool" where
  "auth_configured c = nonempty (au_admin_token_hash c)"

definition csrf_configured :: "auth_config \<Rightarrow> bool" where
  "csrf_configured c = nonempty (au_csrf_token_hash c)"

definition auth_error :: "string \<Rightarrow> 'a res" where
  "auth_error message = Inl (Raise AuthError message)"

definition bearer_prefix :: string where "bearer_prefix = ''Bearer ''"

definition authenticate_bearer :: "auth_config \<Rightarrow> string option \<Rightarrow> operator_identity res" where
  "authenticate_bearer c authorization =
     (if \<not> auth_configured c then auth_error ''single-owner admin token is not configured''
      else case authorization of
        None \<Rightarrow> auth_error ''missing bearer token''
      | Some h \<Rightarrow>
          if h = '''' \<or> take (length bearer_prefix) h \<noteq> bearer_prefix then auth_error ''missing bearer token''
          else let presented = strip (drop (length bearer_prefix) h)
            in if presented = '''' then auth_error ''missing bearer token''
               else if Some (sha256_hex presented) \<noteq> au_admin_token_hash c
               then auth_error ''invalid bearer token''
               else Inr \<lparr>oi_actor_id = au_actor_id c, oi_role = OR_OWNER\<rparr>)"

definition unsafe_methods :: "string list" where
  "unsafe_methods = [''POST'', ''PUT'', ''PATCH'', ''DELETE'']"

definition validate_csrf :: "auth_config \<Rightarrow> string \<Rightarrow> string option \<Rightarrow> unit res" where
  "validate_csrf c http_method token =
     (if upper http_method \<notin> set unsafe_methods then Inr ()
      else if \<not> csrf_configured c then auth_error ''CSRF token is not configured''
      else if \<not> nonempty token then auth_error ''missing CSRF token''
      else if map_option sha256_hex token \<noteq> au_csrf_token_hash c then auth_error ''invalid CSRF token''
      else Inr ())"

definition auth_to_public_dict :: "auth_config \<Rightarrow> json" where
  "auth_to_public_dict c = JObj
     [(''configured'', JBool (auth_configured c)),
      (''csrf_configured'', JBool (csrf_configured c)),
      (''actor_id'', JStr (au_actor_id c)),
      (''token_values_redacted'', JBool True)]"

section \<open>Exchange credentials\<close>

datatype credential_purpose = CP_TESTNET_TRADING | CP_LIVE_READONLY

fun cp_value :: "credential_purpose \<Rightarrow> string" where
  "cp_value CP_TESTNET_TRADING = ''binance_testnet_trading''"
| "cp_value CP_LIVE_READONLY = ''binance_live_readonly''"

record credential_bundle =
  cb_purpose :: credential_purpose
  cb_api_key :: string
  cb_api_secret :: string

definition credentials_present :: "credential_bundle \<Rightarrow> bool" where
  "credentials_present b \<longleftrightarrow> cb_api_key b \<noteq> '''' \<and> cb_api_secret b \<noteq> ''''"

definition presence_metadata :: "credential_purpose \<Rightarrow> bool \<Rightarrow> bool \<Rightarrow> json_object" where
  "presence_metadata purpose key secret =
     [(''purpose'', JStr (cp_value purpose)), (''api_key_present'', JBool key),
      (''api_secret_present'', JBool secret), (''secrets_redacted'', JBool True)]"

definition bundle_metadata :: "credential_bundle \<Rightarrow> json_object" where
  "bundle_metadata b = presence_metadata (cb_purpose b) (cb_api_key b \<noteq> '''') (cb_api_secret b \<noteq> '''')"

fun env_names :: "credential_purpose \<Rightarrow> string \<times> string" where
  "env_names CP_TESTNET_TRADING = (''BINANCE_TESTNET_API_KEY'', ''BINANCE_TESTNET_API_SECRET'')"
| "env_names CP_LIVE_READONLY = (''BINANCE_LIVE_READONLY_API_KEY'', ''BINANCE_LIVE_READONLY_API_SECRET'')"

definition env_or :: "(string \<rightharpoonup> string) \<Rightarrow> string \<Rightarrow> string \<Rightarrow> string" where
  "env_or env k d = (case env k of None \<Rightarrow> d | Some v \<Rightarrow> v)"

definition env_credentials :: "(string \<rightharpoonup> string) \<Rightarrow> credential_purpose \<Rightarrow> credential_bundle" where
  "env_credentials env purpose =
     \<lparr>cb_purpose = purpose, cb_api_key = env_or env (fst (env_names purpose)) '''',
      cb_api_secret = env_or env (snd (env_names purpose)) ''''\<rparr>"

text \<open>
  A keychain maps a service and an account to the output of the \<open>security\<close> command, or fails.
\<close>

type_synonym keychain = "string \<Rightarrow> string \<rightharpoonup> string"

definition service_prefix :: string where "service_prefix = ''AI-CryptoFutures-TCP''"

definition read_keychain_value :: "keychain \<Rightarrow> credential_purpose \<Rightarrow> string \<Rightarrow> string res" where
  "read_keychain_value chain purpose account =
     (case chain (service_prefix @ '':'' @ cp_value purpose) account of
        Some out \<Rightarrow> Inr (strip out)
      | None \<Rightarrow> Inl (Raise RuntimeError ''credential is unavailable in macOS Keychain''))"

definition keychain_credentials :: "keychain \<Rightarrow> credential_purpose \<Rightarrow> credential_bundle res" where
  "keychain_credentials chain purpose =
     bind_res (read_keychain_value chain purpose ''api_key'') (\<lambda>key.
     bind_res (read_keychain_value chain purpose ''api_secret'') (\<lambda>secret.
     Inr \<lparr>cb_purpose = purpose, cb_api_key = key, cb_api_secret = secret\<rparr>))"

datatype secret_provider = Env_Provider "string \<rightharpoonup> string" | Keychain_Provider keychain

fun provider_credentials :: "secret_provider \<Rightarrow> credential_purpose \<Rightarrow> credential_bundle res" where
  "provider_credentials (Env_Provider env) purpose = Inr (env_credentials env purpose)"
| "provider_credentials (Keychain_Provider chain) purpose = keychain_credentials chain purpose"

fun provider_metadata :: "secret_provider \<Rightarrow> credential_purpose \<Rightarrow> json" where
  "provider_metadata (Env_Provider env) purpose =
     JObj (bundle_metadata (env_credentials env purpose) @ [(''provider'', JStr ''env'')])"
| "provider_metadata (Keychain_Provider chain) purpose =
     JObj ((case keychain_credentials chain purpose of
              Inr b \<Rightarrow> bundle_metadata b | Inl _ \<Rightarrow> presence_metadata purpose False False)
           @ [(''provider'', JStr ''macos_keychain'')])"

definition provider_from_env :: "(string \<rightharpoonup> string) \<Rightarrow> keychain \<Rightarrow> secret_provider" where
  "provider_from_env env chain =
     (if lower (strip (env_or env ''SECRETS_BACKEND'' ''env'')) \<in> {''macos_keychain'', ''keychain''}
      then Keychain_Provider chain else Env_Provider env)"

section \<open>Database settings\<close>

definition production_tables :: "string list" where
  "production_tables = [''audit_records'', ''command_ledger'', ''account_snapshots'',
     ''symbol_metadata_snapshots'', ''fee_policy_snapshots'', ''paper_orders'', ''paper_fills'',
     ''reconciliation_events'', ''model_registry_entries'', ''strategy_sessions'',
     ''runtime_config_versions'']"

record postgres_settings =
  pg_database_url :: "string option"
  pg_migrations_enabled :: bool

definition postgres_from_env :: "(string \<rightharpoonup> string) \<Rightarrow> postgres_settings" where
  "postgres_from_env env =
     \<lparr>pg_database_url = env ''DATABASE_URL'',
      pg_migrations_enabled =
        (lower (env_or env ''TCP_MIGRATIONS_ENABLED'' ''true'') \<notin> {''0'', ''false'', ''no'', ''off''})\<rparr>"

definition postgres_to_public_dict :: "postgres_settings \<Rightarrow> json" where
  "postgres_to_public_dict p = JObj
     [(''configured'', JBool (nonempty (pg_database_url p))),
      (''migrations_enabled'', JBool (pg_migrations_enabled p)),
      (''database_url_present'', JBool (nonempty (pg_database_url p))),
      (''database_url_redacted'', JBool True),
      (''required_tables'', jstrs production_tables)]"

section \<open>What the checks accept\<close>

lemma nonempty_iff: "nonempty s \<longleftrightarrow> (\<exists>t. s = Some t \<and> t \<noteq> '''')"
  by (auto simp: nonempty_def split: option.splits)

text \<open>The token a header presents.\<close>

definition presented_token :: "string option \<Rightarrow> string option" where
  "presented_token authorization =
     (case authorization of
        Some h \<Rightarrow> if take (length bearer_prefix) h = bearer_prefix
                    \<and> strip (drop (length bearer_prefix) h) \<noteq> ''''
                  then Some (strip (drop (length bearer_prefix) h)) else None
      | None \<Rightarrow> None)"

lemma authenticate_bearer_cases:
  "authenticate_bearer c authorization =
     (if \<not> auth_configured c then auth_error ''single-owner admin token is not configured''
      else case presented_token authorization of
        None \<Rightarrow> auth_error ''missing bearer token''
      | Some t \<Rightarrow> if au_admin_token_hash c = Some (sha256_hex t)
          then Inr \<lparr>oi_actor_id = au_actor_id c, oi_role = OR_OWNER\<rparr>
          else auth_error ''invalid bearer token'')"
  by (auto simp: authenticate_bearer_def presented_token_def Let_def bearer_prefix_def split: option.splits)

lemma validate_csrf_Inr:
  "validate_csrf c m token = Inr () \<longleftrightarrow>
     upper m \<notin> set unsafe_methods
     \<or> (\<exists>t. token = Some t \<and> t \<noteq> '''' \<and> csrf_configured c \<and> au_csrf_token_hash c = Some (sha256_hex t))"
  by (auto simp: validate_csrf_def auth_error_def nonempty_iff)

lemma bundle_metadata_presence:
  "(cb_api_key a = '''') = (cb_api_key b = '''') \<Longrightarrow> (cb_api_secret a = '''') = (cb_api_secret b = '''') \<Longrightarrow>
   cb_purpose a = cb_purpose b \<Longrightarrow> bundle_metadata a = bundle_metadata b"
  by (simp add: bundle_metadata_def)

end
