(* ===== verification/Binance_Usdm.thy ===== *)
theory Binance_Usdm
  imports Security Paper_Schemas Runtime_Config "HOL-Library.List_Lexorder" "HOL-Library.Char_ord"
begin

text \<open>
  \<open>libs/binance_connector\<close>: the translation of a paper intent into a Binance order payload with its
  checks (\<open>usdm.py\<close>), and the REST client (\<open>client.py\<close>) with the signing of a request, whose HTTP
  library is a parameter. Texts are ASCII.
\<close>

section \<open>Requests\<close>

datatype usdm_environment = UE_TESTNET | UE_LIVE

fun rest_base_url :: "usdm_environment \<Rightarrow> string" where
  "rest_base_url UE_TESTNET = ''https://testnet.binancefuture.com''"
| "rest_base_url UE_LIVE = ''https://fapi.binance.com''"

record request_spec =
  rs_name :: string
  rs_method :: string
  rs_path :: string
  rs_signed :: bool
  rs_source_doc :: string

definition spec_to_public_dict :: "request_spec \<Rightarrow> json" where
  "spec_to_public_dict s = JObj
     [(''name'', JStr (rs_name s)), (''method'', JStr (rs_method s)), (''path'', JStr (rs_path s)),
      (''signed'', JBool (rs_signed s)), (''source_doc'', JStr (rs_source_doc s))]"

definition usdm_request_specs :: "request_spec list" where
  "usdm_request_specs = map (\<lambda>(name, http_method, path, signed, doc).
       \<lparr>rs_name = name, rs_method = http_method, rs_path = path, rs_signed = signed, rs_source_doc = doc\<rparr>)
     [(''exchange_info'', ''GET'', ''/fapi/v1/exchangeInfo'', False,
         ''Binance USD-M Futures Exchange Information''),
      (''user_commission_rate'', ''GET'', ''/fapi/v1/commissionRate'', True,
         ''Binance USD-M Futures User Commission Rate''),
      (''account_information_v3'', ''GET'', ''/fapi/v3/account'', True,
         ''Binance USD-M Futures Account Information V3''),
      (''position_mode'', ''GET'', ''/fapi/v1/positionSide/dual'', True,
         ''Binance USD-M Futures Get Current Position Mode''),
      (''start_user_data_stream'', ''POST'', ''/fapi/v1/listenKey'', False,
         ''Binance USD-M Futures Start User Data Stream''),
      (''new_order'', ''POST'', ''/fapi/v1/order'', True, ''Binance USD-M Futures New Order'')]"

definition validate_backend_caller :: "string \<Rightarrow> unit res" where
  "validate_backend_caller caller =
     (if lower (strip caller) \<in> {''browser'', ''frontend'', ''web'', ''client''}
      then Inl (Raise ConnectorBoundaryError ''browser code must never sign exchange requests'')
      else Inr ())"

definition backend_credential_metadata :: "runtime_config \<Rightarrow> json" where
  "backend_credential_metadata c = JObj
     [(''credential_scope'', JStr (cs_value (rc_credential_scope c))),
      (''api_key_present'', JBool (rc_api_key_present c)),
      (''api_secret_present'', JBool (rc_api_secret_present c)),
      (''testnet_api_key_present'', JBool (rc_testnet_api_key_present c)),
      (''testnet_api_secret_present'', JBool (rc_testnet_api_secret_present c)),
      (''live_readonly_api_key_present'', JBool (rc_live_readonly_api_key_present c)),
      (''live_readonly_api_secret_present'', JBool (rc_live_readonly_api_secret_present c)),
      (''secrets_redacted'', JBool True)]"

section \<open>Order payloads\<close>

record usdm_payload =
  up_symbol :: string
  up_side :: order_side
  up_position_side :: book_side
  up_order_type :: string
  up_time_in_force :: time_in_force
  up_quantity :: decimal
  up_price :: decimal
  up_reduce_only :: bool
  up_post_only :: bool
  up_client_order_id :: string

definition payload_to_public_dict :: "usdm_payload \<Rightarrow> json" where
  "payload_to_public_dict p = JObj
     [(''symbol'', JStr (up_symbol p)),
      (''side'', JStr (sd_value (up_side p))),
      (''positionSide'', JStr (bs_value (up_position_side p))),
      (''type'', JStr (up_order_type p)),
      (''timeInForce'', JStr (tif_value (up_time_in_force p))),
      (''quantity'', JStr (format_f (up_quantity p))),
      (''price'', JStr (format_f (up_price p))),
      (''reduceOnly'', JBool (up_reduce_only p)),
      (''postOnlyIntent'', JBool (up_post_only p)),
      (''newClientOrderId'', JStr (up_client_order_id p)),
      (''signed_request'', JBool False),
      (''submitted'', JBool False)]"

definition usdm_is_multiple :: "decimal \<Rightarrow> decimal \<Rightarrow> bool res" where
  "usdm_is_multiple v stride =
     bind_res (dle stride d0) (\<lambda>no_step.
     if no_step then Inr False
     else bind_res (dmod v stride) (\<lambda>r. deq r d0))"

definition usdm_metadata_errors :: "order_intent \<Rightarrow> symbol_metadata \<Rightarrow> string list res" where
  "usdm_metadata_errors i m =
     (case sm_filters m of
        None \<Rightarrow> Inr [''symbol filters are unavailable'']
      | Some f \<Rightarrow> collect
          [reason_when (it_symbol i \<noteq> sm_symbol m) ''intent symbol does not match metadata symbol'',
           reason_when (\<not> sm_is_executable m) ''symbol is not executable under current symbol policy'',
           reason_when (it_time_in_force i \<noteq> TIF_GTX)
             ''post-only Binance validation requires GTX timeInForce'',
           reason_if (map_res Not (usdm_is_multiple (it_limit_price i) (sf_tick_size f)))
             ''price does not align to Binance tick size'',
           reason_if (map_res Not (usdm_is_multiple (it_quantity i) (sf_lot_size f)))
             ''quantity does not align to Binance lot size'',
           reason_if (bind_res (intent_notional i) (\<lambda>n. dlt n (sf_min_notional f)))
             ''notional is below Binance min notional''])"

definition purpose_credentials :: "runtime_config \<Rightarrow> bool" where
  "purpose_credentials c \<longleftrightarrow>
     (if rc_venue_target c = VT_BINANCE_TESTNET
      then testnet_credentials_present c \<or> legacy_credentials_present c
      else live_readonly_credentials_present c \<or> legacy_credentials_present c)"

definition lane_errors :: "order_intent \<Rightarrow> runtime_config \<Rightarrow> string \<Rightarrow> string list res list" where
  "lane_errors i c caller =
     [case validate_backend_caller caller of
        Inl (Raise ConnectorBoundaryError message) \<Rightarrow> Inr [message] | Inl e \<Rightarrow> Inl e | Inr _ \<Rightarrow> Inr [],
      reason_when (rc_venue_target c \<notin> {VT_BINANCE_TESTNET, VT_BINANCE_LIVE})
        ''Binance payload validation requires a Binance venue target'',
      reason_when (rc_venue_target c = VT_BINANCE_LIVE)
        ''live Binance order payload validation is out of scope'',
      reason_when (rc_credential_scope c \<noteq> CS_TRADING)
        ''Binance order payload validation requires trading credentials'',
      reason_when (\<not> purpose_credentials c)
        ''Binance credentials must be present in the backend runtime'',
      reason_when (\<not> it_post_only i \<or> it_allow_taker i)
        ''Binance validation remains maker-first and taker-gated'']"

definition validate_usdm_order_payload ::
    "order_intent \<Rightarrow> symbol_metadata \<Rightarrow> runtime_config \<Rightarrow> string \<Rightarrow> (usdm_payload option \<times> string list) res" where
  "validate_usdm_order_payload i m c caller =
     bind_res (collect (lane_errors i c caller @ [usdm_metadata_errors i m])) (\<lambda>reasons.
     Inr (if reasons \<noteq> [] then (None, reasons)
          else (Some \<lparr>up_symbol = it_symbol i, up_side = it_side i, up_position_side = it_book_side i,
                  up_order_type = ''LIMIT'', up_time_in_force = it_time_in_force i,
                  up_quantity = it_quantity i, up_price = it_limit_price i,
                  up_reduce_only = it_reduce_only i, up_post_only = it_post_only i,
                  up_client_order_id = it_client_order_id i\<rparr>, [])))"

section \<open>Properties\<close>

definition translated_payload :: "order_intent \<Rightarrow> usdm_payload" where
  "translated_payload i =
     \<lparr>up_symbol = it_symbol i, up_side = it_side i, up_position_side = it_book_side i,
      up_order_type = ''LIMIT'', up_time_in_force = it_time_in_force i,
      up_quantity = it_quantity i, up_price = it_limit_price i,
      up_reduce_only = it_reduce_only i, up_post_only = it_post_only i,
      up_client_order_id = it_client_order_id i\<rparr>"

definition symbol_rules_met :: "order_intent \<Rightarrow> symbol_metadata \<Rightarrow> bool" where
  "symbol_rules_met i m \<longleftrightarrow>
     (\<exists>f. sm_filters m = Some f \<and> it_symbol i = sm_symbol m \<and> sm_is_executable m
        \<and> it_time_in_force i = TIF_GTX
        \<and> usdm_is_multiple (it_limit_price i) (sf_tick_size f) = Inr True
        \<and> usdm_is_multiple (it_quantity i) (sf_lot_size f) = Inr True
        \<and> bind_res (intent_notional i) (\<lambda>n. dlt n (sf_min_notional f)) = Inr False)"

lemma six_checks:
  "collect [reason_when a s, reason_when b t, reason_when c u, reason_if (map_res Not d) v,
       reason_if (map_res Not e) w, reason_if f x] = Inr [] \<longleftrightarrow>
     \<not> a \<and> \<not> b \<and> \<not> c \<and> d = Inr True \<and> e = Inr True \<and> f = Inr False"
  by (simp only: collect_Nil_iff list.set ball_simps reason_if_Nil reason_when_Nil map_res_Not) blast

lemma usdm_metadata_errors_Nil: "usdm_metadata_errors i m = Inr [] \<longleftrightarrow> symbol_rules_met i m"
proof (cases "sm_filters m")
  case (Some f)
  have "usdm_metadata_errors i m = Inr [] \<longleftrightarrow>
      it_symbol i = sm_symbol m \<and> sm_is_executable m \<and> it_time_in_force i = TIF_GTX
      \<and> usdm_is_multiple (it_limit_price i) (sf_tick_size f) = Inr True
      \<and> usdm_is_multiple (it_quantity i) (sf_lot_size f) = Inr True
      \<and> bind_res (intent_notional i) (\<lambda>n. dlt n (sf_min_notional f)) = Inr False"
    unfolding usdm_metadata_errors_def Some option.case six_checks not_not ..
  with Some show ?thesis unfolding symbol_rules_met_def by (metis option.inject)
qed (simp add: usdm_metadata_errors_def symbol_rules_met_def)

lemma caller_reason:
  "(case validate_backend_caller caller of
      Inl (Raise ConnectorBoundaryError message) \<Rightarrow> Inr [message] | Inl e \<Rightarrow> Inl e | Inr _ \<Rightarrow> Inr []) = Inr []
   \<longleftrightarrow> validate_backend_caller caller = Inr ()"
  unfolding validate_backend_caller_def by (cases "lower (strip caller) \<in> {''browser'', ''frontend'', ''web'', ''client''}") simp_all

lemma lane_errors_Nil:
  "(\<forall>r \<in> set (lane_errors i c caller). r = Inr []) \<longleftrightarrow>
     validate_backend_caller caller = Inr () \<and> rc_venue_target c = VT_BINANCE_TESTNET
     \<and> rc_credential_scope c = CS_TRADING
     \<and> (testnet_credentials_present c \<or> legacy_credentials_present c)
     \<and> it_post_only i \<and> \<not> it_allow_taker i"
  unfolding lane_errors_def
  by (simp only: list.set ball_simps caller_reason reason_when_Nil purpose_credentials_def) auto

text \<open>
  C34: An order payload for Binance exists exactly for the orders that every rule permits: the caller
  is no browser, the venue is the testnet, the credentials are trading credentials and present, the
  intent is post-only without taker permission and GTX, and the symbol is executable with price,
  quantity and notional inside its filters. The payload then repeats the intent as a LIMIT order; in
  particular there is no payload for the live venue.
\<close>

theorem binance_payload_exact:
  "(validate_usdm_order_payload i m c caller = Inr (Some p, reasons)) \<longleftrightarrow>
     p = translated_payload i \<and> reasons = []
     \<and> validate_backend_caller caller = Inr () \<and> rc_venue_target c = VT_BINANCE_TESTNET
     \<and> rc_credential_scope c = CS_TRADING
     \<and> (testnet_credentials_present c \<or> legacy_credentials_present c)
     \<and> it_post_only i \<and> \<not> it_allow_taker i \<and> symbol_rules_met i m"
proof -
  have "(validate_usdm_order_payload i m c caller = Inr (Some p, reasons)) \<longleftrightarrow>
      collect (lane_errors i c caller @ [usdm_metadata_errors i m]) = Inr []
      \<and> p = translated_payload i \<and> reasons = []"
    unfolding validate_usdm_order_payload_def translated_payload_def
    by (cases "collect (lane_errors i c caller @ [usdm_metadata_errors i m])") auto
  also have "collect (lane_errors i c caller @ [usdm_metadata_errors i m]) = Inr [] \<longleftrightarrow>
      (\<forall>r \<in> set (lane_errors i c caller). r = Inr []) \<and> usdm_metadata_errors i m = Inr []"
    by (auto simp: collect_Nil_iff)
  finally show ?thesis unfolding lane_errors_Nil usdm_metadata_errors_Nil by blast
qed

end
