(* ===== verification/Binance_Client.thy ===== *)
theory Binance_Client
  imports Binance_Usdm
begin

text \<open>
  \<open>libs/binance_connector/client.py\<close>: the REST client. It builds the query string of a request, signs
  it with HMAC-SHA256, and classifies responses. The HTTP library is the parameter \<open>http\<close>, which
  answers a request or fails (\<open>httpx.HTTPError\<close>); \<open>now_ms\<close> is the clock reading of \<open>_timestamp_ms\<close>.
\<close>

section \<open>Query strings\<close>

text \<open>\<open>urllib.parse.urlencode\<close> over ASCII texts: \<open>quote_plus\<close> on keys and values.\<close>

definition unreserved :: "char \<Rightarrow> bool" where
  "unreserved c \<longleftrightarrow>
     (let n = (of_char c :: int)
      in 48 \<le> n \<and> n \<le> 57 \<or> 65 \<le> n \<and> n \<le> 90 \<or> 97 \<le> n \<and> n \<le> 122
         \<or> c = CHR ''_'' \<or> c = CHR ''.'' \<or> c = CHR ''-'' \<or> c = CHR ''~'')"

definition upper_hex :: "int \<Rightarrow> char" where
  "upper_hex d = ''0123456789ABCDEF'' ! nat d"

definition quote_char :: "char \<Rightarrow> string" where
  "quote_char c =
     (let n = (of_char c :: int)
      in if c = CHR '' '' then ''+'' else if unreserved c then [c]
         else [CHR ''%'', upper_hex (n div 16), upper_hex (n mod 16)])"

definition quote_plus :: "string \<Rightarrow> string" where
  "quote_plus s = concat (map quote_char s)"

definition encode_query :: "json_object \<Rightarrow> string" where
  "encode_query params =
     join ''&'' (map (\<lambda>(k, v). quote_plus k @ ''='' @ quote_plus (py_str v)) (sort_key fst params))"

definition signed_query_string :: "json_object \<Rightarrow> string \<Rightarrow> string" where
  "signed_query_string params api_secret =
     (let query = encode_query params in query @ ''&signature='' @ hmac_sha256_hex api_secret query)"

section \<open>The client\<close>

record rest_config =
  rg_environment :: usdm_environment
  rg_recv_window_ms :: int
  rg_timeout_seconds :: decimal

definition default_rest_config :: "usdm_environment \<Rightarrow> rest_config" where
  "default_rest_config e =
     \<lparr>rg_environment = e, rg_recv_window_ms = 5000, rg_timeout_seconds = Dec 10 0\<rparr>"

record rate_limits =
  rl_used_weight_1m :: "int option"
  rl_order_count_10s :: "int option"
  rl_order_count_1m :: "int option"

definition rate_limits_to_public_dict :: "rate_limits \<Rightarrow> json" where
  "rate_limits_to_public_dict r = JObj
     [(''used_weight_1m'', jopt JInt (rl_used_weight_1m r)),
      (''order_count_10s'', jopt JInt (rl_order_count_10s r)),
      (''order_count_1m'', jopt JInt (rl_order_count_1m r))]"

record rest_result =
  rr_status_code :: int
  rr_payload :: json
  rr_request_id :: "string option"
  rr_rate_limits :: rate_limits
  rr_error_class :: "string option"

definition rest_result_to_public_dict :: "rest_result \<Rightarrow> json" where
  "rest_result_to_public_dict r = JObj
     [(''status_code'', JInt (rr_status_code r)),
      (''payload'', rr_payload r),
      (''request_id'', jopt JStr (rr_request_id r)),
      (''rate_limits'', rate_limits_to_public_dict (rr_rate_limits r)),
      (''error_class'', jopt JStr (rr_error_class r))]"

text \<open>What the HTTP library is asked and what it answers; header names are in lower case.\<close>

record http_request =
  hq_method :: string
  hq_url :: string
  hq_params :: json_object
  hq_headers :: "(string \<times> string) list"

record http_response =
  hr_status_code :: int
  hr_json :: "json option"
  hr_text :: string
  hr_headers :: "string \<rightharpoonup> string"

type_synonym http_library = "http_request \<rightharpoonup> http_response"

definition int_header :: "http_response \<Rightarrow> string \<Rightarrow> int option" where
  "int_header response name =
     (case hr_headers response name of
        None \<Rightarrow> None
      | Some v \<Rightarrow> (case int_of_text v of Inr i \<Rightarrow> Some i | Inl _ \<Rightarrow> None))"

definition error_class_of :: "int \<Rightarrow> string" where
  "error_class_of status =
     (if status = 401 \<or> status = 403 then ''auth_error''
      else if status = 429 then ''rate_limited''
      else if status \<ge> 500 then ''venue_server_error''
      else ''venue_rejection'')"

definition result_from_response :: "http_response \<Rightarrow> rest_result" where
  "result_from_response r =
     \<lparr>rr_status_code = hr_status_code r,
      rr_payload = (case hr_json r of Some v \<Rightarrow> v | None \<Rightarrow> JObj [(''text'', JStr (hr_text r))]),
      rr_request_id = (if nonempty (hr_headers r ''x-mbx-uuid'') then hr_headers r ''x-mbx-uuid''
        else hr_headers r ''x-response-id''),
      rr_rate_limits = \<lparr>rl_used_weight_1m = int_header r ''x-mbx-used-weight-1m'',
        rl_order_count_10s = int_header r ''x-mbx-order-count-10s'',
        rl_order_count_1m = int_header r ''x-mbx-order-count-1m''\<rparr>,
      rr_error_class = (if hr_status_code r < 400 then None else Some (error_class_of (hr_status_code r)))\<rparr>"

record rest_client =
  rc_credentials :: credential_bundle
  rc_config :: rest_config

definition new_rest_client :: "credential_bundle \<Rightarrow> rest_config \<Rightarrow> string \<Rightarrow> rest_client res" where
  "new_rest_client credentials config caller =
     bind_res (validate_backend_caller caller) (\<lambda>_.
     if \<not> credentials_present credentials
     then Inl (Raise RuntimeError ''Binance credentials are missing'')
     else Inr \<lparr>rc_credentials = credentials, rc_config = config\<rparr>)"

definition set_default :: "string \<Rightarrow> json \<Rightarrow> json_object \<Rightarrow> json_object" where
  "set_default k v obj = (if map_of obj k = None then obj @ [(k, v)] else obj)"

definition signed_params ::
    "rest_client \<Rightarrow> json_object option \<Rightarrow> int option \<Rightarrow> int \<Rightarrow> json_object" where
  "signed_params cl params timestamp_ms now_ms =
     set_default ''recvWindow'' (JInt (rg_recv_window_ms (rc_config cl)))
       (set_default ''timestamp''
         (JInt (case timestamp_ms of None \<Rightarrow> now_ms | Some t \<Rightarrow> if t = 0 then now_ms else t))
         (case params of None \<Rightarrow> [] | Some p \<Rightarrow> p))"

definition build_signed_query ::
    "rest_client \<Rightarrow> json_object option \<Rightarrow> int option \<Rightarrow> int \<Rightarrow> string" where
  "build_signed_query cl params timestamp_ms now_ms =
     signed_query_string (signed_params cl params timestamp_ms now_ms) (cb_api_secret (rc_credentials cl))"

definition answered :: "http_library \<Rightarrow> http_request \<Rightarrow> rest_result res" where
  "answered http request =
     (case http request of
        None \<Rightarrow> Inl (Raise RuntimeError ''Binance request failed'')
      | Some r \<Rightarrow> Inr (result_from_response r))"

definition signed_request ::
    "http_library \<Rightarrow> rest_client \<Rightarrow> int \<Rightarrow> string \<Rightarrow> string \<Rightarrow> json_object option \<Rightarrow> rest_result res" where
  "signed_request http cl now_ms http_method path params =
     answered http
       \<lparr>hq_method = http_method, hq_url = path @ ''?'' @ build_signed_query cl params None now_ms,
        hq_params = [], hq_headers = [(''X-MBX-APIKEY'', cb_api_key (rc_credentials cl))]\<rparr>"

definition public_request ::
    "http_library \<Rightarrow> string \<Rightarrow> string \<Rightarrow> json_object option \<Rightarrow> rest_result res" where
  "public_request http http_method path params =
     answered http
       \<lparr>hq_method = http_method, hq_url = path,
        hq_params = (case params of None \<Rightarrow> [] | Some p \<Rightarrow> p), hq_headers = []\<rparr>"

section \<open>How a venue reads a query\<close>

fun split_on :: "char \<Rightarrow> string \<Rightarrow> string list" where
  "split_on d [] = [[]]"
| "split_on d (c # cs) =
     (let r = split_on d cs in if c = d then [] # r else (c # hd r) # tl r)"

definition hex_value :: "char \<Rightarrow> int" where
  "hex_value c = (let n = (of_char c :: int) in if n \<le> 57 then n - 48 else n - 55)"

fun unquote_plus :: "string \<Rightarrow> string" where
  "unquote_plus [] = []"
| "unquote_plus (c # cs) =
     (if c = CHR ''+'' then CHR '' '' # unquote_plus cs
      else if c = CHR ''%'' then
        (case cs of a # b # ds \<Rightarrow> char_of (16 * hex_value a + hex_value b) # unquote_plus ds | _ \<Rightarrow> [])
      else c # unquote_plus cs)"

definition decode_pair :: "string \<Rightarrow> string \<times> string" where
  "decode_pair s = (unquote_plus (takeWhile (\<lambda>c. c \<noteq> CHR ''='') s),
     unquote_plus (tl (dropWhile (\<lambda>c. c \<noteq> CHR ''='') s)))"

definition decode_query :: "string \<Rightarrow> (string \<times> string) list" where
  "decode_query s = map decode_pair (split_on (CHR ''&'') s)"

lemma split_on_step: "split_on d (c # cs) = (if c = d then [] # split_on d cs
    else (c # hd (split_on d cs)) # tl (split_on d cs))"
  by (simp add: Let_def)

lemma split_on_nonempty [simp]: "split_on d s \<noteq> []"
  by (cases s) (simp_all add: Let_def)

lemma split_on_word: "d \<notin> set w \<Longrightarrow> split_on d w = [w]"
  by (induction w) (auto simp: Let_def)

lemma split_on_first: "d \<notin> set w \<Longrightarrow> split_on d (w @ d # s) = w # split_on d s"
  by (induction w) (auto simp: Let_def)

lemma join_snoc: "xs \<noteq> [] \<Longrightarrow> join sep xs @ sep @ y = join sep (xs @ [y])"
  by (induction sep xs rule: join.induct) auto

lemma split_on_join:
  "xs \<noteq> [] \<Longrightarrow> \<forall>x \<in> set xs. d \<notin> set x \<Longrightarrow> split_on d (join [d] xs) = xs"
  by (induction "[d]" xs rule: join.induct) (auto simp: split_on_word split_on_first)

section \<open>Quoting is inverted\<close>

lemma below_16: "0 \<le> d \<Longrightarrow> d < 16 \<Longrightarrow> d \<in> {0, 1, 2, 3, 4, 5, 6, 7, 8, 9, 10, 11, 12, 13, 14, 15 :: int}"
  unfolding insert_iff empty_iff by presburger

lemma hex_value_upper:
  assumes "0 \<le> d" "d < 16"
  shows "hex_value (upper_hex d) = d" and "upper_hex d \<notin> {CHR ''&'', CHR ''=''}"
  using below_16 [OF assms]
  by (elim insertE, simp_all add: hex_value_def upper_hex_def nth_Cons')+

lemma of_char_range: "0 \<le> (of_char c :: int)" "(of_char c :: int) < 256"
  using pos_mod_bound [of 256 "of_char c :: int"] pos_mod_sign [of 256 "of_char c :: int"] by simp_all

lemma unquote_quote_char: "unquote_plus (quote_char c @ s) = c # unquote_plus s"
proof (cases "c = CHR '' '' \<or> unreserved c")
  case True
  then show ?thesis by (auto simp: quote_char_def unreserved_def Let_def)
next
  case False
  let ?n = "(of_char c :: int)"
  have hi: "hex_value (upper_hex (?n div 16)) = ?n div 16" and lo: "hex_value (upper_hex (?n mod 16)) = ?n mod 16"
    using of_char_range [of c] by (auto intro!: hex_value_upper(1))
  have "unquote_plus (quote_char c @ s) = char_of (16 * (?n div 16) + ?n mod 16) # unquote_plus s"
    using False by (simp add: quote_char_def Let_def hi lo)
  also have "char_of (16 * (?n div 16) + ?n mod 16) = c" by (simp only: mult_div_mod_eq) simp
  finally show ?thesis .
qed

lemma unquote_quote: "unquote_plus (quote_plus s) = s"
  by (induction s) (simp_all add: quote_plus_def unquote_quote_char)

lemma quote_char_clean: "CHR ''&'' \<notin> set (quote_char c)" "CHR ''='' \<notin> set (quote_char c)"
proof -
  have "0 \<le> (of_char c :: int) div 16" "(of_char c :: int) div 16 < 16"
    "0 \<le> (of_char c :: int) mod 16" "(of_char c :: int) mod 16 < 16"
    using of_char_range [of c] by auto
  with hex_value_upper(2) have "upper_hex ((of_char c :: int) div 16) \<notin> {CHR ''&'', CHR ''=''}"
    "upper_hex ((of_char c :: int) mod 16) \<notin> {CHR ''&'', CHR ''=''}" by blast+
  then show "CHR ''&'' \<notin> set (quote_char c)" "CHR ''='' \<notin> set (quote_char c)"
    by (auto simp: quote_char_def unreserved_def Let_def)
qed

lemma quote_clean: "CHR ''&'' \<notin> set (quote_plus s)" "CHR ''='' \<notin> set (quote_plus s)"
  by (auto simp: quote_plus_def quote_char_clean)

lemma decode_encoded_pair: "decode_pair (quote_plus k @ ''='' @ quote_plus v) = (k, v)"
proof -
  have "\<forall>c \<in> set (quote_plus k). c \<noteq> CHR ''=''" using quote_clean(2) by metis
  then show ?thesis by (simp add: decode_pair_def takeWhile_append2 dropWhile_append2 unquote_quote)
qed

section \<open>Hexadecimal digests are plain\<close>

definition plain_text :: "string \<Rightarrow> bool" where
  "plain_text s = list_all (\<lambda>c. c \<notin> {CHR ''&'', CHR ''='', CHR ''+'', CHR ''%''}) s"

lemma hex_digit_plain: "0 \<le> d \<Longrightarrow> d < 16 \<Longrightarrow> hex_digit d \<notin> {CHR ''&'', CHR ''='', CHR ''+'', CHR ''%''}"
  using below_16 [of d] by (elim insertE | simp add: hex_digit_def nth_Cons')+

lemma digest_plain: "plain_text (hmac_sha256_hex key m)"
proof -
  have "hex_digit (uint w div 16 ^ i mod 16) \<notin> {CHR ''&'', CHR ''='', CHR ''+'', CHR ''%''}" for w :: w32 and i
    by (rule hex_digit_plain) simp_all
  then have "plain_text (hex_word w)" for w by (auto simp: plain_text_def hex_word_def list_all_iff)
  then show ?thesis by (auto simp: plain_text_def hmac_sha256_hex_def Let_def list_all_iff)
qed

lemma unquote_plain: "plain_text s \<Longrightarrow> unquote_plus s = s"
  by (induction s) (auto simp: plain_text_def)

lemma decode_signature: "plain_text s \<Longrightarrow> decode_pair (''signature='' @ s) = (''signature'', s)"
  by (simp add: decode_pair_def unquote_plain)

lemma encoded_pair_clean: "CHR ''&'' \<notin> set (quote_plus k @ ''='' @ quote_plus v)"
  by (simp add: quote_clean)

lemma decode_signed_query:
  assumes "params \<noteq> []"
  shows "decode_query (signed_query_string params secret) =
     map (\<lambda>(k, v). (k, py_str v)) (sort_key fst params)
     @ [(''signature'', hmac_sha256_hex secret (encode_query params))]"
proof -
  let ?enc = "\<lambda>(k, v). quote_plus k @ ''='' @ quote_plus (py_str v)"
  let ?sig = "''signature='' @ hmac_sha256_hex secret (encode_query params)"
  let ?xs = "map ?enc (sort_key fst params)"
  have ne: "?xs \<noteq> []" using assms by (metis length_0_conv length_map length_sort)
  have "signed_query_string params secret = join ''&'' ?xs @ ''&'' @ ?sig"
    by (simp add: signed_query_string_def encode_query_def Let_def)
  also have "\<dots> = join ''&'' (?xs @ [?sig])" by (rule join_snoc [OF ne])
  finally have q: "signed_query_string params secret = join ''&'' (?xs @ [?sig])" .
  have "CHR ''&'' \<notin> set ?sig"
    using digest_plain [of secret "encode_query params"] by (auto simp: plain_text_def list_all_iff)
  then have clean: "\<forall>x \<in> set (?xs @ [?sig]). CHR ''&'' \<notin> set x"
    using encoded_pair_clean by auto
  have "decode_query (signed_query_string params secret) = map decode_pair (?xs @ [?sig])"
    unfolding decode_query_def q by (subst split_on_join) (use clean in simp_all)
  also have "\<dots> = map (\<lambda>(k, v). (k, py_str v)) (sort_key fst params)
      @ [(''signature'', hmac_sha256_hex secret (encode_query params))]"
    using decode_encoded_pair decode_signature [OF digest_plain [of secret "encode_query params"]]
    by (simp add: comp_def split_beta)
  finally show ?thesis .
qed

lemma set_default_keys: "k \<in> fst ` set (set_default k v obj)" "fst ` set obj \<subseteq> fst ` set (set_default k' v obj)"
  by (auto simp: set_default_def map_of_eq_None_iff)

section \<open>Properties\<close>

text \<open>
  C36: A signed request can be verified by the venue. Decoding the query that the client builds gives
  back its parameters in the order of their names, a time stamp and a receive window among them,
  followed by the HMAC of everything before it under the client's secret, whatever characters the
  parameters hold.
\<close>

theorem signed_query_verifies:
  "decode_query (build_signed_query cl params timestamp_ms now_ms) =
     map (\<lambda>(k, v). (k, py_str v)) (sort_key fst (signed_params cl params timestamp_ms now_ms))
     @ [(''signature'', hmac_sha256_hex (cb_api_secret (rc_credentials cl))
           (encode_query (signed_params cl params timestamp_ms now_ms)))]
   \<and> {''timestamp'', ''recvWindow''} \<subseteq> fst ` set (signed_params cl params timestamp_ms now_ms)"
proof -
  have keys: "{''timestamp'', ''recvWindow''} \<subseteq> fst ` set (signed_params cl params timestamp_ms now_ms)"
    unfolding signed_params_def using set_default_keys by blast
  then have "signed_params cl params timestamp_ms now_ms \<noteq> []" by auto
  with keys show ?thesis unfolding build_signed_query_def by (simp add: decode_signed_query)
qed

end
