(* ===== verification/Market_Replay.thy ===== *)
theory Market_Replay
  imports Double_Arith Paper_Schemas
begin

text \<open>
  \<open>services/market_data/replay.py\<close>: recorded or synthetic order book snapshots of BTCUSDC and
  ETHUSDC, the derived synthetic ETHBTC, and the microstructure features computed from them.
  \<open>datetime.fromisoformat\<close>, whose grammar depends on the Python version, is the parameter \<open>fromiso\<close>;
  files are taken here from their rows, and from their text in \<open>Replay_File\<close>.
\<close>

section \<open>Snapshots\<close>

record depth_snapshot =
  ds_symbol :: string
  ds_timestamp :: datetime
  ds_receive_timestamp :: datetime
  ds_bid :: decimal
  ds_ask :: decimal
  ds_bid_size :: decimal
  ds_ask_size :: decimal
  ds_buy_trade_qty :: decimal
  ds_sell_trade_qty :: decimal
  ds_funding_rate_bps :: decimal
  ds_open_interest :: decimal
  ds_liquidation_notional :: decimal
  ds_latency_ms :: int

definition ds_mid :: "depth_snapshot \<Rightarrow> decimal res" where
  "ds_mid s = bind_res (dadd (ds_bid s) (ds_ask s)) (\<lambda>t. ddiv t (Dec 2 0))"

definition ds_spread :: "depth_snapshot \<Rightarrow> decimal res" where
  "ds_spread s = dsub (ds_ask s) (ds_bid s)"

definition snapshot_to_public_dict :: "depth_snapshot \<Rightarrow> json res" where
  "snapshot_to_public_dict s =
     bind_res (ds_mid s) (\<lambda>mid.
     bind_res (ds_spread s) (\<lambda>width.
     Inr (JObj
       [(''symbol'', JStr (ds_symbol s)),
        (''timestamp'', JTime (ds_timestamp s)),
        (''receive_timestamp'', JTime (ds_receive_timestamp s)),
        (''bid'', JStr (format_f (ds_bid s))),
        (''ask'', JStr (format_f (ds_ask s))),
        (''bid_size'', JStr (format_f (ds_bid_size s))),
        (''ask_size'', JStr (format_f (ds_ask_size s))),
        (''mid'', JStr (format_f mid)),
        (''spread'', JStr (format_f width)),
        (''buy_trade_qty'', JStr (format_f (ds_buy_trade_qty s))),
        (''sell_trade_qty'', JStr (format_f (ds_sell_trade_qty s))),
        (''funding_rate_bps'', JStr (format_f (ds_funding_rate_bps s))),
        (''open_interest'', JStr (format_f (ds_open_interest s))),
        (''liquidation_notional'', JStr (format_f (ds_liquidation_notional s))),
        (''latency_ms'', JInt (ds_latency_ms s))])))"

record synthetic_snapshot =
  sy_timestamp :: datetime
  sy_mid :: decimal
  sy_bid :: decimal
  sy_ask :: decimal
  sy_spread :: decimal
  sy_leg_skew_ms :: int
  sy_is_stale :: bool

definition synthetic_to_public_dict :: "synthetic_snapshot \<Rightarrow> json" where
  "synthetic_to_public_dict s = JObj
     [(''symbol'', JStr ''SYN_ETHBTC''),
      (''timestamp'', JTime (sy_timestamp s)),
      (''synthetic_mid'', JStr (format_f (sy_mid s))),
      (''synthetic_bid'', JStr (format_f (sy_bid s))),
      (''synthetic_ask'', JStr (format_f (sy_ask s))),
      (''synthetic_spread'', JStr (format_f (sy_spread s))),
      (''leg_timestamp_skew_ms'', JInt (sy_leg_skew_ms s)),
      (''is_stale'', JBool (sy_is_stale s))]"

record feature_row =
  mf_timestamp :: datetime
  mf_symbol :: string
  mf_order_book_imbalance :: decimal
  mf_microprice :: decimal
  mf_spread :: decimal
  mf_depth_slope :: decimal
  mf_queue_imbalance :: decimal
  mf_trade_aggression :: decimal
  mf_short_horizon_return_bps :: decimal
  mf_realized_volatility_bps :: decimal
  mf_funding_rate_bps :: decimal
  mf_open_interest :: decimal
  mf_liquidation_notional :: decimal
  mf_latency_adjusted_return_bps :: decimal
  mf_synthetic_mid :: "decimal option"
  mf_synthetic_spread_cost :: "decimal option"
  mf_leg_skew_ms :: "int option"

definition feature_to_public_dict :: "feature_row \<Rightarrow> json" where
  "feature_to_public_dict r = JObj
     [(''timestamp'', JTime (mf_timestamp r)),
      (''symbol'', JStr (mf_symbol r)),
      (''order_book_imbalance'', JStr (format_f (mf_order_book_imbalance r))),
      (''microprice'', JStr (format_f (mf_microprice r))),
      (''spread'', JStr (format_f (mf_spread r))),
      (''depth_slope'', JStr (format_f (mf_depth_slope r))),
      (''queue_imbalance'', JStr (format_f (mf_queue_imbalance r))),
      (''trade_aggression'', JStr (format_f (mf_trade_aggression r))),
      (''short_horizon_return_bps'', JStr (format_f (mf_short_horizon_return_bps r))),
      (''realized_volatility_bps'', JStr (format_f (mf_realized_volatility_bps r))),
      (''funding_rate_bps'', JStr (format_f (mf_funding_rate_bps r))),
      (''open_interest'', JStr (format_f (mf_open_interest r))),
      (''liquidation_notional'', JStr (format_f (mf_liquidation_notional r))),
      (''latency_adjusted_return_bps'', JStr (format_f (mf_latency_adjusted_return_bps r))),
      (''synthetic_ethbtc_mid'', jopt (\<lambda>d. JStr (format_f d)) (mf_synthetic_mid r)),
      (''synthetic_spread_cost'', jopt (\<lambda>d. JStr (format_f d)) (mf_synthetic_spread_cost r)),
      (''leg_timestamp_skew_ms'', jopt JInt (mf_leg_skew_ms r))]"

section \<open>The fixtures\<close>

text \<open>Noon of 2026-01-01, UTC, from the epoch.\<close>

definition fixture_base :: int where
  "fixture_base = 1767268800 * micros_per_second"

definition fixture_values ::
    "(string \<times> decimal \<times> decimal \<times> decimal \<times> decimal \<times> decimal \<times> decimal \<times> decimal \<times> decimal \<times> decimal \<times> int) list" where
  "fixture_values =
     [(''BTCUSDC'', Dec 650000 (- 1), Dec 650005 (- 1), Dec 42 (- 1), Dec 38 (- 1), Dec 11 (- 1),
         Dec 8 (- 1), Dec 8 (- 1), Dec 120000 0, Dec 0 0, 24),
      (''ETHUSDC'', Dec 320000 (- 2), Dec 320005 (- 2), Dec 90 0, Dec 84 0, Dec 18 0,
         Dec 14 0, Dec 6 (- 1), Dec 890000 0, Dec 0 0, 19),
      (''BTCUSDC'', Dec 650100 (- 1), Dec 650105 (- 1), Dec 37 (- 1), Dec 44 (- 1), Dec 7 (- 1),
         Dec 10 (- 1), Dec 8 (- 1), Dec 120500 0, Dec 15000 0, 26),
      (''ETHUSDC'', Dec 320200 (- 2), Dec 320205 (- 2), Dec 86 0, Dec 92 0, Dec 12 0,
         Dec 18 0, Dec 6 (- 1), Dec 891000 0, Dec 8000 0, 22),
      (''BTCUSDC'', Dec 650050 (- 1), Dec 650054 (- 1), Dec 48 (- 1), Dec 35 (- 1), Dec 14 (- 1),
         Dec 9 (- 1), Dec 8 (- 1), Dec 120200 0, Dec 0 0, 21),
      (''ETHUSDC'', Dec 320140 (- 2), Dec 320145 (- 2), Dec 94 0, Dec 80 0, Dec 20 0,
         Dec 13 0, Dec 6 (- 1), Dec 891500 0, Dec 0 0, 18)]"

definition synthetic_fixtures :: "depth_snapshot list" where
  "synthetic_fixtures = map (\<lambda>(index, symbol, bid, ask, bid_size, ask_size, buy, sell, funding, interest, liquidation, latency).
     let timestamp = Aware (fixture_base + int (index div 2) * micros_per_second)
     in \<lparr>ds_symbol = symbol, ds_timestamp = timestamp,
         ds_receive_timestamp = dt_shift timestamp (latency * 1000), ds_bid = bid, ds_ask = ask,
         ds_bid_size = bid_size, ds_ask_size = ask_size, ds_buy_trade_qty = buy,
         ds_sell_trade_qty = sell, ds_funding_rate_bps = funding, ds_open_interest = interest,
         ds_liquidation_notional = liquidation, ds_latency_ms = latency\<rparr>)
     (enumerate 0 fixture_values)"

section \<open>Replay files\<close>

definition parse_timestamp :: "(string \<Rightarrow> datetime option) \<Rightarrow> datetime \<Rightarrow> json \<Rightarrow> datetime res" where
  "parse_timestamp fromiso now v =
     (if v = JNull \<or> v = JStr [] then Inr now
      else bind_res (case v of JTime t \<Rightarrow> Inr t
             | _ \<Rightarrow> (case fromiso (concat (map (\<lambda>c. if c = CHR ''Z'' then ''+00:00'' else [c]) (py_str v))) of
                 Some t \<Rightarrow> Inr t | None \<Rightarrow> Inl (Raise ValueError ''Invalid isoformat string'')))
           (\<lambda>t. Inr (if is_aware t then t else Aware (micros t))))"

definition decimal_text :: "json \<Rightarrow> decimal res" where
  "decimal_text v = (case parse_decimal (py_str v) of Some d \<Rightarrow> Inr d | None \<Rightarrow> invalid)"

definition snapshot_from_mapping ::
    "(string \<Rightarrow> datetime option) \<Rightarrow> datetime \<Rightarrow> datetime \<Rightarrow> json \<Rightarrow> depth_snapshot res" where
  "snapshot_from_mapping fromiso now now' v =
     bind_res (as_mapping v) (\<lambda>row.
     let text = (\<lambda>k d. decimal_text (jget_default row k (JStr d)))
     in bind_res (parse_timestamp fromiso now (jget_default row ''timestamp'' JNull)) (\<lambda>timestamp.
        bind_res (parse_timestamp fromiso now' (jget_default row ''receive_timestamp'' (JTime timestamp))) (\<lambda>receive.
        bind_res (dt_minus receive timestamp) (\<lambda>delay.
        bind_res (py_int (jget_default row ''latency_ms'' (JInt (millis (max 0 delay))))) (\<lambda>latency.
        bind_res (field_of row ''symbol'') (\<lambda>symbol.
        bind_res (bind_res (field_of row ''bid'') decimal_text) (\<lambda>bid.
        bind_res (bind_res (field_of row ''ask'') decimal_text) (\<lambda>ask.
        bind_res (text ''bid_size'' ''1'') (\<lambda>bid_size.
        bind_res (text ''ask_size'' ''1'') (\<lambda>ask_size.
        bind_res (text ''buy_trade_qty'' ''0'') (\<lambda>buy.
        bind_res (text ''sell_trade_qty'' ''0'') (\<lambda>sell.
        bind_res (text ''funding_rate_bps'' ''0'') (\<lambda>funding.
        bind_res (text ''open_interest'' ''0'') (\<lambda>interest.
        bind_res (text ''liquidation_notional'' ''0'') (\<lambda>liquidation.
        Inr \<lparr>ds_symbol = py_str symbol, ds_timestamp = timestamp, ds_receive_timestamp = receive,
             ds_bid = bid, ds_ask = ask, ds_bid_size = bid_size, ds_ask_size = ask_size,
             ds_buy_trade_qty = buy, ds_sell_trade_qty = sell, ds_funding_rate_bps = funding,
             ds_open_interest = interest, ds_liquidation_notional = liquidation,
             ds_latency_ms = latency\<rparr>)))))))))))))))"

text \<open>
  What a file holds, once read: a JSON value, or the rows of a CSV file. A row may read the clock for
  each of its two times.
\<close>

datatype replay_file = Json_File json | Csv_File "json_object list"

definition load_replay_file ::
    "(string \<Rightarrow> datetime option) \<Rightarrow> (nat \<Rightarrow> datetime) \<Rightarrow> replay_file \<Rightarrow> depth_snapshot list res" where
  "load_replay_file fromiso clk file =
     bind_res (case file of
         Json_File (JArr rows) \<Rightarrow> Inr rows
       | Json_File _ \<Rightarrow> Inl (Raise ValueError ''replay JSON must contain a list of snapshot objects'')
       | Csv_File rows \<Rightarrow> Inr (map JObj rows)) (\<lambda>rows.
     bind_res (mapM_res (\<lambda>(n, row). snapshot_from_mapping fromiso (clk (2 * n)) (clk (2 * n + 1)) row)
        (enumerate 0 rows)) (\<lambda>snapshots.
     if \<exists>s \<in> set snapshots. ds_symbol s \<notin> {''BTCUSDC'', ''ETHUSDC''}
     then Inl (Raise ValueError ''local replay files may only contain BTCUSDC and ETHUSDC snapshots'')
     else Inr snapshots))"

section \<open>Synthetic ETHBTC\<close>

definition derive_synthetic :: "int \<Rightarrow> depth_snapshot \<Rightarrow> depth_snapshot \<Rightarrow> synthetic_snapshot res" where
  "derive_synthetic stale_after_ms eth btc =
     bind_res (dt_minus (ds_receive_timestamp eth) (ds_receive_timestamp btc)) (\<lambda>delta.
     let skew = millis \<bar>delta\<bar>
     in bind_res (ddiv (ds_bid eth) (ds_ask btc)) (\<lambda>bid.
        bind_res (ddiv (ds_ask eth) (ds_bid btc)) (\<lambda>ask.
        bind_res (ds_mid eth) (\<lambda>eth_mid.
        bind_res (ds_mid btc) (\<lambda>btc_mid.
        bind_res (ddiv eth_mid btc_mid) (\<lambda>mid.
        bind_res (dt_gt (ds_timestamp btc) (ds_timestamp eth)) (\<lambda>later.
        bind_res (dsub ask bid) (\<lambda>width.
        Inr \<lparr>sy_timestamp = (if later then ds_timestamp btc else ds_timestamp eth), sy_mid = mid,
             sy_bid = bid, sy_ask = ask, sy_spread = width, sy_leg_skew_ms = skew,
             sy_is_stale = (skew > stale_after_ms)\<rparr>))))))))"

definition default_stale_after_ms :: int where "default_stale_after_ms = 250"

section \<open>Features\<close>

text \<open>A quotient that is zero for an empty total.\<close>

definition ratio_or :: "decimal res \<Rightarrow> decimal \<Rightarrow> decimal res \<Rightarrow> decimal res" where
  "ratio_or num whole fallback =
     bind_res (dgt whole d0) (\<lambda>positive.
     if positive then bind_res num (\<lambda>n. ddiv n whole) else fallback)"

definition short_return :: "depth_snapshot \<Rightarrow> depth_snapshot option \<Rightarrow> decimal res" where
  "short_return s previous =
     (case previous of
        None \<Rightarrow> Inr d0
      | Some p \<Rightarrow>
          bind_res (ds_mid p) (\<lambda>m.
          bind_res (dgt m d0) (\<lambda>positive.
          if \<not> positive then Inr d0
          else bind_res (ds_mid s) (\<lambda>a. bind_res (ds_mid p) (\<lambda>b. bind_res (dsub a b) (\<lambda>move.
               bind_res (ds_mid p) (\<lambda>c. bind_res (ddiv move c) (\<lambda>r. dmul r (Dec 10000 0)))))))))"

definition feature_for_snapshot ::
    "depth_snapshot \<Rightarrow> depth_snapshot option \<Rightarrow> synthetic_snapshot option \<Rightarrow> feature_row res" where
  "feature_for_snapshot s previous synthetic =
     bind_res (dadd (ds_bid_size s) (ds_ask_size s)) (\<lambda>depth_total.
     bind_res (dadd (ds_buy_trade_qty s) (ds_sell_trade_qty s)) (\<lambda>trade_total.
     bind_res (ratio_or (dsub (ds_bid_size s) (ds_ask_size s)) depth_total (Inr d0)) (\<lambda>imbalance.
     bind_res (ratio_or (bind_res (dmul (ds_ask s) (ds_bid_size s)) (\<lambda>x.
         bind_res (dmul (ds_bid s) (ds_ask_size s)) (dadd x))) depth_total (ds_mid s)) (\<lambda>microprice.
     bind_res (ratio_or (dsub (ds_buy_trade_qty s) (ds_sell_trade_qty s)) trade_total (Inr d0)) (\<lambda>aggression.
     bind_res (short_return s previous) (\<lambda>ret_bps.
     bind_res (dmul (Dec (ds_latency_ms s) 0) (Dec 1 (- 2))) (\<lambda>penalty.
     bind_res (ds_spread s) (\<lambda>width.
     bind_res (bind_res (dsub (ds_ask_size s) (ds_bid_size s)) (\<lambda>d. ddiv d depth_total)) (\<lambda>slope.
     bind_res (dabs ret_bps) (\<lambda>volatility.
     bind_res (dsub ret_bps penalty) (\<lambda>adjusted.
     Inr \<lparr>mf_timestamp = ds_timestamp s, mf_symbol = ds_symbol s,
          mf_order_book_imbalance = imbalance, mf_microprice = microprice, mf_spread = width,
          mf_depth_slope = slope, mf_queue_imbalance = imbalance, mf_trade_aggression = aggression,
          mf_short_horizon_return_bps = ret_bps, mf_realized_volatility_bps = volatility,
          mf_funding_rate_bps = ds_funding_rate_bps s, mf_open_interest = ds_open_interest s,
          mf_liquidation_notional = ds_liquidation_notional s,
          mf_latency_adjusted_return_bps = adjusted,
          mf_synthetic_mid = map_option sy_mid synthetic,
          mf_synthetic_spread_cost = map_option sy_spread synthetic,
          mf_leg_skew_ms = map_option sy_leg_skew_ms synthetic\<rparr>)))))))))))"

text \<open>The last snapshot of a symbol at an instant (\<open>by_time\<close>), and the synthetic of that instant.\<close>

definition sibling :: "depth_snapshot list \<Rightarrow> datetime \<Rightarrow> string \<Rightarrow> depth_snapshot option" where
  "sibling rows t symbol = List.find (\<lambda>s. ds_timestamp s = t \<and> ds_symbol s = symbol) (rev rows)"

definition synthetic_at :: "depth_snapshot list \<Rightarrow> datetime \<Rightarrow> synthetic_snapshot option res" where
  "synthetic_at rows t =
     (case (sibling rows t ''ETHUSDC'', sibling rows t ''BTCUSDC'') of
        (Some eth, Some btc) \<Rightarrow> map_res Some (derive_synthetic default_stale_after_ms eth btc)
      | _ \<Rightarrow> Inr None)"

fun feature_rows ::
    "depth_snapshot list \<Rightarrow> (string \<rightharpoonup> depth_snapshot) \<Rightarrow> depth_snapshot list \<Rightarrow> feature_row list res" where
  "feature_rows rows prev [] = Inr []"
| "feature_rows rows prev (s # ss) =
     bind_res (synthetic_at rows (ds_timestamp s)) (\<lambda>synthetic.
     bind_res (feature_for_snapshot s (prev (ds_symbol s)) synthetic) (\<lambda>f.
     bind_res (feature_rows rows (prev(ds_symbol s \<mapsto> s)) ss) (\<lambda>fs. Inr (f # fs))))"

definition or_fixtures :: "depth_snapshot list option \<Rightarrow> depth_snapshot list" where
  "or_fixtures snapshots = (case snapshots of Some (s # ss) \<Rightarrow> s # ss | _ \<Rightarrow> synthetic_fixtures)"

definition generate_features :: "depth_snapshot list option \<Rightarrow> feature_row list res" where
  "generate_features snapshots =
     (let rows = or_fixtures snapshots in feature_rows rows (\<lambda>_. None) rows)"

text \<open>The instants in the order of their first row.\<close>

definition first_times :: "depth_snapshot list \<Rightarrow> datetime list" where
  "first_times rows = rev (remdups (rev (map ds_timestamp rows)))"

definition synthetic_series :: "depth_snapshot list \<Rightarrow> synthetic_snapshot list res" where
  "synthetic_series rows =
     map_res (List.map_filter (\<lambda>x. x)) (mapM_res (synthetic_at rows) (first_times rows))"

definition replay_payload :: "depth_snapshot list option \<Rightarrow> string \<Rightarrow> json_object res" where
  "replay_payload snapshots source =
     (let rows = or_fixtures snapshots
      in bind_res (generate_features (Some rows)) (\<lambda>features.
         bind_res (synthetic_series rows) (\<lambda>synthetic.
         bind_res (mapM_res snapshot_to_public_dict rows) (\<lambda>shown.
         Inr [(''status'', JStr ''ok''), (''service'', JStr ''market_data_replay''),
              (''source'', JStr source),
              (''notes'', jstrs [''no downloaded market data'', ''BTCUSDC and ETHUSDC only'',
                 ''SYN_ETHBTC is derived and non-executable'']),
              (''snapshots'', JArr shown),
              (''synthetic_ethbtc'', JArr (map synthetic_to_public_dict synthetic)),
              (''features'', JArr (map feature_to_public_dict features))]))))"

section \<open>What a feature depends on\<close>

lemma find_rev_append:
  "\<forall>s \<in> set ys. \<not> P s \<Longrightarrow> List.find P (rev (xs @ ys)) = List.find P (rev xs)"
  by (induction ys rule: rev_induct) auto

lemma synthetic_at_past:
  assumes "t \<notin> ds_timestamp ` set ys"
  shows "synthetic_at (xs @ ys) t = synthetic_at xs t"
proof -
  have "sibling (xs @ ys) t k = sibling xs t k" for k
    unfolding sibling_def by (rule find_rev_append) (use assms in auto)
  then show ?thesis by (simp add: synthetic_at_def)
qed

lemma feature_rows_cong:
  "(\<And>s. s \<in> set zs \<Longrightarrow> synthetic_at rows (ds_timestamp s) = synthetic_at rows' (ds_timestamp s)) \<Longrightarrow>
   feature_rows rows prev zs = feature_rows rows' prev zs"
  by (induction zs arbitrary: prev) simp_all

lemma feature_rows_prefix:
  "feature_rows rows prev (zs @ ws) = Inr fs \<Longrightarrow> feature_rows rows prev zs = Inr (take (length zs) fs)"
  by (induction zs arbitrary: prev fs) (auto simp: bind_res_eq_Inr)

lemma feature_rows_sources:
  "feature_rows rows prev zs = Inr fs \<Longrightarrow>
   map mf_timestamp fs = map ds_timestamp zs \<and> map mf_symbol fs = map ds_symbol zs"
proof (induction zs arbitrary: prev fs)
  case (Cons s zs)
  from Cons.prems obtain y f gs where "feature_for_snapshot s (prev (ds_symbol s)) y = Inr f"
    "feature_rows rows (prev(ds_symbol s \<mapsto> s)) zs = Inr gs" "fs = f # gs"
    by (auto simp: bind_res_eq_Inr)
  moreover from this(1) have "mf_timestamp f = ds_timestamp s \<and> mf_symbol f = ds_symbol s"
    unfolding feature_for_snapshot_def bind_res_eq_Inr by (elim exE conjE) (simp add: sum.inject, elim subst, simp)
  ultimately show ?case using Cons.IH by auto
qed simp

lemma zero_depth_fails:
  assumes "is_finite (ds_bid_size s)" "is_finite (ds_ask_size s)" "dval (ds_bid_size s) = 0" "dval (ds_ask_size s) = 0"
  shows "feature_for_snapshot s previous synthetic \<noteq> Inr f"
proof
  assume "feature_for_snapshot s previous synthetic = Inr f"
  then obtain whole d slope where w: "dadd (ds_bid_size s) (ds_ask_size s) = Inr whole"
    "dsub (ds_ask_size s) (ds_bid_size s) = Inr d" "ddiv d whole = Inr slope"
    by (auto simp: feature_for_snapshot_def bind_res_eq_Inr)
  have rep: "representable 0" unfolding representable_def by (intro exI [of _ 0]) simp
  from dadd_exact [OF assms(1,2)] w(1) assms(3,4) rep have whole: "is_finite whole" "dcoef whole = 0"
    by (auto simp: dval_def)
  from dsub_exact [OF assms(2,1)] w(2) assms(3,4) rep have d: "is_finite d" "dcoef d = 0"
    by (auto simp: dval_def)
  from w(3) whole d show False by (simp add: ddiv_def invalid_def)
qed

lemma feature_rows_member:
  "feature_rows rows prev zs = Inr fs \<Longrightarrow> s \<in> set zs \<Longrightarrow> \<exists>p y f. feature_for_snapshot s p y = Inr f"
  by (induction zs arbitrary: prev fs) (auto simp: bind_res_eq_Inr)

definition sample_row :: "string \<Rightarrow> int \<Rightarrow> decimal \<Rightarrow> depth_snapshot" where
  "sample_row symbol t qty =
     \<lparr>ds_symbol = symbol, ds_timestamp = Aware t, ds_receive_timestamp = Aware t, ds_bid = Dec 4 0,
      ds_ask = Dec 5 0, ds_bid_size = qty, ds_ask_size = qty, ds_buy_trade_qty = d1,
      ds_sell_trade_qty = d1, ds_funding_rate_bps = d0, ds_open_interest = d0,
      ds_liquidation_notional = d0, ds_latency_ms = 0\<rparr>"

section \<open>Features of clean market data\<close>

text \<open>
  Amounts as markets have them: not negative, at most a million million, and no dust below
  a million-millionth. A clean row has such amounts, positive prices and times with a time zone;
  the bound on its time holds of every \<open>datetime\<close>.
\<close>

definition market_amount :: "decimal \<Rightarrow> bool" where
  "market_amount d \<longleftrightarrow> sized_within 12 d \<and> 0 \<le> dval d \<and> (dval d = 0 \<or> 10 powi (- 12) \<le> dval d)"

definition clean_row :: "depth_snapshot \<Rightarrow> bool" where
  "clean_row s \<longleftrightarrow> list_all market_amount [ds_bid s, ds_ask s, ds_bid_size s, ds_ask_size s,
       ds_buy_trade_qty s, ds_sell_trade_qty s]
     \<and> 0 < dval (ds_bid s) \<and> 0 < dval (ds_ask s) \<and> \<bar>ds_latency_ms s\<bar> \<le> 10 ^ 12
     \<and> is_aware (ds_timestamp s) \<and> is_aware (ds_receive_timestamp s)
     \<and> \<bar>micros (ds_receive_timestamp s)\<bar> < 2 ^ 58"

text \<open>What the backtest needs of a feature row: amounts that its sums can take.\<close>

definition usable :: "feature_row \<Rightarrow> bool" where
  "usable f \<longleftrightarrow> is_finite (mf_order_book_imbalance f) \<and> sized_within 200 (mf_latency_adjusted_return_bps f)
     \<and> sized_within 200 (Dec (case mf_leg_skew_ms f of None \<Rightarrow> 0 | Some k \<Rightarrow> k) 0)"

lemma amount_sum:
  assumes "market_amount a" "market_amount b"
  obtains d where "dadd a b = Inr d" "sized_within 13 d"
    and "if dval a + dval b = 0 then dval d = 0 else 10 powi (- 12) \<le> dval d"
proof -
  have fin: "is_finite a" "is_finite b" and pos: "0 \<le> dval a" "0 \<le> dval b"
    using assms by (simp_all add: market_amount_def sized_within_def)
  from sized_within_add [of 12 a b] assms obtain d where d: "dadd a b = Inr d" "sized_within 13 d"
    by (auto simp: market_amount_def)
  show thesis
  proof (cases "dval a + dval b = 0")
    case True
    have "representable 0" by (rule representableI [of 0 0 0]) simp_all
    with dadd_exact [OF fin] True d that show thesis by force
  next
    case False
    then have "10 powi (- 12) \<le> dval a + dval b" using assms by (auto simp: market_amount_def)
    from dadd_nonneg(2) [OF fin pos d(1) _ this] d that False show thesis by (simp add: Etiny_def)
  qed
qed

lemma mid_total:
  assumes "clean_row s"
  obtains m where "ds_mid s = Inr m" "sized_within 13 m" "10 powi (- 14) \<le> dval m"
proof -
  have am: "market_amount (ds_bid s)" "market_amount (ds_ask s)" "0 < dval (ds_bid s)" "0 < dval (ds_ask s)"
    using assms by (simp_all add: clean_row_def)
  obtain t where t: "dadd (ds_bid s) (ds_ask s) = Inr t" "sized_within 13 t"
    "if dval (ds_bid s) + dval (ds_ask s) = 0 then dval t = 0 else 10 powi (- 12) \<le> dval t"
    by (rule amount_sum [OF am(1,2)])
  have low: "10 powi (- 12) \<le> dval t" using t(3) am(3,4) by (auto split: if_splits)
  obtain m where m: "ddiv t (Dec 2 0) = Inr m" "sized_within 13 m"
    using sized_within_div [OF t(2), of "Dec 2 0" 0] by auto
  have "(10::rat) powi (- 12) = 10 * 10 powi (- 13)" using p10_add [of "- 13" 1] by simp
  then have "(10::rat) powi (- 13) \<le> dval t / dval (Dec 2 0)"
    using low p10_pos [of "- 13"] by simp
  from ddiv_lower [OF _ _ m(1) this] t(2) have "10 powi (- 14) \<le> dval m"
    by (simp add: sized_within_def Etiny_def)
  with m t(1) that show thesis by (simp add: ds_mid_def)
qed

lemma ratio_total:
  assumes n: "num = Inr x" "sized_within 30 x" and w: "sized_within 13 whole" "dval whole = 0 \<or> 10 powi (- 12) \<le> dval whole"
    and f: "fallback = Inr y"
    and y: "is_finite y"
  shows "\<exists>r. ratio_or num whole fallback = Inr r \<and> is_finite r"
proof (cases "dval whole = 0")
  case True
  with w f y show ?thesis by (simp add: ratio_or_def dec_simps sized_within_def)
next
  case False
  with w(2) have low: "10 powi (- 12) \<le> dval whole" by simp
  then have "0 < dval whole" using p10_pos [of "- 12"] by linarith
  moreover obtain r where "ddiv x whole = Inr r" "is_finite r"
    using sized_within_div [OF n(2) _ low] w(1) by (auto simp: sized_within_def)
  ultimately show ?thesis using n(1) w(1) by (simp add: ratio_or_def dec_simps sized_within_def)
qed

lemma short_return_total:
  assumes s: "clean_row s" and p: "\<And>q. previous = Some q \<Longrightarrow> clean_row q"
  obtains r where "short_return s previous = Inr r" "sized_within 32 r"
proof (cases previous)
  case None
  with that [of d0] show thesis by (simp add: short_return_def)
next
  case (Some q)
  obtain m where m: "ds_mid q = Inr m" "sized_within 13 m" "10 powi (- 14) \<le> dval m"
    by (rule mid_total [OF p [OF Some]])
  obtain a where a: "ds_mid s = Inr a" "sized_within 13 a" by (rule mid_total [OF s])
  obtain d where d: "dsub a m = Inr d" "sized_within 14 d"
    using sized_within_sub [OF a(2) m(2)] by auto
  obtain r where r: "ddiv d m = Inr r" "sized_within 28 r"
    using sized_within_div [OF d(2) _ m(3)] m(2) by (auto simp: sized_within_def)
  obtain x where x: "dmul r (Dec 10000 0) = Inr x" "sized_within 32 x"
    using sized_within_mul [OF r(2), of 4 "Dec 10000 0"] by (auto simp: sized_within_def)
  have "0 < dval m" using m(3) p10_pos [of "- 14"] by linarith
  then have "short_return s previous = Inr x"
    using Some m a d r x by (simp add: short_return_def dec_simps sized_within_def)
  with x(2) that show thesis by blast
qed

lemma synthetic_total:
  assumes "list_all clean_row rows"
  obtains y where "synthetic_at rows t = Inr y" "case y of None \<Rightarrow> True | Some z \<Rightarrow> sized_within 200 (Dec (sy_leg_skew_ms z) 0)"
proof -
  have row: "clean_row q" if "sibling rows t' k = Some q" for t' k q
  proof -
    from that obtain i where "i < length (rev rows)" "q = rev rows ! i" by (auto simp: sibling_def find_Some_iff)
    then have "q \<in> set (rev rows)" by (metis nth_mem)
    with assms show ?thesis by (simp add: list_all_iff)
  qed
  have derive: "\<exists>y. derive_synthetic n eth btc = Inr y \<and> sized_within 200 (Dec (sy_leg_skew_ms y) 0)" if e: "clean_row eth" and b: "clean_row btc" for n eth btc
  proof -
    have eth: "sized_within 12 (ds_bid eth)" "sized_within 12 (ds_ask eth)"
      using e by (simp_all add: clean_row_def market_amount_def)
    have btc: "is_finite (ds_bid btc)" "is_finite (ds_ask btc)" "10 powi (- 12) \<le> dval (ds_bid btc)"
      "10 powi (- 12) \<le> dval (ds_ask btc)"
      using b by (auto simp: clean_row_def market_amount_def sized_within_def)
    obtain bid ask where q: "ddiv (ds_bid eth) (ds_ask btc) = Inr bid" "ddiv (ds_ask eth) (ds_bid btc) = Inr ask"
      "sized_within 24 bid" "sized_within 24 ask"
      using sized_within_div [OF eth(1) btc(2,4)] sized_within_div [OF eth(2) btc(1,3)] by auto
    obtain m where m: "ds_mid eth = Inr m" "sized_within 13 m" by (rule mid_total [OF e])
    obtain k where k: "ds_mid btc = Inr k" "sized_within 13 k" "10 powi (- 14) \<le> dval k" by (rule mid_total [OF b])
    obtain r where r: "ddiv m k = Inr r"
      using sized_within_div [OF m(2) _ k(3)] k(2) by (auto simp: sized_within_def)
    obtain w where w: "dsub ask bid = Inr w" using sized_within_sub [OF q(4,3)] by auto
    define d where "d = micros (ds_receive_timestamp eth) - micros (ds_receive_timestamp btc)"
    have skew: "dt_minus (ds_receive_timestamp eth) (ds_receive_timestamp btc) = Inr d"
      "\<exists>c. dt_gt (ds_timestamp btc) (ds_timestamp eth) = Inr c"
      using e b by (simp_all add: dt_minus_Inr dt_gt_Inr clean_row_def d_def)
    have "\<bar>micros (ds_receive_timestamp eth)\<bar> < 2 ^ 58" "\<bar>micros (ds_receive_timestamp btc)\<bar> < 2 ^ 58"
      using e b by (simp_all only: clean_row_def)
    then have "\<bar>d\<bar> < 2 ^ 60" unfolding d_def by simp
    from millis_bound [OF _ this] have "0 \<le> millis \<bar>d\<bar>" "millis \<bar>d\<bar> < 2 ^ 600" by simp_all
    moreover have "(2 :: int) ^ 600 \<le> 10 ^ 200" by simp
    ultimately have "millis \<bar>d\<bar> \<le> 10 ^ 200" by linarith
    then have "(of_int (millis \<bar>d\<bar>) :: rat) \<le> of_int (10 ^ 200)" by (simp only: of_int_le_iff)
    then have "sized_within 200 (Dec (millis \<bar>d\<bar>) 0)"
      using \<open>0 \<le> millis \<bar>d\<bar>\<close> by (simp add: sized_within_def power_int_numeral)
    with q m(1) k(1) r w skew show ?thesis by (auto simp: derive_synthetic_def Let_def)
  qed
  show thesis
  proof (cases "\<exists>eth btc. sibling rows t ''ETHUSDC'' = Some eth \<and> sibling rows t ''BTCUSDC'' = Some btc")
    case True
    then obtain eth btc where legs: "sibling rows t ''ETHUSDC'' = Some eth" "sibling rows t ''BTCUSDC'' = Some btc"
      by blast
    obtain y where "derive_synthetic default_stale_after_ms eth btc = Inr y" "sized_within 200 (Dec (sy_leg_skew_ms y) 0)"
      using derive [OF row [OF legs(1)] row [OF legs(2)]] by blast
    with legs that [of "Some y"] show thesis by (simp add: synthetic_at_def map_res_def)
  next
    case False
    then have "synthetic_at rows t = Inr None" by (auto simp: synthetic_at_def split: option.splits)
    with that [of None] show thesis by simp
  qed
qed

lemma feature_total:
  assumes s: "clean_row s" and p: "\<And>q. previous = Some q \<Longrightarrow> clean_row q"
    and depth: "0 < dval (ds_bid_size s) + dval (ds_ask_size s)"
    and y: "case synthetic of None \<Rightarrow> True | Some z \<Rightarrow> sized_within 200 (Dec (sy_leg_skew_ms z) 0)"
  shows "\<exists>f. feature_for_snapshot s previous synthetic = Inr f \<and> usable f"
proof -
  have am: "market_amount (ds_bid s)" "market_amount (ds_ask s)" "market_amount (ds_bid_size s)"
    "market_amount (ds_ask_size s)" "market_amount (ds_buy_trade_qty s)" "market_amount (ds_sell_trade_qty s)"
    using s by (simp_all add: clean_row_def)
  then have sz: "sized_within 12 (ds_bid s)" "sized_within 12 (ds_ask s)" "sized_within 12 (ds_bid_size s)"
    "sized_within 12 (ds_ask_size s)" "sized_within 12 (ds_buy_trade_qty s)" "sized_within 12 (ds_sell_trade_qty s)"
    by (simp_all add: market_amount_def)
  obtain whole where whole: "dadd (ds_bid_size s) (ds_ask_size s) = Inr whole" "sized_within 13 whole"
    "if dval (ds_bid_size s) + dval (ds_ask_size s) = 0 then dval whole = 0 else 10 powi (- 12) \<le> dval whole"
    by (rule amount_sum [OF am(3,4)])
  then have low: "10 powi (- 12) \<le> dval whole" using depth by (auto split: if_splits)
  obtain trades where trades: "dadd (ds_buy_trade_qty s) (ds_sell_trade_qty s) = Inr trades" "sized_within 13 trades"
    "if dval (ds_buy_trade_qty s) + dval (ds_sell_trade_qty s) = 0 then dval trades = 0 else 10 powi (- 12) \<le> dval trades"
    by (rule amount_sum [OF am(5,6)])
  obtain a where a: "dsub (ds_bid_size s) (ds_ask_size s) = Inr a" "sized_within 13 a"
    using sized_within_sub [OF sz(3,4)] by auto
  obtain b where b: "dsub (ds_ask_size s) (ds_bid_size s) = Inr b" "sized_within 13 b"
    using sized_within_sub [OF sz(4,3)] by auto
  obtain c where c: "dsub (ds_buy_trade_qty s) (ds_sell_trade_qty s) = Inr c" "sized_within 13 c"
    using sized_within_sub [OF sz(5,6)] by auto
  obtain x y z where z: "dmul (ds_ask s) (ds_bid_size s) = Inr x" "dmul (ds_bid s) (ds_ask_size s) = Inr y"
    "dadd x y = Inr z" "sized_within 25 z"
    using sized_within_mul [OF sz(2,3)] sized_within_mul [OF sz(1,4)] sized_within_add [of 24] by fastforce
  obtain m where m: "ds_mid s = Inr m" "sized_within 13 m" by (rule mid_total [OF s])
  have up: "sized_within 30 a" "sized_within 30 c" "sized_within 30 z"
    using a(2) c(2) z(4) by (auto elim: sized_within_mono)
  have part: "dval trades = 0 \<or> 10 powi (- 12) \<le> dval trades" using trades(3) by (auto split: if_splits)
  obtain r1 where r1: "ratio_or (Inr a) whole (Inr d0) = Inr r1" "is_finite r1"
    using ratio_total [OF refl up(1) whole(2) _ refl, of d0] low by auto
  obtain r2 where r2: "ratio_or (Inr z) whole (Inr m) = Inr r2"
    using ratio_total [OF refl up(3) whole(2) _ refl, of m] low m(2) by (auto simp: sized_within_def)
  obtain r3 where r3: "ratio_or (Inr c) trades (Inr d0) = Inr r3"
    using ratio_total [OF refl up(2) trades(2) part refl, of d0] by auto
  obtain ret where ret: "short_return s previous = Inr ret" "sized_within 32 ret"
    by (rule short_return_total [OF s p])
  have lat: "sized_within 12 (Dec (ds_latency_ms s) 0)"
  proof -
    have "(of_int \<bar>ds_latency_ms s\<bar> :: rat) \<le> of_int (10 ^ 12)"
      using s by (simp only: of_int_le_iff clean_row_def)
    then show ?thesis by (simp add: sized_within_def)
  qed
  have "sized_within 0 (Dec 1 (- 2))" by (simp add: sized_within_def power_int_minus)
  from sized_within_mul [OF lat this] obtain pen where
    pen: "dmul (Dec (ds_latency_ms s) 0) (Dec 1 (- 2)) = Inr pen" "sized_within 12 pen" by auto
  obtain w where w: "ds_spread s = Inr w" using sized_within_sub [OF sz(2,1)] by (auto simp: ds_spread_def)
  obtain slope where slope: "ddiv b whole = Inr slope"
    using sized_within_div [OF b(2) _ low] whole(2) by (auto simp: sized_within_def)
  obtain v where v: "dabs ret = Inr v" using dabs_total [of ret 32] ret(2) by (auto simp: sized_within_def)
  have "sized_within 32 pen" using pen(2) by (auto elim: sized_within_mono)
  then obtain adj where adj: "dsub ret pen = Inr adj" "sized_within 33 adj" using sized_within_sub [OF ret(2)] by auto
  then have "sized_within 200 adj" by (auto elim: sized_within_mono)
  moreover have "sized_within 200 (Dec (case map_option sy_leg_skew_ms synthetic of None \<Rightarrow> 0 | Some k \<Rightarrow> k) 0)"
    using y by (cases synthetic) simp_all
  ultimately show ?thesis
    unfolding feature_for_snapshot_def
    using whole(1) trades(1) a(1) b(1) c(1) z(1-3) m(1) r1 r2 r3 ret(1) pen(1) w slope v adj(1)
    by (simp add: usable_def)
qed

lemma feature_rows_total:
  assumes "list_all clean_row rows" and "list_all (\<lambda>s. clean_row s \<and> 0 < dval (ds_bid_size s) + dval (ds_ask_size s)) zs"
    and "\<And>k q. prev k = Some q \<Longrightarrow> clean_row q"
  shows "\<exists>fs. feature_rows rows prev zs = Inr fs \<and> list_all usable fs"
  using assms(2,3)
proof (induction zs arbitrary: prev)
  case (Cons s zs)
  obtain y where y: "synthetic_at rows (ds_timestamp s) = Inr y"
    "case y of None \<Rightarrow> True | Some z \<Rightarrow> sized_within 200 (Dec (sy_leg_skew_ms z) 0)"
    by (rule synthetic_total [OF assms(1)])
  obtain f where f: "feature_for_snapshot s (prev (ds_symbol s)) y = Inr f" "usable f"
    using feature_total [OF _ _ _ y(2), of s "prev (ds_symbol s)"] Cons.prems by auto
  have "\<exists>fs. feature_rows rows (prev(ds_symbol s \<mapsto> s)) zs = Inr fs \<and> list_all usable fs"
    by (rule Cons.IH) (use Cons.prems in \<open>auto split: if_splits\<close>)
  with y f show ?case by auto
qed simp

lemma features_exist_exactly:
  assumes "rows \<noteq> []" and "list_all clean_row rows"
  shows "(\<exists>fs. generate_features (Some rows) = Inr fs)
      \<longleftrightarrow> list_all (\<lambda>s. 0 < dval (ds_bid_size s) + dval (ds_ask_size s)) rows"
    and "generate_features (Some rows) = Inr fs \<Longrightarrow> list_all usable fs"
proof -
  have gen: "generate_features (Some rows) = feature_rows rows (\<lambda>_. None) rows"
    using assms(1) by (cases rows) (simp_all add: generate_features_def or_fixtures_def Let_def)
  have deep: "list_all (\<lambda>s. 0 < dval (ds_bid_size s) + dval (ds_ask_size s)) rows"
    if fs: "feature_rows rows (\<lambda>_. None) rows = Inr fs" for fs
  proof -
    have "0 < dval (ds_bid_size s) + dval (ds_ask_size s)" if s: "s \<in> set rows" for s
    proof (rule ccontr)
      have am: "is_finite (ds_bid_size s)" "is_finite (ds_ask_size s)" "0 \<le> dval (ds_bid_size s)" "0 \<le> dval (ds_ask_size s)"
        using assms(2) s by (auto simp: list_all_iff clean_row_def market_amount_def sized_within_def)
      assume "\<not> 0 < dval (ds_bid_size s) + dval (ds_ask_size s)"
      with am have "dval (ds_bid_size s) = 0" "dval (ds_ask_size s) = 0" by linarith+
      from zero_depth_fails [OF am(1,2) this] feature_rows_member [OF fs s] show False by blast
    qed
    then show ?thesis by (simp add: list_all_iff)
  qed
  have total: "\<exists>fs. feature_rows rows (\<lambda>_. None) rows = Inr fs \<and> list_all usable fs"
    if "list_all (\<lambda>s. 0 < dval (ds_bid_size s) + dval (ds_ask_size s)) rows"
    using feature_rows_total [OF assms(2), of rows "\<lambda>_. None"] assms(2) that by (simp add: list_all_iff)
  show "(\<exists>fs. generate_features (Some rows) = Inr fs)
      \<longleftrightarrow> list_all (\<lambda>s. 0 < dval (ds_bid_size s) + dval (ds_ask_size s)) rows"
    using deep total by (auto simp: gen)
  show "list_all usable fs" if "generate_features (Some rows) = Inr fs"
    using total deep that by (auto simp: gen)
qed

section \<open>Properties\<close>

text \<open>
  C30: Features do not look ahead. The features of a stretch of market data stay the same, row by
  row, when data of other instants is appended to it: what a strategy sees at an instant depends on
  that instant and the rows before it only. Each row keeps the instant and symbol of its snapshot.
\<close>

theorem features_do_not_look_ahead:
  assumes "generate_features (Some (xs @ ys)) = Inr fs" and "xs \<noteq> []"
    and "ds_timestamp ` set xs \<inter> ds_timestamp ` set ys = {}"
  shows "generate_features (Some xs) = Inr (take (length xs) fs)
    \<and> map mf_timestamp fs = map ds_timestamp (xs @ ys) \<and> map mf_symbol fs = map ds_symbol (xs @ ys)"
proof -
  have or: "or_fixtures (Some (xs @ ys)) = xs @ ys" "or_fixtures (Some xs) = xs"
    using assms(2) by (auto simp: or_fixtures_def neq_Nil_conv)
  have fs: "feature_rows (xs @ ys) (\<lambda>_. None) (xs @ ys) = Inr fs"
    using assms(1) by (simp add: generate_features_def or Let_def)
  have "feature_rows (xs @ ys) (\<lambda>_. None) xs = feature_rows xs (\<lambda>_. None) xs"
    by (rule feature_rows_cong) (use assms(3) in \<open>auto intro!: synthetic_at_past\<close>)
  with feature_rows_prefix [OF fs] feature_rows_sources [OF fs] show ?thesis
    by (simp add: generate_features_def or Let_def)
qed

text \<open>
  An empty book stops the replay. Imbalance and microprice are guarded against a book without
  depth, but the depth slope divides by the same total unguarded: one snapshot with both sizes zero
  makes the features of the whole replay raise.
\<close>

theorem empty_book_stops_replay:
  assumes "s \<in> set rows" and "is_finite (ds_bid_size s)" "is_finite (ds_ask_size s)"
    and "dval (ds_bid_size s) = 0" "dval (ds_ask_size s) = 0"
  shows "\<exists>e. generate_features (Some rows) = Inl e"
proof (cases "generate_features (Some rows)")
  case (Inr fs)
  have "or_fixtures (Some rows) = rows" using assms(1) by (cases rows) (simp_all add: or_fixtures_def)
  with Inr have "feature_rows rows (\<lambda>_. None) rows = Inr fs" by (simp add: generate_features_def)
  from feature_rows_member [OF this assms(1)] zero_depth_fails [OF assms(2-5)] show ?thesis by blast
qed simp

theorem features_do_not_look_ahead_witness:
  "\<exists>fs. generate_features (Some [sample_row ''BTCUSDC'' 0 d1, sample_row ''BTCUSDC'' 1 d1]) = Inr fs
     \<and> generate_features (Some [sample_row ''BTCUSDC'' 0 d1]) = Inr (take 1 fs)"
proof -
  let ?a = "sample_row ''BTCUSDC'' 0 d1" and ?b = "sample_row ''BTCUSDC'' 1 d1"
  have "case generate_features (Some ([?a] @ [?b])) of Inl _ \<Rightarrow> False | Inr _ \<Rightarrow> True" by code_simp
  then obtain fs where fs: "generate_features (Some ([?a] @ [?b])) = Inr fs" by (auto split: sum.splits)
  have "ds_timestamp ` set [?a] \<inter> ds_timestamp ` set [?b] = {}" by (simp add: sample_row_def)
  from features_do_not_look_ahead [OF fs _ this] fs show ?thesis by auto
qed

theorem empty_book_stops_replay_witness:
  "\<exists>e. generate_features (Some [sample_row ''BTCUSDC'' 0 d1, sample_row ''BTCUSDC'' 1 d0]) = Inl e"
  by (rule empty_book_stops_replay [of "sample_row ''BTCUSDC'' 1 d0"]) (simp_all add: sample_row_def)

end
