(* ===== verification/Backtest.thy ===== *)
theory Backtest
  imports Market_Replay Json_Store Exchange_State
begin

text \<open>
  \<open>services/backtesting/engine.py\<close> and \<open>services/strategy/policies.py\<close>: the deterministic maker
  backtest over replay features, and the two policies that turn its report or the latest features
  into a paper-only recommendation.
\<close>

section \<open>The report\<close>

record backtest_report =
  bt_run_id :: string
  bt_fixture_source :: string
  bt_observation_count :: nat
  bt_quote_count :: nat
  bt_simulated_fill_count :: nat
  bt_maker_order_count :: nat
  bt_taker_order_count :: nat
  bt_maker_taker_ratio :: decimal
  bt_fill_ratio :: decimal
  bt_fees_paid :: decimal
  bt_adverse_selection_cost :: decimal
  bt_missed_fill_count :: int
  bt_average_latency_ms :: decimal
  bt_expected_edge_after_costs :: decimal
  bt_approval_state :: string

definition report_to_public_dict :: "backtest_report \<Rightarrow> json_object" where
  "report_to_public_dict r =
     [(''run_id'', JStr (bt_run_id r)),
      (''fixture_source'', JStr (bt_fixture_source r)),
      (''observation_count'', JInt (int (bt_observation_count r))),
      (''quote_count'', JInt (int (bt_quote_count r))),
      (''simulated_fill_count'', JInt (int (bt_simulated_fill_count r))),
      (''maker_order_count'', JInt (int (bt_maker_order_count r))),
      (''taker_order_count'', JInt (int (bt_taker_order_count r))),
      (''maker_taker_ratio'', JStr (format_f (bt_maker_taker_ratio r))),
      (''fill_ratio'', JStr (format_f (bt_fill_ratio r))),
      (''fees_paid'', JStr (format_f (bt_fees_paid r))),
      (''adverse_selection_cost'', JStr (format_f (bt_adverse_selection_cost r))),
      (''missed_fill_count'', JInt (bt_missed_fill_count r)),
      (''average_latency_ms'', JStr (format_f (bt_average_latency_ms r))),
      (''expected_edge_after_costs'', JStr (format_f (bt_expected_edge_after_costs r))),
      (''approval_state'', JStr (bt_approval_state r)),
      (''notes'', jstrs [''deterministic fixture backtest'', ''not live-trading approval'',
         ''no Binance connectivity''])]"

definition count_dec :: "nat \<Rightarrow> decimal" where
  "count_dec n = Dec (int n) 0"

definition default_run_id :: string where
  "default_run_id = ''synthetic-microstructure-backtest-001''"

definition maker_rate :: decimal where
  "maker_rate = fe_maker_fee_rate (hd (default_fee_policies (Aware 0)))"

definition run_backtest :: "depth_snapshot list option \<Rightarrow> string \<Rightarrow> backtest_report res" where
  "run_backtest snapshots run_id =
     bind_res (generate_features snapshots) (\<lambda>features.
     bind_res (mapM_res (\<lambda>r. dgt (mf_order_book_imbalance r) d0) features) (\<lambda>filled.
     let quotes = length features; fills = length (filter (\<lambda>b. b) filled)
     in bind_res (if quotes = 0 then Inr d0 else ddiv (count_dec fills) (count_dec quotes)) (\<lambda>fill_ratio.
        bind_res (bind_res (dmul (count_dec fills) (Dec 1000 0)) (\<lambda>x. dmul x maker_rate)) (\<lambda>fees.
        bind_res (bind_res (foldM_res (\<lambda>acc r. bind_res (dabs (mf_latency_adjusted_return_bps r)) (dadd acc)) d0 features)
            (\<lambda>x. dmul x (Dec 1 (- 2)))) (\<lambda>adverse.
        bind_res (if quotes = 0 then Inr d0
            else bind_res (dsum (map (\<lambda>r. Dec (case mf_leg_skew_ms r of None \<Rightarrow> 0 | Some k \<Rightarrow> k) 0) features))
              (\<lambda>x. ddiv x (count_dec quotes))) (\<lambda>latency.
        bind_res (dmul (count_dec fills) (Dec 9 (- 1))) (\<lambda>gross.
        bind_res (bind_res (dsub gross fees) (\<lambda>x. dsub x adverse)) (\<lambda>edge.
        Inr \<lparr>bt_run_id = run_id,
             bt_fixture_source = (if snapshots = None then ''synthetic_in_repo_fixture'' else ''local_replay_file''),
             bt_observation_count = quotes, bt_quote_count = quotes, bt_simulated_fill_count = fills,
             bt_maker_order_count = quotes, bt_taker_order_count = 0,
             bt_maker_taker_ratio = (if quotes = 0 then d0 else d1), bt_fill_ratio = fill_ratio,
             bt_fees_paid = fees, bt_adverse_selection_cost = adverse,
             bt_missed_fill_count = int quotes - int fills, bt_average_latency_ms = latency,
             bt_expected_edge_after_costs = edge, bt_approval_state = ''research_only''\<rparr>))))))))"

definition persist_backtest_report :: "backtest_report \<Rightarrow> json_store \<Rightarrow> json_store" where
  "persist_backtest_report r st =
     append_jsonl ''backtests/reports.jsonl'' (JObj (report_to_public_dict r))
       (write_json ''backtests/latest_report.json'' (JObj (report_to_public_dict r)) st)"

definition backtest_report_payload ::
    "depth_snapshot list option \<Rightarrow> bool \<Rightarrow> (json_store, json_object) act" where
  "backtest_report_payload snapshots persist =
     bind_act (of_res (run_backtest snapshots default_run_id)) (\<lambda>r.
     bind_act (if persist then modify (persist_backtest_report r) else ret ()) (\<lambda>_.
     ret [(''status'', JStr ''ok''), (''service'', JStr ''backtesting''),
          (''report'', JObj (report_to_public_dict r))]))"

section \<open>Policies\<close>

record policy_recommendation =
  pr_action :: string
  pr_symbol :: string
  pr_confidence :: decimal
  pr_explanation :: string
  pr_rejected_alternatives :: "string list"

definition maker_microstructure_policy :: "backtest_report \<Rightarrow> policy_recommendation res" where
  "maker_microstructure_policy r =
     bind_res (dle (bt_expected_edge_after_costs r) d0) (\<lambda>no_edge.
     Inr (if no_edge \<or> 0 < bt_taker_order_count r
       then \<lparr>pr_action = ''NO_TRADE'', pr_symbol = ''SYN_ETHBTC'', pr_confidence = d0,
             pr_explanation = ''No paper quote is suggested because expected edge after costs is unavailable or maker-only discipline was violated.'',
             pr_rejected_alternatives = [''market orders remain disabled'',
               ''direct ETHBTC execution remains disabled'']\<rparr>
       else \<lparr>pr_action = ''SUGGEST_MAKER_QUOTE'', pr_symbol = ''BTCUSDC'', pr_confidence = Dec 55 (- 2),
             pr_explanation = ''Paper-only maker quote candidate from deterministic fixture edge; this is not execution approval.'',
             pr_rejected_alternatives = [''taker quote rejected by maker-first policy'',
               ''direct ETHBTC execution remains disabled'']\<rparr>))"

definition both :: "bool res \<Rightarrow> bool res \<Rightarrow> bool res" where
  "both a b = bind_res a (\<lambda>x. if x then b else Inr False)"

definition scalp_recommendation :: "string \<Rightarrow> string \<Rightarrow> policy_recommendation" where
  "scalp_recommendation direction symbol =
     \<lparr>pr_action = ''SUGGEST_MICROSTRUCTURE_SCALP_'' @ direction, pr_symbol = symbol,
      pr_confidence = Dec 60 (- 2),
      pr_explanation = ''Paper-only scalp candidate from aligned order-book imbalance and trade aggression; this is not execution approval.'',
      pr_rejected_alternatives = [''market order rejected by maker-first policy'',
        ''model-driven order rejected because models are not implemented'']\<rparr>"

definition microstructure_scalp_policy :: "feature_row list option \<Rightarrow> policy_recommendation res" where
  "microstructure_scalp_policy features =
     bind_res (case features of Some (f # fs) \<Rightarrow> Inr (f # fs) | _ \<Rightarrow> generate_features None) (\<lambda>rows.
     let latest = last rows
     in bind_res (both (dgt (mf_order_book_imbalance latest) (Dec 5 (- 2)))
          (dgt (mf_trade_aggression latest) (Dec 5 (- 2)))) (\<lambda>aligned_long.
        bind_res (both (dlt (mf_order_book_imbalance latest) (Dec (- 5) (- 2)))
          (dlt (mf_trade_aggression latest) (Dec (- 5) (- 2)))) (\<lambda>aligned_short.
        Inr (if \<not> (aligned_long \<or> aligned_short)
          then \<lparr>pr_action = ''NO_TRADE'', pr_symbol = mf_symbol latest, pr_confidence = d0,
                pr_explanation = ''No scalp recommendation because imbalance and trade aggression are not aligned.'',
                pr_rejected_alternatives = [''unconfirmed scalp rejected'',
                  ''taker scalp rejected by maker-first policy'']\<rparr>
          else scalp_recommendation (if aligned_long then ''LONG'' else ''SHORT'') (mf_symbol latest)))))"

section \<open>Properties\<close>

lemma fills_fee:
  assumes "n < 10 ^ 20"
  shows "\<exists>d. bind_res (dmul (count_dec n) (Dec 1000 0)) (\<lambda>x. dmul x maker_rate) = Inr d
    \<and> is_finite d \<and> dval d = of_nat n / 10"
proof -
  have rate: "is_finite maker_rate" "dval maker_rate = 1 / 10 ^ 4"
    by (simp_all add: maker_rate_def default_fee_policies_def default_fee_policy_def power_int_minus field_simps)
  have "representable (of_int (int n * 1000))"
    by (rule representableI [of _ "int n * 1000" 0]) (use assms in simp_all)
  then obtain x where x: "dmul (count_dec n) (Dec 1000 0) = Inr x" "is_finite x" "dval x = of_nat n * 1000"
    using dmul_exact [of "count_dec n" "Dec 1000 0"] by (auto simp: count_dec_def)
  have "representable (of_nat n / 10)"
    by (rule representableI [of _ "int n" "- 1"]) (use assms in \<open>simp_all add: power_int_minus\<close>)
  then have "representable (dval x * dval maker_rate)" by (simp add: x rate)
  from dmul_exact [OF x(2) rate(1) this] show ?thesis
    by (auto simp: x rate bind_res_def)
qed

lemma features_per_snapshot:
  assumes "generate_features (Some snapshots) = Inr fs" "snapshots \<noteq> []"
  shows "length fs = length snapshots"
proof -
  have "or_fixtures (Some snapshots) = snapshots" using assms(2) by (cases snapshots) (simp_all add: or_fixtures_def)
  then have "feature_rows snapshots (\<lambda>_. None) snapshots = Inr fs"
    using assms(1) by (simp add: generate_features_def Let_def)
  from feature_rows_sources [OF this] show ?thesis by (metis length_map)
qed

text \<open>Sums of amounts of bounded size: one decimal digit more per summand is enough.\<close>

lemma bounded_sum:
  assumes "list_all (\<lambda>x. \<exists>d. f x = Inr d \<and> sized_within n d) xs" and "sized_within n a"
    and "0 \<le> n" "n + int (length xs) \<le> 900000"
  shows "\<exists>t. foldM_res (\<lambda>acc x. bind_res (f x) (dadd acc)) a xs = Inr t \<and> sized_within (n + int (length xs)) t"
  using assms
proof (induction xs arbitrary: n a)
  case (Cons x xs)
  then obtain d where d: "f x = Inr d" "sized_within n d" by auto
  obtain b where b: "dadd a d = Inr b" "sized_within (n + 1) b"
    using sized_within_add [OF Cons.prems(2) d(2)] Cons.prems(3,4) by auto
  have "list_all (\<lambda>x. \<exists>d. f x = Inr d \<and> sized_within (n + 1) d) xs"
    using Cons.prems(1) sized_within_mono [of n _ "n + 1"] by (fastforce simp: list_all_iff)
  from Cons.IH [OF this b(2)] Cons.prems(3,4) d(1) b(1) show ?case by (simp add: add.assoc)
qed simp

lemma counted: "n \<le> 100000 \<Longrightarrow> sized_within 5 (count_dec n)"
  by (simp add: sized_within_def count_dec_def)

lemma mean_skew:
  assumes "list_all usable fs" "fs \<noteq> []" "length fs \<le> 100000"
  shows "\<exists>v. bind_res (dsum (map (\<lambda>r. Dec (case mf_leg_skew_ms r of None \<Rightarrow> 0 | Some k \<Rightarrow> k) 0) fs))
      (\<lambda>x. ddiv x (count_dec (length fs))) = Inr v"
proof -
  let ?xs = "map (\<lambda>r. Dec (case mf_leg_skew_ms r of None \<Rightarrow> 0 | Some k \<Rightarrow> k) 0) fs"
  have "list_all (\<lambda>x. \<exists>d. Inr x = (Inr d :: decimal res) \<and> sized_within 200 d) ?xs"
    using assms(1) by (auto simp: list_all_iff usable_def)
  from bounded_sum [OF this sized_within_zero] assms(3) obtain t where
    t: "dsum ?xs = Inr t" "sized_within (200 + int (length fs)) t" by (auto simp: dsum_def)
  have "10 powi (- 0) \<le> dval (count_dec (length fs))" "is_finite (count_dec (length fs))"
    using assms(2) by (cases fs; simp add: count_dec_def)+
  from sized_within_div [OF t(2) this(2,1)] t(1) assms(3) show ?thesis by auto
qed

lemma backtest_total:
  assumes fs: "generate_features snapshots = Inr fs" and u: "list_all usable fs"
    and ne: "fs \<noteq> []" and len: "length fs \<le> 100000"
  shows "\<exists>r. run_backtest snapshots run_id = Inr r"
proof -
  have "\<exists>bs. mapM_res (\<lambda>r. dgt (mf_order_book_imbalance r) d0) fs = Inr bs"
    by (rule mapM_res_total) (use u in \<open>auto simp: list_all_iff usable_def dec_simps\<close>)
  then obtain bs where bs: "mapM_res (\<lambda>r. dgt (mf_order_book_imbalance r) d0) fs = Inr bs" by blast
  define n where "n = length (filter (\<lambda>b. b) bs)"
  have "n \<le> length fs" unfolding n_def using length_filter_le [of _ bs] mapM_res_length [OF bs] by simp
  then have n: "n \<le> 100000" using len by simp
  have c: "sized_within 5 (count_dec n)" by (rule counted [OF n])
  have q: "is_finite (count_dec (length fs))" "10 powi (- 0) \<le> dval (count_dec (length fs))"
    using ne by (cases fs; simp add: count_dec_def)+
  obtain ratio where ratio: "ddiv (count_dec n) (count_dec (length fs)) = Inr ratio"
    using sized_within_div [OF c q] by auto
  obtain fees where fees: "bind_res (dmul (count_dec n) (Dec 1000 0)) (\<lambda>x. dmul x maker_rate) = Inr fees"
    "is_finite fees" "dval fees = of_nat n / 10" using fills_fee [of n] n by auto
  have "list_all (\<lambda>r. \<exists>d. dabs (mf_latency_adjusted_return_bps r) = Inr d \<and> sized_within 200 d) fs"
    using u dabs_total [where n = 200] by (fastforce simp: list_all_iff usable_def sized_within_def)
  from bounded_sum [OF this sized_within_zero] len obtain t where t:
    "foldM_res (\<lambda>acc r. bind_res (dabs (mf_latency_adjusted_return_bps r)) (dadd acc)) d0 fs = Inr t"
    "sized_within (200 + int (length fs)) t" by auto
  have "sized_within 0 (Dec 1 (- 2))" by (simp add: sized_within_def power_int_minus)
  from sized_within_mul [OF t(2) this] len obtain adverse where
    adverse: "dmul t (Dec 1 (- 2)) = Inr adverse" "sized_within (200 + int (length fs)) adverse" by auto
  obtain latency where latency: "bind_res (dsum (map (\<lambda>r. Dec (case mf_leg_skew_ms r of None \<Rightarrow> 0 | Some k \<Rightarrow> k) 0) fs))
      (\<lambda>x. ddiv x (count_dec (length fs))) = Inr latency"
    using mean_skew [OF u ne len] by blast
  have "sized_within 0 (Dec 9 (- 1))" by (simp add: sized_within_def power_int_minus)
  from sized_within_mul [OF c this] obtain gross where
    gross: "dmul (count_dec n) (Dec 9 (- 1)) = Inr gross" "sized_within 5 gross" by auto
  have "(of_nat n :: rat) \<le> of_nat 100000" using n by (simp only: of_nat_le_iff)
  then have "sized_within 5 fees" using fees(2,3) by (simp add: sized_within_def)
  from sized_within_sub [OF gross(2) this] obtain e where e: "dsub gross fees = Inr e" "sized_within 6 e" by auto
  have "sized_within (200 + int (length fs)) e" using e(2) by (auto elim: sized_within_mono)
  from sized_within_sub [OF this adverse(2)] len obtain edge where "dsub e adverse = Inr edge" by auto
  with fs bs ratio fees(1) t(1) adverse(1) latency gross(1) e(1) ne show ?thesis
    by (simp add: run_backtest_def Let_def flip: n_def)
qed

text \<open>
  C32: A backtest of clean market data returns unless a book is empty. Over at most a hundred
  thousand rows with market-sized amounts, positive prices and zoned times, the whole run - synthetic
  legs, features, sums and ratios in 28-digit arithmetic - raises exactly when some row has no depth
  on either side: imbalance and microprice are guarded against that, the depth slope is not.
\<close>

theorem backtest_returns_exactly:
  assumes "rows \<noteq> []" and "length rows \<le> 100000" and "list_all clean_row rows"
  shows "(\<exists>r. run_backtest (Some rows) run_id = Inr r)
    \<longleftrightarrow> list_all (\<lambda>s. 0 < dval (ds_bid_size s) + dval (ds_ask_size s)) rows"
proof
  assume "\<exists>r. run_backtest (Some rows) run_id = Inr r"
  then have "\<exists>fs. generate_features (Some rows) = Inr fs" by (auto simp: run_backtest_def bind_res_eq_Inr)
  then show "list_all (\<lambda>s. 0 < dval (ds_bid_size s) + dval (ds_ask_size s)) rows"
    using features_exist_exactly(1) [OF assms(1,3)] by blast
next
  assume "list_all (\<lambda>s. 0 < dval (ds_bid_size s) + dval (ds_ask_size s)) rows"
  then obtain fs where fs: "generate_features (Some rows) = Inr fs"
    using features_exist_exactly(1) [OF assms(1,3)] by blast
  have len: "length fs = length rows" by (rule features_per_snapshot [OF fs assms(1)])
  then have "fs \<noteq> []" "length fs \<le> 100000" using assms(1,2) by auto
  then show "\<exists>r. run_backtest (Some rows) run_id = Inr r"
    using backtest_total [OF fs features_exist_exactly(2) [OF assms(1,3) fs]] by blast
qed

theorem backtest_returns_exactly_witness:
  "(\<exists>r. run_backtest (Some [sample_row ''BTCUSDC'' 0 d1]) ''run'' = Inr r)
   \<and> \<not> (\<exists>r. run_backtest (Some [sample_row ''BTCUSDC'' 0 d1, sample_row ''BTCUSDC'' 1 d0]) ''run'' = Inr r)"
proof -
  have amounts: "market_amount d0" "market_amount d1" "market_amount (Dec 4 0)" "market_amount (Dec 5 0)"
    by (simp_all add: market_amount_def sized_within_def power_int_minus)
  then have rows: "clean_row (sample_row ''BTCUSDC'' 0 d1)" "clean_row (sample_row ''BTCUSDC'' 1 d0)"
    by (simp_all add: clean_row_def sample_row_def)
  show ?thesis
    using backtest_returns_exactly [of "[sample_row ''BTCUSDC'' 0 d1]" "''run''"]
      backtest_returns_exactly [of "[sample_row ''BTCUSDC'' 0 d1, sample_row ''BTCUSDC'' 1 d0]" "''run''"] rows
    by (simp add: sample_row_def)
qed

text \<open>
  C31: The accounts of a backtest add up. Every replayed row is observed and quoted once, as a maker
  order and never as a taker order; the fills are the rows with a positive order book imbalance, the
  missed quotes are the rest, and the fees are exactly the maker fee of 0.0001 on the notional of
  1000 of each fill.
\<close>

theorem backtest_accounts_add_up:
  assumes "run_backtest (Some snapshots) run_id = Inr r" and "snapshots \<noteq> []"
    and "length snapshots < 10 ^ 20"
  shows "bt_observation_count r = length snapshots \<and> bt_quote_count r = length snapshots
    \<and> bt_maker_order_count r = length snapshots \<and> bt_taker_order_count r = 0
    \<and> (\<exists>fs. generate_features (Some snapshots) = Inr fs \<and> bt_simulated_fill_count r =
          length (filter (\<lambda>f. dgt (mf_order_book_imbalance f) d0 = Inr True) fs))
    \<and> bt_simulated_fill_count r \<le> bt_quote_count r
    \<and> int (bt_simulated_fill_count r) + bt_missed_fill_count r = int (bt_quote_count r)
    \<and> dval (bt_fees_paid r) = of_nat (bt_simulated_fill_count r) / 10
    \<and> bt_approval_state r = ''research_only''"
proof -
  from assms(1) obtain fs bs where fs: "generate_features (Some snapshots) = Inr fs"
    and bs: "mapM_res (\<lambda>r. dgt (mf_order_book_imbalance r) d0) fs = Inr bs"
    by (auto simp: run_backtest_def bind_res_eq_Inr)
  let ?n = "length (filter (\<lambda>b. b) bs)"
  have len: "length fs = length snapshots" by (rule features_per_snapshot [OF fs assms(2)])
  have blen: "length bs = length fs" using bs by (rule mapM_res_length)
  have "map (\<lambda>b. b) bs = map (\<lambda>f. dgt (mf_order_book_imbalance f) d0 = Inr True) fs"
    by (rule mapM_res_map [OF bs]) simp
  then have n: "?n = length (filter (\<lambda>f. dgt (mf_order_book_imbalance f) d0 = Inr True) fs)"
    by (metis filter_map length_map list.map_ident comp_def filter_cong)
  have le: "?n \<le> length fs" using length_filter_le [of _ bs] blen by simp
  then have "?n < 10 ^ 20" using assms(3) len by linarith
  from fills_fee [OF this] assms(1) len le show ?thesis
    by (auto simp: run_backtest_def fs bs bind_res_eq_Inr Let_def n)
qed

text \<open>
  A backtest of a replay without rows is a backtest of the built-in fixtures: an empty tuple of
  snapshots gives the report of the fixtures, under the source name of a local replay file.
\<close>

theorem empty_replay_scores_the_fixtures:
  "run_backtest (Some []) run_id =
     bind_res (run_backtest None run_id) (\<lambda>r. Inr (r\<lparr>bt_fixture_source := ''local_replay_file''\<rparr>))"
  by (simp add: run_backtest_def generate_features_def or_fixtures_def Let_def bind_res_assoc)

theorem backtest_accounts_add_up_witness:
  "\<exists>r. run_backtest (Some [sample_row ''BTCUSDC'' 0 d1]) ''run'' = Inr r
     \<and> int (bt_simulated_fill_count r) + bt_missed_fill_count r = 1"
proof -
  let ?s = "[sample_row ''BTCUSDC'' 0 d1]"
  have "case run_backtest (Some ?s) ''run'' of Inl _ \<Rightarrow> False | Inr _ \<Rightarrow> True" by code_simp
  then obtain r where r: "run_backtest (Some ?s) ''run'' = Inr r" by (auto split: sum.splits)
  from backtest_accounts_add_up [OF r] r show ?thesis by simp
qed

end
