(* ===== verification/Strategy_Sessions.thy ===== *)
theory Strategy_Sessions
  imports Backtest Numbered_Log
begin

text \<open>
  \<open>services/strategy/sessions.py\<close>: the paper-only strategy session manager. Its state is the fee
  policies it was given, the sessions, the recommendations and the audit entries; every reading of
  the wall clock of a call is the next value of \<open>clk\<close>.
\<close>

section \<open>Sessions and recommendations\<close>

datatype session_status = SS_RUNNING | SS_PAUSED | SS_STOPPED | SS_REJECTED

fun ss_value :: "session_status \<Rightarrow> string" where
  "ss_value SS_RUNNING = ''running''"
| "ss_value SS_PAUSED = ''paused''"
| "ss_value SS_STOPPED = ''stopped''"
| "ss_value SS_REJECTED = ''rejected''"

record strategy_recommendation =
  rec_recommendation_id :: string
  rec_session_id :: string
  rec_action :: string
  rec_symbol :: string
  rec_expected_edge_after_costs :: decimal
  rec_confidence :: decimal
  rec_maker_or_taker_permission :: string
  rec_risk_context :: string
  rec_explanation :: string
  rec_rejected_alternatives :: "string list"
  rec_created_at :: datetime

definition recommendation_to_public_dict :: "strategy_recommendation \<Rightarrow> json" where
  "recommendation_to_public_dict r = JObj
     [(''recommendation_id'', JStr (rec_recommendation_id r)),
      (''session_id'', JStr (rec_session_id r)),
      (''action'', JStr (rec_action r)),
      (''symbol'', JStr (rec_symbol r)),
      (''expected_edge_after_costs'', JStr (format_f (rec_expected_edge_after_costs r))),
      (''confidence'', JStr (format_f (rec_confidence r))),
      (''maker_or_taker_permission'', JStr (rec_maker_or_taker_permission r)),
      (''risk_context'', JStr (rec_risk_context r)),
      (''explanation'', JStr (rec_explanation r)),
      (''rejected_alternatives'', jstrs (rec_rejected_alternatives r)),
      (''created_at'', JTime (rec_created_at r))]"

record strategy_session =
  sn_session_id :: string
  sn_family :: string
  sn_status :: session_status
  sn_operator_mode :: string
  sn_venue_target :: string
  sn_fee_model_source :: string
  sn_maker_taker_leakage :: decimal
  sn_started_at :: datetime
  sn_updated_at :: datetime
  sn_notes :: "string list"

definition session_to_public_dict :: "strategy_session \<Rightarrow> json" where
  "session_to_public_dict s = JObj
     [(''session_id'', JStr (sn_session_id s)),
      (''family'', JStr (sn_family s)),
      (''status'', JStr (ss_value (sn_status s))),
      (''operator_mode'', JStr (sn_operator_mode s)),
      (''venue_target'', JStr (sn_venue_target s)),
      (''fee_model_source'', JStr (sn_fee_model_source s)),
      (''maker_taker_leakage'', JStr (format_f (sn_maker_taker_leakage s))),
      (''started_at'', JTime (sn_started_at s)),
      (''updated_at'', JTime (sn_updated_at s)),
      (''notes'', jstrs (sn_notes s))]"

definition fee_model_available :: "fee_policy list \<Rightarrow> datetime \<Rightarrow> (bool \<times> string) res" where
  "fee_model_available policies now =
     (if policies = [] then Inr (False, ''fee model is unavailable'')
      else bind_res (collect (map (\<lambda>p. fee_policy_errors p now) policies)) (\<lambda>errors.
        Inr (if errors \<noteq> [] then (False, join ''; '' errors) else (True, fe_source (hd policies)))))"

section \<open>The manager\<close>

record strategy_manager =
  mg_fee_policies :: "fee_policy list"
  mg_sessions :: "strategy_session list"
  mg_recommendations :: "strategy_recommendation list"
  mg_audit_records :: "json_object list"

definition new_manager :: "fee_policy list option \<Rightarrow> datetime \<Rightarrow> strategy_manager" where
  "new_manager policies now =
     \<lparr>mg_fee_policies = (case policies of Some (p # ps) \<Rightarrow> p # ps | _ \<Rightarrow> default_fee_policies now),
      mg_sessions = [], mg_recommendations = [], mg_audit_records = []\<rparr>"

definition record_audit :: "string \<Rightarrow> string \<Rightarrow> string \<Rightarrow> datetime \<Rightarrow> (strategy_manager, unit) act" where
  "record_audit session_id event decision now =
     modify (\<lambda>m. m\<lparr>mg_audit_records := mg_audit_records m @
       [[(''session_id'', JStr session_id), (''event'', JStr event), (''decision'', JStr decision),
         (''created_at'', JTime now), (''scope'', JStr ''paper_only'')]]\<rparr>)"

definition append_session ::
    "string \<times> session_status \<times> string \<times> datetime \<Rightarrow> strategy_session list \<Rightarrow> strategy_session list" where
  "append_session = (\<lambda>(family, status, source, now) sessions. sessions @
     [\<lparr>sn_session_id = numbered_id ''paper-strategy-'' (Suc (length sessions)), sn_family = family,
       sn_status = status, sn_operator_mode = ''paper'', sn_venue_target = ''internal_paper'',
       sn_fee_model_source = source, sn_maker_taker_leakage = d0, sn_started_at = now,
       sn_updated_at = now,
       sn_notes = [''paper-only strategy session'', ''maker-first policy'',
         ''no exchange connector access'', ''strategy alpha is not implemented'']\<rparr>])"

definition append_recommendation ::
    "backtest_report \<times> policy_recommendation \<times> string \<times> datetime
     \<Rightarrow> strategy_recommendation list \<Rightarrow> strategy_recommendation list" where
  "append_recommendation = (\<lambda>(report, policy, session_id, created) recs. recs @
     [\<lparr>rec_recommendation_id = numbered_id ''strategy-rec-'' (Suc (length recs)),
       rec_session_id = session_id, rec_action = pr_action policy, rec_symbol = pr_symbol policy,
       rec_expected_edge_after_costs = bt_expected_edge_after_costs report,
       rec_confidence = pr_confidence policy, rec_maker_or_taker_permission = ''maker_only'',
       rec_risk_context = ''paper recommendation only; command, risk, portfolio, execution, audit, and reconciliation approval still required'',
       rec_explanation = pr_explanation policy,
       rec_rejected_alternatives = pr_rejected_alternatives policy, rec_created_at = created\<rparr>])"

text \<open>The recommendation is made and audited before it is entered.\<close>

definition recommend :: "strategy_session \<Rightarrow> datetime \<Rightarrow> datetime \<Rightarrow> (strategy_manager, unit) act" where
  "recommend session created now =
     bind_act (of_res (run_backtest None default_run_id)) (\<lambda>report.
     bind_act (of_res (if sn_family session = ''microstructure_scalp'' then microstructure_scalp_policy None
       else maker_microstructure_policy report)) (\<lambda>policy.
     bind_act (record_audit (sn_session_id session) ''recommendation'' (pr_action policy) now) (\<lambda>_.
     modify (\<lambda>m. m\<lparr>mg_recommendations :=
       append_recommendation (report, policy, sn_session_id session, created) (mg_recommendations m)\<rparr>))))"

definition start_session :: "(nat \<Rightarrow> datetime) \<Rightarrow> string \<Rightarrow> (strategy_manager, strategy_session) act" where
  "start_session clk family =
     bind_act (gets (\<lambda>m. fee_model_available (mg_fee_policies m) (clk 1))) (\<lambda>fee.
     bind_act (of_res fee) (\<lambda>(available, source).
     bind_act (modify (\<lambda>m. m\<lparr>mg_sessions :=
       append_session (family, if available then SS_RUNNING else SS_REJECTED, source, clk 0) (mg_sessions m)\<rparr>)) (\<lambda>_.
     bind_act (gets (\<lambda>m. last (mg_sessions m))) (\<lambda>session.
     bind_act (record_audit (sn_session_id session) ''start'' (ss_value (sn_status session)) (clk 2)) (\<lambda>_.
     bind_act (if available then recommend session (clk 0) (clk 3) else ret ()) (\<lambda>_.
     ret session))))))"

definition update_latest ::
    "(nat \<Rightarrow> datetime) \<Rightarrow> session_status \<Rightarrow> string \<Rightarrow> (strategy_manager, strategy_session option) act" where
  "update_latest clk status event =
     bind_act (gets mg_sessions) (\<lambda>sessions.
     if sessions = [] then ret None
     else let updated = (last sessions)\<lparr>sn_status := status, sn_updated_at := clk 0\<rparr>
       in bind_act (modify (\<lambda>m. m\<lparr>mg_sessions := (mg_sessions m)[length sessions - 1 := updated]\<rparr>)) (\<lambda>_.
          bind_act (record_audit (sn_session_id updated) event (ss_value status) (clk 1)) (\<lambda>_.
          ret (Some updated))))"

definition pause_latest :: "(nat \<Rightarrow> datetime) \<Rightarrow> (strategy_manager, strategy_session option) act" where
  "pause_latest clk = update_latest clk SS_PAUSED ''pause''"

definition stop_latest :: "(nat \<Rightarrow> datetime) \<Rightarrow> (strategy_manager, strategy_session option) act" where
  "stop_latest clk = update_latest clk SS_STOPPED ''stop''"

definition default_family :: string where "default_family = ''maker_microstructure''"

definition recommendations_of ::
    "(nat \<Rightarrow> datetime) \<Rightarrow> (strategy_manager, strategy_recommendation list) act" where
  "recommendations_of clk =
     bind_act (gets mg_sessions) (\<lambda>sessions.
     if sessions = []
     then bind_act (start_session clk default_family) (\<lambda>session.
       if sn_status session = SS_REJECTED then ret [] else gets mg_recommendations)
     else gets mg_recommendations)"

definition sessions_payload :: "strategy_manager \<Rightarrow> json_object" where
  "sessions_payload m =
     [(''status'', JStr ''ok''), (''service'', JStr ''strategy_sessions''),
      (''sessions'', JArr (map session_to_public_dict (mg_sessions m))),
      (''recommendations'', JArr (map recommendation_to_public_dict (mg_recommendations m))),
      (''audit_records'', JArr (map JObj (mg_audit_records m)))]"

definition recommendations_payload :: "(nat \<Rightarrow> datetime) \<Rightarrow> (strategy_manager, json_object) act" where
  "recommendations_payload clk =
     bind_act (recommendations_of clk) (\<lambda>recs.
     ret [(''status'', JStr ''ok''), (''service'', JStr ''strategy_recommendations''),
          (''recommendations'', JArr (map recommendation_to_public_dict recs))])"

section \<open>Runs of the manager\<close>

datatype strategy_call = Start string | Pause | Stop | Recommendations

fun after_strategy_call :: "(nat \<Rightarrow> datetime) \<Rightarrow> strategy_call \<Rightarrow> strategy_manager \<Rightarrow> strategy_manager" where
  "after_strategy_call clk (Start f) m = snd (start_session clk f m)"
| "after_strategy_call clk Pause m = snd (pause_latest clk m)"
| "after_strategy_call clk Stop m = snd (stop_latest clk m)"
| "after_strategy_call clk Recommendations m = snd (recommendations_of clk m)"

inductive strategy_run ::
    "(strategy_call \<times> (nat \<Rightarrow> datetime)) list \<Rightarrow> strategy_manager \<Rightarrow> strategy_manager \<Rightarrow> bool" where
  strategy_Nil: "strategy_run [] m m"
| strategy_Cons: "strategy_run cs (after_strategy_call clk c m) n \<Longrightarrow> strategy_run ((c, clk) # cs) m n"

lemma strategy_run_invariant:
  assumes "strategy_run cs m n" and "P m"
    and "\<And>c clk m. (c, clk) \<in> set cs \<Longrightarrow> P m \<Longrightarrow> P (after_strategy_call clk c m)"
  shows "P n"
  using assms by (induction rule: strategy_run.induct) auto

interpretation sessions_log: numbered_log "''paper-strategy-''" sn_session_id append_session
  by unfold_locales (auto simp: append_session_def split: prod.splits)

interpretation recommendations_log: numbered_log "''strategy-rec-''" rec_recommendation_id append_recommendation
  by unfold_locales (auto simp: append_recommendation_def split: prod.splits)

text \<open>Which recommendations the policies can make.\<close>

definition sane_policy :: "backtest_report \<Rightarrow> policy_recommendation \<Rightarrow> bool" where
  "sane_policy report p \<longleftrightarrow> pr_action p = ''NO_TRADE''
     \<or> pr_symbol p \<in> {''BTCUSDC'', ''ETHUSDC''}
       \<and> (pr_action p = ''SUGGEST_MAKER_QUOTE'' \<longrightarrow> dle (bt_expected_edge_after_costs report) d0 = Inr False)"

lemma fixture_symbols: "set (map ds_symbol synthetic_fixtures) = {''BTCUSDC'', ''ETHUSDC''}"
  "synthetic_fixtures \<noteq> []"
  by (auto simp: synthetic_fixtures_def fixture_values_def Let_def)

lemma maker_policy_sane: "maker_microstructure_policy r = Inr p \<Longrightarrow> sane_policy r p"
  by (auto simp: maker_microstructure_policy_def bind_res_eq_Inr sane_policy_def split: if_splits)

lemma scalp_policy_sane:
  assumes "microstructure_scalp_policy None = Inr p"
  shows "sane_policy r p"
proof -
  from assms obtain rows where rows: "generate_features None = Inr rows"
    and p: "pr_action p = ''NO_TRADE'' \<or> (\<exists>d. p = scalp_recommendation d (mf_symbol (last rows)))"
    by (auto simp: microstructure_scalp_policy_def bind_res_eq_Inr Let_def split: if_splits)
  have "feature_rows synthetic_fixtures (\<lambda>_. None) synthetic_fixtures = Inr rows"
    using rows by (simp add: generate_features_def or_fixtures_def Let_def)
  then have symbols: "map mf_symbol rows = map ds_symbol synthetic_fixtures"
    using feature_rows_sources by blast
  then have "rows \<noteq> []" using fixture_symbols(2) by (metis map_is_Nil_conv)
  then have "mf_symbol (last rows) \<in> set (map mf_symbol rows)" by simp
  then have "mf_symbol (last rows) \<in> {''BTCUSDC'', ''ETHUSDC''}" using symbols fixture_symbols(1) by simp
  with p show ?thesis by (auto simp: sane_policy_def scalp_recommendation_def)
qed

lemma recommend_effect:
  "snd (recommend s c t m) = m
   \<or> (\<exists>report p audit. sane_policy report p \<and> snd (recommend s c t m) =
        m\<lparr>mg_audit_records := audit,
          mg_recommendations := append_recommendation (report, p, sn_session_id s, c) (mg_recommendations m)\<rparr>)"
proof (cases "run_backtest None default_run_id")
  case (Inl e)
  then show ?thesis by (simp add: recommend_def)
next
  case (Inr report)
  define policy where "policy = (if sn_family s = ''microstructure_scalp'' then microstructure_scalp_policy None
    else maker_microstructure_policy report)"
  have sane: "policy = Inr p \<Longrightarrow> sane_policy report p" for p
    by (auto simp: policy_def scalp_policy_sane maker_policy_sane split: if_splits)
  have st: "recommend s c t m = bind_act (of_res policy) (\<lambda>p.
      bind_act (record_audit (sn_session_id s) ''recommendation'' (pr_action p) t) (\<lambda>_.
      modify (\<lambda>m. m\<lparr>mg_recommendations :=
        append_recommendation (report, p, sn_session_id s, c) (mg_recommendations m)\<rparr>))) m"
    by (simp add: recommend_def Inr policy_def)
  show ?thesis
  proof (cases policy)
    case (Inl e)
    then show ?thesis by (simp add: st)
  next
    case (Inr p)
    have "snd (recommend s c t m) = m\<lparr>mg_audit_records := mg_audit_records m @
        [[(''session_id'', JStr (sn_session_id s)), (''event'', JStr ''recommendation''),
          (''decision'', JStr (pr_action p)), (''created_at'', JTime t), (''scope'', JStr ''paper_only'')]],
        mg_recommendations := append_recommendation (report, p, sn_session_id s, c) (mg_recommendations m)\<rparr>"
      by (simp add: st Inr record_audit_def act_run)
    with sane [OF Inr] show ?thesis by blast
  qed
qed

lemma start_session_effect:
  fixes m :: strategy_manager
  defines "y \<equiv> \<lambda>clk f. snd (start_session clk f m)"
  shows "y clk f = m
   \<or> (\<exists>status source audit. y clk f = m\<lparr>mg_sessions := append_session (f, status, source, clk 0) (mg_sessions m),
        mg_audit_records := audit\<rparr>
        \<and> (status = SS_RUNNING \<longrightarrow> fee_model_available (mg_fee_policies m) (clk 1) = Inr (True, source)))
   \<or> (\<exists>source audit report p. sane_policy report p
        \<and> fee_model_available (mg_fee_policies m) (clk 1) = Inr (True, source)
        \<and> y clk f = m\<lparr>mg_sessions := append_session (f, SS_RUNNING, source, clk 0) (mg_sessions m),
            mg_audit_records := audit,
            mg_recommendations := append_recommendation
              (report, p, numbered_id ''paper-strategy-'' (Suc (length (mg_sessions m))), clk 0) (mg_recommendations m)\<rparr>)"
proof (cases "fee_model_available (mg_fee_policies m) (clk 1)")
  case (Inl e)
  then show ?thesis by (simp add: y_def start_session_def)
next
  case (Inr fee)
  obtain available source where fee: "fee = (available, source)" by (cases fee)
  define xs where "xs = append_session (f, if available then SS_RUNNING else SS_REJECTED, source, clk 0) (mg_sessions m)"
  have id: "sn_session_id (last xs) = numbered_id ''paper-strategy-'' (Suc (length (mg_sessions m)))"
    by (simp add: xs_def append_session_def)
  define n where "n = m\<lparr>mg_sessions := xs, mg_audit_records := mg_audit_records m @
      [[(''session_id'', JStr (sn_session_id (last xs))), (''event'', JStr ''start''),
        (''decision'', JStr (ss_value (sn_status (last xs)))), (''created_at'', JTime (clk 2)),
        (''scope'', JStr ''paper_only'')]]\<rparr>"
  have y: "y clk f = (if available then snd (recommend (last xs) (clk 0) (clk 3) n) else n)"
    using Inr by (auto simp: y_def start_session_def fee record_audit_def n_def xs_def act_run)
  show ?thesis
  proof (cases available)
    case False
    then show ?thesis using y by (auto simp: n_def xs_def)
  next
    case True
    have fee1: "fee_model_available (mg_fee_policies m) (clk 1) = Inr (True, source)"
      using Inr fee True by simp
    from recommend_effect [of "last xs" "clk 0" "clk 3" n] show ?thesis
    proof
      assume "snd (recommend (last xs) (clk 0) (clk 3) n) = n"
      then have "y clk f = n" using y True by simp
      then show ?thesis using fee1 True unfolding n_def xs_def by (auto simp del: One_nat_def)
    next
      assume "\<exists>report p audit. sane_policy report p \<and> snd (recommend (last xs) (clk 0) (clk 3) n) =
        n\<lparr>mg_audit_records := audit, mg_recommendations :=
          append_recommendation (report, p, sn_session_id (last xs), clk 0) (mg_recommendations n)\<rparr>"
      then obtain report p audit where sane: "sane_policy report p"
        and r: "snd (recommend (last xs) (clk 0) (clk 3) n) = n\<lparr>mg_audit_records := audit, mg_recommendations :=
          append_recommendation (report, p, sn_session_id (last xs), clk 0) (mg_recommendations n)\<rparr>"
        by blast
      have "y clk f = m\<lparr>mg_sessions := append_session (f, SS_RUNNING, source, clk 0) (mg_sessions m),
            mg_audit_records := audit,
            mg_recommendations := append_recommendation
              (report, p, numbered_id ''paper-strategy-'' (Suc (length (mg_sessions m))), clk 0) (mg_recommendations m)\<rparr>"
        using y True r id by (simp add: n_def xs_def)
      with sane fee1 show ?thesis by blast
    qed
  qed
qed

section \<open>What every manager keeps\<close>

definition paper_session :: "strategy_session \<Rightarrow> bool" where
  "paper_session s \<longleftrightarrow> sn_operator_mode s = ''paper'' \<and> sn_venue_target s = ''internal_paper''"

definition sane_recommendation :: "strategy_session list \<Rightarrow> strategy_recommendation \<Rightarrow> bool" where
  "sane_recommendation sessions r \<longleftrightarrow>
     rec_session_id r \<in> sn_session_id ` set sessions
     \<and> rec_maker_or_taker_permission r = ''maker_only''
     \<and> (rec_action r = ''NO_TRADE'' \<or> rec_symbol r \<in> {''BTCUSDC'', ''ETHUSDC''}
         \<and> (rec_action r = ''SUGGEST_MAKER_QUOTE'' \<longrightarrow> dle (rec_expected_edge_after_costs r) d0 = Inr False))"

definition manager_ok :: "strategy_manager \<Rightarrow> bool" where
  "manager_ok m \<longleftrightarrow>
     well_numbered ''paper-strategy-'' sn_session_id (mg_sessions m)
     \<and> well_numbered ''strategy-rec-'' rec_recommendation_id (mg_recommendations m)
     \<and> (\<forall>s \<in> set (mg_sessions m). paper_session s)
     \<and> (\<forall>r \<in> set (mg_recommendations m). sane_recommendation (mg_sessions m) r)"

lemma append_session_new:
  "append_session (f, st, src, now) xs = xs @ [s] \<Longrightarrow>
     paper_session s \<and> sn_session_id s = numbered_id ''paper-strategy-'' (Suc (length xs)) \<and> sn_status s = st"
  by (auto simp: append_session_def paper_session_def)

lemma sane_more_sessions: "sane_recommendation xs r \<Longrightarrow> sane_recommendation (xs @ ys) r"
  by (auto simp: sane_recommendation_def)

lemma manager_ok_session:
  assumes "manager_ok m"
  shows "manager_ok (m\<lparr>mg_sessions := append_session (f, st, src, now) (mg_sessions m), mg_audit_records := a\<rparr>)"
proof -
  obtain s where s: "append_session (f, st, src, now) (mg_sessions m) = mg_sessions m @ [s]"
    by (simp add: append_session_def)
  from assms append_session_new [OF s] show ?thesis
    unfolding manager_ok_def by (auto simp: s well_numbered_snoc intro: sane_more_sessions)
qed

lemma manager_ok_recommendation:
  assumes "manager_ok m" "sane_policy report p" "sid \<in> sn_session_id ` set (mg_sessions m)"
  shows "manager_ok (m\<lparr>mg_recommendations := append_recommendation (report, p, sid, c) (mg_recommendations m)\<rparr>)"
proof -
  obtain r where r: "append_recommendation (report, p, sid, c) (mg_recommendations m) = mg_recommendations m @ [r]"
    by (simp add: append_recommendation_def)
  then have "sane_recommendation (mg_sessions m) r"
    using assms(2,3) by (auto simp: append_recommendation_def sane_recommendation_def sane_policy_def)
  moreover have "rec_recommendation_id r = numbered_id ''strategy-rec-'' (Suc (length (mg_recommendations m)))"
    using r by (auto simp: append_recommendation_def)
  ultimately show ?thesis using assms(1) by (auto simp: manager_ok_def r well_numbered_snoc)
qed

lemma manager_ok_start:
  assumes "manager_ok m"
  shows "manager_ok (snd (start_session clk f m))"
proof -
  have step: "manager_ok (m\<lparr>mg_sessions := append_session (f, SS_RUNNING, src, clk 0) (mg_sessions m),
      mg_audit_records := audit, mg_recommendations := append_recommendation (report, p, sid, clk 0) (mg_recommendations m)\<rparr>)"
    if "sane_policy report p" "sid = numbered_id ''paper-strategy-'' (Suc (length (mg_sessions m)))"
    for src audit report p sid
  proof -
    let ?n = "m\<lparr>mg_sessions := append_session (f, SS_RUNNING, src, clk 0) (mg_sessions m), mg_audit_records := audit\<rparr>"
    have "sid \<in> sn_session_id ` set (mg_sessions ?n)" by (simp add: that(2) append_session_def)
    from manager_ok_recommendation [OF manager_ok_session [OF assms] that(1) this]
    show ?thesis by simp
  qed
  from start_session_effect [of clk f m] show ?thesis
    using assms manager_ok_session [OF assms] step by metis
qed

lemma update_latest_effect:
  "snd (update_latest clk st ev m) = m
   \<or> (\<exists>audit. mg_sessions m \<noteq> [] \<and> snd (update_latest clk st ev m) =
        m\<lparr>mg_sessions := (mg_sessions m)[length (mg_sessions m) - 1 :=
            (last (mg_sessions m))\<lparr>sn_status := st, sn_updated_at := clk 0\<rparr>],
          mg_audit_records := audit\<rparr>)"
  by (auto simp: update_latest_def act_run record_audit_def Let_def)

lemma manager_ok_update:
  assumes "manager_ok m"
  shows "manager_ok (snd (update_latest clk st ev m))"
proof -
  let ?xs = "mg_sessions m" and ?i = "length (mg_sessions m) - 1"
  let ?ys = "?xs[?i := (last ?xs)\<lparr>sn_status := st, sn_updated_at := clk 0\<rparr>]"
  have ids: "map sn_session_id ?ys = map sn_session_id ?xs" if "?xs \<noteq> []"
    using that by (simp add: map_update last_conv_nth list_update_same_conv)
  have mem: "paper_session s" if "s \<in> set ?ys" "?xs \<noteq> []" for s
  proof -
    have "s = (last ?xs)\<lparr>sn_status := st, sn_updated_at := clk 0\<rparr> \<or> s \<in> set ?xs"
      using that(1) set_update_subset_insert [of ?xs ?i] by blast
    moreover have "last ?xs \<in> set ?xs" using that(2) by simp
    ultimately show ?thesis using assms by (auto simp: manager_ok_def paper_session_def)
  qed
  have img: "sn_session_id ` set ?ys = sn_session_id ` set ?xs" if "?xs \<noteq> []"
    using ids [OF that] by (metis list.set_map)
  have "manager_ok (m\<lparr>mg_sessions := ?ys, mg_audit_records := a\<rparr>)" if "?xs \<noteq> []" for a
    using assms well_numbered_cong_ids [OF _ ids [OF that]] mem that img [OF that]
    unfolding manager_ok_def sane_recommendation_def by simp
  with update_latest_effect [of clk st ev m] assms show ?thesis by metis
qed

lemma recommendations_runs: "snd (recommendations_of clk m) \<in> {m, snd (start_session clk default_family m)}"
  by (auto simp: recommendations_of_def act_run bind_act_def ret_def gets_def split: prod.splits sum.splits)

lemma manager_ok_step:
  assumes "manager_ok m"
  shows "manager_ok (after_strategy_call clk c m)"
proof (cases c)
  case Recommendations
  with recommendations_runs [of clk m] assms manager_ok_start show ?thesis by auto
qed (use assms manager_ok_start manager_ok_update in \<open>simp_all add: pause_latest_def stop_latest_def\<close>)

lemma manager_ok_run: "strategy_run cs m n \<Longrightarrow> manager_ok m \<Longrightarrow> manager_ok n"
  by (rule strategy_run_invariant) (auto intro: manager_ok_step)

section \<open>Fee policies that went stale\<close>

definition quiet :: "strategy_manager \<Rightarrow> bool" where
  "quiet m \<longleftrightarrow> mg_recommendations m = [] \<and> (\<forall>s \<in> set (mg_sessions m). sn_status s \<noteq> SS_RUNNING)"

lemma default_fee_policy_ok:
  "fee_policy_ok (default_fee_policy (Aware t) s) (Aware r) \<longleftrightarrow> r \<le> t + 300 * micros_per_second"
  by (simp add: fee_policy_ok_def default_fee_policy_def fresh_at_ok dec_simps del: micros.simps)

lemma default_fee_model:
  "fee_model_available (default_fee_policies (Aware t)) (Aware r) = Inr (True, source) \<longleftrightarrow>
     r \<le> t + 300 * micros_per_second \<and> source = fe_source (hd (default_fee_policies (Aware t)))"
proof -
  let ?ms = "map (\<lambda>p. fee_policy_errors p (Aware r)) (default_fee_policies (Aware t))"
  have "collect ?ms = Inr [] \<longleftrightarrow> r \<le> t + 300 * micros_per_second"
    by (simp only: collect_Nil_iff)
      (simp add: default_fee_policies_def fee_policy_errors_Nil default_fee_policy_ok)
  then show ?thesis
    by (auto simp: fee_model_available_def bind_res_eq_Inr default_fee_policies_def)
qed

lemma quiet_start:
  assumes "quiet m" "\<And>source. fee_model_available (mg_fee_policies m) (clk 1) \<noteq> Inr (True, source)"
  shows "quiet (snd (start_session clk f m))"
proof -
  from start_session_effect [of clk f m] assms(2)
  consider "snd (start_session clk f m) = m"
    | status source audit where "status \<noteq> SS_RUNNING" "snd (start_session clk f m) =
        m\<lparr>mg_sessions := append_session (f, status, source, clk 0) (mg_sessions m), mg_audit_records := audit\<rparr>"
    by blast
  then show ?thesis
  proof cases
    case 2
    then show ?thesis using assms(1) by (auto simp: quiet_def append_session_def)
  qed (use assms(1) in simp)
qed

lemma quiet_update:
  assumes "quiet m" "st \<noteq> SS_RUNNING"
  shows "quiet (snd (update_latest clk st ev m))"
proof -
  let ?xs = "mg_sessions m"
  have "s \<in> set (?xs[i := (last ?xs)\<lparr>sn_status := st, sn_updated_at := clk 0\<rparr>]) \<Longrightarrow> sn_status s \<noteq> SS_RUNNING" for s i
    using assms set_update_subset_insert [of ?xs i] by (fastforce simp: quiet_def)
  then show ?thesis using update_latest_effect [of clk st ev m] assms by (auto simp: quiet_def)
qed

lemma fee_policies_kept: "mg_fee_policies (after_strategy_call clk c m) = mg_fee_policies m"
proof -
  have start: "mg_fee_policies (snd (start_session clk f m)) = mg_fee_policies m" for f
    using start_session_effect [of clk f m] by auto
  have upd: "mg_fee_policies (snd (update_latest clk st ev m)) = mg_fee_policies m" for st ev
    using update_latest_effect [of clk st ev m] by auto
  show ?thesis
  proof (cases c)
    case Recommendations
    with recommendations_runs [of clk m] start show ?thesis by auto
  qed (simp_all add: start upd pause_latest_def stop_latest_def)
qed

lemma quiet_step:
  assumes "quiet m" "\<And>source. fee_model_available (mg_fee_policies m) (clk 1) \<noteq> Inr (True, source)"
  shows "quiet (after_strategy_call clk c m)"
proof (cases c)
  case Recommendations
  with recommendations_runs [of clk m] quiet_start [where clk = clk, OF assms] assms(1) show ?thesis by auto
qed (simp_all add: quiet_start [where clk = clk, OF assms] quiet_update [OF assms(1)] pause_latest_def stop_latest_def)

section \<open>Properties\<close>

text \<open>
  C29: Whatever calls a strategy manager receives, its sessions and its recommendations are numbered
  without a gap, every session is a paper session of the internal venue, and every recommendation
  belongs to one of its sessions, permits maker orders only, and either suggests no trade or names
  one of the two executable symbols; a maker quote is suggested only when the backtest's expected
  edge is not at or below zero.
\<close>

lemma strategy_stays_on_paper:
  assumes "strategy_run cs (new_manager policies t) m"
  shows "manager_ok m"
  by (rule manager_ok_run [OF assms]) (simp add: manager_ok_def new_manager_def)

theorem strategy_stays_on_paper_witness:
  "\<exists>m. strategy_run [(Start default_family, \<lambda>_. Aware 0), (Pause, \<lambda>_. Aware 1)] (new_manager None (Aware 0)) m
     \<and> manager_ok m"
proof -
  obtain m where "strategy_run [(Start default_family, \<lambda>_. Aware 0), (Pause, \<lambda>_. Aware 1)]
      (new_manager None (Aware 0)) m"
    by (metis strategy_Nil strategy_Cons)
  with strategy_stays_on_paper show ?thesis by blast
qed

text \<open>
  The strategy manager goes quiet. Its default fee policies carry the time of its creation and
  are never refreshed; when every call reads the clock more than 300 seconds later, no call ever
  produces a recommendation and no session is ever running.
\<close>

theorem strategy_goes_quiet:
  assumes "strategy_run cs (new_manager None (Aware t)) m"
    and "\<forall>(c, clk) \<in> set cs. \<exists>r. clk 1 = Aware r \<and> r > t + 300 * micros_per_second"
  shows "mg_recommendations m = [] \<and> (\<forall>s \<in> set (mg_sessions m). sn_status s \<noteq> SS_RUNNING)"
proof -
  let ?P = "\<lambda>m. quiet m \<and> mg_fee_policies m = default_fee_policies (Aware t)"
  have "?P m"
  proof (rule strategy_run_invariant [OF assms(1)])
    show "?P (new_manager None (Aware t))" by (simp add: quiet_def new_manager_def)
    fix c clk n
    assume c: "(c, clk) \<in> set cs" and n: "?P n"
    from assms(2) c obtain r where "clk 1 = Aware r" "r > t + 300 * micros_per_second" by blast
    then have "fee_model_available (mg_fee_policies n) (clk 1) \<noteq> Inr (True, source)" for source
      using n default_fee_model [of t r source] by simp
    with n show "?P (after_strategy_call clk c n)" by (simp add: quiet_step fee_policies_kept)
  qed
  then show ?thesis by (simp add: quiet_def)
qed

theorem strategy_goes_quiet_witness:
  "\<exists>m. strategy_run [(Start default_family, \<lambda>_. Aware 300000001)] (new_manager None (Aware 0)) m
     \<and> mg_recommendations m = []"
proof -
  obtain m where "strategy_run [(Start default_family, \<lambda>_. Aware 300000001)] (new_manager None (Aware 0)) m"
    by (metis strategy_Nil strategy_Cons)
  moreover from strategy_goes_quiet [OF this] have "mg_recommendations m = []"
    by (simp add: micros_per_second_def)
  ultimately show ?thesis by blast
qed

end
