(* ===== verification/Model_Governance.thy ===== *)
theory Model_Governance
  imports Paper_Schemas Json_Store Runtime_Config
begin

text \<open>
  \<open>libs/schemas/model_governance.py\<close> and \<open>services/model_service/governance.py\<close>: the metadata of
  registered models, the decision records with which a model explains a recommendation, their parser
  and validator, and the store that keeps them, mirrors them to disk and previews recommendations.
  \<open>datetime.fromisoformat\<close> is the parameter \<open>fromiso\<close>; its error message is not modelled.
\<close>

section \<open>Times and feature contributions\<close>

definition parse_time :: "(string \<Rightarrow> datetime option) \<Rightarrow> json \<Rightarrow> string \<Rightarrow> datetime res" where
  "parse_time fromiso v field_name =
     bind_res (case v of
         JTime t \<Rightarrow> Inr t
       | JStr s \<Rightarrow> (case fromiso s of Some t \<Rightarrow> Inr t
                   | None \<Rightarrow> Inl (Raise ValueError ''Invalid isoformat string''))
       | _ \<Rightarrow> Inl (Raise ValueError (field_name @ '' must be an ISO datetime''))) (\<lambda>t.
     if is_aware t then Inr t else Inl (Raise ValueError (field_name @ '' must be timezone-aware'')))"

record feature_contribution =
  fc_name :: string
  fc_value :: decimal
  fc_contribution :: decimal

definition contribution_from_mapping :: "json \<Rightarrow> feature_contribution res" where
  "contribution_from_mapping v =
     bind_res (as_mapping v) (\<lambda>p.
     bind_res (decimal_from (jget_default p ''value'' (JStr ''0'')) ''feature value'') (\<lambda>value.
     bind_res (decimal_from (jget_default p ''contribution'' (JStr ''0'')) ''feature contribution'') (\<lambda>c.
     Inr \<lparr>fc_name = py_str (jget_default p ''name'' (JStr '''')), fc_value = value, fc_contribution = c\<rparr>)))"

definition contribution_to_public_dict :: "feature_contribution \<Rightarrow> json" where
  "contribution_to_public_dict f = JObj
     [(''name'', JStr (fc_name f)),
      (''value'', JStr (format_f (fc_value f))),
      (''contribution'', JStr (format_f (fc_contribution f)))]"

section \<open>Features, models and evaluations\<close>

record feature_version =
  fv_feature_version_id :: string
  fv_name :: string
  fv_version :: string
  fv_input_window :: string
  fv_features :: "string list"
  fv_created_at :: datetime
  fv_source :: string

definition version_to_public_dict :: "feature_version \<Rightarrow> json" where
  "version_to_public_dict v = JObj
     [(''feature_version_id'', JStr (fv_feature_version_id v)),
      (''name'', JStr (fv_name v)),
      (''version'', JStr (fv_version v)),
      (''input_window'', JStr (fv_input_window v)),
      (''features'', jstrs (fv_features v)),
      (''source'', JStr (fv_source v)),
      (''created_at'', JTime (fv_created_at v))]"

record registered_model =
  rm_model_id :: string
  rm_name :: string
  rm_version :: string
  rm_family :: string
  rm_approval_state :: mlops_state
  rm_feature_version_id :: string
  rm_candidate_symbols :: "string list"
  rm_disabled :: bool
  rm_created_at :: datetime
  rm_notes :: "string list"

definition model_to_public_dict :: "registered_model \<Rightarrow> json" where
  "model_to_public_dict m = JObj
     [(''model_id'', JStr (rm_model_id m)),
      (''name'', JStr (rm_name m)),
      (''version'', JStr (rm_version m)),
      (''family'', JStr (rm_family m)),
      (''approval_state'', JStr (ml_value (rm_approval_state m))),
      (''feature_version_id'', JStr (rm_feature_version_id m)),
      (''candidate_symbols'', jstrs (rm_candidate_symbols m)),
      (''disabled'', JBool (rm_disabled m)),
      (''created_at'', JTime (rm_created_at m)),
      (''notes'', jstrs (rm_notes m))]"

record evaluation_result =
  er_evaluation_id :: string
  er_model_id :: string
  er_model_version :: string
  er_feature_version_id :: string
  er_input_window :: string
  er_backtest_run_id :: string
  er_expected_edge_after_costs :: decimal
  er_maker_taker_ratio :: decimal
  er_max_drawdown_bps :: decimal
  er_approval_state :: mlops_state
  er_created_at :: datetime

definition evaluation_to_public_dict :: "evaluation_result \<Rightarrow> json" where
  "evaluation_to_public_dict e = JObj
     [(''evaluation_id'', JStr (er_evaluation_id e)),
      (''model_id'', JStr (er_model_id e)),
      (''model_version'', JStr (er_model_version e)),
      (''feature_version_id'', JStr (er_feature_version_id e)),
      (''input_window'', JStr (er_input_window e)),
      (''backtest_run_id'', JStr (er_backtest_run_id e)),
      (''expected_edge_after_costs'', JStr (format_f (er_expected_edge_after_costs e))),
      (''maker_taker_ratio'', JStr (format_f (er_maker_taker_ratio e))),
      (''max_drawdown_bps'', JStr (format_f (er_max_drawdown_bps e))),
      (''approval_state'', JStr (ml_value (er_approval_state e))),
      (''created_at'', JTime (er_created_at e))]"

section \<open>Decision records\<close>

record model_decision =
  mdr_decision_id :: string
  mdr_recommendation_id :: string
  mdr_model_id :: string
  mdr_model_version :: string
  mdr_feature_version_id :: string
  mdr_input_window_start :: datetime
  mdr_input_window_end :: datetime
  mdr_symbol :: string
  mdr_prediction :: string
  mdr_confidence :: decimal
  mdr_expected_edge_after_costs :: decimal
  mdr_top_features :: "feature_contribution list"
  mdr_risk_context :: json_object
  mdr_rejected_alternatives :: "string list"
  mdr_final_explanation :: string
  mdr_created_at :: datetime

definition as_list :: "json \<Rightarrow> string \<Rightarrow> json list res" where
  "as_list v message = (case v of JArr xs \<Rightarrow> Inr xs | _ \<Rightarrow> Inl (Raise ValueError message))"

definition decision_from_mapping :: "(string \<Rightarrow> datetime option) \<Rightarrow> json_object \<Rightarrow> model_decision res" where
  "decision_from_mapping fromiso p =
     (let text = (\<lambda>k. py_str (jget_default p k (JStr '''')));
          time = (\<lambda>k. parse_time fromiso (jget_default p k JNull) k)
      in bind_res (as_list (jget_default p ''top_features'' (JArr [])) ''top_features must be a list'') (\<lambda>features.
         bind_res (case jget_default p ''risk_context'' (JObj []) of JObj kvs \<Rightarrow> Inr kvs
             | _ \<Rightarrow> Inl (Raise ValueError ''risk_context must be an object'')) (\<lambda>risk_context.
         bind_res (as_list (jget_default p ''rejected_alternatives'' (JArr []))
             ''rejected_alternatives must be a list'') (\<lambda>rejected.
         bind_res (time ''input_window_start'') (\<lambda>window_start.
         bind_res (time ''input_window_end'') (\<lambda>window_end.
         bind_res (decimal_from (jget_default p ''confidence'' (JStr ''0'')) ''confidence'') (\<lambda>confidence.
         bind_res (decimal_from (jget_default p ''expected_edge_after_costs'' (JStr ''0''))
             ''expected_edge_after_costs'') (\<lambda>edge.
         bind_res (mapM_res contribution_from_mapping features) (\<lambda>top.
         bind_res (time ''created_at'') (\<lambda>created.
         Inr \<lparr>mdr_decision_id = text ''decision_id'', mdr_recommendation_id = text ''recommendation_id'',
              mdr_model_id = text ''model_id'', mdr_model_version = text ''model_version'',
              mdr_feature_version_id = text ''feature_version_id'',
              mdr_input_window_start = window_start, mdr_input_window_end = window_end,
              mdr_symbol = text ''symbol'', mdr_prediction = text ''prediction'',
              mdr_confidence = confidence, mdr_expected_edge_after_costs = edge,
              mdr_top_features = top, mdr_risk_context = risk_context,
              mdr_rejected_alternatives = map py_str rejected,
              mdr_final_explanation = text ''final_explanation'', mdr_created_at = created\<rparr>))))))))))"

definition required_texts :: "model_decision \<Rightarrow> (string \<times> string) list" where
  "required_texts d =
     [(''decision_id'', mdr_decision_id d),
      (''recommendation_id'', mdr_recommendation_id d),
      (''model_id'', mdr_model_id d),
      (''model_version'', mdr_model_version d),
      (''feature_version_id'', mdr_feature_version_id d),
      (''symbol'', mdr_symbol d),
      (''prediction'', mdr_prediction d),
      (''final_explanation'', mdr_final_explanation d)]"

definition between_zero_and_one :: "decimal \<Rightarrow> bool res" where
  "between_zero_and_one c = bind_res (dle d0 c) (\<lambda>b. if b then dle c d1 else Inr False)"

definition decision_errors :: "model_decision \<Rightarrow> string list res" where
  "decision_errors d = collect
     (map (\<lambda>(name, v). reason_when (v = '''') (name @ '' is required'')) (required_texts d)
      @ [reason_if (dt_le (mdr_input_window_end d) (mdr_input_window_start d))
           ''input window must have positive duration'',
         reason_if (bind_res (between_zero_and_one (mdr_confidence d)) (\<lambda>b. Inr (\<not> b)))
           ''confidence must be between 0 and 1'',
         reason_if (dle (mdr_expected_edge_after_costs d) d0) ''expected_edge_after_costs must be positive'',
         reason_when (mdr_top_features d = []) ''top_features are required for explainability'',
         reason_when (mdr_risk_context d = []) ''risk_context is required''])"

definition model_decision_to_public_dict :: "model_decision \<Rightarrow> json_object" where
  "model_decision_to_public_dict d =
     [(''decision_id'', JStr (mdr_decision_id d)),
      (''recommendation_id'', JStr (mdr_recommendation_id d)),
      (''model_id'', JStr (mdr_model_id d)),
      (''model_version'', JStr (mdr_model_version d)),
      (''feature_version_id'', JStr (mdr_feature_version_id d)),
      (''input_window_start'', JTime (mdr_input_window_start d)),
      (''input_window_end'', JTime (mdr_input_window_end d)),
      (''symbol'', JStr (mdr_symbol d)),
      (''prediction'', JStr (mdr_prediction d)),
      (''confidence'', JStr (format_f (mdr_confidence d))),
      (''expected_edge_after_costs'', JStr (format_f (mdr_expected_edge_after_costs d))),
      (''top_features'', JArr (map contribution_to_public_dict (mdr_top_features d))),
      (''risk_context'', JObj (mdr_risk_context d)),
      (''rejected_alternatives'', jstrs (mdr_rejected_alternatives d)),
      (''final_explanation'', JStr (mdr_final_explanation d)),
      (''created_at'', JTime (mdr_created_at d)),
      (''execution'', JStr ''not_performed'')]"

record recommendation_preview =
  mp_recommendation_id :: string
  mp_decision_record :: "model_decision option"
  mp_accepted :: bool
  mp_reasons :: "string list"

definition model_preview_to_public_dict :: "recommendation_preview \<Rightarrow> json" where
  "model_preview_to_public_dict p = JObj
     [(''recommendation_id'', JStr (mp_recommendation_id p)),
      (''accepted'', JBool (mp_accepted p)),
      (''reasons'', jstrs (mp_reasons p)),
      (''decision_record'', jopt (\<lambda>d. JObj (model_decision_to_public_dict d)) (mp_decision_record p)),
      (''execution'', JStr ''not_performed'')]"

section \<open>The seed records\<close>

definition default_feature_versions :: "datetime \<Rightarrow> feature_version list" where
  "default_feature_versions now =
     [\<lparr>fv_feature_version_id = ''microstructure-v1'', fv_name = ''maker_microstructure_features'',
       fv_version = ''1.0.0'', fv_input_window = ''90s'',
       fv_features = [''order_book_imbalance'', ''microprice'', ''spread_bps'', ''depth_slope'',
         ''trade_aggression'', ''latency_adjusted_return_bps''],
       fv_created_at = now, fv_source = ''local_microstructure_fixture''\<rparr>]"

definition default_registered_models :: "datetime \<Rightarrow> registered_model list" where
  "default_registered_models now =
     [\<lparr>rm_model_id = ''maker-microstructure-baseline'', rm_name = ''Maker Microstructure Baseline'',
       rm_version = ''0.1.0'', rm_family = ''deterministic_baseline'',
       rm_approval_state = ML_RESEARCH_CANDIDATE, rm_feature_version_id = ''microstructure-v1'',
       rm_candidate_symbols = [''BTCUSDC'', ''ETHUSDC''], rm_disabled = False, rm_created_at = now,
       rm_notes = [''local governance seed'', ''not approved for testnet or live trading'',
         ''model output cannot call exchange connectors'']\<rparr>]"

definition default_evaluation_results :: "datetime \<Rightarrow> evaluation_result list" where
  "default_evaluation_results now =
     [\<lparr>er_evaluation_id = ''eval-maker-microstructure-001'',
       er_model_id = ''maker-microstructure-baseline'', er_model_version = ''0.1.0'',
       er_feature_version_id = ''microstructure-v1'', er_input_window = ''synthetic_fixture'',
       er_backtest_run_id = ''synthetic-microstructure-backtest-001'',
       er_expected_edge_after_costs = Dec 152 (- 2), er_maker_taker_ratio = d1,
       er_max_drawdown_bps = d0, er_approval_state = ML_RESEARCH_CANDIDATE, er_created_at = now\<rparr>]"

definition seed_top_features :: "feature_contribution list" where
  "seed_top_features =
     [\<lparr>fc_name = ''order_book_imbalance'', fc_value = Dec 18 (- 2), fc_contribution = Dec 41 (- 2)\<rparr>,
      \<lparr>fc_name = ''microprice'', fc_value = Dec 650003 (- 1), fc_contribution = Dec 24 (- 2)\<rparr>,
      \<lparr>fc_name = ''spread_bps'', fc_value = Dec 8 (- 2), fc_contribution = Dec 17 (- 2)\<rparr>]"

definition default_model_decisions :: "datetime \<Rightarrow> model_decision list" where
  "default_model_decisions now =
     [\<lparr>mdr_decision_id = ''model-decision-000001'', mdr_recommendation_id = ''strategy-rec-000001'',
       mdr_model_id = ''maker-microstructure-baseline'', mdr_model_version = ''0.1.0'',
       mdr_feature_version_id = ''microstructure-v1'',
       mdr_input_window_start = dt_shift now (- (90 * micros_per_second)), mdr_input_window_end = now,
       mdr_symbol = ''BTCUSDC'', mdr_prediction = ''suggest_maker_quote'',
       mdr_confidence = Dec 62 (- 2), mdr_expected_edge_after_costs = Dec 152 (- 2),
       mdr_top_features = seed_top_features,
       mdr_risk_context = [(''operator_mode'', JStr ''paper''), (''venue_target'', JStr ''internal_paper''),
         (''trading_gate'', JStr ''locked''), (''risk_engine'', JStr ''independent_veto_required'')],
       mdr_rejected_alternatives = [''taker_order_rejected_without_gate'',
         ''direct_exchange_call_forbidden''],
       mdr_final_explanation =
         ''Research candidate suggests a maker-only quote; this is not an order and still requires command, risk, portfolio, execution, audit, and reconciliation checks.'',
       mdr_created_at = now\<rparr>]"

section \<open>The store\<close>

record governance_store =
  gv_models :: "registered_model list"
  gv_features :: "feature_version list"
  gv_evaluations :: "evaluation_result list"
  gv_decisions :: "model_decision list"
  gv_store :: "json_store option"

definition service_payload :: "string \<Rightarrow> ('a \<Rightarrow> json) \<Rightarrow> 'a list \<Rightarrow> json_object" where
  "service_payload key f xs =
     [(''status'', JStr ''ok''), (''service'', JStr ''model_service''), (key, JArr (map f xs))]"

definition registry_payload :: "governance_store \<Rightarrow> json_object" where
  "registry_payload g = service_payload ''models'' model_to_public_dict (gv_models g)
     @ [(''notes'', jstrs [''local governance metadata only'',
          ''model approval cannot bypass risk or live gates''])]"

definition features_payload :: "governance_store \<Rightarrow> json_object" where
  "features_payload g = service_payload ''feature_versions'' version_to_public_dict (gv_features g)"

definition evaluations_payload :: "governance_store \<Rightarrow> json_object" where
  "evaluations_payload g = service_payload ''evaluations'' evaluation_to_public_dict (gv_evaluations g)"

definition decisions_payload :: "governance_store \<Rightarrow> json_object" where
  "decisions_payload g =
     service_payload ''decisions'' (\<lambda>d. JObj (model_decision_to_public_dict d)) (gv_decisions g)"

definition write_governance :: "governance_store \<Rightarrow> json_store \<Rightarrow> json_store" where
  "write_governance g st =
     write_json ''models/decisions.json'' (JObj (decisions_payload g))
       (write_json ''models/evaluations.json'' (JObj (evaluations_payload g))
         (write_json ''models/features.json'' (JObj (features_payload g))
           (write_json ''models/registry.json'' (JObj (registry_payload g)) st)))"

definition governance_persist :: "governance_store \<Rightarrow> governance_store" where
  "governance_persist g = g\<lparr>gv_store := map_option (write_governance g) (gv_store g)\<rparr>"

text \<open>\<open>given or default\<close>: an absent or empty tuple gives the seed records.\<close>

definition or_seed :: "'a list option \<Rightarrow> 'a list \<Rightarrow> 'a list" where
  "or_seed given seed = (case given of Some (x # xs) \<Rightarrow> x # xs | _ \<Rightarrow> seed)"

definition new_governance ::
    "(nat \<Rightarrow> datetime) \<Rightarrow> registered_model list option \<Rightarrow> feature_version list option
     \<Rightarrow> evaluation_result list option \<Rightarrow> model_decision list option \<Rightarrow> json_store option
     \<Rightarrow> governance_store" where
  "new_governance clk models features evaluations decisions store =
     governance_persist
       \<lparr>gv_models = or_seed models (default_registered_models (clk 0)),
        gv_features = or_seed features (default_feature_versions (clk 1)),
        gv_evaluations = or_seed evaluations (default_evaluation_results (clk 2)),
        gv_decisions = or_seed decisions (default_model_decisions (clk 3)), gv_store = store\<rparr>"

definition add_decision :: "model_decision \<Rightarrow> (governance_store, unit) act" where
  "add_decision d =
     bind_act (of_res (decision_errors d)) (\<lambda>errors.
     bind_act (of_res (if errors \<noteq> [] then Inl (Raise ValueError (join ''; '' errors)) else Inr ())) (\<lambda>_.
     bind_act (modify (\<lambda>g. g\<lparr>gv_decisions := gv_decisions g @ [d]\<rparr>)) (\<lambda>_.
     modify governance_persist)))"

definition decision_for_recommendation :: "string \<Rightarrow> governance_store \<Rightarrow> model_decision option" where
  "decision_for_recommendation rid g =
     List.find (\<lambda>d. mdr_recommendation_id d = rid) (rev (gv_decisions g))"

definition preview_of_recommendation :: "string \<Rightarrow> governance_store \<Rightarrow> recommendation_preview res" where
  "preview_of_recommendation rid g =
     (let decision = decision_for_recommendation rid g
      in bind_res (case decision of
             None \<Rightarrow> Inr [''model recommendation cannot become an order intent without a ModelDecisionRecord'']
           | Some d \<Rightarrow> decision_errors d) (\<lambda>reasons.
         Inr \<lparr>mp_recommendation_id = rid, mp_decision_record = decision,
              mp_accepted = (reasons = []), mp_reasons = reasons\<rparr>))"

definition default_governance_store :: "(nat \<Rightarrow> datetime) \<Rightarrow> json_store \<Rightarrow> governance_store" where
  "default_governance_store clk store = new_governance clk None None None None (Some store)"

text \<open>\<open>store or _MODEL_STORE\<close>, with the store of the module as the second argument.\<close>

definition selected_store :: "governance_store option \<Rightarrow> governance_store \<Rightarrow> governance_store" where
  "selected_store given module_store = (case given of Some g \<Rightarrow> g | None \<Rightarrow> module_store)"

definition recommendation_preview_payload ::
    "json_object option \<Rightarrow> governance_store option \<Rightarrow> governance_store \<Rightarrow> json_object res" where
  "recommendation_preview_payload body given module_store =
     (let payload = (case body of Some b \<Rightarrow> b | None \<Rightarrow> []);
          rid = py_str (jget_default payload ''recommendation_id'' (JStr ''strategy-rec-000001''))
      in bind_res (preview_of_recommendation rid (selected_store given module_store)) (\<lambda>preview.
         Inr [(''status'', JStr ''ok''), (''service'', JStr ''model_service''),
              (''preview'', model_preview_to_public_dict preview)]))"

section \<open>What the gate checks\<close>

definition decision_ok :: "model_decision \<Rightarrow> bool" where
  "decision_ok d \<longleftrightarrow>
     list_all (\<lambda>(name, v). v \<noteq> '''') (required_texts d)
     \<and> is_aware (mdr_input_window_start d) = is_aware (mdr_input_window_end d)
     \<and> micros (mdr_input_window_start d) < micros (mdr_input_window_end d)
     \<and> is_finite (mdr_confidence d) \<and> 0 \<le> dval (mdr_confidence d) \<and> dval (mdr_confidence d) \<le> 1
     \<and> dle (mdr_expected_edge_after_costs d) d0 = Inr False
     \<and> mdr_top_features d \<noteq> [] \<and> mdr_risk_context d \<noteq> []"

lemma between_zero_and_one_iff:
  "between_zero_and_one c = Inr True \<longleftrightarrow> is_finite c \<and> 0 \<le> dval c \<and> dval c \<le> 1"
proof (cases "is_finite c")
  case True
  then show ?thesis by (auto simp: between_zero_and_one_def dec_simps)
next
  case False
  then show ?thesis by (cases c) (auto simp: between_zero_and_one_def dle_def dless_def invalid_def)
qed

lemma decision_errors_Nil: "decision_errors d = Inr [] \<longleftrightarrow> decision_ok d"
proof -
  have "dt_le (mdr_input_window_end d) (mdr_input_window_start d) = Inr False \<longleftrightarrow>
      is_aware (mdr_input_window_start d) = is_aware (mdr_input_window_end d)
      \<and> micros (mdr_input_window_start d) < micros (mdr_input_window_end d)"
    by (auto simp: dt_le_Inr)
  moreover have "bind_res (between_zero_and_one (mdr_confidence d)) (\<lambda>b. Inr (\<not> b)) = Inr False \<longleftrightarrow>
      between_zero_and_one (mdr_confidence d) = Inr True"
    by (auto simp: bind_res_eq_Inr)
  ultimately show ?thesis
    unfolding decision_errors_def decision_ok_def collect_Nil_iff
    by (auto simp: reason_if_Nil reason_when_Nil between_zero_and_one_iff list_all_iff)
qed

lemma add_decision_run:
  "add_decision d g =
     (case decision_errors d of
        Inl e \<Rightarrow> (Inl e, g)
      | Inr [] \<Rightarrow> (Inr (), governance_persist (g\<lparr>gv_decisions := gv_decisions g @ [d]\<rparr>))
      | Inr errors \<Rightarrow> (Inl (Raise ValueError (join ''; '' errors)), g))"
  by (auto simp: add_decision_def act_simps split: sum.splits list.splits)

text \<open>What is on disk is the public state.\<close>

definition mirrored :: "governance_store \<Rightarrow> bool" where
  "mirrored g \<longleftrightarrow> (case gv_store g of None \<Rightarrow> True | Some st \<Rightarrow>
     read_json ''models/registry.json'' st = Inr (registry_payload g)
     \<and> read_json ''models/features.json'' st = Inr (features_payload g)
     \<and> read_json ''models/evaluations.json'' st = Inr (evaluations_payload g)
     \<and> read_json ''models/decisions.json'' st = Inr (decisions_payload g))"

lemma model_paths:
  "store_path_of ''models/registry.json'' = Under_Root [''models'', ''registry.json'']"
  "store_path_of ''models/features.json'' = Under_Root [''models'', ''features.json'']"
  "store_path_of ''models/evaluations.json'' = Under_Root [''models'', ''evaluations.json'']"
  "store_path_of ''models/decisions.json'' = Under_Root [''models'', ''decisions.json'']"
  by code_simp+

lemma payloads_ignore_store [simp]:
  "registry_payload (g\<lparr>gv_store := s\<rparr>) = registry_payload g"
  "features_payload (g\<lparr>gv_store := s\<rparr>) = features_payload g"
  "evaluations_payload (g\<lparr>gv_store := s\<rparr>) = evaluations_payload g"
  "decisions_payload (g\<lparr>gv_store := s\<rparr>) = decisions_payload g"
  by (simp_all add: registry_payload_def features_payload_def evaluations_payload_def decisions_payload_def)

lemma mirrored_persist: "mirrored (governance_persist g)"
  by (auto simp: mirrored_def governance_persist_def write_governance_def files.read_written
      files.read_other model_paths split: option.splits)

lemma governance_persist_fields [simp]:
  "gv_decisions (governance_persist g) = gv_decisions g" "gv_models (governance_persist g) = gv_models g"
  "gv_features (governance_persist g) = gv_features g" "gv_evaluations (governance_persist g) = gv_evaluations g"
  by (simp_all add: governance_persist_def)

definition after_decisions :: "governance_store \<Rightarrow> model_decision list \<Rightarrow> governance_store" where
  "after_decisions g ds = foldl (\<lambda>g d. snd (add_decision d g)) g ds"

lemma after_decisions_kept:
  "mirrored g \<Longrightarrow> mirrored (after_decisions g ds)
   \<and> gv_decisions (after_decisions g ds) = gv_decisions g @ filter decision_ok ds
   \<and> gv_models (after_decisions g ds) = gv_models g"
proof (induction ds arbitrary: g)
  case (Cons d ds)
  have "mirrored (snd (add_decision d g)) \<and> gv_models (snd (add_decision d g)) = gv_models g
      \<and> gv_decisions (snd (add_decision d g)) = gv_decisions g @ (if decision_ok d then [d] else [])"
    using Cons.prems decision_errors_Nil [of d]
    by (auto simp: add_decision_run mirrored_persist split: sum.splits list.splits)
  with Cons.IH [of "snd (add_decision d g)"] show ?case by (simp add: after_decisions_def)
qed (simp add: after_decisions_def)

lemma find_Some_split:
  "List.find P xs = Some x \<Longrightarrow> \<exists>us vs. xs = us @ x # vs \<and> P x \<and> (\<forall>u \<in> set us. \<not> P u)"
proof (induction xs)
  case (Cons y xs)
  show ?case
  proof (cases "P y")
    case True
    with Cons.prems have "y # xs = [] @ x # xs \<and> P x" by simp
    then show ?thesis by (metis empty_iff list.set(1))
  next
    case False
    with Cons obtain us vs where "xs = us @ x # vs" "P x" "\<forall>u \<in> set us. \<not> P u" by auto
    with False have "y # xs = (y # us) @ x # vs \<and> P x \<and> (\<forall>u \<in> set (y # us). \<not> P u)" by simp
    then show ?thesis by blast
  qed
qed simp

section \<open>Properties\<close>

text \<open>
  The governance store admits exactly the decisions that pass their validator, and disk follows.
  Whatever decision records are offered to a new store, its records are the seed followed, in order,
  by the offered records that are complete, have an input window of positive length, a confidence
  between 0 and 1, an edge above zero, features and a risk context; the registered models never
  change; and the four files hold the public payloads of the final state.
\<close>

theorem only_explained_decisions_recorded:
  "mirrored (after_decisions (new_governance clk models features evaluations decisions st) ds)
   \<and> gv_decisions (after_decisions (new_governance clk models features evaluations decisions st) ds)
       = or_seed decisions (default_model_decisions (clk 3)) @ filter decision_ok ds
   \<and> gv_models (after_decisions (new_governance clk models features evaluations decisions st) ds)
       = or_seed models (default_registered_models (clk 0))"
  using after_decisions_kept [of "new_governance clk models features evaluations decisions st" ds]
  by (simp add: new_governance_def mirrored_persist)

text \<open>
  A recommendation is accepted by the preview exactly when the latest decision record that names
  it passes its validator; without a record the preview refuses it.
\<close>

theorem preview_needs_latest_decision:
  assumes "preview_of_recommendation rid g = Inr p"
  shows "mp_accepted p \<longleftrightarrow>
     (\<exists>older d newer. gv_decisions g = older @ d # newer \<and> mdr_recommendation_id d = rid
        \<and> (\<forall>n \<in> set newer. mdr_recommendation_id n \<noteq> rid)
        \<and> mp_decision_record p = Some d \<and> decision_ok d)"
proof (cases "decision_for_recommendation rid g")
  case None
  then have "\<forall>d \<in> set (gv_decisions g). mdr_recommendation_id d \<noteq> rid"
    by (auto simp: decision_for_recommendation_def find_None_iff)
  with None assms show ?thesis by (auto simp: preview_of_recommendation_def Let_def)
next
  case (Some d)
  then obtain us vs where "rev (gv_decisions g) = us @ d # vs" "mdr_recommendation_id d = rid"
    "\<forall>u \<in> set us. mdr_recommendation_id u \<noteq> rid"
    unfolding decision_for_recommendation_def by (elim find_Some_split [THEN exE]) blast
  then have split: "gv_decisions g = rev vs @ d # rev us" "mdr_recommendation_id d = rid"
    "\<forall>n \<in> set (rev us). mdr_recommendation_id n \<noteq> rid"
    by (metis append.assoc append_Cons append_Nil rev.simps(2) rev_append rev_rev_ident, simp_all)
  from Some assms have "mp_decision_record p = Some d" "mp_accepted p \<longleftrightarrow> decision_errors d = Inr []"
    by (auto simp: preview_of_recommendation_def Let_def bind_res_eq_Inr)
  then show ?thesis unfolding decision_errors_Nil using split by (metis option.inject)
qed

definition sample_model_decision :: model_decision where
  "sample_model_decision = hd (default_model_decisions (Aware 0))"

definition sample_store :: governance_store where
  "sample_store = \<lparr>gv_models = [], gv_features = [], gv_evaluations = [],
     gv_decisions = [sample_model_decision], gv_store = None\<rparr>"

theorem preview_needs_latest_decision_witness:
  "\<exists>p. preview_of_recommendation ''strategy-rec-000001'' sample_store = Inr p \<and> mp_accepted p"
proof -
  have ok: "decision_ok sample_model_decision"
    by (simp add: sample_model_decision_def default_model_decisions_def decision_ok_def required_texts_def
        seed_top_features_def dec_simps power_int_minus micros_per_second_def)
  have rid: "mdr_recommendation_id sample_model_decision = ''strategy-rec-000001''"
    by (simp add: sample_model_decision_def default_model_decisions_def)
  then have find: "decision_for_recommendation ''strategy-rec-000001'' sample_store = Some sample_model_decision"
    by (simp add: decision_for_recommendation_def sample_store_def)
  from ok obtain p where p: "preview_of_recommendation ''strategy-rec-000001'' sample_store = Inr p"
      and d: "mp_decision_record p = Some sample_model_decision"
    unfolding decision_errors_Nil [symmetric] by (simp add: preview_of_recommendation_def find Let_def)
  have "gv_decisions sample_store = [] @ sample_model_decision # []" by (simp add: sample_store_def)
  with preview_needs_latest_decision [OF p] p d rid ok show ?thesis
    by (metis empty_iff list.set(1))
qed

lemma contribution_round_trip:
  "plain_decimal (fc_value f) \<Longrightarrow> plain_decimal (fc_contribution f) \<Longrightarrow>
   contribution_from_mapping (contribution_to_public_dict f) = Inr f"
  by (simp add: contribution_from_mapping_def contribution_to_public_dict_def as_mapping_def
      jget_default_def decimal_from_format py_str_def [of "JStr _"])

text \<open>
  A decision record survives its own JSON. Parsing the public payload of a record whose times
  carry a time zone and whose decimals print with their own exponent gives the record back.
\<close>

theorem decision_round_trip:
  assumes "list_all is_aware [mdr_input_window_start d, mdr_input_window_end d, mdr_created_at d]"
    and "list_all plain_decimal [mdr_confidence d, mdr_expected_edge_after_costs d]"
    and "list_all (\<lambda>f. plain_decimal (fc_value f) \<and> plain_decimal (fc_contribution f)) (mdr_top_features d)"
  shows "decision_from_mapping fromiso (model_decision_to_public_dict d) = Inr d"
proof -
  have "mapM_res contribution_from_mapping (map contribution_to_public_dict fs) = Inr fs"
    if "list_all (\<lambda>f. plain_decimal (fc_value f) \<and> plain_decimal (fc_contribution f)) fs" for fs
    using that by (induction fs) (simp_all add: contribution_round_trip)
  moreover have "map (py_str \<circ> JStr) xs = xs" for xs
    by (induction xs) (simp_all add: py_str_def)
  ultimately show ?thesis using assms
    by (simp add: decision_from_mapping_def model_decision_to_public_dict_def jget_default_def as_list_def
        parse_time_def decimal_from_format py_str_def [of "JStr _"] jstrs_def)
qed

theorem decision_round_trip_witness:
  "decision_from_mapping (\<lambda>_. None) (model_decision_to_public_dict sample_model_decision) = Inr sample_model_decision"
proof (rule decision_round_trip)
  show "list_all is_aware [mdr_input_window_start sample_model_decision,
      mdr_input_window_end sample_model_decision, mdr_created_at sample_model_decision]"
    by (simp add: sample_model_decision_def default_model_decisions_def)
  show "list_all plain_decimal [mdr_confidence sample_model_decision, mdr_expected_edge_after_costs sample_model_decision]"
    by code_simp
  show "list_all (\<lambda>f. plain_decimal (fc_value f) \<and> plain_decimal (fc_contribution f))
      (mdr_top_features sample_model_decision)"
    by code_simp
qed

end
