(* ===== verification/Risk_Gates.thy ===== *)
theory Risk_Gates
  imports Command_Catalog
begin

text \<open>
  \<open>services/risk/gates.py\<close>: the veto over operator commands. A command is approved exactly when
  no check of the runtime tuple, the catalog entry or the fee model gives a reason against it.
\<close>

datatype risk_decision = RD_APPROVED | RD_VETOED

fun rd_value :: "risk_decision \<Rightarrow> string" where
  "rd_value RD_APPROVED = ''approved''"
| "rd_value RD_VETOED = ''vetoed''"

record command_safety_result =
  csr_command_type :: string
  csr_accepted :: bool
  csr_decision :: risk_decision
  csr_reasons :: "string list"

definition safety_result_to_public_dict :: "command_safety_result \<Rightarrow> json" where
  "safety_result_to_public_dict r = JObj
     [(''command_type'', JStr (csr_command_type r)),
      (''accepted'', JBool (csr_accepted r)),
      (''decision'', JStr (rd_value (csr_decision r))),
      (''reasons'', jstrs (csr_reasons r))]"

text \<open>\<open>_requires_one_of\<close>: an empty requirement allows every value.\<close>

definition requires_one_of :: "('a \<Rightarrow> string) \<Rightarrow> 'a \<Rightarrow> 'a list \<Rightarrow> string \<Rightarrow> string option" where
  "requires_one_of val_of actual allowed label =
     (if allowed \<noteq> [] \<and> actual \<notin> set allowed
      then Some (label @ ''='' @ val_of actual @ '' is not allowed; expected one of: ''
                 @ join '', '' (map val_of allowed))
      else None)"

definition opt_reason :: "string option \<Rightarrow> string list" where
  "opt_reason r = (case r of None \<Rightarrow> [] | Some s \<Rightarrow> [s])"

definition evaluate_command ::
    "runtime_config \<Rightarrow> command_request \<Rightarrow> bool \<Rightarrow> command_safety_result res" where
  "evaluate_command c request fee_model_available =
     bind_res (command_definition_of (cr_command_type request)) (\<lambda>d.
     let reasons =
           config_errors c
         @ opt_reason (requires_one_of om_value (rc_operator_mode c) (cd_operator_modes d)
             ''operator_mode'')
         @ opt_reason (requires_one_of vt_value (rc_venue_target c) (cd_venue_targets d)
             ''venue_target'')
         @ opt_reason (requires_one_of cs_value (rc_credential_scope c) (cd_credential_scopes d)
             ''credential_scope'')
         @ opt_reason (requires_one_of tg_value (rc_trading_gate c) (cd_trading_gates d)
             ''trading_gate'')
         @ opt_reason (requires_one_of as_value (rc_autonomy_stage c) (cd_autonomy_stages d)
             ''autonomy_stage'')
         @ opt_reason (requires_one_of ml_value (rc_mlops_state c) (cd_mlops_states d)
             ''mlops_approval_state'')
         @ (if cd_trading_affecting d \<and> rc_autonomy_stage c = AS_OBSERVE_ONLY
            then [''observe_only cannot submit or alter trading commands''] else [])
         @ (if cd_effect d = CE_LIVE_TRADING \<and> \<not> trading_allowed c
            then [''live trading is fail-closed without explicit live gates''] else [])
         @ (if cd_requires_fee_model d \<and> \<not> fee_model_available
            then [''fee model is unavailable; expected_edge_after_costs cannot be audited''] else [])
         @ (if \<not> cd_execution_available d
            then [''backend execution support is not implemented for this command''] else []);
         accepted = (reasons = [])
     in Inr \<lparr>csr_command_type = ct_value (cr_command_type request), csr_accepted = accepted,
             csr_decision = (if accepted then RD_APPROVED else RD_VETOED),
             csr_reasons = reasons\<rparr>)"

definition risk_status_payload :: "runtime_config \<Rightarrow> json" where
  "risk_status_payload c = JObj
     [(''status'', JStr ''ok''),
      (''service'', JStr ''risk''),
      (''phase'', JStr ''safety_spine''),
      (''risk_engine_authority'', JStr ''veto''),
      (''trading_allowed'', JBool (trading_allowed c)),
      (''fail_closed'', JBool (fail_closed c)),
      (''live_trading_enabled'', JBool (rc_live_trading_enabled c)),
      (''guardrails'', jstrs
         [''live trading disabled by default'', ''unsafe config tuples fail closed'',
          ''observe_only rejects trading-affecting commands'',
          ''strategy sessions require a current fee model'', ''browser signing is forbidden'']),
      (''implemented_checks'', jstrs
         [''runtime tuple validation'', ''command catalog validation'',
          ''observe_only trading-affecting veto'', ''live trading gate veto'',
          ''fee model availability veto'']),
      (''future_checks'', jstrs
         [''max daily loss'', ''max symbol exposure'', ''portfolio margin and liquidation buffer'',
          ''stale data kill switch'', ''API error kill switch'', ''abnormal spread kill switch'',
          ''funding spike kill switch'', ''order spam protection''])]"

section \<open>Lemmas\<close>

lemma opt_reason_Nil [simp]: "opt_reason r = [] \<longleftrightarrow> r = None"
  by (simp add: opt_reason_def split: option.splits)

lemma requires_one_of_None [simp]:
  "requires_one_of v x allowed label = None \<longleftrightarrow> allowed = [] \<or> x \<in> set allowed"
  by (simp add: requires_one_of_def)

text \<open>What a command needs from the runtime tuple: each requirement is empty or met.\<close>

definition tuple_ok :: "runtime_config \<Rightarrow> command_definition \<Rightarrow> bool" where
  "tuple_ok c d \<longleftrightarrow>
     (cd_operator_modes d = [] \<or> rc_operator_mode c \<in> set (cd_operator_modes d))
   \<and> (cd_venue_targets d = [] \<or> rc_venue_target c \<in> set (cd_venue_targets d))
   \<and> (cd_credential_scopes d = [] \<or> rc_credential_scope c \<in> set (cd_credential_scopes d))
   \<and> (cd_trading_gates d = [] \<or> rc_trading_gate c \<in> set (cd_trading_gates d))
   \<and> (cd_autonomy_stages d = [] \<or> rc_autonomy_stage c \<in> set (cd_autonomy_stages d))
   \<and> (cd_mlops_states d = [] \<or> rc_mlops_state c \<in> set (cd_mlops_states d))"

lemma evaluate_command_accepted:
  assumes "command_definition_of (cr_command_type r) = Inr d"
  shows "\<exists>res. evaluate_command c r fee = Inr res
     \<and> (csr_accepted res \<longleftrightarrow> csr_reasons res = [])
     \<and> (csr_decision res = RD_APPROVED \<longleftrightarrow> csr_accepted res)
     \<and> (csr_accepted res \<longleftrightarrow>
          config_errors c = [] \<and> tuple_ok c d
          \<and> \<not> (cd_trading_affecting d \<and> rc_autonomy_stage c = AS_OBSERVE_ONLY)
          \<and> \<not> (cd_effect d = CE_LIVE_TRADING \<and> \<not> trading_allowed c)
          \<and> (cd_requires_fee_model d \<longrightarrow> fee) \<and> cd_execution_available d)"
  using assms by (simp add: evaluate_command_def Let_def tuple_ok_def)

lemma evaluate_command_cases:
  obtains d res where "command_definition_of (cr_command_type r) = Inr d"
    and "d \<in> set all_command_definitions" and "evaluate_command c r fee = Inr res"
    and "csr_accepted res \<longleftrightarrow> csr_reasons res = []"
    and "csr_accepted res \<longleftrightarrow>
          config_errors c = [] \<and> tuple_ok c d
          \<and> \<not> (cd_trading_affecting d \<and> rc_autonomy_stage c = AS_OBSERVE_ONLY)
          \<and> \<not> (cd_effect d = CE_LIVE_TRADING \<and> \<not> trading_allowed c)
          \<and> (cd_requires_fee_model d \<longrightarrow> fee) \<and> cd_execution_available d"
proof -
  obtain d where d: "command_definition_of (cr_command_type r) = Inr d"
    using command_definition_of_total by blast
  with command_definition_of_Inr evaluate_command_accepted [OF d, of c fee] that show thesis
    by blast
qed

section \<open>Properties\<close>

text \<open>The policy in force: the commands that a consistent runtime tuple may run, command by command.\<close>

definition paper_lane :: "runtime_config \<Rightarrow> bool" where
  "paper_lane c \<longleftrightarrow> rc_operator_mode c = OM_PAPER \<and> rc_venue_target c = VT_INTERNAL_PAPER
     \<and> rc_credential_scope c = CS_NONE"

definition testnet_lane :: "runtime_config \<Rightarrow> bool" where
  "testnet_lane c \<longleftrightarrow> rc_operator_mode c = OM_PAPER \<and> rc_venue_target c = VT_BINANCE_TESTNET
     \<and> rc_credential_scope c = CS_TRADING \<and> rc_autonomy_stage c = AS_TESTNET_AUTO"

definition open_commands :: "command_type list" where
  "open_commands =
     [CT_GET_SYSTEM_STATUS, CT_GET_CONTROL_SURFACE, CT_GET_SYMBOL_UNIVERSE, CT_GET_EXCHANGE_STATE,
      CT_GET_ACCOUNT_STATE, CT_GET_SYMBOL_METADATA, CT_GET_FEE_POLICY, CT_GET_RISK_STATUS,
      CT_SEARCH_AUDIT_RECORDS, CT_GET_AUDIT_RECORD, CT_REJECT_COMMAND, CT_PAUSE_STRATEGY_SESSION,
      CT_STOP_STRATEGY_SESSION, CT_GET_STRATEGY_RECOMMENDATIONS, CT_GET_MODEL_REGISTRY,
      CT_GET_FEATURE_REGISTRY, CT_GET_MODEL_EVALUATIONS, CT_GET_MODEL_DECISION_RECORD]"

fun permitted :: "runtime_config \<Rightarrow> bool \<Rightarrow> command_type \<Rightarrow> bool" where
  "permitted c fee CT_CREATE_PAPER_SESSION \<longleftrightarrow>
     paper_lane c \<and> rc_autonomy_stage c \<in> {AS_HUMAN_APPROVAL, AS_PAPER_AUTO}"
| "permitted c fee CT_SUBMIT_PAPER_ORDER \<longleftrightarrow>
     paper_lane c \<and> rc_autonomy_stage c \<in> {AS_HUMAN_APPROVAL, AS_PAPER_AUTO} \<and> fee"
| "permitted c fee CT_RESET_PAPER_PORTFOLIO \<longleftrightarrow> paper_lane c"
| "permitted c fee CT_CREATE_TESTNET_VALIDATION_SESSION \<longleftrightarrow> testnet_lane c"
| "permitted c fee CT_SUBMIT_TESTNET_ORDER \<longleftrightarrow> testnet_lane c \<and> fee"
| "permitted c fee CT_GET_LIVE_READONLY_ACCOUNT \<longleftrightarrow> rc_operator_mode c = OM_LIVE
     \<and> rc_venue_target c = VT_BINANCE_LIVE \<and> rc_credential_scope c = CS_READ_ONLY \<and> rc_trading_gate c = TG_LOCKED"
| "permitted c fee CT_PREVIEW_ORDER \<longleftrightarrow> fee"
| "permitted c fee CT_CREATE_BACKTEST_JOB \<longleftrightarrow> fee"
| "permitted c fee CT_PREVIEW_MODEL_RECOMMENDATION \<longleftrightarrow> fee"
| "permitted c fee CT_CREATE_STRATEGY_SESSION \<longleftrightarrow> rc_operator_mode c = OM_PAPER \<and> fee"
| "permitted c fee CT_CANCEL_ORDER_INTENT \<longleftrightarrow> rc_autonomy_stage c \<noteq> AS_OBSERVE_ONLY"
| "permitted c fee ct \<longleftrightarrow> ct \<in> set open_commands"

lemma catalog_permits:
  assumes "d \<in> set all_command_definitions"
  shows "tuple_ok c d \<and> \<not> (cd_trading_affecting d \<and> rc_autonomy_stage c = AS_OBSERVE_ONLY)
      \<and> \<not> (cd_effect d = CE_LIVE_TRADING \<and> \<not> trading_allowed c)
      \<and> (cd_requires_fee_model d \<longrightarrow> fee) \<and> cd_execution_available d
    \<longleftrightarrow> permitted c fee (cd_command_type d)"
proof -
  have "list_all (\<lambda>d. tuple_ok c d \<and> \<not> (cd_trading_affecting d \<and> rc_autonomy_stage c = AS_OBSERVE_ONLY)
      \<and> \<not> (cd_effect d = CE_LIVE_TRADING \<and> \<not> trading_allowed c)
      \<and> (cd_requires_fee_model d \<longrightarrow> fee) \<and> cd_execution_available d
    \<longleftrightarrow> permitted c fee (cd_command_type d)) ds"
    if "ds \<in> {dashboard_commands, paper_commands, testnet_commands, live_commands, manual_commands,
      job_commands, session_commands, model_commands, panic_commands}" for ds
    using that
    by (elim insertE emptyE)
      (auto simp: dashboard_commands_def paper_commands_def testnet_commands_def live_commands_def manual_commands_def
        job_commands_def session_commands_def model_commands_def panic_commands_def command_def_def tuple_ok_def
        open_commands_def paper_lane_def testnet_lane_def)
  with assms show ?thesis by (auto simp: all_command_definitions_def list_all_iff)
qed

text \<open>
  C19: The command gate enforces the policy. Every request gets a verdict, and it is accepted exactly
  when the runtime tuple has no configuration error and the table of \<open>permitted\<close> has its command: the
  18 commands that are open to every tuple; previews and backtests with a fee model; strategy sessions
  in paper mode with a fee model; the cancelling of orders unless observe-only; the paper commands in
  the paper lane, an order at the stages of human approval or paper automation with a fee model only;
  the testnet commands in the testnet lane; the live account view under locked read-only live
  configuration. Every other command - approvals, live trading, panic controls, training and model
  deployment - is vetoed whatever the configuration.
\<close>

theorem command_gate_exact:
  "\<exists>res. evaluate_command c r fee = Inr res
     \<and> csr_command_type res = ct_value (cr_command_type r)
     \<and> (csr_accepted res \<longleftrightarrow> config_errors c = [] \<and> permitted c fee (cr_command_type r))
     \<and> (csr_accepted res \<longleftrightarrow> csr_reasons res = [])
     \<and> csr_decision res = (if csr_accepted res then RD_APPROVED else RD_VETOED)"
proof -
  obtain d where d: "command_definition_of (cr_command_type r) = Inr d"
    using command_definition_of_total by blast
  note entry = command_definition_of_Inr [OF d]
  obtain res where res: "evaluate_command c r fee = Inr res" using evaluate_command_accepted [OF d] by blast
  then have "csr_command_type res = ct_value (cr_command_type r)"
    "csr_decision res = (if csr_accepted res then RD_APPROVED else RD_VETOED)"
    by (auto simp: evaluate_command_def d Let_def)
  with res show ?thesis
    using evaluate_command_accepted [OF d, of c fee] catalog_permits [of d c fee] entry by auto
qed

text \<open>
  C20: No runtime configuration, however it is armed, gets a live-trading command through the
  gate, and in observe-only no trading-affecting command passes: the verdict carries the reason.
\<close>

theorem live_and_observe_only_vetoed:
  assumes "command_definition_of (cr_command_type r) = Inr d"
    and "evaluate_command c r fee = Inr res"
    and "cd_effect d = CE_LIVE_TRADING
         \<or> cd_trading_affecting d \<and> rc_autonomy_stage c = AS_OBSERVE_ONLY"
  shows "\<not> csr_accepted res \<and> csr_reasons res \<noteq> [] \<and> csr_decision res = RD_VETOED"
proof -
  have avail: "\<not> cd_execution_available d" if "cd_effect d = CE_LIVE_TRADING"
    using catalog_live_unavailable command_definition_of_Inr [OF assms(1)] that by blast
  from evaluate_command_accepted [OF assms(1), of c fee] assms(2,3) avail
  show ?thesis by (cases "csr_decision res") auto
qed

definition submit_paper_request :: command_request where
  "submit_paper_request =
     \<lparr>cr_command_type = CT_SUBMIT_PAPER_ORDER, cr_actor_id = ''local_operator'', cr_payload = []\<rparr>"

theorem live_and_observe_only_vetoed_witness:
  "\<exists>res. evaluate_command default_runtime_config submit_paper_request True = Inr res
     \<and> \<not> csr_accepted res"
proof -
  define d where "d = hd (tl paper_commands)"
  have 1: "command_definition_of (cr_command_type submit_paper_request) = Inr d"
    unfolding d_def by code_simp
  have 3: "cd_effect d = CE_LIVE_TRADING
      \<or> cd_trading_affecting d \<and> rc_autonomy_stage default_runtime_config = AS_OBSERVE_ONLY"
    unfolding d_def by code_simp
  obtain res where 2: "evaluate_command default_runtime_config submit_paper_request True = Inr res"
    using evaluate_command_accepted [OF 1] by blast
  from live_and_observe_only_vetoed [OF 1 2 3] 2 show ?thesis by blast
qed

end
