(* ===== verification/Binance_Lanes.thy ===== *)
theory Binance_Lanes
  imports Binance_Usdm Risk_Gates Audit_Records Exchange_State
begin

text \<open>
  \<open>services/execution/binance_validation.py\<close>, \<open>services/portfolio/live_readonly.py\<close> and
  \<open>services/market_data/exchange_state_store.py\<close>: the testnet lane that validates orders without
  sending them, the read-only view of the live account, and the store and payloads of the
  deterministic account snapshot. A configuration that is absent is the default one.
\<close>

section \<open>The testnet lane\<close>

definition local_request :: "command_type \<Rightarrow> json_object \<Rightarrow> command_request" where
  "local_request ct payload = \<lparr>cr_command_type = ct, cr_actor_id = ''local_operator'', cr_payload = payload\<rparr>"

definition or_default_config :: "runtime_config option \<Rightarrow> runtime_config" where
  "or_default_config c = (case c of None \<Rightarrow> default_runtime_config | Some r \<Rightarrow> r)"

text \<open>\<open>_metadata_for\<close>: the seed metadata of the symbol, with the times of this reading of the clock.\<close>

definition seeded_metadata_for :: "datetime \<Rightarrow> string \<Rightarrow> symbol_metadata option res" where
  "seeded_metadata_for now symbol =
     bind_res (default_account_state now) (\<lambda>account.
     Inr (List.find (\<lambda>m. sm_symbol m = symbol) (ac_symbol_metadata account)))"

definition testnet_validation_payload :: "runtime_config option \<Rightarrow> json_object res" where
  "testnet_validation_payload config =
     (let runtime = or_default_config config
      in bind_res (evaluate_command runtime (local_request CT_CREATE_TESTNET_VALIDATION_SESSION []) True) (\<lambda>result.
         Inr [(''status'', JStr ''ok''), (''service'', JStr ''binance_validation''),
              (''lane'', JStr ''binance_testnet''),
              (''accepted'', JBool (csr_accepted result)),
              (''reasons'', jstrs (csr_reasons result)),
              (''runtime'', config_to_status runtime),
              (''credential_metadata'', backend_credential_metadata runtime),
              (''request_specs'', JArr (map spec_to_public_dict usdm_request_specs)),
              (''network_calls'', JStr ''not_performed''),
              (''order_submission'', JStr ''not_performed'')]))"

text \<open>What the lane finds out about an order: the verdict of the gate, and the translation.\<close>

definition testnet_order_check ::
    "datetime \<Rightarrow> json_object \<Rightarrow> runtime_config
     \<Rightarrow> (command_safety_result \<times> usdm_payload option \<times> string list) res" where
  "testnet_order_check now payload runtime =
     bind_res (intent_from_mapping payload) (\<lambda>intent.
     bind_res (evaluate_command runtime (local_request CT_SUBMIT_TESTNET_ORDER payload) True) (\<lambda>result.
     bind_res (seeded_metadata_for now (it_symbol intent)) (\<lambda>metadata.
     bind_res (case metadata of
         None \<Rightarrow> Inr (None, [it_symbol intent @ '' metadata is unavailable''])
       | Some m \<Rightarrow> validate_usdm_order_payload intent m runtime ''backend_api'') (\<lambda>(translated, reasons).
     Inr (result, translated, reasons)))))"

definition lane_accepts :: "command_safety_result \<times> usdm_payload option \<times> string list \<Rightarrow> bool" where
  "lane_accepts = (\<lambda>(result, translated, reasons).
     csr_accepted result \<and> translated \<noteq> None \<and> reasons = [])"

definition testnet_order_validation_payload ::
    "datetime \<Rightarrow> json_object option \<Rightarrow> runtime_config option \<Rightarrow> json_object res" where
  "testnet_order_validation_payload now body config =
     (let runtime = or_default_config config; payload = (case body of None \<Rightarrow> [] | Some b \<Rightarrow> b)
      in bind_res (testnet_order_check now payload runtime) (\<lambda>(result, translated, reasons).
         Inr [(''status'', JStr ''ok''), (''service'', JStr ''binance_validation''),
              (''lane'', JStr ''binance_testnet''),
              (''accepted'', JBool (lane_accepts (result, translated, reasons))),
              (''command'', safety_result_to_public_dict result),
              (''translation_reasons'', jstrs reasons),
              (''binance_payload'', jopt payload_to_public_dict translated),
              (''network_calls'', JStr ''not_performed''),
              (''order_submission'', JStr ''not_performed''),
              (''notes'', jstrs [''backend-only validation lane'',
                 ''Binance testnet is not a top-level operator mode'',
                 ''no request signing or submission occurs''])]))"

definition testnet_runtime_fixture :: runtime_config where
  "testnet_runtime_fixture = default_runtime_config\<lparr>rc_venue_target := VT_BINANCE_TESTNET,
     rc_credential_scope := CS_TRADING, rc_autonomy_stage := AS_TESTNET_AUTO,
     rc_api_key_present := True, rc_api_secret_present := True\<rparr>"

section \<open>The live account, read-only\<close>

record live_snapshot =
  lv_account_state :: json
  lv_commission_state :: json_object
  lv_mode_state :: json_object
  lv_reconciliation :: json_object
  lv_inspected_at :: datetime

definition live_snapshot_to_public_dict :: "live_snapshot \<Rightarrow> json" where
  "live_snapshot_to_public_dict s = JObj
     [(''account_state'', lv_account_state s),
      (''commission_state'', JObj (lv_commission_state s)),
      (''mode_state'', JObj (lv_mode_state s)),
      (''reconciliation'', JObj (lv_reconciliation s)),
      (''inspected_at'', JTime (lv_inspected_at s))]"

definition live_snapshot_at :: "datetime \<Rightarrow> live_snapshot res" where
  "live_snapshot_at now =
     bind_res (default_account_state now) (\<lambda>state.
     bind_res (account_to_public_dict state now) (\<lambda>account.
     bind_res (as_mapping account) (\<lambda>fields.
     bind_res (field_of fields ''position_mode'') (\<lambda>position_mode.
     bind_res (field_of fields ''margin_mode'') (\<lambda>margin_mode.
     Inr \<lparr>lv_account_state = account,
          lv_commission_state = [(''source'', JStr ''backend_readonly_projection''),
            (''maker_fee_rate'', JStr ''requires_live_readonly_fetch''),
            (''taker_fee_rate'', JStr ''requires_live_readonly_fetch''),
            (''network_calls'', JStr ''not_performed_in_ci'')],
          lv_mode_state = [(''position_mode'', position_mode), (''margin_mode'', margin_mode),
            (''hedge_mode_books'', JStr ''independent_LONG_SHORT_books'')],
          lv_reconciliation = [(''status'', JStr ''audit_only''),
            (''local_state_compared'', JBool True), (''differences'', JArr []),
            (''order_submission'', JStr ''forbidden'')],
          lv_inspected_at = now\<rparr>)))))"

definition live_readonly_reasons :: "runtime_config \<Rightarrow> command_safety_result \<Rightarrow> string list" where
  "live_readonly_reasons c result = csr_reasons result
     @ (if live_readonly_credentials_present c \<or> legacy_credentials_present c then []
        else [''read-only Binance credentials must be present in backend''])"

definition as_object :: "json \<Rightarrow> json_object" where
  "as_object v = (case v of JObj kvs \<Rightarrow> kvs | _ \<Rightarrow> [])"

text \<open>
  The recorder is optional; \<open>clk 0\<close> is the recorder's reading of the clock, \<open>clk 1\<close> the snapshot's.
\<close>

definition live_readonly_account_payload ::
    "(nat \<Rightarrow> datetime) \<Rightarrow> runtime_config option \<Rightarrow> bool \<Rightarrow> (file_recorder, json_object) act" where
  "live_readonly_account_payload clk config with_recorder =
     (let runtime = or_default_config config
      in bind_act (of_res (evaluate_command runtime (local_request CT_GET_LIVE_READONLY_ACCOUNT []) True)) (\<lambda>result.
         let reasons = live_readonly_reasons runtime result;
             accepted = (csr_accepted result \<and> reasons = [])
         in bind_act (if with_recorder
              then bind_act (file_record_decision
                  \<lparr>df_command_type = ct_value CT_GET_LIVE_READONLY_ACCOUNT,
                   df_actor_id = ''local_operator'',
                   df_decision = (if accepted then ''accepted'' else ''rejected''),
                   df_reasons = reasons, df_payload = [(''scope'', JStr ''live_readonly'')],
                   df_runtime = as_object (config_to_status runtime)\<rparr> (clk 0))
                (\<lambda>entry. ret (audit_to_public_dict entry))
              else ret JNull) (\<lambda>audit_record.
            bind_act (of_res (if accepted then map_res live_snapshot_to_public_dict (live_snapshot_at (clk 1))
                else Inr JNull)) (\<lambda>snapshot.
            ret [(''status'', JStr ''ok''), (''service'', JStr ''live_readonly''),
                 (''accepted'', JBool accepted), (''reasons'', jstrs reasons),
                 (''runtime'', config_to_status runtime),
                 (''credential_metadata'', backend_credential_metadata runtime),
                 (''snapshot'', snapshot), (''audit_record'', audit_record),
                 (''order_submission'', JStr ''forbidden'')]))))"

definition live_order_rejection_payload :: "runtime_config option \<Rightarrow> json_object" where
  "live_order_rejection_payload config =
     [(''status'', JStr ''ok''), (''service'', JStr ''live_readonly''), (''accepted'', JBool False),
      (''order_submission'', JStr ''forbidden''),
      (''reasons'', jstrs [''Phase 10 live-trade order submission is out of scope'',
         ''live trading remains fail-closed'', ''browser signing is forbidden'']),
      (''runtime'', config_to_status (or_default_config config))]"

section \<open>Snapshots of the account\<close>

record state_store =
  es_snapshots :: "account_state list"
  es_store :: json_store

definition latest_snapshot_of :: "state_store \<Rightarrow> account_state" where
  "latest_snapshot_of s = last (es_snapshots s)"

definition state_row :: "json_object \<Rightarrow> json_object res" where
  "state_row latest =
     bind_res (field_of latest ''account_id'') (\<lambda>a.
     bind_res (field_of latest ''venue_target'') (\<lambda>v.
     bind_res (field_of latest ''freshness'') (\<lambda>f.
     bind_res (field_of latest ''is_valid'') (\<lambda>ok.
     bind_res (field_of latest ''validation_errors'') (\<lambda>errors.
     Inr [(''account_id'', a), (''venue_target'', v), (''freshness'', f), (''is_valid'', ok),
          (''validation_errors'', errors)])))))"

definition persist_latest :: "datetime \<Rightarrow> (state_store, unit) act" where
  "persist_latest now =
     bind_act (gets (\<lambda>s. account_to_public_dict (latest_snapshot_of s) now)) (\<lambda>shown.
     bind_act (of_res (bind_res shown as_mapping)) (\<lambda>latest.
     bind_act (modify (\<lambda>s. s\<lparr>es_store :=
       write_json ''exchange/latest_account_state.json'' (JObj latest) (es_store s)\<rparr>)) (\<lambda>_.
     bind_act (of_res (state_row latest)) (\<lambda>row.
     modify (\<lambda>s. s\<lparr>es_store :=
       append_jsonl ''exchange/account_state_snapshots.jsonl'' (JObj row) (es_store s)\<rparr>)))))"

definition open_state_store ::
    "(nat \<Rightarrow> datetime) \<Rightarrow> account_state option \<Rightarrow> json_store \<Rightarrow> state_store res" where
  "open_state_store clk seed st =
     bind_res (case seed of Some a \<Rightarrow> Inr a | None \<Rightarrow> default_account_state (clk 0)) (\<lambda>a.
     (case persist_latest (clk 1) \<lparr>es_snapshots = [a], es_store = st\<rparr> of
        (Inr _, s) \<Rightarrow> Inr s | (Inl e, _) \<Rightarrow> Inl e))"

definition append_snapshot :: "datetime \<Rightarrow> account_state \<Rightarrow> (state_store, unit) act" where
  "append_snapshot now a =
     bind_act (modify (\<lambda>s. s\<lparr>es_snapshots := es_snapshots s @ [a]\<rparr>)) (\<lambda>_. persist_latest now)"

definition metadata_shown :: "account_state \<Rightarrow> datetime \<Rightarrow> json res" where
  "metadata_shown a now = map_res JArr (mapM_res (\<lambda>m. metadata_to_public_dict m now) (ac_symbol_metadata a))"

definition fees_shown :: "account_state \<Rightarrow> datetime \<Rightarrow> json res" where
  "fees_shown a now = map_res JArr (mapM_res (\<lambda>p. fee_policy_to_public_dict p now) (ac_fee_policies a))"

definition exchange_state_payload :: "datetime \<Rightarrow> json_object res" where
  "exchange_state_payload now =
     bind_res (default_account_state now) (\<lambda>a.
     bind_res (account_to_public_dict a now) (\<lambda>account.
     bind_res (metadata_shown a now) (\<lambda>metas.
     bind_res (fees_shown a now) (\<lambda>fees.
     Inr [(''status'', JStr ''ok''), (''service'', JStr ''exchange_state''),
          (''phase'', JStr ''deterministic_exchange_and_account_state''),
          (''account_state'', account), (''symbol_metadata'', metas), (''fee_policies'', fees),
          (''notes'', jstrs [''local mock snapshot only'', ''no Binance connectivity'',
             ''no order submission'', ''Portfolio Margin is research-only''])]))))"

definition account_state_payload :: "datetime \<Rightarrow> json_object res" where
  "account_state_payload now =
     bind_res (default_account_state now) (\<lambda>a.
     bind_res (account_to_public_dict a now) (\<lambda>account.
     Inr [(''status'', JStr ''ok''), (''service'', JStr ''account_state''), (''account_state'', account)]))"

definition symbol_metadata_payload :: "datetime \<Rightarrow> json_object res" where
  "symbol_metadata_payload now =
     bind_res (default_account_state now) (\<lambda>a.
     bind_res (metadata_shown a now) (\<lambda>metas.
     Inr [(''status'', JStr ''ok''), (''service'', JStr ''symbol_metadata''), (''symbols'', metas)]))"

definition fee_policy_payload :: "datetime \<Rightarrow> json_object res" where
  "fee_policy_payload now =
     bind_res (default_account_state now) (\<lambda>a.
     bind_res (fees_shown a now) (\<lambda>fees.
     Inr [(''status'', JStr ''ok''), (''service'', JStr ''fee_policy''), (''fee_policies'', fees)]))"

section \<open>What the lanes accept\<close>

lemma testnet_gate_accepts:
  assumes "evaluate_command c (local_request CT_SUBMIT_TESTNET_ORDER payload) True = Inr res"
  shows "csr_accepted res \<longleftrightarrow> config_errors c = [] \<and> rc_operator_mode c = OM_PAPER
     \<and> rc_venue_target c = VT_BINANCE_TESTNET \<and> rc_credential_scope c = CS_TRADING
     \<and> rc_autonomy_stage c = AS_TESTNET_AUTO"
proof -
  obtain d where d: "command_definition_of CT_SUBMIT_TESTNET_ORDER = Inr d"
    and facts: "cd_operator_modes d = [OM_PAPER]" "cd_venue_targets d = [VT_BINANCE_TESTNET]"
      "cd_credential_scopes d = [CS_TRADING]" "cd_trading_gates d = []"
      "cd_autonomy_stages d = [AS_TESTNET_AUTO]" "cd_mlops_states d = []"
      "cd_effect d = CE_INTERNAL_TESTNET_TRADING" "cd_execution_available d"
  proof -
    define d where "d = last testnet_commands"
    have "command_definition_of CT_SUBMIT_TESTNET_ORDER = Inr d" unfolding d_def by code_simp
    with that show thesis unfolding d_def by (simp add: testnet_commands_def command_def_def)
  qed
  have "command_definition_of (cr_command_type (local_request CT_SUBMIT_TESTNET_ORDER payload)) = Inr d"
    using d by (simp add: local_request_def)
  from evaluate_command_accepted [OF this, of c True] assms facts show ?thesis
    by (auto simp: tuple_ok_def)
qed

lemma live_view_accepts:
  obtains res where "evaluate_command c (local_request CT_GET_LIVE_READONLY_ACCOUNT []) True = Inr res"
    and "csr_accepted res \<longleftrightarrow> csr_reasons res = []"
    and "csr_accepted res \<longleftrightarrow> config_errors c = [] \<and> rc_operator_mode c = OM_LIVE
     \<and> rc_venue_target c = VT_BINANCE_LIVE \<and> rc_credential_scope c = CS_READ_ONLY
     \<and> rc_trading_gate c = TG_LOCKED"
proof -
  define d where "d = hd live_commands"
  have "command_definition_of CT_GET_LIVE_READONLY_ACCOUNT = Inr d" unfolding d_def by code_simp
  then have "command_definition_of (cr_command_type (local_request CT_GET_LIVE_READONLY_ACCOUNT [])) = Inr d"
    by (simp add: local_request_def)
  from evaluate_command_accepted [OF this, of c True] that show thesis
    by (auto simp: tuple_ok_def d_def live_commands_def command_def_def)
qed

lemma seeded_executable:
  assumes "seeded_metadata_for now s = Inr (Some m)" "sm_is_executable m"
  shows "s \<in> {''BTCUSDC'', ''ETHUSDC''}"
proof -
  from assms(1) have "m \<in> set (seed_metadata now)" "sm_symbol m = s"
    by (auto simp: seeded_metadata_for_def default_account_state_eq seed_account_def find_Some_iff)
  with assms(2) show ?thesis by (auto simp: seed_metadata_def sm_is_executable_def)
qed

section \<open>Properties\<close>

text \<open>
  C35: The testnet lane accepts exactly the orders that the gate and the translation both permit: a
  consistent paper-mode configuration targets the testnet with present trading credentials and full
  testnet autonomy, and the order is post-only, GTX, without taker permission, names BTCUSDC or
  ETHUSDC and meets the seeded filters of its symbol. The payload then repeats the order.
\<close>

theorem testnet_lane_exact:
  assumes "testnet_order_check now payload c = Inr r"
  shows "lane_accepts r \<longleftrightarrow>
     (\<exists>i m. intent_from_mapping payload = Inr i \<and> seeded_metadata_for now (it_symbol i) = Inr (Some m)
        \<and> it_symbol i \<in> {''BTCUSDC'', ''ETHUSDC''}
        \<and> config_errors c = [] \<and> rc_operator_mode c = OM_PAPER
        \<and> rc_venue_target c = VT_BINANCE_TESTNET \<and> rc_credential_scope c = CS_TRADING
        \<and> rc_autonomy_stage c = AS_TESTNET_AUTO
        \<and> (testnet_credentials_present c \<or> legacy_credentials_present c)
        \<and> it_post_only i \<and> \<not> it_allow_taker i \<and> symbol_rules_met i m
        \<and> fst (snd r) = Some (translated_payload i))"
proof -
  obtain i res meta tr rs where i: "intent_from_mapping payload = Inr i"
    and gate: "evaluate_command c (local_request CT_SUBMIT_TESTNET_ORDER payload) True = Inr res"
    and meta: "seeded_metadata_for now (it_symbol i) = Inr meta"
    and t: "(case meta of None \<Rightarrow> Inr (None, [it_symbol i @ '' metadata is unavailable''])
       | Some m \<Rightarrow> validate_usdm_order_payload i m c ''backend_api'') = Inr (tr, rs)"
    and r: "r = (res, tr, rs)"
    using assms by (auto simp: testnet_order_check_def bind_res_eq_Inr)
  show ?thesis
  proof (cases meta)
    case None
    with t i meta show ?thesis by (simp add: r lane_accepts_def)
  next
    case (Some m)
    have caller: "validate_backend_caller ''backend_api'' = Inr ()" by code_simp
    have exact: "tr = Some p \<and> rs = [] \<longleftrightarrow> p = translated_payload i
        \<and> rc_venue_target c = VT_BINANCE_TESTNET \<and> rc_credential_scope c = CS_TRADING
        \<and> (testnet_credentials_present c \<or> legacy_credentials_present c)
        \<and> it_post_only i \<and> \<not> it_allow_taker i \<and> symbol_rules_met i m" for p
      using binance_payload_exact [of i m c "''backend_api''" p "[]"] t Some caller by auto
    have sym: "symbol_rules_met i m \<Longrightarrow> it_symbol i \<in> {''BTCUSDC'', ''ETHUSDC''}"
      using seeded_executable meta Some unfolding symbol_rules_met_def by blast
    have "lane_accepts r \<longleftrightarrow> csr_accepted res \<and> (\<exists>p. tr = Some p \<and> rs = [])"
      by (auto simp: r lane_accepts_def)
    also have "\<dots> \<longleftrightarrow> csr_accepted res \<and> tr = Some (translated_payload i) \<and> rs = []"
      using exact by blast
    finally have acc: "lane_accepts r \<longleftrightarrow> csr_accepted res \<and> tr = Some (translated_payload i) \<and> rs = []" .
    show ?thesis unfolding acc testnet_gate_accepts [OF gate]
      using exact [of "translated_payload i"] i meta Some sym by (auto simp: r)
  qed
qed

theorem testnet_lane_exact_witness:
  "\<exists>r. testnet_order_check (Aware 0) [(''limit_price'', JStr ''65000'')] testnet_runtime_fixture = Inr r
     \<and> lane_accepts r \<and> rc_operator_mode testnet_runtime_fixture = OM_PAPER"
proof -
  let ?p = "[(''limit_price'', JStr ''65000'')]"
  have "map_res lane_accepts (testnet_order_check (Aware 0) ?p testnet_runtime_fixture) = Inr True" by code_simp
  then obtain r where r: "testnet_order_check (Aware 0) ?p testnet_runtime_fixture = Inr r" "lane_accepts r"
    by (auto simp: map_res_def bind_res_eq_Inr)
  with testnet_lane_exact [OF r(1)] show ?thesis by blast
qed

lemma fresh_shown: "\<exists>v. freshness_to_public_dict (fresh_at s (Aware t)) (Aware r) = Inr v"
  by (simp add: freshness_to_public_dict_def fresh_at_def age_micros_def is_stale_def dt_minus_def dt_same_kind_def)

lemma seed_account_shown:
  "\<exists>kvs. account_to_public_dict (seed_account (Aware t)) (Aware t) = Inr (JObj kvs)
     \<and> map_of kvs ''position_mode'' \<noteq> None \<and> map_of kvs ''margin_mode'' \<noteq> None"
proof -
  obtain v where v: "freshness_to_public_dict (fresh_at phase2_source (Aware t)) (Aware t) = Inr v"
    using fresh_shown by blast
  have fresh: "ac_freshness (seed_account (Aware t)) = fresh_at phase2_source (Aware t)"
    "\<forall>m \<in> set (ac_symbol_metadata (seed_account (Aware t))). sm_freshness m = fresh_at phase2_source (Aware t)"
    "\<forall>p \<in> set (ac_fee_policies (seed_account (Aware t))). fe_freshness p = fresh_at phase2_source (Aware t)"
    by (simp_all add: seed_account_def seed_metadata_def default_fee_policies_def default_fee_policy_def)
  have ms: "\<exists>ys. mapM_res (\<lambda>m. metadata_to_public_dict m (Aware t)) (ac_symbol_metadata (seed_account (Aware t))) = Inr ys"
    by (rule mapM_res_total) (use fresh v in \<open>simp add: metadata_to_public_dict_def\<close>)
  have ps: "\<exists>ys. mapM_res (\<lambda>p. fee_policy_to_public_dict p (Aware t)) (ac_fee_policies (seed_account (Aware t))) = Inr ys"
    by (rule mapM_res_total) (use fresh v in \<open>simp add: fee_policy_to_public_dict_def\<close>)
  have errors: "account_errors (seed_account (Aware t)) (Aware t) = Inr []"
    by (simp add: account_errors_Nil seed_account_ok micros_per_second_def)
  from ms ps show ?thesis by (auto simp: account_to_public_dict_def errors fresh v)
qed

lemma live_snapshot_total: "\<exists>s. live_snapshot_at (Aware t) = Inr s"
  using seed_account_shown [of t]
  by (auto simp: live_snapshot_at_def default_account_state_eq as_mapping_def field_of_def)

lemma live_snapshot_object: "live_snapshot_to_public_dict s \<noteq> JNull"
  by (simp add: live_snapshot_to_public_dict_def)

definition may_view_live :: "runtime_config \<Rightarrow> bool" where
  "may_view_live c \<longleftrightarrow> config_errors c = [] \<and> rc_operator_mode c = OM_LIVE
     \<and> rc_venue_target c = VT_BINANCE_LIVE \<and> rc_credential_scope c = CS_READ_ONLY
     \<and> rc_trading_gate c = TG_LOCKED
     \<and> (live_readonly_credentials_present c \<or> legacy_credentials_present c)"

text \<open>
  C37: The view of the live account is read-only, gated and audited. The request always returns; it
  shows a snapshot exactly under a consistent live configuration with the trading gate locked and
  read-only credentials present, it never permits an order, and it enters one audit record that
  carries the same verdict.
\<close>

theorem live_view_gated_and_audited:
  "\<exists>obj d. live_readonly_account_payload (\<lambda>k. Aware (f k)) (Some c) True rec
       = (Inr obj, snd (file_record_decision d (Aware (f 0)) rec))
     \<and> map_of obj ''accepted'' = Some (JBool (may_view_live c))
     \<and> df_decision d = (if may_view_live c then ''accepted'' else ''rejected'')
     \<and> (map_of obj ''snapshot'' = Some JNull \<longleftrightarrow> \<not> may_view_live c)
     \<and> map_of obj ''order_submission'' = Some (JStr ''forbidden'')"
proof -
  obtain res where res: "evaluate_command c (local_request CT_GET_LIVE_READONLY_ACCOUNT []) True = Inr res"
    and acc: "csr_accepted res \<longleftrightarrow> csr_reasons res = []"
      "csr_accepted res \<longleftrightarrow> config_errors c = [] \<and> rc_operator_mode c = OM_LIVE
         \<and> rc_venue_target c = VT_BINANCE_LIVE \<and> rc_credential_scope c = CS_READ_ONLY
         \<and> rc_trading_gate c = TG_LOCKED"
    by (rule live_view_accepts)
  define rs where "rs = live_readonly_reasons c res"
  have ok: "csr_accepted res \<and> rs = [] \<longleftrightarrow> may_view_live c"
    using acc by (auto simp: rs_def live_readonly_reasons_def may_view_live_def)
  define d where "d = \<lparr>df_command_type = ct_value CT_GET_LIVE_READONLY_ACCOUNT,
      df_actor_id = ''local_operator'', df_decision = (if may_view_live c then ''accepted'' else ''rejected''),
      df_reasons = rs, df_payload = [(''scope'', JStr ''live_readonly'')],
      df_runtime = as_object (config_to_status c)\<rparr>"
  obtain s where s: "live_snapshot_at (Aware (f 1)) = Inr s" using live_snapshot_total by blast
  obtain e r2 where e: "file_record_decision d (Aware (f 0)) rec = (Inr e, r2)"
    by (simp add: file_record_decision_def act_simps)
  define shown where "shown = (if may_view_live c then live_snapshot_to_public_dict s else JNull)"
  have snap: "(if may_view_live c then map_res live_snapshot_to_public_dict (live_snapshot_at (Aware (f 1)))
      else Inr JNull) = Inr shown"
    using s by (simp add: shown_def map_res_def)
  define obj where "obj = [(''status'', JStr ''ok''), (''service'', JStr ''live_readonly''),
         (''accepted'', JBool (may_view_live c)), (''reasons'', jstrs rs),
         (''runtime'', config_to_status c), (''credential_metadata'', backend_credential_metadata c),
         (''snapshot'', shown), (''audit_record'', audit_to_public_dict e),
         (''order_submission'', JStr ''forbidden'')]"
  have run: "live_readonly_account_payload (\<lambda>k. Aware (f k)) (Some c) True rec =
      (Inr obj, snd (file_record_decision d (Aware (f 0)) rec))"
    unfolding live_readonly_account_payload_def obj_def or_default_config_def Let_def option.case
    by (simp only: bind_act_of_res res sum.case rs_def [symmetric] ok d_def [symmetric] if_True
        bind_act_run [of "file_record_decision _ _"] bind_act_run [of "bind_act _ _"] e prod.case act_run snap snd_conv)
  have fields: "map_of obj ''accepted'' = Some (JBool (may_view_live c))"
    "map_of obj ''snapshot'' = Some shown" "map_of obj ''order_submission'' = Some (JStr ''forbidden'')"
    by (simp_all add: obj_def)
  have "shown = JNull \<longleftrightarrow> \<not> may_view_live c" using live_snapshot_object by (simp add: shown_def)
  moreover have "df_decision d = (if may_view_live c then ''accepted'' else ''rejected'')" by (simp add: d_def)
  ultimately show ?thesis using run fields by (metis option.inject)
qed

end
