(* ===== verification/Text_Store.thy ===== *)
theory Text_Store
  imports Json_Store Json_Text
begin

text \<open>
  \<open>services/storage/json_store.py\<close> down to the characters of its files: documents are printed with
  an indent of two, rows on one line each, and both are parsed when they are read. The store of
  \<open>Json_Store\<close>, whose files are sequences of values, is the abstraction of this one. Texts are read
  in universal newline mode; a character is a code point below 256.
\<close>

section \<open>Lines\<close>

definition line_feed :: char where "line_feed = CHR 0x0A"

text \<open>What reading in text mode makes of a file.\<close>

fun universal_newlines :: "string \<Rightarrow> string" where
  "universal_newlines (c # d # cs) =
     (if c = CHR 0x0D
      then if d = line_feed then line_feed # universal_newlines cs else line_feed # universal_newlines (d # cs)
      else c # universal_newlines (d # cs))"
| "universal_newlines cs = map (\<lambda>c. if c = CHR 0x0D then line_feed else c) cs"

definition breaks_line :: "char \<Rightarrow> bool" where
  "breaks_line c \<longleftrightarrow> c \<in> {line_feed, CHR 0x0D, CHR 0x0B, CHR 0x0C, CHR 0x1C, CHR 0x1D, CHR 0x1E, CHR 0x85}"

text \<open>\<open>str.splitlines\<close>\<close>

function split_lines :: "string \<Rightarrow> string list" where
  "split_lines s =
     (if s = [] then []
      else takeWhile (\<lambda>c. \<not> breaks_line c) s #
        split_lines (let r = dropWhile (\<lambda>c. \<not> breaks_line c) s
          in if take 2 r = [CHR 0x0D, line_feed] then drop 2 r else drop 1 r))"
  by pat_completeness auto
termination
proof (relation "measure length", simp)
  fix s :: string
  let ?r = "dropWhile (\<lambda>c. \<not> breaks_line c) s"
  assume "s \<noteq> []"
  then have "length ?r \<le> length s" "0 < length s" by (simp_all add: length_dropWhile_le)
  then have "length ?r - k < length s" if "0 < k" for k using that by linarith
  then show "(let r = ?r in if take 2 r = [CHR 0x0D, line_feed] then drop 2 r else drop 1 r, s) \<in> measure length"
    by (simp add: Let_def del: dropWhile_eq_Nil_conv)
qed

declare split_lines.simps [simp del]

definition blank_line :: "string \<Rightarrow> bool" where
  "blank_line = list_all (\<lambda>c. is_space c \<or> c = CHR 0x85 \<or> c = CHR 0xA0)"

section \<open>The store\<close>

record text_store =
  tx_root :: string
  tx_files :: "store_path \<rightharpoonup> string"

definition write_json_text :: "codec \<Rightarrow> string \<Rightarrow> json \<Rightarrow> text_store \<Rightarrow> text_store" where
  "write_json_text cd name payload st =
     st\<lparr>tx_files := (tx_files st)(store_path_of name \<mapsto> dumps cd Indented payload @ [line_feed])\<rparr>"

definition append_jsonl_text :: "codec \<Rightarrow> string \<Rightarrow> json \<Rightarrow> text_store \<Rightarrow> text_store" where
  "append_jsonl_text cd name payload st =
     (let p = store_path_of name;
          old = (case tx_files st p of None \<Rightarrow> '''' | Some t \<Rightarrow> t)
      in st\<lparr>tx_files := (tx_files st)(p \<mapsto> old @ dumps cd Spaced payload @ [line_feed])\<rparr>)"

definition loads_object :: "codec \<Rightarrow> string \<Rightarrow> string \<Rightarrow> json_object res" where
  "loads_object cd complaint t =
     (case loads cd t of
        None \<Rightarrow> not_one_document
      | Some (JObj kvs) \<Rightarrow> Inr kvs
      | Some _ \<Rightarrow> Inl (Raise ValueError complaint))"

definition read_json_text :: "codec \<Rightarrow> string \<Rightarrow> text_store \<Rightarrow> json_object res" where
  "read_json_text cd name st =
     (case tx_files st (store_path_of name) of
        None \<Rightarrow> Inr []
      | Some t \<Rightarrow> loads_object cd (name @ '' must contain a JSON object'') (universal_newlines t))"

definition read_jsonl_text :: "codec \<Rightarrow> string \<Rightarrow> text_store \<Rightarrow> json_object list res" where
  "read_jsonl_text cd name st =
     (case tx_files st (store_path_of name) of
        None \<Rightarrow> Inr []
      | Some t \<Rightarrow> mapM_res (loads_object cd (name @ '' JSONL rows must be objects''))
          (filter (\<lambda>line. \<not> blank_line line) (split_lines (universal_newlines t))))"

section \<open>The abstraction\<close>

fun chunk_text :: "codec \<Rightarrow> chunk \<Rightarrow> string" where
  "chunk_text cd (Doc v) = dumps cd Indented v @ [line_feed]"
| "chunk_text cd (Line v) = dumps cd Spaced v @ [line_feed]"

fun chunk_value :: "chunk \<Rightarrow> json" where
  "chunk_value (Doc v) = v"
| "chunk_value (Line v) = v"

definition file_text :: "codec \<Rightarrow> chunk list \<Rightarrow> string" where
  "file_text cd cs = concat (map (chunk_text cd) cs)"

definition storable :: "codec \<Rightarrow> json \<Rightarrow> bool" where
  "storable cd v = textual cd (decoded cd v)"

text \<open>The files of \<open>ts\<close> are the texts of the values that the files of \<open>st\<close> hold.\<close>

definition prints :: "codec \<Rightarrow> json_store \<Rightarrow> text_store \<Rightarrow> bool" where
  "prints cd st ts \<longleftrightarrow> tx_root ts = js_root st
     \<and> tx_files ts = (\<lambda>p. map_option (file_text cd) (js_files st p))
     \<and> (\<forall>p cs. js_files st p = Some cs \<longrightarrow> list_all (\<lambda>c. storable cd (chunk_value c)) cs)"

section \<open>Reading what was printed\<close>

lemma universal_newlines_plain: "CHR 0x0D \<notin> set s \<Longrightarrow> universal_newlines s = s"
  by (induction s rule: universal_newlines.induct) (auto intro: map_idI)

lemma split_lines_line:
  assumes "list_all (\<lambda>c. \<not> breaks_line c) s"
  shows "split_lines (s @ line_feed # t) = s # split_lines t"
proof -
  have "breaks_line line_feed" by (simp add: breaks_line_def)
  then have "takeWhile (\<lambda>c. \<not> breaks_line c) (s @ line_feed # t) = s"
    "dropWhile (\<lambda>c. \<not> breaks_line c) (s @ line_feed # t) = line_feed # t"
    using assms by (simp_all add: takeWhile_append2 dropWhile_append2 list_all_iff)
  then show ?thesis by (subst split_lines.simps) (simp add: line_feed_def numeral_2_eq_2)
qed

lemma printable_no_break: "printable c \<Longrightarrow> \<not> breaks_line c \<and> c \<noteq> CHR 0x0D"
  by (auto simp: printable_def breaks_line_def line_feed_def)

lemma dumps_plain: "storable cd v \<Longrightarrow> CHR 0x0D \<notin> set (dumps cd l v)"
  using printed_chars [of cd "decoded cd v" l 0] printable_no_break
  by (auto simp: storable_def dumps_def laid_out_def list_all_iff)

lemma chunk_plain: "storable cd (chunk_value c) \<Longrightarrow> CHR 0x0D \<notin> set (chunk_text cd c)"
  using dumps_plain by (cases c) (auto simp: line_feed_def)

lemma file_plain:
  "list_all (\<lambda>c. storable cd (chunk_value c)) cs \<Longrightarrow> universal_newlines (file_text cd cs) = file_text cd cs"
  by (rule universal_newlines_plain) (auto simp: file_text_def list_all_iff dest: chunk_plain)

lemma chunk_starts: "storable cd (chunk_value c) \<Longrightarrow> starts_value (chunk_text cd c @ t)"
  using printed_starts by (cases c) (simp_all add: storable_def dumps_def)

lemma read_document:
  assumes "list_all (\<lambda>c. storable cd (chunk_value c)) cs"
  shows "loads cd (file_text cd cs) = (case cs of [c] \<Rightarrow> Some (decoded cd (chunk_value c)) | _ \<Rightarrow> None)"
proof (cases cs rule: remdups_adj.cases)
  case 1
  then show ?thesis by (simp add: file_text_def loads_def skip_def)
next
  case (2 c)
  then show ?thesis
    using assms by (cases c) (simp_all add: file_text_def storable_def loads_dumps line_feed_def is_blank_def)
next
  case (3 c d cs')
  define z where "z = file_text cd (d # cs')"
  define l where "l = (case c of Doc _ \<Rightarrow> Indented | Line _ \<Rightarrow> Spaced)"
  have whole: "file_text cd cs = print_json l 0 (decoded cd (chunk_value c)) @ line_feed # z"
    unfolding 3(1) z_def l_def by (cases c) (simp_all add: file_text_def dumps_def)
  have "starts_value z" using assms chunk_starts [of cd d] by (simp add: z_def 3(1) file_text_def)
  then have "skip (line_feed # z) \<noteq> []"
    using starts_skip(1) [of z] by (cases z) (auto simp: skip_def line_feed_def is_blank_def starts_value_def)
  moreover have "textual cd (decoded cd (chunk_value c))" using assms by (simp add: 3(1) storable_def)
  ultimately show ?thesis
    unfolding whole by (subst parse_document) (simp_all add: 3(1) line_feed_def is_blank_def)
qed

section \<open>Reading rows\<close>

lemma flat_layout:
  assumes "\<forall>x xs. v \<noteq> JArr (x # xs)" "\<forall>x xs. v \<noteq> JObj (x # xs)"
  shows "print_json l n v = print_json l' n v"
proof (cases v)
  case (JArr xs)
  then show ?thesis using assms(1) by (cases xs) simp_all
next
  case (JObj xs)
  then show ?thesis using assms(2) by (cases xs) simp_all
qed simp_all

lemma printable_space: "is_space c \<Longrightarrow> printable c \<Longrightarrow> c = CHR '' ''"
  unfolding is_space_def by (elim insertE) (simp_all add: printable_def)

lemma not_blank_line:
  assumes "starts_value (c # s)" and "printable c"
  shows "\<not> blank_line (c # s)"
proof -
  have "c \<noteq> CHR '' ''" using assms(1) by (auto simp: starts_value_def is_blank_def)
  moreover have "c \<noteq> CHR 0x85" "c \<noteq> CHR 0xA0" using assms(2) by (auto simp: printable_def)
  ultimately show ?thesis using printable_space [OF _ assms(2)] by (auto simp: blank_line_def)
qed

definition text_rows :: "codec \<Rightarrow> string \<Rightarrow> string \<Rightarrow> json_object list res" where
  "text_rows cd complaint t = mapM_res (loads_object cd complaint) (filter (\<lambda>line. \<not> blank_line line) (split_lines t))"

lemma text_rows_line:
  assumes "list_all printable s" and "starts_value (s @ t)" "s \<noteq> []"
  shows "text_rows cd complaint (s @ line_feed # t) =
    bind_res (loads_object cd complaint s) (\<lambda>row. map_res (Cons row) (text_rows cd complaint t))"
proof -
  have "\<not> blank_line s" using assms not_blank_line [of "hd s" "tl s"] by (cases s) (auto simp: starts_value_def)
  moreover have "split_lines (s @ line_feed # t) = s # split_lines t"
    using assms(1) printable_no_break by (intro split_lines_line) (auto simp: list_all_iff)
  ultimately show ?thesis by (simp add: text_rows_def map_res_def)
qed

lemma decoded_object: "decoded cd (JObj kvs) = JObj (decoded_object cd kvs)"
  by (simp add: decoded_object_def)

lemma decoded_members:
  "decoded cd v = JArr (x # xs) \<Longrightarrow> \<exists>y ys. v = JArr (y # ys)"
  "decoded cd v = JObj (z # zs) \<Longrightarrow> \<exists>y ys. v = JObj (y # ys)"
proof -
  show "decoded cd v = JArr (x # xs) \<Longrightarrow> \<exists>y ys. v = JArr (y # ys)" by (cases v) auto
  show "\<exists>y ys. v = JObj (y # ys)" if "decoded cd v = JObj (z # zs)"
  proof (cases v)
    case (JObj kvs)
    with that show ?thesis by (cases kvs) simp_all
  qed (use that in simp_all)
qed

lemma text_rows_chunk:
  assumes "storable cd (chunk_value c)"
  shows "text_rows cd (name @ '' JSONL rows must be objects'') (chunk_text cd c @ t) =
    bind_res (map_res (decoded_object cd) (read_row name c))
      (\<lambda>row. map_res (Cons row) (text_rows cd (name @ '' JSONL rows must be objects'') t))"
proof -
  define v where "v = chunk_value c"
  have textual: "textual cd (decoded cd v)" using assms by (simp add: storable_def v_def)
  let ?line = "print_json Spaced 0 (decoded cd v)"
  have loads: "loads cd ?line = Some (decoded cd v)"
    using loads_dumps [OF textual, of "[]" Spaced] by (simp add: dumps_def)
  have row: "text_rows cd (name @ '' JSONL rows must be objects'') (?line @ line_feed # t) =
    bind_res (loads_object cd (name @ '' JSONL rows must be objects'') ?line)
      (\<lambda>row. map_res (Cons row) (text_rows cd (name @ '' JSONL rows must be objects'') t))"
    using printed_starts [OF textual, of Spaced 0 "[]"] one_line [OF textual, of Spaced 0]
    by (intro text_rows_line printed_starts [OF textual]) (auto simp: starts_value_def)
  have broken: "text_rows cd (name @ '' JSONL rows must be objects'') (b # line_feed # z) = not_one_document"
    if "b \<in> {CHR ''{'', CHR ''[''}" for b z
  proof -
    have "text_rows cd (name @ '' JSONL rows must be objects'') ([b] @ line_feed # z) =
      bind_res (loads_object cd (name @ '' JSONL rows must be objects'') [b])
        (\<lambda>row. map_res (Cons row) (text_rows cd (name @ '' JSONL rows must be objects'') z))"
      using that by (intro text_rows_line) (auto simp: literal_starts)
    then show ?thesis using that by (auto simp: loads_object_def not_one_document_def)
  qed
  consider (flat) "c = Line v \<or> c = Doc v \<and> (\<forall>x xs. v \<noteq> JArr (x # xs)) \<and> (\<forall>x xs. v \<noteq> JObj (x # xs))"
    | (items) x xs where "c = Doc (JArr (x # xs))" | (members) x xs where "c = Doc (JObj (x # xs))"
    unfolding v_def by (cases c) (simp, metis chunk_value.simps(1), simp)
  then show ?thesis
  proof cases
    case flat
    then have "(\<forall>x xs. decoded cd v \<noteq> JArr (x # xs)) \<and> (\<forall>x xs. decoded cd v \<noteq> JObj (x # xs))" if "c = Doc v"
      using that decoded_members by blast
    then have "chunk_text cd c = ?line @ [line_feed]"
      using flat flat_layout [of "decoded cd v" Indented 0 Spaced] by (auto simp: dumps_def)
    moreover have object: "loads_object cd (name @ '' JSONL rows must be objects'') ?line =
        (case decoded cd v of JObj kvs \<Rightarrow> Inr kvs
          | _ \<Rightarrow> Inl (Raise ValueError (name @ '' JSONL rows must be objects'')))"
      by (simp add: loads_object_def loads)
    have "map_res (decoded_object cd) (read_row name c)
        = loads_object cd (name @ '' JSONL rows must be objects'') ?line"
      using flat unfolding object
      by (cases v) (auto simp: read_row_def decoded_object_def split: list.splits)
    ultimately show ?thesis using row by simp
  next
    case items
    have "\<exists>z. chunk_text cd c @ t = CHR ''['' # line_feed # z"
      by (simp add: items dumps_def open_text_def line_at_def line_feed_def)
    with broken [of "CHR ''[''"] items show ?thesis by (auto simp: read_row_def not_one_document_def)
  next
    case members
    have "decoded_object cd (x # xs) \<noteq> []" by (simp add: decoded_object_def flip: length_greater_0_conv)
    then have "\<exists>z. chunk_text cd c @ t = CHR ''{'' # line_feed # z"
      by (simp add: members dumps_def decoded_object open_text_def line_at_def line_feed_def del: decoded.simps)
    with broken [of "CHR ''{''"] members show ?thesis by (auto simp: read_row_def not_one_document_def)
  qed
qed

lemma text_rows_file:
  assumes "list_all (\<lambda>c. storable cd (chunk_value c)) cs"
  shows "text_rows cd (name @ '' JSONL rows must be objects'') (file_text cd cs) =
    map_res (map (decoded_object cd)) (mapM_res (read_row name) cs)"
  using assms
proof (induction cs)
  case Nil
  then show ?case by (simp add: text_rows_def file_text_def split_lines.simps)
next
  case (Cons c cs)
  have "file_text cd (c # cs) = chunk_text cd c @ file_text cd cs" by (simp add: file_text_def)
  with Cons text_rows_chunk [of cd c name "file_text cd cs"] show ?case
    by (cases "read_row name c"; cases "mapM_res (read_row name) cs") simp_all
qed

lemma read_json_chunks:
  "js_files st (store_path_of m) = Some cs \<Longrightarrow> read_json m st =
    (case cs of [c] \<Rightarrow> (case chunk_value c of JObj kvs \<Rightarrow> Inr kvs
        | _ \<Rightarrow> Inl (Raise ValueError (m @ '' must contain a JSON object'')))
      | _ \<Rightarrow> not_one_document)"
  by (simp add: read_json_def Let_def split: list.split chunk.split)

lemma read_text_rows:
  assumes "prints cd st ts"
  shows "read_jsonl_text cd m ts = map_res (map (decoded_object cd)) (read_jsonl m st)"
proof (cases "js_files st (store_path_of m)")
  case (Some cs)
  with assms have "list_all (\<lambda>c. storable cd (chunk_value c)) cs" by (simp add: prints_def)
  with assms Some file_plain [OF this] text_rows_file [OF this, of m] show ?thesis
    by (simp add: prints_def read_jsonl_text_def read_jsonl_def text_rows_def)
qed (use assms in \<open>simp add: prints_def read_jsonl_text_def read_jsonl_def\<close>)

section \<open>Properties\<close>

text \<open>
  C10: The files on disk refine the store. If the files hold the texts of the values of the abstract
  store, then so they do after a document is written or a row appended, and every read - of a document,
  of rows, of a file of the wrong kind, of none - gives the value the abstract store gives, decoded, or
  the same error.
\<close>

theorem text_store_refines:
  assumes "prints cd st ts" and "storable cd v"
  shows "prints cd (write_json n v st) (write_json_text cd n v ts)
    \<and> prints cd (append_jsonl n v st) (append_jsonl_text cd n v ts)
    \<and> read_json_text cd m ts = map_res (decoded_object cd) (read_json m st)
    \<and> read_jsonl_text cd m ts = map_res (map (decoded_object cd)) (read_jsonl m st)"
proof (intro conjI)
  show "prints cd (write_json n v st) (write_json_text cd n v ts)"
    using assms by (auto simp: prints_def write_json_def write_json_text_def file_text_def split: if_splits)
  show "prints cd (append_jsonl n v st) (append_jsonl_text cd n v ts)"
    using assms by (auto simp: prints_def append_jsonl_def append_jsonl_text_def file_text_def Let_def fun_eq_iff
        split: if_splits option.splits)
  show "read_json_text cd m ts = map_res (decoded_object cd) (read_json m st)"
  proof (cases "js_files st (store_path_of m)")
    case (Some cs)
    with assms(1) have "list_all (\<lambda>c. storable cd (chunk_value c)) cs" by (simp add: prints_def)
    with assms(1) Some have read: "read_json_text cd m ts = (case cs of
        [c] \<Rightarrow> (case decoded cd (chunk_value c) of JObj kvs \<Rightarrow> Inr kvs
          | _ \<Rightarrow> Inl (Raise ValueError (m @ '' must contain a JSON object'')))
      | _ \<Rightarrow> not_one_document)"
      by (simp add: prints_def read_json_text_def loads_object_def file_plain read_document split: list.split)
    show ?thesis unfolding read read_json_chunks [OF Some]
      by (auto simp: not_one_document_def decoded_object_def split: list.split json.split)
  qed (use assms(1) in \<open>simp add: prints_def read_json_text_def read_json_def decoded_object_def\<close>)
  show "read_jsonl_text cd m ts = map_res (map (decoded_object cd)) (read_jsonl m st)"
    by (rule read_text_rows [OF assms(1)])
qed

theorem text_store_refines_witness:
  "\<exists>ts. read_jsonl_text plain_codec ''a'' (append_jsonl_text plain_codec ''a'' (JObj [(''k'', JSeconds 500000)]) ts)
      = Inr [[(''k'', JFloat ''0.5'')]]"
proof -
  define st where "st = open_store None Map.empty Map.empty"
  define ts where "ts = \<lparr>tx_root = js_root st, tx_files = Map.empty\<rparr>"
  define v where "v = JObj [(''k'', JSeconds 500000)]"
  have start: "prints plain_codec st ts" by (simp add: prints_def ts_def st_def open_store_def fun_eq_iff)
  have "printable_float plain_codec ''0.5''" by code_simp
  then have v: "storable plain_codec v" by (simp add: storable_def v_def plain_codec_def)
  have "prints plain_codec (append_jsonl ''a'' v st) (append_jsonl_text plain_codec ''a'' v ts)"
    using text_store_refines [OF start v, of "''a''" "''a''"] by simp
  from text_store_refines [OF this v, of "''a''" "''a''"]
  have "read_jsonl_text plain_codec ''a'' (append_jsonl_text plain_codec ''a'' v ts) =
      map_res (map (decoded_object plain_codec)) (read_jsonl ''a'' (append_jsonl ''a'' v st))" by simp
  also have "\<dots> = Inr [[(''k'', JFloat ''0.5'')]]"
    by (simp add: read_jsonl_def append_jsonl_def Let_def st_def open_store_def v_def read_row_def
        decoded_object_def plain_codec_def)
  finally show ?thesis unfolding v_def by blast
qed

end
