(* ===== verification/Replay_File.thy ===== *)
theory Replay_File
  imports Market_Replay Text_Store
begin

text \<open>
  Replay files of \<open>services/market_data/replay.py\<close> from their characters: the suffix of the path decides
  between a JSON list and a CSV table; the table is read by \<open>csv.DictReader\<close> in its default dialect,
  which is the state machine below. The bytes of a file and their decoding are not modelled.
\<close>

section \<open>The CSV reader\<close>

datatype csv_state = Start_Record | Start_Field | In_Field | In_Quoted | Quote_In_Quoted | Eat_Newline

record csv_reader =
  cr_state :: csv_state
  cr_field :: string
  cr_fields :: "string list"

definition csv_start :: csv_reader where
  "csv_start = \<lparr>cr_state = Start_Record, cr_field = '''', cr_fields = []\<rparr>"

definition csv_field_limit :: nat where "csv_field_limit = 131072"

definition csv_save :: "csv_state \<Rightarrow> csv_reader \<Rightarrow> csv_reader res" where
  "csv_save q r = Inr (r\<lparr>cr_state := q, cr_field := '''', cr_fields := cr_fields r @ [cr_field r]\<rparr>)"

definition csv_add :: "csv_state \<Rightarrow> char \<Rightarrow> csv_reader \<Rightarrow> csv_reader res" where
  "csv_add q c r =
     (if length (cr_field r) \<ge> csv_field_limit then Inl (Raise CsvError ''field larger than field limit (131072)'')
      else Inr (r\<lparr>cr_state := q, cr_field := cr_field r @ [c]\<rparr>))"

definition csv_enter :: "csv_state \<Rightarrow> csv_reader \<Rightarrow> csv_reader res" where
  "csv_enter q r = Inr (r\<lparr>cr_state := q\<rparr>)"

text \<open>One character, or the end of a line (\<open>None\<close>).\<close>

definition is_newline :: "char \<Rightarrow> bool" where
  "is_newline c \<longleftrightarrow> c = CHR 0x0A \<or> c = CHR 0x0D"

definition csv_first :: "char option \<Rightarrow> csv_reader \<Rightarrow> csv_reader res" where
  "csv_first x r =
     (case x of
        None \<Rightarrow> csv_save Start_Record r
      | Some c \<Rightarrow>
          if is_newline c then csv_save Eat_Newline r
          else if c = CHR 0x22 then csv_enter In_Quoted r
          else if c = CHR '','' then csv_save Start_Field r
          else csv_add In_Field c r)"

definition csv_step :: "csv_reader \<Rightarrow> char option \<Rightarrow> csv_reader res" where
  "csv_step r x =
     (case cr_state r of
        Start_Record \<Rightarrow>
          (case x of
             None \<Rightarrow> Inr r
           | Some c \<Rightarrow> if is_newline c then csv_enter Eat_Newline r else csv_first x r)
      | Start_Field \<Rightarrow> csv_first x r
      | In_Field \<Rightarrow>
          (case x of
             None \<Rightarrow> csv_save Start_Record r
           | Some c \<Rightarrow>
               if is_newline c then csv_save Eat_Newline r
               else if c = CHR '','' then csv_save Start_Field r
               else csv_add In_Field c r)
      | In_Quoted \<Rightarrow>
          (case x of
             None \<Rightarrow> Inr r
           | Some c \<Rightarrow> if c = CHR 0x22 then csv_enter Quote_In_Quoted r else csv_add In_Quoted c r)
      | Quote_In_Quoted \<Rightarrow>
          (case x of
             None \<Rightarrow> csv_save Start_Record r
           | Some c \<Rightarrow>
               if c = CHR 0x22 then csv_add In_Quoted c r
               else if c = CHR '','' then csv_save Start_Field r
               else if is_newline c then csv_save Eat_Newline r
               else csv_add In_Field c r)
      | Eat_Newline \<Rightarrow>
          (case x of
             None \<Rightarrow> csv_enter Start_Record r
           | Some c \<Rightarrow>
               if is_newline c then Inr r
               else Inl (Raise CsvError ''new-line character seen in unquoted field'')))"

text \<open>The lines of a file opened with \<open>newline=""\<close>, with their ends.\<close>

function file_lines :: "string \<Rightarrow> string list" where
  "file_lines s =
     (if s = [] then []
      else let l = takeWhile (\<lambda>c. \<not> is_newline c) s; r = dropWhile (\<lambda>c. \<not> is_newline c) s;
               k = (if take 2 r = [CHR 0x0D, CHR 0x0A] then 2 else 1)
           in (l @ take k r) # file_lines (drop k r))"
  by pat_completeness auto
termination
proof (relation "measure length", simp)
  fix s l r :: string and k :: nat
  assume a: "s \<noteq> []" "r = dropWhile (\<lambda>c. \<not> is_newline c) s" "k = (if take 2 r = [CHR 0x0D, CHR 0x0A] then 2 else 1)"
  have "length r \<le> length s" "0 < length s" "0 < k" using a by (simp_all add: length_dropWhile_le)
  then have "length r - k < length s" by linarith
  then show "(drop k r, s) \<in> measure length" by simp
qed

declare file_lines.simps [simp del]

text \<open>
  The records of the lines. A record ends with a line unless a quoted field is open; what is left
  open when the lines end is a record if there is anything of a field.
\<close>

fun csv_records :: "csv_reader \<Rightarrow> string list \<Rightarrow> string list list res" where
  "csv_records r [] =
     (if cr_field r \<noteq> '''' \<or> cr_state r = In_Quoted then Inr [cr_fields r @ [cr_field r]] else Inr [])"
| "csv_records r (l # ls) =
     bind_res (foldM_res csv_step r (map Some l @ [None])) (\<lambda>r'.
     if cr_state r' = Start_Record then map_res (Cons (cr_fields r')) (csv_records csv_start ls)
     else csv_records r' ls)"

text \<open>
  \<open>csv.DictReader\<close>: the first record names the fields, empty records are skipped. Fields that are
  missing are \<open>None\<close>; fields beyond the names go under the key \<open>None\<close>, which nobody asks for.
\<close>

definition csv_row :: "string list \<Rightarrow> string list \<Rightarrow> json_object" where
  "csv_row names values =
     dict_of (zip names (map JStr values) @ map (\<lambda>k. (k, JNull)) (drop (length values) names))"

definition dict_reader :: "string \<Rightarrow> json_object list res" where
  "dict_reader text =
     map_res (\<lambda>records. case records of [] \<Rightarrow> []
        | names # rows \<Rightarrow> map (csv_row names) (filter (\<lambda>r. r \<noteq> []) rows))
       (csv_records csv_start (file_lines text))"

section \<open>Loading a file\<close>

text \<open>\<open>Path(path).suffix\<close>\<close>

definition path_suffix :: "string \<Rightarrow> string" where
  "path_suffix path =
     (let parts = path_parts path; name = (if parts = [] then '''' else last parts);
          ext = rev (takeWhile (\<lambda>c. c \<noteq> CHR ''.'') (rev name))
      in if ext \<noteq> [] \<and> length ext + 1 < length name then ''.'' @ ext else '''')"

definition replay_file_of :: "codec \<Rightarrow> string \<Rightarrow> string \<Rightarrow> replay_file res" where
  "replay_file_of cd path content =
     (if lower (path_suffix path) = ''.json''
      then (case loads cd (universal_newlines content) of None \<Rightarrow> not_one_document | Some v \<Rightarrow> Inr (Json_File v))
      else map_res Csv_File (dict_reader content))"

definition load_replay_text ::
    "codec \<Rightarrow> (string \<Rightarrow> datetime option) \<Rightarrow> (nat \<Rightarrow> datetime) \<Rightarrow> string \<Rightarrow> string \<Rightarrow> depth_snapshot list res" where
  "load_replay_text cd fromiso clk path content =
     bind_res (replay_file_of cd path content) (load_replay_file fromiso clk)"

section \<open>Tables of plain fields\<close>

text \<open>Fields that need no quotes, and tables of them as text.\<close>

definition plain_field :: "string \<Rightarrow> bool" where
  "plain_field s \<longleftrightarrow> list_all (\<lambda>c. \<not> is_newline c \<and> c \<noteq> CHR 0x22 \<and> c \<noteq> CHR '','') s \<and> length s \<le> csv_field_limit"

definition plain_record :: "string list \<Rightarrow> bool" where
  "plain_record r \<longleftrightarrow> r \<noteq> [] \<and> r \<noteq> [''''] \<and> list_all plain_field r"

definition csv_text :: "string list list \<Rightarrow> string" where
  "csv_text rows = concat (map (\<lambda>r. join '','' r @ [line_feed]) rows)"

lemma line_feed_newline [simp]: "is_newline line_feed" "line_feed \<noteq> CHR 0x22" "line_feed \<noteq> CHR '',''"
  "\<not> is_newline (CHR '','')" "\<not> is_newline (CHR 0x22)"
  by (simp_all add: is_newline_def line_feed_def)

lemma file_lines_line:
  assumes "list_all (\<lambda>c. \<not> is_newline c) s"
  shows "file_lines (s @ line_feed # t) = (s @ [line_feed]) # file_lines t"
proof -
  have "takeWhile (\<lambda>c. \<not> is_newline c) (s @ line_feed # t) = s"
    "dropWhile (\<lambda>c. \<not> is_newline c) (s @ line_feed # t) = line_feed # t"
    using assms by (simp_all add: takeWhile_append2 dropWhile_append2 list_all_iff)
  then show ?thesis by (subst file_lines.simps) (simp add: line_feed_def numeral_2_eq_2)
qed

definition reading :: "csv_state \<Rightarrow> string \<Rightarrow> string list \<Rightarrow> csv_reader" where
  "reading q f fs = \<lparr>cr_state = q, cr_field = f, cr_fields = fs\<rparr>"

lemma reading_simps [simp]:
  "cr_state (reading q f fs) = q" "cr_field (reading q f fs) = f" "cr_fields (reading q f fs) = fs"
  "csv_save q' (reading q f fs) = Inr (reading q' '''' (fs @ [f]))"
  "csv_enter q' (reading q f fs) = Inr (reading q' f fs)"
  "length f < csv_field_limit \<Longrightarrow> csv_add q' c (reading q f fs) = Inr (reading q' (f @ [c]) fs)"
  by (simp_all add: reading_def csv_save_def csv_enter_def csv_add_def)

lemma read_on:
  "plain_field (f @ s) \<Longrightarrow> foldM_res csv_step (reading In_Field f fs) (map Some s @ xs)
    = foldM_res csv_step (reading In_Field (f @ s) fs) xs"
  by (induction s arbitrary: f) (simp_all add: plain_field_def csv_step_def)

lemma read_first:
  assumes "plain_field s" "s \<noteq> ''''" "q = Start_Field \<or> q = Start_Record"
  shows "foldM_res csv_step (reading q '''' fs) (map Some s @ xs) = foldM_res csv_step (reading In_Field s fs) xs"
proof -
  obtain c z where s: "s = c # z" using assms(2) by (cases s) auto
  have "csv_step (reading q '''' fs) (Some c) = Inr (reading In_Field [c] fs)"
    using assms s by (auto simp: plain_field_def csv_step_def csv_first_def csv_field_limit_def)
  then show ?thesis using read_on [of "[c]" z] assms(1) s by simp
qed

lemma read_field:
  assumes "plain_field s" "q = Start_Field \<or> q = Start_Record \<and> s \<noteq> ''''"
  shows "foldM_res csv_step (reading q '''' fs) (map Some s @ Some (CHR '','') # xs) =
      foldM_res csv_step (reading Start_Field '''' (fs @ [s])) xs"
    and "foldM_res csv_step (reading q '''' fs) (map Some s @ [Some line_feed, None]) =
      Inr (reading Start_Record '''' (fs @ [s]))"
  using assms read_first [OF assms(1)] by (cases "s = ''''"; auto simp: csv_step_def csv_first_def)+

lemma read_fields:
  "list_all plain_field rs \<Longrightarrow> rs \<noteq> [] \<Longrightarrow> q = Start_Field \<or> q = Start_Record \<and> join '','' rs \<noteq> '''' \<Longrightarrow>
   foldM_res csv_step (reading q '''' fs) (map Some (join '','' rs) @ [Some line_feed, None]) =
     Inr (reading Start_Record '''' (fs @ rs))"
proof (induction rs arbitrary: q fs rule: induct_list012)
  case (2 s)
  then show ?case using read_field(2) [of s q fs] by simp
next
  case (3 s t rs)
  show ?case
  proof (cases "s = ''''")
    case True
    then show ?thesis using 3 by (auto simp: csv_step_def csv_first_def)
  next
    case False
    then show ?thesis
      using 3 read_field(1) [of s q fs "map Some (join '','' (t # rs)) @ [Some line_feed, None]"] by auto
  qed
qed simp

lemma csv_start_reading: "csv_start = reading Start_Record '''' []"
  by (simp add: csv_start_def reading_def)

lemma plain_no_newline: "plain_field s \<Longrightarrow> list_all (\<lambda>c. \<not> is_newline c) s"
  unfolding plain_field_def by (erule conjE, erule list.pred_mono_strong) blast

lemma join_plain: "list_all plain_field r \<Longrightarrow> list_all (\<lambda>c. \<not> is_newline c) (join '','' r)"
  by (induction r rule: induct_list012) (simp_all add: plain_no_newline)

lemma join_empty: "join '','' r = '''' \<longleftrightarrow> r = [] \<or> r = ['''']"
  by (cases r rule: remdups_adj.cases) simp_all

lemma csv_records_text: "list_all plain_record rows \<Longrightarrow> csv_records csv_start (file_lines (csv_text rows)) = Inr rows"
proof (induction rows)
  case Nil
  then show ?case by (simp add: csv_text_def file_lines.simps csv_start_def)
next
  case (Cons r rows)
  have lines: "file_lines (csv_text (r # rows)) = (join '','' r @ [line_feed]) # file_lines (csv_text rows)"
    using file_lines_line [OF join_plain, of r] Cons.prems by (simp add: csv_text_def plain_record_def)
  have "foldM_res csv_step csv_start (map Some (join '','' r @ [line_feed]) @ [None]) = Inr (reading Start_Record '''' r)"
    using Cons.prems read_fields [of r Start_Record "[]"]
    by (simp add: csv_start_reading plain_record_def join_empty)
  with Cons show ?case by (simp add: lines del: map_append)
qed

text \<open>The object that a row of a table stands for.\<close>

definition row_object :: "string list \<Rightarrow> string list \<Rightarrow> json" where
  "row_object names values = JObj (zip names (map JStr values))"

lemma dict_reader_text:
  assumes "list_all plain_record (names # rows)" "distinct names" "list_all (\<lambda>r. length r = length names) rows"
  shows "dict_reader (csv_text (names # rows)) = Inr (map (\<lambda>r. zip names (map JStr r)) rows)"
proof -
  have "filter (\<lambda>r. r \<noteq> []) rows = rows"
    using assms(1) by (auto simp: plain_record_def list_all_iff intro: filter_True)
  moreover have "csv_row names r = zip names (map JStr r)" if "r \<in> set rows" for r
    using assms(2,3) that by (simp add: csv_row_def list_all_iff dict_of_distinct)
  ultimately show ?thesis by (simp add: dict_reader_def csv_records_text [OF assms(1)])
qed

section \<open>Rows that differ in the order of their keys\<close>

lemma snapshot_by_lookup:
  "map_of a = map_of b \<Longrightarrow> snapshot_from_mapping fromiso t u (JObj a) = snapshot_from_mapping fromiso t u (JObj b)"
  by (simp add: snapshot_from_mapping_def as_mapping_def jget_default_def field_of_def)

lemma load_by_lookup:
  assumes "list_all2 (\<lambda>a b. \<exists>x y. a = JObj x \<and> b = JObj y \<and> map_of x = map_of y) xs ys"
  shows "load_replay_file fromiso clk (Json_File (JArr xs)) = load_replay_file fromiso clk (Json_File (JArr ys))"
proof -
  have "mapM_res (\<lambda>(n, row). snapshot_from_mapping fromiso (clk (2 * n)) (clk (2 * n + 1)) row) (enumerate k xs)
      = mapM_res (\<lambda>(n, row). snapshot_from_mapping fromiso (clk (2 * n)) (clk (2 * n + 1)) row) (enumerate k ys)" for k
    using assms
  proof (induction xs ys arbitrary: k rule: list_all2_induct)
    case (Cons x xs y ys)
    then obtain a b where "x = JObj a" "y = JObj b" "map_of a = map_of b" by blast
    with Cons.IH snapshot_by_lookup [OF this(3)] show ?case by simp
  qed simp
  then show ?thesis by (simp add: load_replay_file_def)
qed

lemma decoded_row:
  assumes "distinct names" "length r = length names"
  shows "decoded cd (row_object names r) = JObj (sort_key fst (zip names (map JStr r)))"
    and "textual cd (decoded cd (row_object names r))"
proof -
  have "map (\<lambda>(k, v). (k, decoded cd v)) (zip names (map JStr r)) = zip names (map JStr r)"
    by (simp add: zip_map2 split_def)
  then show d: "decoded cd (row_object names r) = JObj (sort_key fst (zip names (map JStr r)))"
    by (simp add: row_object_def)
  have "distinct (map fst (sort_key fst (zip names (map JStr r))))"
    unfolding distinct_sorted using assms by simp
  then show "textual cd (decoded cd (row_object names r))"
    unfolding d by (auto simp: list_all_iff dest!: set_zip_rightD)
qed

section \<open>Properties\<close>

text \<open>
  C33: A table and a list of objects load alike. A CSV file of plain fields with distinct column names,
  and a JSON file of the list of its rows as objects, in whatever layout, give the same snapshots or
  raise the same error.
\<close>

theorem csv_and_json_replays_agree:
  assumes "distinct names" and "list_all plain_record (names # rows)"
    and "list_all (\<lambda>r. length r = length names) rows"
    and "lower (path_suffix table) \<noteq> ''.json''" and "lower (path_suffix doc) = ''.json''"
  shows "load_replay_text cd fromiso clk table (csv_text (names # rows))
    = load_replay_text cd fromiso clk doc (dumps cd l (JArr (map (row_object names) rows)))"
proof -
  let ?rows = "map (row_object names) rows"
  have textual: "textual cd (decoded cd (JArr ?rows))"
    using decoded_row(2) [OF assms(1)] assms(3) by (simp add: list.pred_map comp_def) (erule list.pred_mono_strong)
  have "CHR 0x0D \<notin> set (dumps cd l (JArr ?rows))"
    using textual by (intro dumps_plain) (simp only: storable_def)
  then have "replay_file_of cd doc (dumps cd l (JArr ?rows)) = Inr (Json_File (decoded cd (JArr ?rows)))"
    using loads_dumps [OF textual, of "[]" l] assms(5)
    by (simp add: replay_file_of_def universal_newlines_plain del: decoded.simps)
  moreover have "replay_file_of cd table (csv_text (names # rows)) = Inr (Csv_File (map (\<lambda>r. zip names (map JStr r)) rows))"
    using dict_reader_text [OF assms(2,1,3)] assms(4) by (simp add: replay_file_of_def)
  moreover have "load_replay_file fromiso clk (Csv_File (map (\<lambda>r. zip names (map JStr r)) rows))
      = load_replay_file fromiso clk (Json_File (JArr ?rows))"
    by (simp add: load_replay_file_def row_object_def [abs_def] comp_def)
  moreover have "\<dots> = load_replay_file fromiso clk (Json_File (decoded cd (JArr ?rows)))"
  proof -
    have "list_all2 (\<lambda>a b. \<exists>x y. a = JObj x \<and> b = JObj y \<and> map_of x = map_of y) ?rows (map (decoded cd) ?rows)"
      using assms(1,3) decoded_row(1)
      by (auto simp: list_all2_conv_all_nth list_all_length row_object_def map_of_sorted)
    then show ?thesis using load_by_lookup by simp
  qed
  ultimately show ?thesis by (simp add: load_replay_text_def del: decoded.simps)
qed

theorem csv_and_json_replays_agree_witness:
  "\<exists>s. load_replay_text plain_codec Map.empty (\<lambda>_. Aware 0) ''day.csv''
        (csv_text [[''symbol'', ''bid'', ''ask''], [''BTCUSDC'', ''4'', ''5'']]) = Inr [s]
     \<and> load_replay_text plain_codec Map.empty (\<lambda>_. Aware 0) ''day.json''
        (dumps plain_codec Spaced (JArr [row_object [''symbol'', ''bid'', ''ask''] [''BTCUSDC'', ''4'', ''5'']])) = Inr [s]
     \<and> ds_bid s = Dec 4 0"
proof -
  let ?names = "[''symbol'', ''bid'', ''ask'']" and ?rows = "[[''BTCUSDC'', ''4'', ''5'']]"
  have plain: "list_all plain_record (?names # ?rows)"
    by (simp add: plain_record_def plain_field_def is_newline_def csv_field_limit_def)
  have paths: "lower (path_suffix ''day.csv'') \<noteq> ''.json''" "lower (path_suffix ''day.json'') = ''.json''" by code_simp+
  let ?row = "[(''symbol'', JStr ''BTCUSDC''), (''bid'', JStr ''4''), (''ask'', JStr ''5'')]"
  have "load_replay_text plain_codec Map.empty (\<lambda>_. Aware 0) ''day.csv'' (csv_text (?names # ?rows))
      = load_replay_file Map.empty (\<lambda>_. Aware 0) (Csv_File [?row])"
    using paths(1) dict_reader_text [OF plain] by (simp add: load_replay_text_def replay_file_of_def)
  moreover have "case load_replay_file Map.empty (\<lambda>_. Aware 0) (Csv_File [?row]) of
      Inr [s] \<Rightarrow> ds_bid s = Dec 4 0 | _ \<Rightarrow> False" by code_simp
  ultimately obtain s where
    "load_replay_text plain_codec Map.empty (\<lambda>_. Aware 0) ''day.csv'' (csv_text (?names # ?rows)) = Inr [s]"
    "ds_bid s = Dec 4 0" by (auto split: sum.splits list.splits)
  with csv_and_json_replays_agree [OF _ plain _ paths, of plain_codec Map.empty "\<lambda>_. Aware 0" Spaced] show ?thesis
    by (intro exI [of _ s]) simp
qed

end
