(* ===== verification/Api_Server.thy ===== *)
theory Api_Server
  imports Paper_Exchange Strategy_Sessions Model_Governance Binance_Lanes Replay_File
begin

text \<open>
  \<open>apps/api/server.py\<close>: the request handlers of the API and their dispatch. The module's global
  recorder, exchange, strategy manager and governance store, and the directory of the backtest
  reports, are one state; a handler that is given other objects runs on a state that holds those.
  \<open>env\<close> is the process environment, \<open>clks n\<close> the clock readings of the call number \<open>n\<close> inside a
  handler, \<open>opened\<close> the text of a file that is there to open, and a codec says how JSON texts spell
  the strings and floats of a body. A stored response is a JSON value; the socket
  is not modelled.
\<close>

section \<open>State\<close>

record api_state =
  ap_exchange :: exchange
  ap_recorder :: file_recorder
  ap_manager :: strategy_manager
  ap_models :: governance_store
  ap_disk :: json_store

text \<open>An operation of one component, run on the state that holds it.\<close>

definition zoom :: "('s \<Rightarrow> 't) \<Rightarrow> ('t \<Rightarrow> 's \<Rightarrow> 's) \<Rightarrow> ('t, 'a) act \<Rightarrow> ('s, 'a) act" where
  "zoom part put m = (\<lambda>s. case m (part s) of (r, t) \<Rightarrow> (r, put t s))"

definition on_exchange :: "(exchange, 'a) act \<Rightarrow> (api_state, 'a) act" where
  "on_exchange = zoom ap_exchange (\<lambda>x s. s\<lparr>ap_exchange := x\<rparr>)"

definition on_recorder :: "(file_recorder, 'a) act \<Rightarrow> (api_state, 'a) act" where
  "on_recorder = zoom ap_recorder (\<lambda>r s. s\<lparr>ap_recorder := r\<rparr>)"

definition on_manager :: "(strategy_manager, 'a) act \<Rightarrow> (api_state, 'a) act" where
  "on_manager = zoom ap_manager (\<lambda>m s. s\<lparr>ap_manager := m\<rparr>)"

definition on_disk :: "(json_store, 'a) act \<Rightarrow> (api_state, 'a) act" where
  "on_disk = zoom ap_disk (\<lambda>d s. s\<lparr>ap_disk := d\<rparr>)"

definition shown :: "('s \<Rightarrow> 'a res) \<Rightarrow> ('s, 'a) act" where
  "shown f = bind_act (gets f) of_res"

text \<open>
  The objects that importing the module creates: the governance store, the recorder over its log,
  the paper exchange and the strategy manager, each over the state directory.
\<close>

definition start_api ::
    "(string \<rightharpoonup> string) \<Rightarrow> (store_path \<rightharpoonup> chunk list) \<Rightarrow> (nat \<Rightarrow> clock) \<Rightarrow> api_state res" where
  "start_api env files clks =
     (let disk = open_store None env files
      in bind_res (open_recorder disk default_jsonl_name) (\<lambda>recorder.
         bind_res (default_paper_exchange env files (clks 1 0)) (\<lambda>exchange.
         Inr \<lparr>ap_exchange = exchange, ap_recorder = recorder, ap_manager = new_manager None (clks 2 0),
              ap_models = default_governance_store (clks 0) disk, ap_disk = disk\<rparr>)))"

section \<open>Payloads of the handlers\<close>

definition health_payload :: json_object where
  "health_payload = [(''status'', JStr ''ok''), (''service'', JStr ''api'')]"

definition selected_config :: "(string \<rightharpoonup> string) \<Rightarrow> runtime_config option \<Rightarrow> runtime_config res" where
  "selected_config env config = (case config of Some c \<Rightarrow> Inr c | None \<Rightarrow> from_env env)"

definition status_payload :: "(string \<rightharpoonup> string) \<Rightarrow> runtime_config option \<Rightarrow> json_object res" where
  "status_payload env config =
     bind_res (selected_config env config) (\<lambda>runtime.
     Inr [(''status'', JStr ''ok''), (''service'', JStr ''api''), (''runtime'', config_to_status runtime),
          (''placeholders'', JObj [(''frontend'', JStr ''expected''), (''api'', JStr ''running''),
             (''database'', JStr ''expected''), (''redis'', JStr ''expected''),
             (''monitoring'', JStr ''expected'')])])"

definition audit_payload :: "file_recorder \<Rightarrow> json_object" where
  "audit_payload r =
     [(''status'', JStr ''ok''), (''service'', JStr ''audit''),
      (''records'', JArr (records_to_public_list (fr_records r)))]"

definition audited_facts ::
    "command_request \<Rightarrow> command_safety_result \<Rightarrow> runtime_config \<Rightarrow> decision_facts" where
  "audited_facts request result runtime =
     \<lparr>df_command_type = ct_value (cr_command_type request), df_actor_id = cr_actor_id request,
      df_decision = (if csr_accepted result then ''accepted'' else ''rejected''),
      df_reasons = csr_reasons result, df_payload = cr_payload request,
      df_runtime = as_object (config_to_status runtime)\<rparr>"

definition audit_command_result ::
    "datetime \<Rightarrow> command_request \<Rightarrow> command_safety_result \<Rightarrow> runtime_config \<Rightarrow> (api_state, json) act" where
  "audit_command_result now request result runtime =
     bind_act (on_recorder (file_record_decision (audited_facts request result runtime) now))
       (\<lambda>entry. ret (audit_to_public_dict entry))"

definition validate_command_payload ::
    "(string \<rightharpoonup> string) \<Rightarrow> datetime \<Rightarrow> json_object \<Rightarrow> runtime_config option \<Rightarrow> (api_state, json_object) act" where
  "validate_command_payload env now body config =
     bind_act (of_res (selected_config env config)) (\<lambda>runtime.
     bind_act (of_res (command_request_from_mapping body)) (\<lambda>request.
     bind_act (of_res (evaluate_command runtime request False)) (\<lambda>result.
     bind_act (audit_command_result now request result runtime) (\<lambda>record.
     ret [(''status'', JStr ''ok''), (''service'', JStr ''api''),
          (''command'', safety_result_to_public_dict result), (''audit_record'', record),
          (''execution'', JStr ''not_performed'')]))))"

text \<open>The payload of \<open>_command_gate\<close> and whether it accepts.\<close>

definition command_gate ::
    "(string \<rightharpoonup> string) \<Rightarrow> datetime \<Rightarrow> command_type \<Rightarrow> json_object \<Rightarrow> runtime_config option \<Rightarrow> bool
     \<Rightarrow> (api_state, json_object \<times> bool) act" where
  "command_gate env now ct payload config fee_model =
     bind_act (of_res (selected_config env config)) (\<lambda>runtime.
     bind_act (of_res (evaluate_command runtime (local_request ct payload) fee_model)) (\<lambda>result.
     bind_act (audit_command_result now (local_request ct payload) result runtime) (\<lambda>record.
     ret ([(''command'', safety_result_to_public_dict result), (''audit_record'', record)],
          csr_accepted result))))"

definition paper_preview_payload :: "datetime \<Rightarrow> json_object \<Rightarrow> (api_state, json_object) act" where
  "paper_preview_payload now body =
     bind_act (of_res (intent_from_mapping body)) (\<lambda>intent.
     bind_act (shown (\<lambda>s. bind_res (preview_order (ap_exchange s) intent now) preview_to_public_dict)) (\<lambda>preview.
     ret [(''status'', JStr ''ok''), (''service'', JStr ''paper_exchange''), (''preview'', preview),
          (''execution'', JStr ''paper_only'')]))"

definition paper_submit_payload ::
    "(string \<rightharpoonup> string) \<Rightarrow> (nat \<Rightarrow> clock) \<Rightarrow> json_object \<Rightarrow> runtime_config option
     \<Rightarrow> (api_state, json_object) act" where
  "paper_submit_payload env clks body config =
     bind_act (command_gate env (clks 0 0) CT_SUBMIT_PAPER_ORDER body config True) (\<lambda>(gate, accepted).
     let head = [(''status'', JStr ''ok''), (''service'', JStr ''paper_exchange'')] @ gate
     in if \<not> accepted
        then ret (head @ [(''paper_result'', JNull), (''execution'', JStr ''not_performed'')])
        else bind_act (of_res (intent_from_mapping body)) (\<lambda>intent.
             bind_act (on_exchange (submit_order (clks 1) None intent)) (\<lambda>result.
             bind_act (of_res (submit_result_to_public_dict result)) (\<lambda>paper_result.
             ret (head @ [(''paper_result'', paper_result), (''execution'', JStr ''paper_only'')])))))"

definition paper_reset_payload :: "(nat \<Rightarrow> clock) \<Rightarrow> (api_state, json_object) act" where
  "paper_reset_payload clks =
     bind_act (on_exchange (reset_exchange (clks 0))) (\<lambda>_.
     bind_act (shown (\<lambda>s. exchange_portfolio_payload (ap_exchange s))) (\<lambda>portfolio.
     ret [(''status'', JStr ''ok''), (''service'', JStr ''paper_exchange''), (''reset'', JBool True),
          (''portfolio'', JObj portfolio)]))"

definition paper_process_payload :: "(nat \<Rightarrow> clock) \<Rightarrow> (api_state, json_object) act" where
  "paper_process_payload clks = on_exchange (process_open_orders (clks 0) None)"

definition strategy_start_payload ::
    "(nat \<Rightarrow> clock) \<Rightarrow> json_object option \<Rightarrow> (api_state, json_object) act" where
  "strategy_start_payload clks body =
     (let family = py_str (jget_default (case body of None \<Rightarrow> [] | Some b \<Rightarrow> b) ''family'' (JStr default_family))
      in bind_act (on_manager (start_session (clks 0) family)) (\<lambda>session.
         bind_act (on_manager (recommendations_of (clks 1))) (\<lambda>recs.
         ret [(''status'', JStr ''ok''), (''service'', JStr ''strategy_sessions''),
              (''session'', session_to_public_dict session),
              (''recommendations'', JArr (map recommendation_to_public_dict recs))])))"

definition session_payload :: "strategy_session option \<Rightarrow> json_object" where
  "session_payload session =
     [(''status'', JStr ''ok''), (''service'', JStr ''strategy_sessions''),
      (''session'', jopt session_to_public_dict session)]"

definition strategy_pause_payload :: "(nat \<Rightarrow> clock) \<Rightarrow> (api_state, json_object) act" where
  "strategy_pause_payload clks =
     bind_act (on_manager (pause_latest (clks 0))) (\<lambda>session. ret (session_payload session))"

definition strategy_stop_payload :: "(nat \<Rightarrow> clock) \<Rightarrow> (api_state, json_object) act" where
  "strategy_stop_payload clks =
     bind_act (on_manager (stop_latest (clks 0))) (\<lambda>session. ret (session_payload session))"

definition backtest_run_payload ::
    "codec \<Rightarrow> (string \<Rightarrow> datetime option) \<Rightarrow> (string \<Rightarrow> string res) \<Rightarrow> (nat \<Rightarrow> clock) \<Rightarrow> json_object option
     \<Rightarrow> (api_state, json_object) act" where
  "backtest_run_payload cd fromiso opened clks body =
     (let file = jget_default (case body of None \<Rightarrow> [] | Some b \<Rightarrow> b) ''replay_file'' JNull
      in bind_act (of_res (if truthy file
           then bind_res (opened (py_str file)) (\<lambda>content.
               map_res Some (load_replay_text cd fromiso (clks 0) (py_str file) content))
           else Inr None)) (\<lambda>snapshots.
         on_disk (backtest_report_payload snapshots True)))"

section \<open>Routes\<close>

record http_answer =
  ha_status :: nat
  ha_body :: json_object

definition answer_with :: "nat \<Rightarrow> json_object \<Rightarrow> http_answer" where
  "answer_with code body = \<lparr>ha_status = code, ha_body = body\<rparr>"

text \<open>
  The world outside: the environment, the parser of times, the texts of files, the clock readings of
  the calls, and the codec of request bodies.
\<close>

record world =
  wo_env :: "string \<rightharpoonup> string"
  wo_fromiso :: "string \<rightharpoonup> datetime"
  wo_open :: "string \<Rightarrow> string res"
  wo_clks :: "nat \<Rightarrow> clock"
  wo_codec :: codec

type_synonym handler = "(api_state, json_object) act"

definition pure_payload :: "json_object \<Rightarrow> handler" where
  "pure_payload body = ret body"

definition get_routes :: "world \<Rightarrow> (string \<times> handler) list" where
  "get_routes w =
     (let now = wo_clks w 0 0; env = wo_env w
      in [(''/health'', pure_payload health_payload),
          (''/status'', of_res (status_payload env None)),
          (''/control-surface'', pure_payload (as_object control_surface_payload)),
          (''/symbol-universe'', pure_payload (as_object symbol_universe_payload)),
          (''/exchange-state'', of_res (exchange_state_payload now)),
          (''/account-state'', of_res (account_state_payload now)),
          (''/symbol-metadata'', of_res (symbol_metadata_payload now)),
          (''/fee-policy'', of_res (fee_policy_payload now)),
          (''/risk/status'', of_res (map_res (\<lambda>c. as_object (risk_status_payload c)) (from_env env))),
          (''/audit/records'', gets (\<lambda>s. audit_payload (ap_recorder s))),
          (''/paper'', shown (\<lambda>s. summary_payload (ap_exchange s) now)),
          (''/paper/portfolio'', shown (\<lambda>s. exchange_portfolio_payload (ap_exchange s))),
          (''/paper/orders'', shown (\<lambda>s. orders_payload (ap_exchange s))),
          (''/paper/reconciliation'', gets (\<lambda>s. reconciliation_payload (ap_exchange s))),
          (''/research/features'', of_res (replay_payload None ''synthetic_in_repo_fixture'')),
          (''/backtests/report'', on_disk (backtest_report_payload None True)),
          (''/strategy/sessions'', gets (\<lambda>s. sessions_payload (ap_manager s))),
          (''/strategy/recommendations'', on_manager (recommendations_payload (wo_clks w 0))),
          (''/models/registry'', gets (\<lambda>s. registry_payload (ap_models s))),
          (''/models/features'', gets (\<lambda>s. features_payload (ap_models s))),
          (''/models/evaluations'', gets (\<lambda>s. evaluations_payload (ap_models s))),
          (''/models/decisions'', gets (\<lambda>s. decisions_payload (ap_models s))),
          (''/binance/testnet/validation'',
             of_res (bind_res (from_env env) (\<lambda>c. testnet_validation_payload (Some c)))),
          (''/live/readonly'', bind_act (of_res (from_env env)) (\<lambda>c.
             on_recorder (live_readonly_account_payload (wo_clks w 0) (Some c) True)))])"

definition available_paths :: "string list" where
  "available_paths = [''/health'', ''/status'', ''/control-surface'', ''/symbol-universe'',
     ''/exchange-state'', ''/account-state'', ''/symbol-metadata'', ''/fee-policy'', ''/risk/status'',
     ''/audit/records'', ''/paper'', ''/paper/portfolio'', ''/paper/orders'', ''/paper/reconciliation'',
     ''/paper/process'', ''/research/features'', ''/backtests/report'', ''/strategy/sessions'',
     ''/strategy/recommendations'', ''/models/registry'', ''/models/features'', ''/models/evaluations'',
     ''/models/decisions'', ''/models/recommendation-preview'', ''/binance/testnet/validation'',
     ''/binance/testnet/order/validate'', ''/live/readonly'', ''/live/orders'']"

definition do_get :: "world \<Rightarrow> string \<Rightarrow> (api_state, http_answer) act" where
  "do_get w path =
     (case map_of (get_routes w) path of
        Some h \<Rightarrow> bind_act h (\<lambda>body. ret (answer_with 200 body))
      | None \<Rightarrow> ret (answer_with 404
          [(''status'', JStr ''not_found''), (''available'', jstrs available_paths)]))"

definition order_id_of :: "json_object \<Rightarrow> string" where
  "order_id_of payload = py_str (jget_default payload ''order_id'' (JStr ''''))"

definition post_routes :: "world \<Rightarrow> (string \<times> (json_object \<Rightarrow> handler)) list" where
  "post_routes w =
     (let clks = wo_clks w; env = wo_env w
      in [(''/commands/validate'', \<lambda>body. validate_command_payload env (clks 0 0) body None),
          (''/paper/preview'', \<lambda>body. paper_preview_payload (clks 0 0) body),
          (''/paper/orders'', \<lambda>body. paper_submit_payload env clks body None),
          (''/paper/reset'', \<lambda>_. paper_reset_payload clks),
          (''/paper/cancel'', \<lambda>body. on_exchange (cancel_order (clks 0) (order_id_of body))),
          (''/paper/expire'', \<lambda>body. on_exchange (expire_order (clks 0) (order_id_of body))),
          (''/paper/process'', \<lambda>_. paper_process_payload clks),
          (''/paper/panic/halt'', \<lambda>_. on_exchange (panic_halt (clks 0))),
          (''/paper/panic/cancel'', \<lambda>_. on_exchange (panic_cancel_open_orders (clks 0))),
          (''/paper/panic/flatten'', \<lambda>_. on_exchange (panic_flatten_positions (clks 0))),
          (''/strategy/sessions/start'', \<lambda>body. strategy_start_payload clks (Some body)),
          (''/backtests/run'', \<lambda>body. backtest_run_payload (wo_codec w) (wo_fromiso w) (wo_open w) clks (Some body)),
          (''/strategy/sessions/pause'', \<lambda>_. strategy_pause_payload clks),
          (''/strategy/sessions/stop'', \<lambda>_. strategy_stop_payload clks),
          (''/models/recommendation-preview'',
             \<lambda>body. shown (\<lambda>s. recommendation_preview_payload (Some body) None (ap_models s))),
          (''/binance/testnet/order/validate'', \<lambda>body. bind_act (of_res (from_env env)) (\<lambda>c.
             of_res (testnet_order_validation_payload (clks 0 0) (Some body) (Some c)))),
          (''/live/orders'', \<lambda>_. of_res (map_res (\<lambda>c. live_order_rejection_payload (Some c)) (from_env env)))])"

section \<open>Request bodies\<close>

definition max_request_bytes :: int where "max_request_bytes = 64000"

text \<open>\<open>rfile.read(length)\<close>: a negative length reads until the client closes its side.\<close>

definition read_body :: "int \<Rightarrow> string \<Rightarrow> string" where
  "read_body n stream = (if n < 0 then stream else take (nat n) stream)"

definition bad_request :: "string \<Rightarrow> http_answer" where
  "bad_request reason = answer_with 400 [(''status'', JStr ''bad_request''), (''reason'', JStr reason)]"

fun error_text :: "py_error \<Rightarrow> string" where
  "error_text (Raise _ message) = message"

definition parse_body :: "codec \<Rightarrow> string \<Rightarrow> json_object res" where
  "parse_body cd body =
     (if body = '''' then Inr []
      else case loads cd body of
        None \<Rightarrow> Inl (Raise ValueError ''JSONDecodeError'')
      | Some (JObj kvs) \<Rightarrow> Inr kvs
      | Some _ \<Rightarrow> Inl (Raise ValueError ''request body must be a JSON object''))"

text \<open>\<open>except ValueError\<close> around an operation: the state it leaves stays.\<close>

definition catch_value_error :: "('s, 'a) act \<Rightarrow> (string \<Rightarrow> ('s, 'a) act) \<Rightarrow> ('s, 'a) act" where
  "catch_value_error m handle = (\<lambda>s. case m s of
     (Inl e, t) \<Rightarrow> if is_value_error e then handle (error_text e) t else (Inl e, t)
   | (Inr x, t) \<Rightarrow> (Inr x, t))"

definition handle_json_payload ::
    "codec \<Rightarrow> string option \<Rightarrow> string \<Rightarrow> (json_object \<Rightarrow> handler) \<Rightarrow> (api_state, http_answer) act" where
  "handle_json_payload cd content_length stream h =
     (case int_of_text (case content_length of None \<Rightarrow> ''0'' | Some t \<Rightarrow> t) of
        Inl _ \<Rightarrow> ret (bad_request ''invalid content length'')
      | Inr n \<Rightarrow>
          if n > max_request_bytes
          then ret (answer_with 413 [(''status'', JStr ''too_large''),
                 (''reason'', JStr ''request body is too large'')])
          else catch_value_error
            (bind_act (of_res (parse_body cd (read_body n stream))) (\<lambda>payload.
             bind_act (h payload) (\<lambda>response. ret (answer_with 200 response))))
            (\<lambda>message. ret (bad_request message)))"

definition do_post :: "world \<Rightarrow> string \<Rightarrow> string option \<Rightarrow> string \<Rightarrow> (api_state, http_answer) act" where
  "do_post w path content_length stream =
     (case map_of (post_routes w) path of
        Some h \<Rightarrow> handle_json_payload (wo_codec w) content_length stream h
      | None \<Rightarrow> ret (answer_with 405 [(''status'', JStr ''method_not_allowed''),
          (''reason'', JStr ''endpoint does not support this method'')]))"

end
