(* ===== verification/Api_Runs.thy ===== *)
theory Api_Runs
  imports Api_Server Exchange_Safety
begin

text \<open>
  What requests can do to the state of the API. A relation between states that is reflexive and
  transitive holds across a handler as soon as it holds across its component operations; the
  interpretations below are the relations the properties are about: the exchange is untouched, the
  exchange moves along its own calls, the audit log grows.
\<close>

section \<open>Relations across operations\<close>

locale state_preorder =
  fixes R :: "'s \<Rightarrow> 's \<Rightarrow> bool"
  assumes R_refl: "R s s" and R_trans: "R s t \<Longrightarrow> R t u \<Longrightarrow> R s u"
begin

definition across :: "('s, 'a) act \<Rightarrow> bool" where
  "across m \<longleftrightarrow> (\<forall>s. R s (snd (m s)))"

lemma across_D: "across m \<Longrightarrow> R s (snd (m s))"
  by (simp add: across_def)

lemma across_bind:
  assumes m: "across m" and f: "\<And>x. across (f x)"
  shows "across (bind_act m f)"
  unfolding across_def
proof
  fix s
  obtain r t where mt: "m s = (r, t)" by fastforce
  with m have st: "R s t" by (metis across_D snd_conv)
  show "R s (snd (bind_act m f s))"
  proof (cases r)
    case (Inl e)
    then show ?thesis using st by (simp add: bind_act_run mt)
  next
    case (Inr x)
    have "R t (snd (f x t))" using f by (rule across_D)
    then show ?thesis using R_trans [OF st] Inr by (simp add: bind_act_run mt)
  qed
qed

lemma across_pure: "across (ret x)" "across (of_res m)" "across (gets f)" "across (shown g)"
  by (simp_all add: across_def act_simps R_refl shown_def split: sum.splits)

lemma across_if: "across m \<Longrightarrow> across n \<Longrightarrow> across (if b then m else n)"
  by simp

lemma across_catch:
  assumes m: "across m" and h: "\<And>e. across (h e)"
  shows "across (catch_value_error m h)"
  unfolding across_def
proof
  fix s
  obtain r t where mt: "m s = (r, t)" by fastforce
  with m have st: "R s t" by (metis across_D snd_conv)
  have "R s (snd (h e t))" for e using R_trans [OF st across_D [OF h]] .
  with st show "R s (snd (catch_value_error m h s))"
    by (cases r) (simp_all add: catch_value_error_def mt)
qed

lemmas across_intros = across_pure across_bind across_if

end

lemma zoom_snd:
  "snd (on_exchange m s) = s\<lparr>ap_exchange := snd (m (ap_exchange s))\<rparr>"
  "snd (on_recorder n s) = s\<lparr>ap_recorder := snd (n (ap_recorder s))\<rparr>"
  "snd (on_manager k s) = s\<lparr>ap_manager := snd (k (ap_manager s))\<rparr>"
  "snd (on_disk d s) = s\<lparr>ap_disk := snd (d (ap_disk s))\<rparr>"
  by (simp_all add: on_exchange_def on_recorder_def on_manager_def on_disk_def zoom_def split: prod.splits)

section \<open>The three relations\<close>

definition same_exchange :: "api_state \<Rightarrow> api_state \<Rightarrow> bool" where
  "same_exchange s t \<longleftrightarrow> ap_exchange t = ap_exchange s"

definition traded :: "api_state \<Rightarrow> api_state \<Rightarrow> bool" where
  "traded s t \<longleftrightarrow> (\<exists>cs. exchange_run cs (ap_exchange s) (ap_exchange t))"

definition audit_grows :: "api_state \<Rightarrow> api_state \<Rightarrow> bool" where
  "audit_grows s t \<longleftrightarrow> (\<exists>new. fr_records (ap_recorder t) = fr_records (ap_recorder s) @ new)"

interpretation idle: state_preorder same_exchange
  by unfold_locales (simp_all add: same_exchange_def)

interpretation trades: state_preorder traded
proof unfold_locales
  show "traded s s" for s unfolding traded_def using run_Nil by blast
  show "traded s u" if "traded s t" "traded t u" for s t u
    using that unfolding traded_def exchange_run_append [symmetric] by (metis exchange_run_append)
qed

interpretation audited: state_preorder audit_grows
proof unfold_locales
  show "audit_grows s s" for s by (simp add: audit_grows_def)
  show "audit_grows s u" if "audit_grows s t" "audit_grows t u" for s t u
    using that by (auto simp: audit_grows_def)
qed

lemma idle_parts: "idle.across (on_recorder m)" "idle.across (on_manager k)" "idle.across (on_disk d)"
  by (simp_all add: idle.across_def same_exchange_def zoom_snd)

lemma idle_trades: "idle.across m \<Longrightarrow> trades.across m"
  unfolding idle.across_def trades.across_def same_exchange_def traded_def using run_Nil by metis

lemma trades_call: "(\<And>x. \<exists>clk c. snd (m x) = after_call clk c x) \<Longrightarrow> trades.across (on_exchange m)"
  unfolding trades.across_def traded_def zoom_snd by (simp, metis exchange_run_one)

lemma record_grows: "\<exists>new. fr_records (snd (file_record_decision d now r)) = fr_records r @ new"
  by (simp add: file_record_decision_state Let_def append_record_def split: prod.splits)

lemma audited_parts: "audited.across (on_exchange m)" "audited.across (on_manager k)" "audited.across (on_disk d)"
  by (simp_all add: audited.across_def audit_grows_def zoom_snd)

lemma audited_record: "audited.across (on_recorder (file_record_decision d now))"
  using record_grows by (simp add: audited.across_def audit_grows_def zoom_snd)

section \<open>Handlers\<close>

lemma audit_command_across:
  "idle.across (audit_command_result now rq res c)" "audited.across (audit_command_result now rq res c)"
  unfolding audit_command_result_def
  by (intro idle.across_intros idle_parts, intro audited.across_intros audited_record)

lemma command_gate_across:
  "idle.across (command_gate env now ct p c fee)" "audited.across (command_gate env now ct p c fee)"
  unfolding command_gate_def
  by (intro idle.across_intros audit_command_across, intro audited.across_intros audit_command_across)

lemma validate_across:
  "idle.across (validate_command_payload env now b c)" "audited.across (validate_command_payload env now b c)"
  unfolding validate_command_payload_def
  by (intro idle.across_intros audit_command_across, intro audited.across_intros audit_command_across)

lemma live_view_grows: "\<exists>new. fr_records (snd (live_readonly_account_payload clk c b r)) = fr_records r @ new"
proof -
  have "keeps (\<lambda>r'. \<exists>new. fr_records r' = fr_records r @ new) (live_readonly_account_payload clk c b)"
    unfolding live_readonly_account_payload_def Let_def
  proof (intro keeps_intros)
    show "keeps (\<lambda>r'. \<exists>new. fr_records r' = fr_records r @ new) (file_record_decision d now)" for d now
      using record_grows [of d now] by (simp add: keeps_def) (metis append.assoc)
  qed
  then show ?thesis by (rule keepsD) simp
qed

lemma audited_live: "audited.across (on_recorder (live_readonly_account_payload clk c b))"
  using live_view_grows by (simp add: audited.across_def audit_grows_def zoom_snd)

lemma submit_across:
  "trades.across (paper_submit_payload env clks b c)" "audited.across (paper_submit_payload env clks b c)"
proof -
  have call: "trades.across (on_exchange (submit_order clk r i))" for clk r i
    by (rule trades_call) (metis after_call.simps(1))
  show "trades.across (paper_submit_payload env clks b c)"
    unfolding paper_submit_payload_def Let_def
    by (rule trades.across_bind [OF idle_trades [OF command_gate_across(1)]])
      (auto intro!: trades.across_intros call split: prod.splits)
  show "audited.across (paper_submit_payload env clks b c)"
    unfolding paper_submit_payload_def Let_def
    by (rule audited.across_bind [OF command_gate_across(2)])
      (auto intro!: audited.across_intros audited_parts split: prod.splits)
qed

lemma paper_calls:
  "trades.across (on_exchange (cancel_order clk k))" "trades.across (on_exchange (expire_order clk k))"
  "trades.across (on_exchange (process_open_orders clk r))" "trades.across (on_exchange (panic_halt clk))"
  "trades.across (on_exchange (panic_cancel_open_orders clk))"
  "trades.across (on_exchange (panic_flatten_positions clk))"
  "trades.across (on_exchange (reset_exchange clk))"
  by (rule trades_call, metis after_call.simps)+

definition paper_routes :: "string list" where
  "paper_routes = [''/paper/orders'', ''/paper/reset'', ''/paper/cancel'', ''/paper/expire'',
     ''/paper/process'', ''/paper/panic/halt'', ''/paper/panic/cancel'', ''/paper/panic/flatten'']"

lemmas handler_defs = paper_preview_payload_def paper_reset_payload_def paper_process_payload_def
  strategy_start_payload_def strategy_pause_payload_def strategy_stop_payload_def
  backtest_run_payload_def pure_payload_def

lemma get_routes_idle: "list_all (\<lambda>(p, h). idle.across h) (get_routes w)"
  unfolding get_routes_def Let_def handler_defs
  by (simp only: list.pred_inject prod.case) (intro conjI TrueI idle.across_intros idle_parts)

lemma get_routes_audited: "list_all (\<lambda>(p, h). audited.across h) (get_routes w)"
  unfolding get_routes_def Let_def handler_defs
  by (simp only: list.pred_inject prod.case)
    (intro conjI TrueI audited.across_intros audited_parts audited_live)

lemma post_routes_trade: "list_all (\<lambda>(p, h). \<forall>b. trades.across (h b)) (post_routes w)"
  unfolding post_routes_def Let_def handler_defs
  by (simp only: list.pred_inject prod.case)
    (intro conjI TrueI allI trades.across_intros idle_trades [OF validate_across(1)]
      idle_trades [OF idle_parts(2)] idle_trades [OF idle_parts(3)] submit_across paper_calls)

lemma post_routes_audited: "list_all (\<lambda>(p, h). \<forall>b. audited.across (h b)) (post_routes w)"
  unfolding post_routes_def Let_def handler_defs
  by (simp only: list.pred_inject prod.case)
    (intro conjI TrueI allI audited.across_intros validate_across submit_across audited_parts)

lemma post_routes_idle: "list_all (\<lambda>(p, h). p \<in> set paper_routes \<or> (\<forall>b. idle.across (h b))) (post_routes w)"
proof -
  have "idle.across (validate_command_payload e n b c)" for e n b c by (rule validate_across)
  moreover have "idle.across (paper_preview_payload n b)" for n b
    unfolding handler_defs by (intro idle.across_intros)
  moreover have "idle.across (strategy_start_payload clks b)" "idle.across (strategy_pause_payload clks)"
    "idle.across (strategy_stop_payload clks)" "idle.across (backtest_run_payload cd i r clks b)" for cd clks b i r
    unfolding handler_defs Let_def by (intro idle.across_intros idle_parts)+
  moreover have "idle.across (bind_act (of_res m) (\<lambda>c. of_res (f c)))" for m :: "runtime_config res" and f :: "runtime_config \<Rightarrow> json_object res"
    by (intro idle.across_intros)
  ultimately show ?thesis
    unfolding post_routes_def Let_def by (simp add: paper_routes_def idle.across_pure)
qed

lemma routed:
  assumes "list_all (\<lambda>(p, h). Q p h) rs" "map_of rs p = Some h"
  shows "Q p h"
  using assms by (auto simp: list_all_iff dest!: map_of_SomeD)

lemma do_get_idle: "idle.across (do_get w p)"
  and do_get_audited: "audited.across (do_get w p)"
proof -
  show "idle.across (do_get w p)"
    using routed [OF get_routes_idle]
    by (auto simp: do_get_def intro!: idle.across_intros split: option.splits)
  show "audited.across (do_get w p)"
    using routed [OF get_routes_audited]
    by (auto simp: do_get_def intro!: audited.across_intros split: option.splits)
qed

lemma handle_idle: "(\<And>b. idle.across (h b)) \<Longrightarrow> idle.across (handle_json_payload cd n stream h)"
  unfolding handle_json_payload_def
  by (auto intro!: idle.across_catch idle.across_intros split: sum.splits)

lemma handle_trades: "(\<And>b. trades.across (h b)) \<Longrightarrow> trades.across (handle_json_payload cd n stream h)"
  unfolding handle_json_payload_def
  by (auto intro!: trades.across_catch trades.across_intros split: sum.splits)

lemma handle_audited: "(\<And>b. audited.across (h b)) \<Longrightarrow> audited.across (handle_json_payload cd n stream h)"
  unfolding handle_json_payload_def
  by (auto intro!: audited.across_catch audited.across_intros split: sum.splits)

lemma do_post_across:
  "trades.across (do_post w p n stream)" "audited.across (do_post w p n stream)"
  "p \<notin> set paper_routes \<Longrightarrow> idle.across (do_post w p n stream)"
proof -
  show "trades.across (do_post w p n stream)"
    using routed [OF post_routes_trade]
    by (auto simp: do_post_def intro!: handle_trades trades.across_pure split: option.splits)
  show "audited.across (do_post w p n stream)"
    using routed [OF post_routes_audited]
    by (auto simp: do_post_def intro!: handle_audited audited.across_pure split: option.splits)
  show "idle.across (do_post w p n stream)" if "p \<notin> set paper_routes"
    using routed [OF post_routes_idle] that
    by (auto simp: do_post_def intro!: handle_idle idle.across_pure split: option.splits)
qed

section \<open>Runs of the API\<close>

datatype api_request = Get string | Post string "string option" string

fun after_request :: "world \<Rightarrow> api_request \<Rightarrow> api_state \<Rightarrow> api_state" where
  "after_request w (Get p) s = snd (do_get w p s)"
| "after_request w (Post p n stream) s = snd (do_post w p n stream s)"

inductive api_run :: "(world \<times> api_request) list \<Rightarrow> api_state \<Rightarrow> api_state \<Rightarrow> bool" where
  api_Nil: "api_run [] s s"
| api_Cons: "api_run rs (after_request w r s) t \<Longrightarrow> api_run ((w, r) # rs) s t"

lemma request_relations:
  "traded s (after_request w r s)" "audit_grows s (after_request w r s)"
proof -
  show "traded s (after_request w r s)"
    using trades.across_D [OF idle_trades [OF do_get_idle]] trades.across_D [OF do_post_across(1)] by (cases r) simp_all
  show "audit_grows s (after_request w r s)"
    using audited.across_D [OF do_get_audited] audited.across_D [OF do_post_across(2)] by (cases r) simp_all
qed

section \<open>Properties\<close>

lemma api_run_relations: "api_run rs s t \<Longrightarrow> traded s t \<and> audit_grows s t"
proof (induction rule: api_run.induct)
  case (api_Cons rs w r s t)
  with request_relations [of s w r] trades.R_trans audited.R_trans show ?case by blast
qed (simp add: trades.R_refl audited.R_refl)

lemma api_run_total: "\<exists>t. api_run rs s t"
proof (induction rs arbitrary: s)
  case (Cons x rs)
  then show ?case by (cases x) (metis api_Cons)
qed (blast intro: api_Nil)

text \<open>A fresh process on an empty disk, and a world whose clock stands still.\<close>

lemma start_api_empty: "\<exists>s. start_api env Map.empty clks = Inr s"
  by (simp add: start_api_def Let_def open_recorder_def read_jsonl_def open_store_def
      default_paper_exchange_def new_exchange_def default_account_state_eq)

definition still_world :: world where
  "still_world = \<lparr>wo_env = Map.empty, wo_fromiso = Map.empty,
     wo_open = (\<lambda>_. Inl (Raise ValueError ''no replay file'')), wo_clks = (\<lambda>_ _. Aware 0),
     wo_codec = plain_codec\<rparr>"

fun reaches_exchange :: "api_request \<Rightarrow> bool" where
  "reaches_exchange (Get p) = False"
| "reaches_exchange (Post p n stream) = (p \<in> set paper_routes)"

lemma idle_requests:
  assumes "api_run rs s t" and "list_all (\<lambda>(w, r). \<not> reaches_exchange r) rs"
  shows "ap_exchange t = ap_exchange s"
  using assms
proof (induction rule: api_run.induct)
  case (api_Cons rs w r s t)
  have "same_exchange s (after_request w r s)"
    using idle.across_D [OF do_get_idle] idle.across_D [OF do_post_across(3)] api_Cons.prems
    by (cases r) simp_all
  with api_Cons show ?case by (simp add: same_exchange_def)
qed simp

text \<open>
  C5: The API drives the exchange through its own operations only, and never rewrites the audit log.
  Whatever requests arrive, whatever bodies they carry and whether or not they fail, the exchange
  state afterwards is one that a sequence of exchange calls produces from the state before, so every
  property of those runs holds behind the API; GET requests, and POST requests to any path but the
  paper routes, leave the exchange exactly as it was; and the audit records of before are a prefix of
  those afterwards.
\<close>

theorem api_refines_exchange:
  assumes "api_run rs s t"
  shows "(\<exists>cs. exchange_run cs (ap_exchange s) (ap_exchange t))
    \<and> (list_all (\<lambda>(w, r). \<not> reaches_exchange r) rs \<longrightarrow> ap_exchange t = ap_exchange s)
    \<and> (\<exists>new. fr_records (ap_recorder t) = fr_records (ap_recorder s) @ new)"
  using api_run_relations [OF assms] idle_requests [OF assms] by (simp add: traded_def audit_grows_def)

theorem api_refines_exchange_witness:
  "\<exists>s t cs. start_api Map.empty Map.empty (\<lambda>_ _. Aware 0) = Inr s
     \<and> api_run [(still_world, Get ''/paper''), (still_world, Post ''/backtests/run'' None '''')] s t
     \<and> exchange_run cs (ap_exchange s) (ap_exchange t) \<and> ap_exchange t = ap_exchange s"
proof -
  obtain s t where start: "start_api Map.empty Map.empty (\<lambda>_ _. Aware 0) = Inr s"
      and run: "api_run [(still_world, Get ''/paper''), (still_world, Post ''/backtests/run'' None '''')] s t"
    using start_api_empty api_run_total by metis
  have "list_all (\<lambda>(w, r). \<not> reaches_exchange r)
      [(still_world, Get ''/paper''), (still_world, Post ''/backtests/run'' None '''')]"
    by (simp add: paper_routes_def)
  with api_refines_exchange [OF run] start run show ?thesis by blast
qed

end
