(* ===== verification/Api_Orders.thy ===== *)
theory Api_Orders
  imports Api_Runs
begin

text \<open>
  Orders through the API: what \<open>POST /paper/orders\<close> does to the exchange and to the audit log, what a
  panic halt received over HTTP means for it, and how much of a request body a handler reads.
\<close>

section \<open>The gate of the order endpoint\<close>

text \<open>The configurations that the catalog entry of \<open>submit_paper_order\<close> admits.\<close>

definition may_submit :: "runtime_config \<Rightarrow> bool" where
  "may_submit c \<longleftrightarrow> config_errors c = [] \<and> rc_operator_mode c = OM_PAPER
     \<and> rc_venue_target c = VT_INTERNAL_PAPER \<and> rc_credential_scope c = CS_NONE
     \<and> (rc_autonomy_stage c = AS_HUMAN_APPROVAL \<or> rc_autonomy_stage c = AS_PAPER_AUTO)"

lemma submit_gate_accepts:
  obtains res where "evaluate_command c (local_request CT_SUBMIT_PAPER_ORDER payload) True = Inr res"
    and "csr_accepted res \<longleftrightarrow> may_submit c" and "csr_accepted res \<longleftrightarrow> csr_reasons res = []"
proof -
  define d where "d = hd (tl paper_commands)"
  have "command_definition_of CT_SUBMIT_PAPER_ORDER = Inr d" unfolding d_def by code_simp
  then have d: "command_definition_of (cr_command_type (local_request CT_SUBMIT_PAPER_ORDER payload)) = Inr d"
    by (simp add: local_request_def)
  have "tuple_ok c d \<and> cd_trading_affecting d \<and> cd_effect d \<noteq> CE_LIVE_TRADING \<and> cd_execution_available d
      \<longleftrightarrow> rc_operator_mode c = OM_PAPER \<and> rc_venue_target c = VT_INTERNAL_PAPER
        \<and> rc_credential_scope c = CS_NONE
        \<and> (rc_autonomy_stage c = AS_HUMAN_APPROVAL \<or> rc_autonomy_stage c = AS_PAPER_AUTO)"
    "cd_trading_affecting d" "cd_effect d \<noteq> CE_LIVE_TRADING" "cd_execution_available d"
    unfolding d_def by (auto simp: tuple_ok_def paper_commands_def command_def_def)
  with evaluate_command_accepted [OF d, of c True] that show thesis
    by (auto simp: may_submit_def)
qed

text \<open>The recorder always returns the record it has entered.\<close>

lemma recorder_returns:
  obtains e where "file_record_decision d now r = (Inr e, snd (file_record_decision d now r))"
    and "fr_records (snd (file_record_decision d now r)) = fr_records r @ [e]"
    and "ar_command_type e = df_command_type d" "ar_decision e = df_decision d"
    and "ar_reasons e = df_reasons d"
proof -
  let ?e = "last (append_record (d, now) (fr_records r))"
  have "fst (file_record_decision d now r) = Inr ?e"
    by (simp add: file_record_decision_def bind_act_run act_run)
  then have "file_record_decision d now r = (Inr ?e, snd (file_record_decision d now r))"
    by (metis prod.collapse)
  moreover have "fr_records (snd (file_record_decision d now r)) = fr_records r @ [?e]"
    by (simp add: file_record_decision_state Let_def append_record_def)
  ultimately show thesis using that by (simp add: append_record_def)
qed

text \<open>The audit record of a verdict, and the outcome of the gate of a handler.\<close>

definition verdict_audited :: "api_state \<Rightarrow> api_state \<Rightarrow> string \<Rightarrow> bool \<Rightarrow> bool" where
  "verdict_audited s t name accepted \<longleftrightarrow>
     (\<exists>e. fr_records (ap_recorder t) = fr_records (ap_recorder s) @ [e] \<and> ar_command_type e = name
        \<and> ar_decision e = (if accepted then ''accepted'' else ''rejected'')
        \<and> (if accepted then ar_reasons e = [] else ar_reasons e \<noteq> []))"

lemma command_gate_run:
  assumes c: "selected_config env config = Inr c"
    and res: "evaluate_command c (local_request ct payload) fee = Inr res"
      "csr_accepted res \<longleftrightarrow> csr_reasons res = []"
  obtains head t where "command_gate env now ct payload config fee s = (Inr (head, csr_accepted res), t)"
    and "ap_exchange t = ap_exchange s" and "verdict_audited s t (ct_value ct) (csr_accepted res)"
    and "map fst head = [''command'', ''audit_record'']"
proof -
  let ?facts = "audited_facts (local_request ct payload) res c"
  obtain e where e: "file_record_decision ?facts now (ap_recorder s)
        = (Inr e, snd (file_record_decision ?facts now (ap_recorder s)))"
    "fr_records (snd (file_record_decision ?facts now (ap_recorder s))) = fr_records (ap_recorder s) @ [e]"
    "ar_command_type e = df_command_type ?facts" "ar_decision e = df_decision ?facts"
    "ar_reasons e = df_reasons ?facts"
    by (rule recorder_returns)
  let ?t = "s\<lparr>ap_recorder := snd (file_record_decision ?facts now (ap_recorder s))\<rparr>"
  have "on_recorder (file_record_decision ?facts now) s = (Inr e, ?t)"
    by (subst on_recorder_def, simp add: zoom_def, subst e(1)) simp
  then have "command_gate env now ct payload config fee s =
      (Inr ([(''command'', safety_result_to_public_dict res), (''audit_record'', audit_to_public_dict e)],
        csr_accepted res), ?t)"
    using c res by (simp add: command_gate_def audit_command_result_def bind_act_run act_run)
  moreover have "verdict_audited s ?t (ct_value ct) (csr_accepted res)"
    using e(2-5) res(2) by (auto simp: verdict_audited_def audited_facts_def local_request_def)
  ultimately show thesis using that by simp
qed

section \<open>Requests after a panic halt\<close>

text \<open>
  Once the kill switch of the panic halt is on, requests keep it on and no order enters the book:
  a relation that the order endpoint and every operation that leaves the exchange alone respect.
\<close>

definition shut :: "exchange \<Rightarrow> bool" where
  "shut x \<longleftrightarrow> logs_ok x \<and> rk_panic_halt_active (ex_risk_state x)"

definition no_entry :: "api_state \<Rightarrow> api_state \<Rightarrow> bool" where
  "no_entry s t \<longleftrightarrow> (shut (ap_exchange s) \<longrightarrow>
     shut (ap_exchange t) \<and> ex_orders (ap_exchange t) = ex_orders (ap_exchange s))"

interpretation closed: state_preorder no_entry
  by unfold_locales (simp_all add: no_entry_def)

lemma idle_closed: "idle.across m \<Longrightarrow> closed.across m"
  by (simp add: idle.across_def closed.across_def same_exchange_def no_entry_def)

lemma shut_call: "shut x \<Longrightarrow> shut (after_call clk c x)"
  using call_book(3) call_panic by (auto simp: shut_def)

lemma shut_run: "exchange_run cs x y \<Longrightarrow> shut x \<Longrightarrow> shut y"
  by (rule exchange_run_invariant [where P = shut]) (auto intro: shut_call)

lemma submit_closed: "closed.across (on_exchange (submit_order clk r i))"
proof -
  have "shut (snd (submit_order clk r i x)) \<and> ex_orders (snd (submit_order clk r i x)) = ex_orders x"
    if x: "shut x" for x
  proof
    have "shut (after_call clk (Submit r i) x)" using x by (rule shut_call)
    then show "shut (snd (submit_order clk r i x))" by simp
    have "\<not> gate_opens x i (reference_now clk r)"
      using gate_opens_requires(4) x by (auto simp: shut_def)
    then show "ex_orders (snd (submit_order clk r i x)) = ex_orders x"
      by (simp add: submit_order_effect(2))
  qed
  then show ?thesis by (simp add: closed.across_def no_entry_def zoom_snd)
qed

lemma submit_payload_closed: "closed.across (paper_submit_payload env clks b c)"
  unfolding paper_submit_payload_def Let_def
  by (rule closed.across_bind [OF idle_closed [OF command_gate_across(1)]])
    (auto intro!: closed.across_intros submit_closed split: prod.splits)

lemma handle_closed: "(\<And>b. closed.across (h b)) \<Longrightarrow> closed.across (handle_json_payload cd n stream h)"
  unfolding handle_json_payload_def
  by (auto intro!: closed.across_catch closed.across_intros split: sum.splits)

lemma order_route: "do_post w ''/paper/orders'' n stream =
    handle_json_payload (wo_codec w) n stream (\<lambda>body. paper_submit_payload (wo_env w) (wo_clks w) body None)"
  by (simp add: do_post_def post_routes_def Let_def)

lemma halt_route: "do_post w ''/paper/panic/halt'' n stream =
    handle_json_payload (wo_codec w) n stream (\<lambda>_. on_exchange (panic_halt (wo_clks w 0)))"
  by (simp add: do_post_def post_routes_def Let_def)

text \<open>An answer 200 comes from the handler, which then ran to its end.\<close>

lemma handled:
  assumes "handle_json_payload cd n stream h s = (Inr a, t)" and "ha_status a = 200"
  obtains body where "h body s = (Inr (ha_body a), t)"
  using assms
  by (auto simp: handle_json_payload_def catch_value_error_def bind_act_run act_run bad_request_def answer_with_def
      split: sum.splits if_splits prod.splits)

lemma halt_shuts:
  assumes "do_post w ''/paper/panic/halt'' n stream s = (Inr a, t)" "ha_status a = 200" "logs_ok (ap_exchange s)"
  shows "shut (ap_exchange t)"
proof -
  from assms(1,2) obtain b where "on_exchange (panic_halt (wo_clks w 0)) s = (Inr b, t)"
    unfolding halt_route by (rule handled)
  then have "snd (on_exchange (panic_halt (wo_clks w 0)) s) = t" by simp
  then have t: "ap_exchange t = after_call (wo_clks w 0) Panic_Halt (ap_exchange s)" unfolding zoom_snd by auto
  show ?thesis using call_book(3) [OF assms(3), of "wo_clks w 0" Panic_Halt]
    by (simp add: shut_def t panic_halt_effect)
qed

lemma handle_answers:
  "case handle_json_payload cd n stream h s of
     (Inr a, t) \<Rightarrow> ha_status a \<in> {200, 400, 413} \<and> (if ha_status a = 413 then t = s else True)
   | (Inl e, t) \<Rightarrow> \<not> is_value_error e"
  by (auto simp: handle_json_payload_def catch_value_error_def bad_request_def answer_with_def
      bind_act_run act_run split: sum.splits prod.splits)

text \<open>Requests without a body, and a halt of the desk that a fresh process starts with.\<close>

lemma zero_text: "int_of_text ''0'' = Inr 0"
  by code_simp

lemma minus_one_text: "int_of_text ''-1'' = Inr (- 1)"
  by code_simp

lemma no_body:
  "handle_json_payload cd None '''' h s = (case h [] s of
     (Inl e, t) \<Rightarrow> if is_value_error e then (Inr (bad_request (error_text e)), t) else (Inl e, t)
   | (Inr body, t) \<Rightarrow> (Inr (answer_with 200 body), t))"
  by (simp add: handle_json_payload_def zero_text max_request_bytes_def catch_value_error_def read_body_def
      parse_body_def bind_act_run act_run split: prod.splits sum.splits)

lemma fresh_desk_halts:
  "case default_paper_exchange Map.empty Map.empty (Aware 0) of
     Inr x \<Rightarrow> (case fst (panic_halt (\<lambda>_. Aware 0) x) of Inr _ \<Rightarrow> True | Inl _ \<Rightarrow> False) | Inl _ \<Rightarrow> False"
  by code_simp

section \<open>Properties\<close>

text \<open>
  C6: The order endpoint is gated and audited. It always enters one audit record, which carries the
  verdict of the command gate: accepted exactly for a consistent configuration in paper mode on the
  internal venue, without credentials, at the human-approval or paper-auto stage. Refused, it leaves
  the exchange alone and answers without a result. Accepted, it hands the parsed intent to the
  exchange; a body that is no order intent raises after the record of an accepted command is in the
  log, with the exchange unchanged.
\<close>

theorem order_endpoint_exact:
  "case selected_config env config of
     Inl err \<Rightarrow> paper_submit_payload env clks body config s = (Inl err, s)
   | Inr c \<Rightarrow> (case paper_submit_payload env clks body config s of (out, t) \<Rightarrow>
       verdict_audited s t ''submit_paper_order'' (may_submit c)
       \<and> (if may_submit c
          then case intent_from_mapping body of
              Inl err \<Rightarrow> out = Inl err \<and> ap_exchange t = ap_exchange s
            | Inr i \<Rightarrow> ap_exchange t = snd (submit_order (clks 1) None i (ap_exchange s))
          else ap_exchange t = ap_exchange s \<and> (\<exists>b. out = Inr b \<and> jget b ''paper_result'' = Some JNull)))"
proof (cases "selected_config env config")
  case (Inl err)
  then show ?thesis by (simp add: paper_submit_payload_def command_gate_def bind_act_run act_run)
next
  case (Inr c)
  obtain res where res: "evaluate_command c (local_request CT_SUBMIT_PAPER_ORDER body) True = Inr res"
    and acc: "csr_accepted res \<longleftrightarrow> may_submit c" "csr_accepted res \<longleftrightarrow> csr_reasons res = []"
    by (rule submit_gate_accepts)
  obtain head t where gate: "command_gate env (clks 0 0) CT_SUBMIT_PAPER_ORDER body config True s
      = (Inr (head, csr_accepted res), t)" and same: "ap_exchange t = ap_exchange s"
    and audit: "verdict_audited s t (ct_value CT_SUBMIT_PAPER_ORDER) (csr_accepted res)"
    and keys: "map fst head = [''command'', ''audit_record'']"
    by (rule command_gate_run [OF Inr res acc(2)])
  from keys obtain x y where head: "head = [(''command'', x), (''audit_record'', y)]" by auto
  have kept: "verdict_audited s (t\<lparr>ap_exchange := z\<rparr>) k b \<longleftrightarrow> verdict_audited s t k b" for z k b
    by (simp add: verdict_audited_def)
  show ?thesis
    using gate same audit acc(1) Inr head kept
    by (auto simp: paper_submit_payload_def bind_act_run act_run on_exchange_def zoom_def jget_def
        split: sum.splits prod.splits)
qed

text \<open>
  C8: A panic halt received over HTTP is final. Whatever requests came before it and whatever
  requests follow it, a reset included, no order that is posted afterwards enters the book.
\<close>

theorem panic_halt_reaches_the_api:
  assumes "start_api env files clks = Inr s0" and "api_run before s0 s"
    and "do_post w0 ''/paper/panic/halt'' n0 stream0 s = (Inr a, s1)" and "ha_status a = 200"
    and "api_run later s1 t"
  shows "ex_orders (ap_exchange (snd (do_post w ''/paper/orders'' n stream t))) = ex_orders (ap_exchange t)"
proof -
  have "logs_ok (ap_exchange s0)"
    using assms(1) new_exchange_logs_ok by (auto simp: start_api_def Let_def default_paper_exchange_def bind_res_eq_Inr)
  moreover obtain cs ds where runs: "exchange_run cs (ap_exchange s0) (ap_exchange s)"
    "exchange_run ds (ap_exchange s1) (ap_exchange t)"
    using api_run_relations [OF assms(2)] api_run_relations [OF assms(5)] by (auto simp: traded_def)
  ultimately have "shut (ap_exchange s1)" using halt_shuts [OF assms(3,4)] run_logs_ok by blast
  with runs(2) have "shut (ap_exchange t)" by (rule shut_run)
  moreover have "no_entry t (snd (do_post w ''/paper/orders'' n stream t))"
    unfolding order_route by (rule closed.across_D [OF handle_closed [OF submit_payload_closed]])
  ultimately show ?thesis by (simp add: no_entry_def)
qed

theorem panic_halt_reaches_the_api_witness:
  "\<exists>s a s1 t. start_api Map.empty Map.empty (\<lambda>_ _. Aware 0) = Inr s
     \<and> do_post still_world ''/paper/panic/halt'' None '''' s = (Inr a, s1) \<and> ha_status a = 200
     \<and> api_run [(still_world, Post ''/paper/reset'' None '''')] s1 t
     \<and> ex_orders (ap_exchange (snd (do_post still_world ''/paper/orders'' None '''' t))) = ex_orders (ap_exchange t)"
proof -
  obtain s where s: "start_api Map.empty Map.empty (\<lambda>_ _. Aware 0) = Inr s" using start_api_empty by blast
  have "\<exists>b. fst (panic_halt (\<lambda>_. Aware 0) (ap_exchange s)) = Inr b"
    using fresh_desk_halts s by (auto simp: start_api_def Let_def bind_res_eq_Inr split: sum.splits)
  then obtain b y where "panic_halt (\<lambda>_. Aware 0) (ap_exchange s) = (Inr b, y)" by (metis prod.collapse)
  then have halt: "do_post still_world ''/paper/panic/halt'' None '''' s
      = (Inr (answer_with 200 b), s\<lparr>ap_exchange := y\<rparr>)"
    unfolding halt_route by (simp add: no_body still_world_def on_exchange_def zoom_def)
  have code: "ha_status (answer_with 200 b) = 200" by (simp add: answer_with_def)
  obtain t where run: "api_run [(still_world, Post ''/paper/reset'' None '''')] (s\<lparr>ap_exchange := y\<rparr>) t"
    using api_run_total by blast
  from panic_halt_reaches_the_api [OF s api_Nil halt code run] s halt code run show ?thesis by blast
qed

text \<open>
  Every POST request is answered. The status is 200, 400, 405 or 413; a request answered with 405
  or 413 leaves the state alone; and the only exceptions that escape to the server loop are those
  that are no \<open>ValueError\<close>.
\<close>

theorem post_answers:
  "case do_post w p n stream s of
     (Inr a, t) \<Rightarrow> ha_status a \<in> {200, 400, 405, 413} \<and> (if ha_status a \<in> {405, 413} then t = s else True)
   | (Inl e, t) \<Rightarrow> \<not> is_value_error e"
proof (cases "map_of (post_routes w) p")
  case (Some h)
  with handle_answers [where cd = "wo_codec w" and n = n and stream = stream and h = h and s = s] show ?thesis
    by (auto simp: do_post_def split: sum.splits prod.splits if_splits)
qed (simp add: do_post_def answer_with_def act_run)

text \<open>
  C28: A negative content length lifts the limit on request bodies. A JSON object of any size, refused
  with 413 under its true length, is read to its end and handled when the request declares the
  length -1 instead.
\<close>

theorem negative_length_lifts_the_limit:
  assumes "length stream > 64000" and "loads cd stream = Some (JObj payload)" and "h payload s = (Inr body, t)"
    and "int_of_text declared = Inr (int (length stream))"
  shows "handle_json_payload cd (Some ''-1'') stream h s = (Inr (answer_with 200 body), t)
    \<and> (\<exists>a. handle_json_payload cd (Some declared) stream h s = (Inr a, s) \<and> ha_status a = 413)"
proof -
  have "stream \<noteq> ''''" using assms(1) by auto
  then have "parse_body cd (read_body (- 1) stream) = Inr payload"
    using assms(2) by (simp add: parse_body_def read_body_def)
  then have "handle_json_payload cd (Some ''-1'') stream h s = (Inr (answer_with 200 body), t)"
    using assms(3)
    by (simp add: handle_json_payload_def minus_one_text max_request_bytes_def catch_value_error_def bind_act_run act_run)
  moreover have "int (length stream) > max_request_bytes" using assms(1) by (simp add: max_request_bytes_def)
  then have "\<exists>a. handle_json_payload cd (Some declared) stream h s = (Inr a, s) \<and> ha_status a = 413"
    using assms(4) by (simp add: handle_json_payload_def act_run answer_with_def)
  ultimately show ?thesis ..
qed

theorem negative_length_lifts_the_limit_witness:
  "\<exists>stream a s. handle_json_payload plain_codec (Some ''-1'') stream ret s = (Inr (answer_with 200 []), s)
     \<and> handle_json_payload plain_codec (Some ''64001'') stream ret s = (Inr a, s) \<and> ha_status a = 413"
proof -
  obtain s where "start_api Map.empty Map.empty (\<lambda>_ _. Aware 0) = Inr s" using start_api_empty by blast
  define stream where "stream = ''{}'' @ replicate 63999 (CHR '' '')"
  have "length stream = 64001" by (simp add: stream_def)
  moreover have "int_of_text ''64001'' = Inr 64001" by code_simp
  ultimately have declared: "int_of_text ''64001'' = Inr (int (length stream))" and long: "length stream > 64000" by simp_all
  have loads: "loads plain_codec stream = Some (JObj [])"
    using loads_dumps [of plain_codec "JObj []" "replicate 63999 (CHR '' '')" Compact]
    by (simp add: stream_def dumps_def list_all_iff is_blank_def)
  have "\<exists>a. handle_json_payload plain_codec (Some ''-1'') stream ret s = (Inr (answer_with 200 []), s)
      \<and> handle_json_payload plain_codec (Some ''64001'') stream ret s = (Inr a, s) \<and> ha_status a = 413"
    using negative_length_lifts_the_limit [where cd = plain_codec and payload = "[]"
        and h = ret and body = "[]" and s = s and t = s, OF long loads _ declared]
    by (simp add: act_run)
  then show ?thesis by blast
qed

end
