(* ===== verification/Fastapi.thy ===== *)
theory Fastapi
  imports Api_Orders Audit_Ledger Security
begin

text \<open>
  \<open>apps/api/fastapi_app.py\<close> and \<open>apps/api/contracts.py\<close>: the production API. Its routes call the
  payload builders of \<open>apps/api/server.py\<close> behind an operator check, and enter validated commands in
  the command ledger. FastAPI and pydantic are libraries. A request comes with its headers and with its
  body as they see it: no JSON at all, an instance of one of the contracts, or an object. What the
  framework answers by itself is a parameter: to a body that is no JSON (before any dependency of the
  route runs), to a body of another shape (after the dependencies), on the documentation pages, and to
  a request that matches no route of the source, by path or by method. An exception that a route does
  not catch escapes (the server answers 500).
\<close>

section \<open>Contracts\<close>

record command_validation_request =
  cv_command_type :: string
  cv_payload :: json_object
  cv_actor_id :: "string option"
  cv_idempotency_key :: string

record paper_order_request =
  por_symbol :: string
  por_side :: string
  por_book_side :: string
  por_quantity :: string
  por_limit_price :: string
  por_time_in_force :: string
  por_post_only :: bool
  por_reduce_only :: bool
  por_allow_taker :: bool
  por_expected_alpha_bps :: string
  por_slippage_bps :: string
  por_adverse_selection_bps :: string
  por_client_order_id :: string

text \<open>The defaults of the fields.\<close>

definition default_paper_order :: paper_order_request where
  "default_paper_order =
     \<lparr>por_symbol = ''BTCUSDC'', por_side = ''BUY'', por_book_side = ''LONG'', por_quantity = ''0.001'',
      por_limit_price = ''0'', por_time_in_force = ''GTX'', por_post_only = True, por_reduce_only = False,
      por_allow_taker = False, por_expected_alpha_bps = ''8'', por_slippage_bps = ''0.5'',
      por_adverse_selection_bps = ''1'', por_client_order_id = ''paper-local-order''\<rparr>"

definition paper_order_dump :: "paper_order_request \<Rightarrow> json_object" where
  "paper_order_dump r =
     [(''symbol'', JStr (por_symbol r)), (''side'', JStr (por_side r)),
      (''book_side'', JStr (por_book_side r)), (''quantity'', JStr (por_quantity r)),
      (''limit_price'', JStr (por_limit_price r)), (''time_in_force'', JStr (por_time_in_force r)),
      (''post_only'', JBool (por_post_only r)), (''reduce_only'', JBool (por_reduce_only r)),
      (''allow_taker'', JBool (por_allow_taker r)),
      (''expected_alpha_bps'', JStr (por_expected_alpha_bps r)),
      (''slippage_bps'', JStr (por_slippage_bps r)),
      (''adverse_selection_bps'', JStr (por_adverse_selection_bps r)),
      (''client_order_id'', JStr (por_client_order_id r))]"

lemma default_order_is_an_intent:
  "case intent_from_mapping (paper_order_dump default_paper_order) of
     Inr i \<Rightarrow> it_symbol i = ''BTCUSDC'' \<and> it_post_only i \<and> \<not> it_allow_taker i \<and> it_time_in_force i = TIF_GTX
   | Inl _ \<Rightarrow> False"
  by code_simp

text \<open>The body of a request, by the contract it meets.\<close>

datatype v1_body =
    No_Body
  | Command_Body command_validation_request
  | Order_Body paper_order_request
  | Order_Id_Body string
  | Session_Body string
  | Backtest_Body "string option"
  | Preview_Body string
  | Object_Body json_object
  | Malformed_Body

record v1_request =
  vr_method :: string
  vr_path :: string
  vr_authorization :: "string option"
  vr_csrf :: "string option"
  vr_body :: v1_body

section \<open>The application\<close>

text \<open>The state of the payload module, and the ledger that \<open>create_app\<close> holds.\<close>

record app_state =
  as_api :: api_state
  as_ledger :: ledger

type_synonym v1_handler = "(app_state, http_answer) act"

definition on_api :: "(api_state, 'a) act \<Rightarrow> (app_state, 'a) act" where
  "on_api = zoom as_api (\<lambda>a s. s\<lparr>as_api := a\<rparr>)"

definition on_ledger :: "(ledger, 'a) act \<Rightarrow> (app_state, 'a) act" where
  "on_ledger = zoom as_ledger (\<lambda>l s. s\<lparr>as_ledger := l\<rparr>)"

text \<open>The pages that \<open>create_app\<close> asks the framework for; they need no token.\<close>

definition documentation_paths :: "string list" where
  "documentation_paths = [''/api/docs'', ''/api/openapi.json'']"

text \<open>The answers of the framework.\<close>

record framework =
  fw_document :: "v1_request \<Rightarrow> http_answer"
  fw_malformed :: "v1_request \<Rightarrow> http_answer"
  fw_invalid :: "v1_request \<Rightarrow> http_answer"
  fw_unmatched :: "v1_request \<Rightarrow> http_answer"

definition http_error :: "nat \<Rightarrow> string \<Rightarrow> http_answer" where
  "http_error code detail = answer_with code [(''detail'', JStr detail)]"

text \<open>A route that returns the payload of a handler of the payload module.\<close>

definition serve :: "handler \<Rightarrow> v1_handler" where
  "serve h = bind_act (on_api h) (\<lambda>body. ret (answer_with 200 body))"

text \<open>The dependency \<open>require_operator\<close>: the answer of its \<open>HTTPException\<close>, or the operator.\<close>

definition require_operator ::
    "auth_config \<Rightarrow> string \<Rightarrow> string option \<Rightarrow> string option \<Rightarrow> (http_answer + operator_identity) res" where
  "require_operator auth http_method authorization csrf =
     (case bind_res (authenticate_bearer auth authorization) (\<lambda>identity.
           bind_res (validate_csrf auth http_method csrf) (\<lambda>_. Inr identity)) of
        Inr identity \<Rightarrow> Inr (Inr identity)
      | Inl (Raise c message) \<Rightarrow>
          if c = AuthError
          then Inr (Inl (http_error (if is_substring ''not configured'' message then 503 else 401) message))
          else Inl (Raise c message))"

definition guarded :: "auth_config \<Rightarrow> v1_request \<Rightarrow> (operator_identity \<Rightarrow> v1_handler) \<Rightarrow> v1_handler" where
  "guarded auth r h =
     bind_act (of_res (require_operator auth (vr_method r) (vr_authorization r) (vr_csrf r))) (\<lambda>outcome.
     case outcome of Inl answer \<Rightarrow> ret answer | Inr identity \<Rightarrow> h identity)"

section \<open>Command validation\<close>

text \<open>\<open>response[outer][inner]\<close>\<close>

definition response_item :: "json_object \<Rightarrow> string \<Rightarrow> string \<Rightarrow> json res" where
  "response_item response outer inner =
     (case jget response outer of
        Some item \<Rightarrow> (case jfield item inner of Some v \<Rightarrow> Inr v | None \<Rightarrow> Inl (Raise KeyError inner))
      | None \<Rightarrow> Inl (Raise KeyError outer))"

definition actor_or :: "string option \<Rightarrow> operator_identity \<Rightarrow> string" where
  "actor_or actor identity = (if nonempty actor then the actor else oi_actor_id identity)"

definition received_of ::
    "runtime_config \<Rightarrow> operator_identity \<Rightarrow> command_validation_request \<Rightarrow> received_command" where
  "received_of runtime identity body =
     \<lparr>rq_command_type = cv_command_type body, rq_actor_id = actor_or (cv_actor_id body) identity,
      rq_payload = cv_payload body, rq_runtime = as_object (config_to_status runtime),
      rq_idempotency_key = cv_idempotency_key body\<rparr>"

definition request_body_of :: "operator_identity \<Rightarrow> command_validation_request \<Rightarrow> json_object" where
  "request_body_of identity body =
     [(''command_type'', JStr (cv_command_type body)),
      (''actor_id'', JStr (actor_or (cv_actor_id body) identity)), (''payload'', JObj (cv_payload body))]"

text \<open>\<open>record_received\<close> inside its \<open>try\<close>: the entry, or the answer 409.\<close>

definition enter_command :: "received_command \<Rightarrow> datetime \<Rightarrow> (app_state, http_answer + ledger_entry) act" where
  "enter_command command now =
     catch_value_error (bind_act (on_ledger (record_received command now)) (\<lambda>entry. ret (Inr entry)))
       (\<lambda>message. ret (Inl (http_error 409 message)))"

definition validate_command ::
    "(string \<rightharpoonup> string) \<Rightarrow> (nat \<Rightarrow> clock) \<Rightarrow> operator_identity \<Rightarrow> command_validation_request \<Rightarrow> v1_handler" where
  "validate_command env clks identity body =
     bind_act (of_res (from_env env)) (\<lambda>runtime.
     bind_act (enter_command (received_of runtime identity body) (clks 0 0)) (\<lambda>outcome.
     case outcome of
       Inl answer \<Rightarrow> ret answer
     | Inr entry \<Rightarrow>
         bind_act (on_api (validate_command_payload env (clks 0 1) (request_body_of identity body) (Some runtime)))
           (\<lambda>response.
         bind_act (of_res (response_item response ''command'' ''accepted'')) (\<lambda>accepted.
         bind_act (of_res (response_item response ''audit_record'' ''record_id'')) (\<lambda>record_id.
         bind_act (on_ledger (ledger_record_decision (le_command_id entry) (truthy accepted)
             (Some (py_str record_id)) (clks 0 2))) (\<lambda>updated.
         ret (answer_with 200 (response @ [(''command_ledger'', entry_to_public_dict updated)]))))))))"

section \<open>Routes\<close>

definition auth_status :: "auth_config \<Rightarrow> json_object" where
  "auth_status auth =
     [(''status'', JStr ''ok''), (''service'', JStr ''auth''), (''auth'', auth_to_public_dict auth)]"

definition ops_status :: "(string \<rightharpoonup> string) \<Rightarrow> keychain \<Rightarrow> auth_config \<Rightarrow> json_object res" where
  "ops_status env chain auth =
     (let provider = provider_from_env env chain
      in bind_res (testnet_validation_payload None) (\<lambda>lane.
         bind_res (case jget lane ''request_specs'' of Some specs \<Rightarrow> Inr specs | None \<Rightarrow> Inl (Raise KeyError ''request_specs''))
           (\<lambda>specs.
         Inr [(''status'', JStr ''ok''), (''service'', JStr ''ops''), (''auth'', auth_to_public_dict auth),
              (''storage'', postgres_to_public_dict (postgres_from_env env)),
              (''secrets'', JObj [(''testnet_trading'', provider_metadata provider CP_TESTNET_TRADING),
                 (''live_readonly'', provider_metadata provider CP_LIVE_READONLY)]),
              (''binance'', JObj [(''network_calls'', JStr ''not_performed''), (''request_specs'', specs)])])))"

definition audit_commands :: "ledger \<Rightarrow> json_object" where
  "audit_commands l =
     [(''status'', JStr ''ok''), (''service'', JStr ''command_ledger''),
      (''commands'', JArr (ledger_public_list l))]"

text \<open>The two routes without an operator check.\<close>

definition open_routes :: "auth_config \<Rightarrow> (string \<times> v1_handler) list" where
  "open_routes auth =
     [(''/api/v1/health'', ret (answer_with 200 health_payload)),
      (''/api/v1/auth/status'', ret (answer_with 200 (auth_status auth)))]"

definition v1_status_routes :: "world \<Rightarrow> keychain \<Rightarrow> auth_config \<Rightarrow> (string \<times> v1_handler) list" where
  "v1_status_routes w chain auth =
     (let now = wo_clks w 0 0; env = wo_env w
      in [(''/api/v1/status'', serve (of_res (status_payload env None))),
          (''/api/v1/ops/status'', serve (of_res (ops_status env chain auth))),
          (''/api/v1/control-surface'', serve (ret (as_object control_surface_payload))),
          (''/api/v1/symbol-universe'', serve (ret (as_object symbol_universe_payload))),
          (''/api/v1/exchange-state'', serve (of_res (exchange_state_payload now))),
          (''/api/v1/account-state'', serve (of_res (account_state_payload now))),
          (''/api/v1/symbol-metadata'', serve (of_res (symbol_metadata_payload now))),
          (''/api/v1/fee-policy'', serve (of_res (fee_policy_payload now))),
          (''/api/v1/risk/status'', serve (of_res (map_res (\<lambda>c. as_object (risk_status_payload c)) (from_env env)))),
          (''/api/v1/audit/records'', serve (gets (\<lambda>s. audit_payload (ap_recorder s)))),
          (''/api/v1/audit/commands'', gets (\<lambda>s. answer_with 200 (audit_commands (as_ledger s))))])"

definition v1_paper_views :: "world \<Rightarrow> (string \<times> v1_handler) list" where
  "v1_paper_views w =
     (let now = wo_clks w 0 0
      in [(''/api/v1/paper'', serve (shown (\<lambda>s. summary_payload (ap_exchange s) now))),
          (''/api/v1/paper/portfolio'', serve (shown (\<lambda>s. exchange_portfolio_payload (ap_exchange s)))),
          (''/api/v1/paper/orders'', serve (shown (\<lambda>s. orders_payload (ap_exchange s)))),
          (''/api/v1/paper/reconciliation'', serve (gets (\<lambda>s. reconciliation_payload (ap_exchange s))))])"

definition v1_research_views :: "world \<Rightarrow> (string \<times> v1_handler) list" where
  "v1_research_views w =
     (let env = wo_env w
      in [(''/api/v1/research/features'', serve (of_res (replay_payload None ''synthetic_in_repo_fixture''))),
          (''/api/v1/backtests/report'', serve (on_disk (backtest_report_payload None True))),
          (''/api/v1/strategy/sessions'', serve (gets (\<lambda>s. sessions_payload (ap_manager s)))),
          (''/api/v1/strategy/recommendations'', serve (on_manager (recommendations_payload (wo_clks w 0)))),
          (''/api/v1/models/registry'', serve (gets (\<lambda>s. registry_payload (ap_models s)))),
          (''/api/v1/models/features'', serve (gets (\<lambda>s. features_payload (ap_models s)))),
          (''/api/v1/models/evaluations'', serve (gets (\<lambda>s. evaluations_payload (ap_models s)))),
          (''/api/v1/models/decisions'', serve (gets (\<lambda>s. decisions_payload (ap_models s)))),
          (''/api/v1/binance/testnet/validation'',
             serve (of_res (bind_res (from_env env) (\<lambda>c. testnet_validation_payload (Some c))))),
          (''/api/v1/live/readonly'', serve (bind_act (of_res (from_env env)) (\<lambda>c.
             on_recorder (live_readonly_account_payload (wo_clks w 0) (Some c) True))))])"

definition v1_get_routes :: "world \<Rightarrow> keychain \<Rightarrow> auth_config \<Rightarrow> (string \<times> v1_handler) list" where
  "v1_get_routes w chain auth = v1_status_routes w chain auth @ v1_paper_views w @ v1_research_views w"

lemmas v1_get_defs = v1_get_routes_def v1_status_routes_def v1_paper_views_def v1_research_views_def

text \<open>\<open>body.model_dump()\<close> of the contract of a path; the routes without a contract take no body.\<close>

fun body_dump :: "v1_body \<Rightarrow> json_object" where
  "body_dump (Order_Body r) = paper_order_dump r"
| "body_dump (Order_Id_Body k) = [(''order_id'', JStr k)]"
| "body_dump (Session_Body family) = [(''family'', JStr family)]"
| "body_dump (Backtest_Body file) = [(''replay_file'', jopt JStr file)]"
| "body_dump (Preview_Body k) = [(''recommendation_id'', JStr k)]"
| "body_dump (Object_Body payload) = payload"
| "body_dump No_Body = []"
| "body_dump (Command_Body r) = []"
| "body_dump Malformed_Body = []"

datatype contract = Command_Contract | Order_Contract | Order_Id_Contract | Session_Contract | Backtest_Contract
  | Preview_Contract | Object_Contract | No_Contract

fun body_fits :: "contract \<Rightarrow> v1_body \<Rightarrow> bool" where
  "body_fits Order_Contract (Order_Body _) = True"
| "body_fits Order_Id_Contract (Order_Id_Body _) = True"
| "body_fits Session_Contract (Session_Body _) = True"
| "body_fits Backtest_Contract (Backtest_Body _) = True"
| "body_fits Preview_Contract (Preview_Body _) = True"
| "body_fits Object_Contract (Object_Body _) = True"
| "body_fits Object_Contract No_Body = True"
| "body_fits No_Contract _ = True"
| "body_fits _ _ = False"

definition v1_paper_actions :: "world \<Rightarrow> (string \<times> contract \<times> (json_object \<Rightarrow> handler)) list" where
  "v1_paper_actions w =
     (let clks = wo_clks w; env = wo_env w
      in [(''/api/v1/paper/preview'', Order_Contract, \<lambda>body. paper_preview_payload (clks 0 0) body),
          (''/api/v1/paper/orders'', Order_Contract, \<lambda>body. paper_submit_payload env clks body None),
          (''/api/v1/paper/reset'', No_Contract, \<lambda>_. paper_reset_payload clks),
          (''/api/v1/paper/cancel'', Order_Id_Contract, \<lambda>body. on_exchange (cancel_order (clks 0) (order_id_of body))),
          (''/api/v1/paper/expire'', Order_Id_Contract, \<lambda>body. on_exchange (expire_order (clks 0) (order_id_of body))),
          (''/api/v1/paper/process'', No_Contract, \<lambda>_. paper_process_payload clks),
          (''/api/v1/paper/panic/halt'', No_Contract, \<lambda>_. on_exchange (panic_halt (clks 0))),
          (''/api/v1/paper/panic/cancel'', No_Contract, \<lambda>_. on_exchange (panic_cancel_open_orders (clks 0))),
          (''/api/v1/paper/panic/flatten'', No_Contract, \<lambda>_. on_exchange (panic_flatten_positions (clks 0)))])"

definition v1_research_actions :: "world \<Rightarrow> (string \<times> contract \<times> (json_object \<Rightarrow> handler)) list" where
  "v1_research_actions w =
     (let clks = wo_clks w; env = wo_env w
      in [(''/api/v1/backtests/run'', Backtest_Contract,
             \<lambda>body. backtest_run_payload (wo_codec w) (wo_fromiso w) (wo_open w) clks (Some body)),
          (''/api/v1/strategy/sessions/start'', Session_Contract, \<lambda>body. strategy_start_payload clks (Some body)),
          (''/api/v1/strategy/sessions/pause'', No_Contract, \<lambda>_. strategy_pause_payload clks),
          (''/api/v1/strategy/sessions/stop'', No_Contract, \<lambda>_. strategy_stop_payload clks),
          (''/api/v1/models/recommendation-preview'', Preview_Contract,
             \<lambda>body. shown (\<lambda>s. recommendation_preview_payload (Some body) None (ap_models s))),
          (''/api/v1/binance/testnet/order/validate'', Object_Contract, \<lambda>body. bind_act (of_res (from_env env)) (\<lambda>c.
             of_res (testnet_order_validation_payload (clks 0 0) (Some body) (Some c)))),
          (''/api/v1/live/orders'', No_Contract,
             \<lambda>_. of_res (map_res (\<lambda>c. live_order_rejection_payload (Some c)) (from_env env)))])"

definition v1_post_routes :: "world \<Rightarrow> (string \<times> contract \<times> (json_object \<Rightarrow> handler)) list" where
  "v1_post_routes w = v1_paper_actions w @ v1_research_actions w"

lemmas v1_post_defs = v1_post_routes_def v1_paper_actions_def v1_research_actions_def

definition command_route :: string where
  "command_route = ''/api/v1/commands/validate''"

text \<open>
  The dispatch of the application. A route with a body parses it first; then the operator check
  runs, and after it the contract is checked.
\<close>

definition parsed_body :: "framework \<Rightarrow> contract \<Rightarrow> v1_request \<Rightarrow> v1_handler \<Rightarrow> v1_handler" where
  "parsed_body fw c r h =
     (if c \<noteq> No_Contract \<and> vr_body r = Malformed_Body then ret (fw_malformed fw r) else h)"

definition v1_get :: "framework \<Rightarrow> world \<Rightarrow> keychain \<Rightarrow> auth_config \<Rightarrow> v1_request \<Rightarrow> v1_handler" where
  "v1_get fw w chain auth r =
     (case map_of (open_routes auth) (vr_path r) of
        Some h \<Rightarrow> h
      | None \<Rightarrow> (case map_of (v1_get_routes w chain auth) (vr_path r) of
          Some h \<Rightarrow> guarded auth r (\<lambda>_. h)
        | None \<Rightarrow> ret (fw_unmatched fw r)))"

definition v1_post :: "framework \<Rightarrow> world \<Rightarrow> auth_config \<Rightarrow> v1_request \<Rightarrow> v1_handler" where
  "v1_post fw w auth r =
     (if vr_path r = command_route
      then parsed_body fw Command_Contract r (guarded auth r (\<lambda>identity. case vr_body r of
          Command_Body body \<Rightarrow> validate_command (wo_env w) (wo_clks w) identity body
        | _ \<Rightarrow> ret (fw_invalid fw r)))
      else case map_of (v1_post_routes w) (vr_path r) of
          Some (c, h) \<Rightarrow> parsed_body fw c r (guarded auth r (\<lambda>_.
            if body_fits c (vr_body r) then serve (h (body_dump (vr_body r))) else ret (fw_invalid fw r)))
        | None \<Rightarrow> ret (fw_unmatched fw r))"

definition v1_app :: "framework \<Rightarrow> world \<Rightarrow> keychain \<Rightarrow> auth_config \<Rightarrow> v1_request \<Rightarrow> v1_handler" where
  "v1_app fw w chain auth r =
     (if vr_path r \<in> set documentation_paths then ret (fw_document fw r)
      else if vr_method r = ''GET'' then v1_get fw w chain auth r
      else if vr_method r = ''POST'' then v1_post fw w auth r
      else ret (fw_unmatched fw r))"

section \<open>The operator check\<close>

text \<open>Who may do what: a valid bearer token, and for a POST a valid CSRF token besides.\<close>

definition operator_of :: "auth_config \<Rightarrow> v1_request \<Rightarrow> bool" where
  "operator_of auth r \<longleftrightarrow>
     (\<exists>t. auth_configured auth \<and> presented_token (vr_authorization r) = Some t
        \<and> au_admin_token_hash auth = Some (sha256_hex t))
     \<and> (upper (vr_method r) \<in> set unsafe_methods \<longrightarrow>
         (\<exists>t. vr_csrf r = Some t \<and> t \<noteq> '''' \<and> csrf_configured auth \<and> au_csrf_token_hash auth = Some (sha256_hex t)))"

text \<open>The answer to everybody else: 503 where a token is not set up, 401 where it is missing or wrong.\<close>

definition refusal :: "auth_config \<Rightarrow> v1_request \<Rightarrow> http_answer" where
  "refusal auth r =
     (if \<not> auth_configured auth then http_error 503 ''single-owner admin token is not configured''
      else case presented_token (vr_authorization r) of
        None \<Rightarrow> http_error 401 ''missing bearer token''
      | Some t \<Rightarrow>
          if au_admin_token_hash auth \<noteq> Some (sha256_hex t) then http_error 401 ''invalid bearer token''
          else if \<not> csrf_configured auth then http_error 503 ''CSRF token is not configured''
          else if \<not> nonempty (vr_csrf r) then http_error 401 ''missing CSRF token''
          else http_error 401 ''invalid CSRF token'')"

lemma messages:
  "is_substring ''not configured'' ''single-owner admin token is not configured''"
  "is_substring ''not configured'' ''CSRF token is not configured''"
  "\<not> is_substring ''not configured'' ''missing bearer token''"
  "\<not> is_substring ''not configured'' ''invalid bearer token''"
  "\<not> is_substring ''not configured'' ''missing CSRF token''"
  "\<not> is_substring ''not configured'' ''invalid CSRF token''"
  by code_simp+

lemma require_operator_cases:
  "require_operator auth (vr_method r) (vr_authorization r) (vr_csrf r) = Inr
     (if operator_of auth r then Inr \<lparr>oi_actor_id = au_actor_id auth, oi_role = OR_OWNER\<rparr>
      else Inl (refusal auth r))"
proof -
  have csrf: "validate_csrf auth (vr_method r) (vr_csrf r) = Inr () \<longleftrightarrow> operator_of auth r"
    if "authenticate_bearer auth (vr_authorization r) = Inr i" for i
    using that validate_csrf_Inr [of auth "vr_method r" "vr_csrf r"]
    by (auto simp: operator_of_def authenticate_bearer_cases auth_error_def split: if_splits option.splits)
  show ?thesis
  proof (cases "authenticate_bearer auth (vr_authorization r)")
    case (Inl e)
    then show ?thesis
      by (auto simp: require_operator_def bind_res_def authenticate_bearer_cases auth_error_def refusal_def
          operator_of_def messages split: if_splits option.splits)
  next
    case (Inr i)
    then have bearer: "auth_configured auth" "i = \<lparr>oi_actor_id = au_actor_id auth, oi_role = OR_OWNER\<rparr>"
      "\<exists>t. presented_token (vr_authorization r) = Some t \<and> au_admin_token_hash auth = Some (sha256_hex t)"
      by (auto simp: authenticate_bearer_cases auth_error_def split: if_splits option.splits)
    show ?thesis
    proof (cases "operator_of auth r")
      case True
      with csrf [OF Inr] Inr bearer show ?thesis by (simp add: require_operator_def bind_res_def)
    next
      case False
      with csrf [OF Inr] have "validate_csrf auth (vr_method r) (vr_csrf r) \<noteq> Inr ()" by simp
      with False Inr bearer show ?thesis
        by (auto simp: require_operator_def bind_res_def validate_csrf_def auth_error_def refusal_def messages
            split: if_splits)
    qed
  qed
qed

lemma guarded_run:
  "guarded auth r h s =
     (if operator_of auth r then h \<lparr>oi_actor_id = au_actor_id auth, oi_role = OR_OWNER\<rparr> s
      else (Inr (refusal auth r), s))"
  by (simp add: guarded_def require_operator_cases act_run)

section \<open>What the validation endpoint does\<close>

lemma validation_run:
  assumes q: "command_request_from_mapping body = Inr q"
    and res: "evaluate_command c q False = Inr res"
  obtains response e t where "validate_command_payload env now body (Some c) s = (Inr response, t)"
    and "fr_records (ap_recorder t) = fr_records (ap_recorder s) @ [e]" "ap_exchange t = ap_exchange s"
    and "ar_decision e = (if csr_accepted res then ''accepted'' else ''rejected'')"
    and "response_item response ''command'' ''accepted'' = Inr (JBool (csr_accepted res))"
    and "response_item response ''audit_record'' ''record_id'' = Inr (JStr (ar_record_id e))"
proof -
  let ?facts = "audited_facts q res c"
  obtain e where e: "file_record_decision ?facts now (ap_recorder s)
        = (Inr e, snd (file_record_decision ?facts now (ap_recorder s)))"
    "fr_records (snd (file_record_decision ?facts now (ap_recorder s))) = fr_records (ap_recorder s) @ [e]"
    "ar_decision e = df_decision ?facts"
    by (rule recorder_returns)
  let ?t = "s\<lparr>ap_recorder := snd (file_record_decision ?facts now (ap_recorder s))\<rparr>"
  have rec: "on_recorder (file_record_decision ?facts now) s = (Inr e, ?t)"
    by (subst on_recorder_def, simp add: zoom_def, subst e(1)) simp
  have "validate_command_payload env now body (Some c) s = (Inr
      [(''status'', JStr ''ok''), (''service'', JStr ''api''), (''command'', safety_result_to_public_dict res),
       (''audit_record'', audit_to_public_dict e), (''execution'', JStr ''not_performed'')], ?t)"
    using q res rec
    by (simp add: validate_command_payload_def audit_command_result_def selected_config_def bind_act_run act_run)
  with that e(2,3) show thesis
    by (simp add: response_item_def jget_def safety_result_to_public_dict_def audit_to_public_dict_def audited_facts_def)
qed

lemma enter_command_run:
  "enter_command c now s = (case record_received c now (as_ledger s) of
     (Inr e, l) \<Rightarrow> (Inr (Inr e), s\<lparr>as_ledger := l\<rparr>)
   | (Inl err, l) \<Rightarrow> if is_value_error err then (Inr (Inl (http_error 409 (error_text err))), s\<lparr>as_ledger := l\<rparr>)
       else (Inl err, s\<lparr>as_ledger := l\<rparr>))"
  by (simp add: enter_command_def catch_value_error_def on_ledger_def zoom_def bind_act_run act_run
      split: prod.splits sum.splits)

text \<open>The routes of the production API are those of the local one, with their payload builders.\<close>

lemma shared_posts:
  assumes "map_of (v1_post_routes w) (''/api/v1'' @ p) = Some (c, h)"
  shows "map_of (post_routes w) p = Some h"
proof -
  have "list_all (\<lambda>(q, c, h). \<exists>p. q = ''/api/v1'' @ p \<and> map_of (post_routes w) p = Some h) (v1_post_routes w)"
    by (simp add: v1_post_defs post_routes_def Let_def)
  from routed [where Q = "\<lambda>q (c, h). \<exists>p. q = ''/api/v1'' @ p \<and> map_of (post_routes w) p = Some h", OF _ assms] this
  show ?thesis by (auto simp: list_all_iff)
qed

lemma shared_gets:
  assumes "map_of (get_routes w) p = Some h" and "p \<noteq> ''/health''"
  shows "map_of (v1_get_routes w chain auth) (''/api/v1'' @ p) = Some (serve h)"
proof -
  have "list_all (\<lambda>(p, h). p = ''/health'' \<or> map_of (v1_get_routes w chain auth) (''/api/v1'' @ p) = Some (serve h))
      (get_routes w)"
    by (simp add: v1_get_defs get_routes_def Let_def pure_payload_def)
  from routed [OF this assms(1)] assms(2) show ?thesis by simp
qed

lemma production_get_agrees:
  assumes "operator_of auth r" and "vr_method r = ''GET''" and "vr_path r = ''/api/v1'' @ p"
    and "map_of (get_routes w) p = Some h"
  shows "v1_app fw w chain auth r s = on_api (do_get w p) s"
proof -
  have "on_api (do_get w p) s = serve h s"
    using assms(4)
    by (simp add: do_get_def serve_def on_api_def zoom_def bind_act_run act_run split: prod.splits sum.splits)
  moreover have "v1_get fw w chain auth r s = serve h s"
  proof (cases "p = ''/health''")
    case True
    then have "h = ret health_payload" using assms(4) by (auto simp: get_routes_def Let_def pure_payload_def)
    with assms(3) True show ?thesis
      by (simp add: v1_get_def open_routes_def serve_def on_api_def zoom_def bind_act_run act_run)
  next
    case False
    then have "map_of (v1_get_routes w chain auth) (vr_path r) = Some (serve h)"
      using assms(3,4) shared_gets by simp
    moreover have "map_of (open_routes auth) (vr_path r) = None"
      using assms(3,4) False by (auto simp: open_routes_def get_routes_def Let_def)
    ultimately show ?thesis using assms(1) by (simp add: v1_get_def guarded_run)
  qed
  ultimately show ?thesis using assms(2,3) by (simp add: v1_app_def documentation_paths_def)
qed

text \<open>The routes behind the operator check; for a POST, with whether the route takes a body.\<close>

definition operator_gets :: "string list" where
  "operator_gets = map ((@) ''/api/v1'')
     [''/status'', ''/ops/status'', ''/control-surface'', ''/symbol-universe'', ''/exchange-state'',
      ''/account-state'', ''/symbol-metadata'', ''/fee-policy'', ''/risk/status'', ''/audit/records'',
      ''/audit/commands'', ''/paper'', ''/paper/portfolio'', ''/paper/orders'', ''/paper/reconciliation'',
      ''/research/features'', ''/backtests/report'', ''/strategy/sessions'', ''/strategy/recommendations'',
      ''/models/registry'', ''/models/features'', ''/models/evaluations'', ''/models/decisions'',
      ''/binance/testnet/validation'', ''/live/readonly'']"

definition operator_posts :: "(string \<times> bool) list" where
  "operator_posts = map (\<lambda>(p, takes_body). (''/api/v1'' @ p, takes_body))
     [(''/commands/validate'', True), (''/paper/preview'', True), (''/paper/orders'', True),
      (''/paper/reset'', False), (''/paper/cancel'', True), (''/paper/expire'', True),
      (''/paper/process'', False), (''/paper/panic/halt'', False), (''/paper/panic/cancel'', False),
      (''/paper/panic/flatten'', False), (''/backtests/run'', True), (''/strategy/sessions/start'', True),
      (''/strategy/sessions/pause'', False), (''/strategy/sessions/stop'', False),
      (''/models/recommendation-preview'', True), (''/binance/testnet/order/validate'', True),
      (''/live/orders'', False)]"

lemma guarded_gets: "map fst (v1_get_routes w chain auth) = operator_gets"
  by (simp add: v1_get_defs operator_gets_def Let_def)

lemma guarded_posts:
  "operator_posts = (command_route, True) # map (\<lambda>(p, c, h). (p, c \<noteq> No_Contract)) (v1_post_routes w)"
  by (simp add: v1_post_defs operator_posts_def command_route_def Let_def)

lemma guarded_post_lookup:
  "map_of operator_posts p =
     (if p = command_route then Some True else map_option (\<lambda>(c, h). c \<noteq> No_Contract) (map_of (v1_post_routes w) p))"
proof -
  have "map_of (map (\<lambda>(p, c, h). (p, c \<noteq> No_Contract)) xs) p = map_option (\<lambda>(c, h). c \<noteq> No_Contract) (map_of xs p)"
    for xs :: "(string \<times> contract \<times> (json_object \<Rightarrow> handler)) list"
    by (induction xs) auto
  then show ?thesis unfolding guarded_posts [of w] by simp
qed

text \<open>An application without tokens, one with them, and a panic halt sent to it.\<close>

definition unset_auth :: auth_config where
  "unset_auth = \<lparr>au_admin_token_hash = None, au_csrf_token_hash = None, au_actor_id = ''local_owner''\<rparr>"

definition owner_auth :: auth_config where
  "owner_auth = \<lparr>au_admin_token_hash = Some (sha256_hex ''token''), au_csrf_token_hash = Some (sha256_hex ''csrf''),
     au_actor_id = ''local_owner''\<rparr>"

definition halt_request :: v1_request where
  "halt_request = \<lparr>vr_method = ''POST'', vr_path = ''/api/v1/paper/panic/halt'',
     vr_authorization = Some ''Bearer token'', vr_csrf = Some ''csrf'', vr_body = No_Body\<rparr>"

definition plain_framework :: framework where
  "plain_framework = \<lparr>fw_document = \<lambda>_. answer_with 200 [], fw_malformed = \<lambda>_. http_error 422 ''JSON decode error'',
     fw_invalid = \<lambda>_. http_error 422 ''Unprocessable Entity'', fw_unmatched = \<lambda>_. http_error 404 ''Not Found''\<rparr>"

definition open_world :: world where
  "open_world = still_world"

definition sample_owner :: operator_identity where
  "sample_owner = \<lparr>oi_actor_id = ''local_owner'', oi_role = OR_OWNER\<rparr>"

definition unknown_command :: command_validation_request where
  "unknown_command = \<lparr>cv_command_type = ''no_such_command'', cv_payload = [], cv_actor_id = None,
     cv_idempotency_key = ''key-1''\<rparr>"

lemma digest_not_empty: "sha256_hex t \<noteq> ''''"
  using digest_length [of t] by auto

lemma owner_halts: "operator_of owner_auth halt_request"
proof -
  have "presented_token (Some ''Bearer token'') = Some ''token''" by code_simp
  then show ?thesis
    by (simp add: operator_of_def owner_auth_def halt_request_def auth_configured_def csrf_configured_def
        nonempty_def digest_not_empty)
qed

section \<open>Properties\<close>

text \<open>
  C26: Every answered validation is audited anew and decides its ledger entry, a retry as well. Under a
  key that is unused or was used for the same command, the request enters one audit record and
  leaves the entry of its key with that record's identifier and verdict, under the configuration of
  the moment; the entry it answers with is never marked as a duplicate. A request that is no command
  of the catalog escapes as an exception after its key is taken by an entry that stays received.
\<close>

theorem validation_endpoint_exact:
  assumes "ledger_run ls empty_ledger (as_ledger s)" and "from_env env = Inr c"
    and "may_enter (received_of c identity body) (as_ledger s)"
  shows "case validate_command env clks identity body s of (out, t) \<Rightarrow>
    \<exists>e. lg_by_key (as_ledger t) (cv_idempotency_key body) = Some e \<and> \<not> le_duplicate e
      \<and> (case command_request_from_mapping (request_body_of identity body) of
          Inl err \<Rightarrow> out = Inl err \<and> as_api t = as_api s
            \<and> (case lg_by_key (as_ledger s) (cv_idempotency_key body) of
                 None \<Rightarrow> le_status e = CL_RECEIVED | Some _ \<Rightarrow> as_ledger t = as_ledger s)
        | Inr q \<Rightarrow> \<exists>res record response. evaluate_command c q False = Inr res
            \<and> fr_records (ap_recorder (as_api t)) = fr_records (ap_recorder (as_api s)) @ [record]
            \<and> le_status e = (if csr_accepted res then CL_ACCEPTED else CL_REJECTED)
            \<and> le_audit_record_id e = Some (ar_record_id record)
            \<and> out = Inr (answer_with 200 (response @ [(''command_ledger'', entry_to_public_dict e)])))"
proof -
  let ?k = "cv_idempotency_key body" and ?c = "received_of c identity body"
  have key: "rq_idempotency_key ?c = ?k" by (simp add: received_of_def)
  have l: "ledger_ok (as_ledger s)" using ledger_run_effect [OF assms(1) ledger_ok_empty] by simp
  obtain e m where e: "fst (record_received ?c (clks 0 0) (as_ledger s)) = Inr e"
    "snd (record_received ?c (clks 0 0) (as_ledger s)) = m" "ledger_ok m"
    "lg_by_key m ?k = Some (e\<lparr>le_duplicate := False\<rparr>)"
    "case lg_by_key (as_ledger s) ?k of None \<Rightarrow> le_status e = CL_RECEIVED | Some _ \<Rightarrow> m = as_ledger s"
    using received_entry [OF l assms(3)] unfolding key by metis
  then have enter: "enter_command ?c (clks 0 0) s = (Inr (Inr e), s\<lparr>as_ledger := m\<rparr>)"
    by (simp add: enter_command_run prod_eq_iff split: prod.splits)
  show ?thesis
  proof (cases "command_request_from_mapping (request_body_of identity body)")
    case (Inl err)
    then have "validate_command env clks identity body s = (Inl err, s\<lparr>as_ledger := m\<rparr>)"
      using assms(2) enter
      by (simp add: validate_command_def validate_command_payload_def selected_config_def on_api_def zoom_def
          bind_act_run act_run)
    with Inl e(4,5) show ?thesis by (simp split: option.splits)
  next
    case (Inr q)
    obtain d res where res: "evaluate_command c q False = Inr res"
      using evaluate_command_cases [of q c False] by metis
    obtain response r a where run: "validate_command_payload env (clks 0 1) (request_body_of identity body) (Some c) (as_api s)
          = (Inr response, a)"
        "fr_records (ap_recorder a) = fr_records (ap_recorder (as_api s)) @ [r]"
        "response_item response ''command'' ''accepted'' = Inr (JBool (csr_accepted res))"
        "response_item response ''audit_record'' ''record_id'' = Inr (JStr (ar_record_id r))"
      by (rule validation_run [OF Inr res, of env "clks 0 1" "as_api s"])
    obtain u n where u: "u = (e\<lparr>le_duplicate := False\<rparr>)\<lparr>le_status := if csr_accepted res then CL_ACCEPTED else CL_REJECTED,
          le_audit_record_id := Some (ar_record_id r), le_updated_at := isoformat (clks 0 2)\<rparr>"
        "ledger_record_decision (le_command_id e) (csr_accepted res) (Some (ar_record_id r)) (clks 0 2) m = (Inr u, n)"
        "lg_by_key n ?k = Some u"
      using decided_entry [OF e(3,4), where ok = "csr_accepted res" and a = "ar_record_id r" and t = "clks 0 2"] by auto
    have "validate_command env clks identity body s =
        (Inr (answer_with 200 (response @ [(''command_ledger'', entry_to_public_dict u)])),
         s\<lparr>as_api := a, as_ledger := n\<rparr>)"
      using assms(2) enter run u(2)
      by (simp add: validate_command_def on_api_def on_ledger_def zoom_def bind_act_run act_run py_str_def)
    moreover have "\<not> le_duplicate u" "le_audit_record_id u = Some (ar_record_id r)"
      "le_status u = (if csr_accepted res then CL_ACCEPTED else CL_REJECTED)" by (simp_all add: u(1))
    ultimately show ?thesis using Inr res run(2) u(3) by (simp, blast)
  qed
qed

theorem validation_endpoint_exact_witness:
  "\<exists>s out t e. validate_command Map.empty (\<lambda>_ _. Aware 0) sample_owner unknown_command s = (out, t)
     \<and> lg_by_key (as_ledger t) ''key-1'' = Some e \<and> le_status e = CL_RECEIVED \<and> as_api t = as_api s"
proof -
  obtain s0 where "start_api Map.empty Map.empty (\<lambda>_ _. Aware 0) = Inr s0" using start_api_empty by blast
  define s where "s = \<lparr>as_api = s0, as_ledger = empty_ledger\<rparr>"
  have run: "ledger_run [] empty_ledger (as_ledger s)" by (simp add: s_def ledger_Nil)
  have "case from_env Map.empty of Inr c \<Rightarrow> True | Inl e \<Rightarrow> False" by code_simp
  then obtain c where c: "from_env Map.empty = Inr c" by (auto split: sum.splits)
  have enter: "may_enter (received_of c sample_owner unknown_command) (as_ledger s)"
    by (simp add: may_enter_def received_of_def unknown_command_def s_def empty_ledger_def)
  have "case command_request_from_mapping (request_body_of sample_owner unknown_command) of Inl e \<Rightarrow> True | Inr q \<Rightarrow> False"
    by code_simp
  then obtain err where err: "command_request_from_mapping (request_body_of sample_owner unknown_command) = Inl err"
    by (auto split: sum.splits)
  have key: "cv_idempotency_key unknown_command = ''key-1''" by (simp add: unknown_command_def)
  obtain out t where vt: "validate_command Map.empty (\<lambda>_ _. Aware 0) sample_owner unknown_command s = (out, t)"
    by fastforce
  from validation_endpoint_exact [OF run c enter, of "\<lambda>_ _. Aware 0"] obtain e where
    "lg_by_key (as_ledger t) ''key-1'' = Some e" "le_status e = CL_RECEIVED" "as_api t = as_api s"
    unfolding vt err key by (auto simp: s_def empty_ledger_def)
  with vt show ?thesis by blast
qed

text \<open>
  C7: Nothing happens without the operator. A request without a valid bearer token, or a POST without
  a valid CSRF token, changes nothing, and its answer is this: on the documentation pages that of the
  framework; the health and the authentication status; on every other route of the application the
  refusal (503 where a token is not set up, 401 otherwise), unless the route takes a body and the body
  is no JSON, which the framework answers; and anywhere else the framework's answer to a request
  without a route.
\<close>

theorem only_the_operator_acts:
  assumes "\<not> operator_of auth r"
  shows "v1_app fw w chain auth r s = (Inr
    (if vr_path r \<in> {''/api/docs'', ''/api/openapi.json''} then fw_document fw r
     else if vr_method r = ''GET'' \<and> vr_path r = ''/api/v1/health'' then answer_with 200 health_payload
     else if vr_method r = ''GET'' \<and> vr_path r = ''/api/v1/auth/status'' then answer_with 200 (auth_status auth)
     else if vr_method r = ''GET'' \<and> vr_path r \<in> set operator_gets then refusal auth r
     else if vr_method r = ''POST'' \<and> (vr_path r, True) \<in> set operator_posts
       then (if vr_body r = Malformed_Body then fw_malformed fw r else refusal auth r)
     else if vr_method r = ''POST'' \<and> (vr_path r, False) \<in> set operator_posts then refusal auth r
     else fw_unmatched fw r), s)"
proof -
  let ?p = "vr_path r"
  have get: "map_of (v1_get_routes w chain auth) ?p = None \<longleftrightarrow> ?p \<notin> set operator_gets"
    using guarded_gets [of w chain auth] by (simp add: map_of_eq_None_iff flip: set_map)
  have "distinct (map fst operator_posts)" by (simp add: operator_posts_def)
  then have post: "(p, b) \<in> set operator_posts \<longleftrightarrow> map_of operator_posts p = Some b" for p b
    by simp
  note routed = guarded_post_lookup [of ?p w]
  consider "?p \<in> set documentation_paths" | "?p \<notin> set documentation_paths" "vr_method r = ''GET''"
    | "?p \<notin> set documentation_paths" "vr_method r = ''POST''"
    | "?p \<notin> set documentation_paths" "vr_method r \<noteq> ''GET''" "vr_method r \<noteq> ''POST''" by blast
  then show ?thesis
  proof cases
    case 1
    then show ?thesis by (simp add: v1_app_def documentation_paths_def act_run)
  next
    case 2
    then show ?thesis
      using assms get
      by (cases "map_of (v1_get_routes w chain auth) ?p")
        (simp_all add: v1_app_def documentation_paths_def v1_get_def open_routes_def guarded_run act_run)
  next
    case 3
    then have app: "v1_app fw w chain auth r = v1_post fw w auth r" by (simp add: v1_app_def)
    show ?thesis
    proof (cases "?p = command_route")
      case True
      with 3 routed assms show ?thesis
        by (simp add: app documentation_paths_def post v1_post_def parsed_body_def guarded_run act_run)
    next
      case False
      with 3 routed assms show ?thesis
        by (cases "map_of (v1_post_routes w) ?p")
          (auto simp: app documentation_paths_def post v1_post_def parsed_body_def guarded_run act_run)
    qed
  next
    case 4
    then show ?thesis by (simp add: v1_app_def documentation_paths_def act_run)
  qed
qed

theorem only_the_operator_acts_witness:
  "\<exists>s. v1_app plain_framework still_world (\<lambda>_ _. None) unset_auth halt_request s
     = (Inr (http_error 503 ''single-owner admin token is not configured''), s)"
proof -
  have no: "\<not> operator_of unset_auth halt_request"
    by (simp add: operator_of_def unset_auth_def auth_configured_def nonempty_def)
  obtain s0 where "start_api Map.empty Map.empty (\<lambda>_ _. Aware 0) = Inr s0" using start_api_empty by blast
  define s where "s = \<lparr>as_api = s0, as_ledger = empty_ledger\<rparr>"
  have "(vr_path halt_request, False) \<in> set operator_posts" "(vr_path halt_request, True) \<notin> set operator_posts"
    by (simp_all add: halt_request_def operator_posts_def)
  then have "v1_app plain_framework still_world (\<lambda>_ _. None) unset_auth halt_request s = (Inr (refusal unset_auth halt_request), s)"
    using only_the_operator_acts [OF no] by (simp add: halt_request_def)
  then show ?thesis by (auto simp: refusal_def unset_auth_def auth_configured_def nonempty_def)
qed

text \<open>
  C27: The production API agrees with the local one on its POST routes, the validation of commands
  apart. A POST with the operator's bearer and CSRF tokens, whose body meets the contract of its route,
  answers and changes the state of the payload module as the same payload, printed in at most 64000
  characters, does on the path of the local server - except that where the local server answers a
  \<open>ValueError\<close> with 400, here the exception escapes. (On \<open>/commands/validate\<close> the two differ: see
  \<open>validate_command\<close>.)
\<close>

theorem production_post_agrees:
  assumes "operator_of auth r" and "vr_method r = ''POST''" and "vr_path r = ''/api/v1'' @ p"
    and "map_of (v1_post_routes w) (vr_path r) = Some (c, h)" and "body_fits c (vr_body r)"
    and "stream \<noteq> ''''" and "loads (wo_codec w) stream = Some (JObj (body_dump (vr_body r)))"
    and "int_of_text n = Inr (int (length stream))" and "length stream \<le> 64000"
  shows "do_post w p (Some n) stream (as_api s) = (case v1_app fw w chain auth r s of
     (Inr a, t) \<Rightarrow> (Inr a, as_api t)
   | (Inl e, t) \<Rightarrow> (if is_value_error e then Inr (bad_request (error_text e)) else Inl e, as_api t))"
proof -
  have "p \<noteq> ''/commands/validate''" using assms(3,4) by (auto simp: v1_post_defs Let_def)
  then have app: "v1_app fw w chain auth r s = serve (h (body_dump (vr_body r))) s"
    using assms(1-5)
    by (cases c) (auto simp: v1_app_def documentation_paths_def v1_post_def parsed_body_def command_route_def guarded_run)
  have "map_of (post_routes w) p = Some h" using assms(3,4) shared_posts by simp
  moreover have "handle_json_payload (wo_codec w) (Some n) stream h (as_api s) =
      (case h (body_dump (vr_body r)) (as_api s) of
         (Inl e, t) \<Rightarrow> if is_value_error e then (Inr (bad_request (error_text e)), t) else (Inl e, t)
       | (Inr body, t) \<Rightarrow> (Inr (answer_with 200 body), t))"
    using assms(6-9)
    by (simp add: handle_json_payload_def max_request_bytes_def catch_value_error_def parse_body_def read_body_def
        bind_act_run act_run split: prod.splits sum.splits)
  ultimately show ?thesis
    by (simp add: do_post_def app serve_def on_api_def zoom_def bind_act_run act_run split: prod.splits sum.splits)
qed

theorem production_post_agrees_witness:
  "\<exists>s a t. v1_app plain_framework open_world (\<lambda>_ _. None) owner_auth halt_request s = (Inr a, t)
     \<and> do_post open_world ''/paper/panic/halt'' (Some ''2'') ''{}'' (as_api s) = (Inr a, as_api t)"
proof -
  obtain s0 where start: "start_api Map.empty Map.empty (\<lambda>_ _. Aware 0) = Inr s0" using start_api_empty by blast
  define s where "s = \<lparr>as_api = s0, as_ledger = empty_ledger\<rparr>"
  have route: "map_of (v1_post_routes open_world) (vr_path halt_request)
      = Some (No_Contract, \<lambda>_. on_exchange (panic_halt (\<lambda>_. Aware 0)))"
    by (simp add: v1_post_defs Let_def halt_request_def open_world_def still_world_def)
  have path: "vr_path halt_request = ''/api/v1'' @ ''/paper/panic/halt''" "vr_method halt_request = ''POST''"
    by (simp_all add: halt_request_def)
  have "int_of_text ''2'' = Inr 2" by code_simp
  then have n: "int_of_text ''2'' = Inr (int (length ''{}''))" by simp
  have body: "loads (wo_codec open_world) ''{}'' = Some (JObj (body_dump (vr_body halt_request)))"
    "body_fits No_Contract (vr_body halt_request)"
    by (simp_all add: open_world_def still_world_def halt_request_def loads_empty_object)
  have "\<exists>b. fst (panic_halt (\<lambda>_. Aware 0) (ap_exchange s0)) = Inr b"
    using fresh_desk_halts start by (auto simp: start_api_def Let_def bind_res_eq_Inr split: sum.splits)
  then obtain b y where halt: "panic_halt (\<lambda>_. Aware 0) (ap_exchange s0) = (Inr b, y)" by (metis prod.collapse)
  have "v1_app plain_framework open_world (\<lambda>_ _. None) owner_auth halt_request s
      = (Inr (answer_with 200 b), s\<lparr>as_api := s0\<lparr>ap_exchange := y\<rparr>\<rparr>)"
    using owner_halts path(2) route halt
    by (simp add: v1_app_def documentation_paths_def v1_post_def parsed_body_def command_route_def halt_request_def guarded_run serve_def on_api_def
        on_exchange_def zoom_def s_def bind_act_run act_run)
  with production_post_agrees [OF owner_halts path(2,1) route body(2) _ body(1) n, where fw = plain_framework and chain = "\<lambda>_ _. None" and s = s]
  show ?thesis by fastforce
qed

end
