(* ===== verification/Api_Wire.thy ===== *)
theory Api_Wire
  imports Api_Orders
begin

text \<open>
  The edge of \<open>apps/api/server.py\<close>: the texts that requests and answers are on the wire, the headers
  the handler sends, the preflight answer, and which of the two servers \<open>run\<close> starts. A response is
  what the handler hands to \<open>http.server\<close>, which adds its own server and date headers; text printed by
  \<open>json.dumps\<close> is ASCII, so that its UTF-8 bytes are its characters.
\<close>

section \<open>Responses\<close>

record http_response =
  hr_status :: nat
  hr_headers :: "(string \<times> string) list"
  hr_body :: string

definition cors_headers :: "(string \<times> string) list" where
  "cors_headers =
     [(''Access-Control-Allow-Origin'', ''*''),
      (''Access-Control-Allow-Methods'', ''GET, POST, OPTIONS''),
      (''Access-Control-Allow-Headers'', ''Content-Type'')]"

definition send_json :: "codec \<Rightarrow> http_answer \<Rightarrow> http_response" where
  "send_json cd a =
     (let body = dumps cd Spaced (JObj (ha_body a))
      in \<lparr>hr_status = ha_status a,
          hr_headers = (''Content-Type'', ''application/json'') # cors_headers
            @ [(''Content-Length'', show_int (int (length body)))],
          hr_body = body\<rparr>)"

definition do_options :: http_response where
  "do_options = \<lparr>hr_status = 204, hr_headers = cors_headers, hr_body = ''''\<rparr>"

section \<open>Starting a server\<close>

datatype server = Legacy_Server string int | Production_Server string int

definition run_server :: "(string \<rightharpoonup> string) \<Rightarrow> string \<Rightarrow> int option \<Rightarrow> server res" where
  "run_server env host port =
     bind_res (case port of
         Some p \<Rightarrow> if p \<noteq> 0 then Inr p else int_of_text (env_or env ''API_PORT'' ''8080'')
       | None \<Rightarrow> int_of_text (env_or env ''API_PORT'' ''8080'')) (\<lambda>selected.
     Inr (if lower (env_or env ''TCP_LEGACY_HTTP_SERVER'' '''') \<in> {''1'', ''true'', ''yes'', ''on''}
          then Legacy_Server host selected else Production_Server host selected))"

section \<open>Texts on the wire\<close>

lemma sent_body_reads:
  assumes "storable cd (JObj (ha_body a))"
  shows "loads cd (hr_body (send_json cd a)) = Some (JObj (decoded_object cd (ha_body a)))"
    and "list_all printable (hr_body (send_json cd a))"
    and "map_of (hr_headers (send_json cd a)) ''Content-Length'' = Some (show_nn (int (length (hr_body (send_json cd a)))))"
proof -
  have textual: "textual cd (decoded cd (JObj (ha_body a)))" using assms by (simp only: storable_def)
  show "loads cd (hr_body (send_json cd a)) = Some (JObj (decoded_object cd (ha_body a)))"
    using loads_dumps [OF textual, of "[]" Spaced] by (simp add: send_json_def Let_def decoded_object del: decoded.simps)
  show "list_all printable (hr_body (send_json cd a))"
    using one_line [OF textual, of Spaced 0] by (simp add: send_json_def Let_def dumps_def)
  show "map_of (hr_headers (send_json cd a)) ''Content-Length'' = Some (show_nn (int (length (hr_body (send_json cd a)))))"
    by (simp add: send_json_def Let_def cors_headers_def show_int_def)
qed

lemma sent_payload_arrives:
  assumes "textual cd (JObj payload)" and "length (print_json l 0 (JObj payload)) \<le> 64000"
    and "int_of_text n = Inr (int (length (print_json l 0 (JObj payload))))"
  shows "handle_json_payload cd (Some n) (print_json l 0 (JObj payload) @ later) h s =
    (case h payload s of
       (Inr body, t) \<Rightarrow> (Inr (answer_with 200 body), t)
     | (Inl e, t) \<Rightarrow> if is_value_error e then (Inr (bad_request (error_text e)), t) else (Inl e, t))"
proof -
  define sent where "sent = print_json l 0 (JObj payload)"
  have "loads cd sent = Some (JObj payload)"
    using parse_document [OF assms(1), of "[]" l 0] by (simp add: sent_def skip_def del: print_json.simps)
  moreover from this have "sent \<noteq> ''''" by (auto simp: loads_def skip_def)
  ultimately have "parse_body cd sent = Inr payload" by (simp add: parse_body_def)
  moreover have "read_body (int (length sent)) (sent @ later) = sent" by (simp add: read_body_def)
  ultimately show ?thesis using assms(2,3)
    unfolding sent_def [symmetric]
    by (simp add: handle_json_payload_def max_request_bytes_def catch_value_error_def bind_act_run act_run
        split: prod.splits sum.splits)
qed

section \<open>Properties\<close>

text \<open>
  C9: The wire carries payloads. A client prints an object with its keys in any order, in one of the
  layouts of \<open>json.dumps\<close> - the default one, the compact one (which is that of \<open>JSON.stringify\<close>), or
  indented - with whatever is not printable ASCII escaped, and declares its length. If that is above
  64000 the request is answered with 413 and changes nothing; else the handler gets that very object,
  whatever follows on the connection, and its payload is answered with 200, its \<open>ValueError\<close> with 400,
  and any other exception escapes. And any answer of printable fields is sent as one line of ASCII that
  parses to its fields in the order of their keys, under a content length that is the length of the
  line.
\<close>

theorem wire_carries_payloads:
  assumes "textual cd (JObj payload)" and "sent = print_json l 0 (JObj payload)"
    and "int_of_text n = Inr (int (length sent))"
  shows "handle_json_payload cd (Some n) (sent @ later) h s =
      (if length sent > 64000
       then (Inr (answer_with 413 [(''status'', JStr ''too_large''), (''reason'', JStr ''request body is too large'')]), s)
       else case h payload s of
         (Inr body, t) \<Rightarrow> (Inr (answer_with 200 body), t)
       | (Inl e, t) \<Rightarrow> if is_value_error e then (Inr (bad_request (error_text e)), t) else (Inl e, t))
    \<and> (\<forall>a. storable cd (JObj (ha_body a)) \<longrightarrow>
         loads cd (hr_body (send_json cd a)) = Some (JObj (decoded_object cd (ha_body a)))
         \<and> list_all printable (hr_body (send_json cd a))
         \<and> map_of (hr_headers (send_json cd a)) ''Content-Length''
             = Some (show_nn (int (length (hr_body (send_json cd a))))))"
proof (intro conjI allI impI sent_body_reads)
  show "handle_json_payload cd (Some n) (sent @ later) h s =
      (if length sent > 64000
       then (Inr (answer_with 413 [(''status'', JStr ''too_large''), (''reason'', JStr ''request body is too large'')]), s)
       else case h payload s of
         (Inr body, t) \<Rightarrow> (Inr (answer_with 200 body), t)
       | (Inl e, t) \<Rightarrow> if is_value_error e then (Inr (bad_request (error_text e)), t) else (Inl e, t))"
  proof (cases "length sent > 64000")
    case True
    then show ?thesis using assms(3) by (simp add: handle_json_payload_def max_request_bytes_def act_run)
  next
    case False
    then show ?thesis
      using sent_payload_arrives [OF assms(1), of l n later h s] assms(2,3) by simp
  qed
qed

theorem wire_carries_payloads_witness:
  "\<exists>s. handle_json_payload plain_codec (Some ''16'')
        (print_json Compact 0 (JObj [(''z'', JInt 12), (''a'', JStr ''x'')]) @ ''GET /'') ret s
     = (Inr (answer_with 200 [(''z'', JInt 12), (''a'', JStr ''x'')]), s)"
proof -
  obtain s where "start_api Map.empty Map.empty (\<lambda>_ _. Aware 0) = Inr s" using start_api_empty by blast
  define v where "v = [(''z'', JInt 12), (''a'', JStr ''x'')]"
  have size: "length (print_json Compact 0 (JObj v)) = 16" unfolding v_def by code_simp
  have "int_of_text ''16'' = Inr 16" by code_simp
  moreover have "textual plain_codec (JObj v)" by (simp add: v_def max_int_digits_def show_nn.simps)
  ultimately show ?thesis
    using wire_carries_payloads [where payload = v and cd = plain_codec and l = Compact and sent = "print_json Compact 0 (JObj v)"
        and n = "''16''" and h = ret and s = s and later = "''GET /''"] size
    unfolding v_def [symmetric] by (auto simp: act_run simp del: print_json.simps)
qed

end
