(* ===== verification/Db_Schema.thy ===== *)
theory Db_Schema
  imports Security Audit_Ledger
begin

text \<open>
  \<open>migrations/versions/0001_production_spine.py\<close> and \<open>migrations/env.py\<close>: the statements the migration
  hands to Alembic, and the database address it runs against. What a database does with the
  statements is not modelled; what the services keep is compared with the tables they declare.
\<close>

section \<open>Statements\<close>

datatype column_type = Plain_Text | Jsonb | Timestamp

record column =
  cl_name :: string
  cl_type :: column_type
  cl_primary_key :: bool
  cl_nullable :: bool
  cl_unique :: bool

text \<open>A primary key is never null; the other columns say whether they may be.\<close>

definition key_column :: "string \<Rightarrow> column" where
  "key_column name = \<lparr>cl_name = name, cl_type = Plain_Text, cl_primary_key = True, cl_nullable = False,
     cl_unique = False\<rparr>"

definition required :: "string \<Rightarrow> column_type \<Rightarrow> column" where
  "required name ty = \<lparr>cl_name = name, cl_type = ty, cl_primary_key = False, cl_nullable = False,
     cl_unique = False\<rparr>"

datatype statement = Create_Table string "column list" | Drop_Table string

definition upgrade :: "statement list" where
  "upgrade =
     [Create_Table ''audit_records''
        [key_column ''record_id'', required ''command_type'' Plain_Text,
         required ''actor_id'' Plain_Text, required ''decision'' Plain_Text,
         required ''reasons'' Jsonb, required ''payload_keys'' Jsonb,
         required ''payload_fingerprint'' Plain_Text, required ''runtime'' Jsonb,
         required ''created_at'' Timestamp],
      Create_Table ''command_ledger''
        [key_column ''command_id'',
         (required ''idempotency_key'' Plain_Text)\<lparr>cl_unique := True\<rparr>,
         required ''command_type'' Plain_Text, required ''actor_id'' Plain_Text,
         required ''payload_fingerprint'' Plain_Text, required ''status'' Plain_Text,
         required ''runtime'' Jsonb,
         (required ''audit_record_id'' Plain_Text)\<lparr>cl_nullable := True\<rparr>,
         required ''created_at'' Timestamp, required ''updated_at'' Timestamp],
      Create_Table ''account_snapshots''
        [key_column ''snapshot_id'', required ''venue_target'' Plain_Text,
         required ''source'' Plain_Text, required ''payload'' Jsonb,
         required ''received_at'' Timestamp],
      Create_Table ''symbol_metadata_snapshots''
        [key_column ''snapshot_id'', required ''source'' Plain_Text, required ''payload'' Jsonb,
         required ''received_at'' Timestamp],
      Create_Table ''fee_policy_snapshots''
        [key_column ''snapshot_id'', required ''source'' Plain_Text, required ''payload'' Jsonb,
         required ''received_at'' Timestamp],
      Create_Table ''paper_orders''
        [key_column ''order_id'', required ''status'' Plain_Text, required ''payload'' Jsonb,
         required ''created_at'' Timestamp, required ''updated_at'' Timestamp],
      Create_Table ''paper_fills''
        [key_column ''fill_id'', required ''order_id'' Plain_Text, required ''payload'' Jsonb,
         required ''created_at'' Timestamp],
      Create_Table ''reconciliation_events''
        [key_column ''event_id'', required ''venue_target'' Plain_Text,
         required ''order_id'' Plain_Text, required ''status'' Plain_Text,
         required ''payload'' Jsonb, required ''created_at'' Timestamp],
      Create_Table ''model_registry_entries''
        [key_column ''model_id'', required ''approval_state'' Plain_Text,
         required ''payload'' Jsonb, required ''created_at'' Timestamp],
      Create_Table ''strategy_sessions''
        [key_column ''session_id'', required ''status'' Plain_Text, required ''payload'' Jsonb,
         required ''created_at'' Timestamp, required ''updated_at'' Timestamp],
      Create_Table ''runtime_config_versions''
        [key_column ''version_id'', required ''runtime'' Jsonb, required ''created_at'' Timestamp]]"

definition downgrade :: "statement list" where
  "downgrade = map Drop_Table
      [''runtime_config_versions'', ''strategy_sessions'', ''model_registry_entries'',
       ''reconciliation_events'', ''paper_fills'', ''paper_orders'', ''fee_policy_snapshots'',
       ''symbol_metadata_snapshots'', ''account_snapshots'', ''command_ledger'',
       ''audit_records'']"

section \<open>The address\<close>

definition migration_database_url :: "(string \<rightharpoonup> string) \<Rightarrow> string res" where
  "migration_database_url env =
     (case env ''DATABASE_URL'' of
        Some (c # cs) \<Rightarrow> Inr (c # cs)
      | _ \<Rightarrow> Inl (Raise RuntimeError ''DATABASE_URL is required for Alembic migrations''))"

text \<open>What a configured context runs: statements printed, or sent to a database.\<close>

datatype migration_run = Print_For string | Send_To string

definition run_migrations :: "bool \<Rightarrow> (string \<rightharpoonup> string) \<Rightarrow> migration_run res" where
  "run_migrations offline env =
     map_res (if offline then Print_For else Send_To) (migration_database_url env)"

section \<open>Rows of the tables\<close>

fun created_tables :: "statement list \<Rightarrow> (string \<times> column list) list" where
  "created_tables [] = []"
| "created_tables (Create_Table name cs # ss) = (name, cs) # created_tables ss"
| "created_tables (Drop_Table name # ss) = created_tables ss"

definition table_columns :: "string \<Rightarrow> column list" where
  "table_columns name = (case map_of (created_tables upgrade) name of None \<Rightarrow> [] | Some cs \<Rightarrow> cs)"

text \<open>The services keep their times as the texts of \<open>isoformat\<close>, which a timestamp column is given as text.\<close>

definition cell_fits :: "column \<Rightarrow> json option \<Rightarrow> bool" where
  "cell_fits c x =
     (case x of
        None \<Rightarrow> False
      | Some JNull \<Rightarrow> cl_nullable c
      | Some (JStr _) \<Rightarrow> cl_type c = Plain_Text \<or> cl_type c = Timestamp
      | Some (JArr _) \<Rightarrow> cl_type c = Jsonb
      | Some (JObj _) \<Rightarrow> cl_type c = Jsonb
      | Some _ \<Rightarrow> False)"

text \<open>The constraints of a table on the public fields of what a service keeps.\<close>

definition table_accepts :: "column list \<Rightarrow> json_object list \<Rightarrow> bool" where
  "table_accepts cs rows \<longleftrightarrow>
     list_all (\<lambda>row. list_all (\<lambda>c. cell_fits c (map_of row (cl_name c))) cs) rows
     \<and> list_all (\<lambda>c. cl_primary_key c \<or> cl_unique c \<longrightarrow> distinct (map (\<lambda>row. map_of row (cl_name c)) rows)) cs"

definition public_fields :: "json \<Rightarrow> json_object" where
  "public_fields v = (case v of JObj kvs \<Rightarrow> kvs | _ \<Rightarrow> [])"

text \<open>A table in order: names differ, and the first column is the key and the only one.\<close>

definition well_keyed :: "column list \<Rightarrow> bool" where
  "well_keyed cs \<longleftrightarrow> distinct (map cl_name cs) \<and> map cl_primary_key cs = (cs \<noteq> []) # replicate (length cs - 1) False"

lemma ledger_columns: "table_columns ''command_ledger'' =
    [key_column ''command_id'', (required ''idempotency_key'' Plain_Text)\<lparr>cl_unique := True\<rparr>,
     required ''command_type'' Plain_Text, required ''actor_id'' Plain_Text,
     required ''payload_fingerprint'' Plain_Text, required ''status'' Plain_Text, required ''runtime'' Jsonb,
     (required ''audit_record_id'' Plain_Text)\<lparr>cl_nullable := True\<rparr>, required ''created_at'' Timestamp,
     required ''updated_at'' Timestamp]"
  by (simp add: table_columns_def upgrade_def)

lemma audit_columns: "table_columns ''audit_records'' =
    [key_column ''record_id'', required ''command_type'' Plain_Text, required ''actor_id'' Plain_Text,
     required ''decision'' Plain_Text, required ''reasons'' Jsonb, required ''payload_keys'' Jsonb,
     required ''payload_fingerprint'' Plain_Text, required ''runtime'' Jsonb, required ''created_at'' Timestamp]"
  by (simp add: table_columns_def upgrade_def)

lemma distinct_texts: "distinct (map f xs) \<Longrightarrow> distinct (map (\<lambda>x. Some (JStr (f x))) xs)"
  by (auto simp: distinct_map inj_on_def)

lemma ledger_accepted:
  assumes "ledger_ok l"
  shows "table_accepts (table_columns ''command_ledger'') (map (public_fields \<circ> entry_to_public_dict) (lg_entries l))"
proof -
  have "distinct (map le_command_id (lg_entries l))" "distinct (map le_idempotency_key (lg_entries l))"
    using assms well_numbered_distinct by (auto simp: ledger_ok_def)
  then show ?thesis
    by (simp add: table_accepts_def ledger_columns public_fields_def entry_to_public_dict_def key_column_def
        required_def cell_fits_def list_all_iff jopt_def comp_def distinct_texts split: option.split)
qed

text \<open>What a recorder that started empty has recorded.\<close>

definition recorded :: "(decision_facts \<times> datetime) list \<Rightarrow> audit_record list" where
  "recorded ds = fold append_record ds []"

lemma recorded_wf: "well_numbered ''audit-'' ar_record_id (recorded ds)"
proof -
  have "well_numbered ''audit-'' ar_record_id rs \<Longrightarrow> well_numbered ''audit-'' ar_record_id (fold append_record ds rs)" for rs
    by (induction ds arbitrary: rs) (simp_all add: audit_log.enter_numbered)
  from this [of "[]"] show ?thesis by (simp add: recorded_def)
qed

lemma audit_accepted:
  "table_accepts (table_columns ''audit_records'') (map (public_fields \<circ> audit_to_public_dict) (recorded ds))"
proof -
  have "distinct (map ar_record_id (recorded ds))" using recorded_wf [of ds] well_numbered_distinct by auto
  then show ?thesis
    by (auto simp: table_accepts_def audit_columns public_fields_def audit_to_public_dict_def key_column_def
        required_def cell_fits_def list_all_iff jstrs_def comp_def distinct_texts)
qed

section \<open>The migration and the services\<close>

text \<open>
  The migration fits the services. It creates exactly the tables the storage settings require, each
  with one key column, and undoes them in reverse order; every audit log that was recorded from an
  empty start and every reachable command ledger satisfies the types, the NOT NULL, the key and the
  uniqueness constraints of its table, whose columns are the public fields - all but the flag \<open>duplicate\<close> of a ledger entry.
\<close>

theorem migration_fits_services:
  assumes "ledger_run cs empty_ledger l"
  shows "map fst (created_tables upgrade) = production_tables
    \<and> downgrade = map Drop_Table (rev production_tables)
    \<and> list_all (\<lambda>(name, columns). well_keyed columns) (created_tables upgrade)
    \<and> table_accepts (table_columns ''audit_records'') (map (public_fields \<circ> audit_to_public_dict) (recorded ds))
    \<and> table_accepts (table_columns ''command_ledger'') (map (public_fields \<circ> entry_to_public_dict) (lg_entries l))
    \<and> map cl_name (table_columns ''audit_records'') = map fst (public_fields (audit_to_public_dict r))
    \<and> map cl_name (table_columns ''command_ledger'') @ [''duplicate''] = map fst (public_fields (entry_to_public_dict e))"
proof (intro conjI audit_accepted)
  show "map fst (created_tables upgrade) = production_tables" "downgrade = map Drop_Table (rev production_tables)"
    by (simp_all add: upgrade_def downgrade_def production_tables_def)
  show "list_all (\<lambda>(name, columns). well_keyed columns) (created_tables upgrade)"
    by (simp add: upgrade_def well_keyed_def key_column_def required_def)
  show "table_accepts (table_columns ''command_ledger'') (map (public_fields \<circ> entry_to_public_dict) (lg_entries l))"
    using ledger_run_effect [OF assms ledger_ok_empty] by (intro ledger_accepted) simp
  show "map cl_name (table_columns ''audit_records'') = map fst (public_fields (audit_to_public_dict r))"
    by (simp add: audit_columns public_fields_def audit_to_public_dict_def key_column_def required_def)
  show "map cl_name (table_columns ''command_ledger'') @ [''duplicate''] = map fst (public_fields (entry_to_public_dict e))"
    by (simp add: ledger_columns public_fields_def entry_to_public_dict_def key_column_def required_def)
qed

theorem migration_fits_services_witness:
  "\<exists>l :: ledger. length (lg_entries l) = 1
     \<and> table_accepts (table_columns ''command_ledger'') (map (public_fields \<circ> entry_to_public_dict) (lg_entries l))"
proof -
  define c where "c = \<lparr>rq_command_type = ''status'', rq_actor_id = ''owner'', rq_payload = [], rq_runtime = [],
    rq_idempotency_key = ''k''\<rparr>"
  define l where "l = after_ledger_call (Receive c) (Aware 0) empty_ledger"
  have run: "ledger_run [(Receive c, Aware 0)] empty_ledger l" unfolding l_def by (intro ledger_run.intros)
  have "table_accepts (table_columns ''command_ledger'') (map (public_fields \<circ> entry_to_public_dict) (lg_entries l))"
    by (rule conjunct1 [OF conjunct2 [OF conjunct2 [OF conjunct2 [OF conjunct2 [OF migration_fits_services [OF run]]]]]])
  moreover have "length (lg_entries l) = 1"
    by (simp add: l_def record_received_state c_def empty_ledger_def append_entry_def Let_def)
  ultimately show ?thesis by blast
qed

end
