(* ===== verification/Audit_Text.thy ===== *)
theory Audit_Text
  imports Audit_Records Text_Store
begin

text \<open>
  The audit log in its file. A recorder that starts on the characters of \<open>audit/records.jsonl\<close> reads
  the records that were written there; the text keeps everything but the order of the keys of the
  runtime object.
\<close>

definition open_recorder_text :: "codec \<Rightarrow> text_store \<Rightarrow> string \<Rightarrow> audit_record list res" where
  "open_recorder_text cd st name = bind_res (read_jsonl_text cd name st) (mapM_res record_from_row)"

definition reread :: "codec \<Rightarrow> audit_record \<Rightarrow> audit_record" where
  "reread cd r = r\<lparr>ar_runtime := decoded_object cd (ar_runtime r)\<rparr>"

definition audit_row :: "audit_record \<Rightarrow> json_object" where
  "audit_row r = (case audit_to_public_dict r of JObj kvs \<Rightarrow> kvs | _ \<Rightarrow> [])"

lemma audit_row: "audit_to_public_dict r = JObj (audit_row r)"
  by (simp add: audit_row_def audit_to_public_dict_def)

lemma audit_row_keys: "distinct (map fst (audit_row r))"
  by (simp add: audit_row_def audit_to_public_dict_def)

lemma decoded_texts [simp]: "decoded cd (jstrs xs) = jstrs xs"
  by (simp add: jstrs_def)

lemma reread_row: "record_from_row (decoded_object cd (audit_row r)) = Inr (reread cd r)"
proof -
  have texts: "map (py_str \<circ> JStr) xs = xs" for xs by (simp add: py_str_def comp_def)
  have decode: "map (py_str \<circ> (decoded cd \<circ> JStr)) xs = xs" for xs by (simp add: py_str_def comp_def)
  note look = decoded_lookup [OF audit_row_keys]
  show ?thesis
    by (simp add: record_from_row_def field_of_def row_texts_def jget_default_def look)
      (simp add: audit_row_def audit_to_public_dict_def reread_def jstrs_def texts decode py_str_def
        flip: decoded_object_def)
qed

lemma storable_object:
  "storable cd (JObj kvs) \<longleftrightarrow> distinct (map fst kvs) \<and> list_all (\<lambda>kv. storable cd (snd kv)) kvs"
  by (simp only: storable_def textual_object)

lemma storable_texts [simp]: "storable cd (JStr t)" "storable cd (jstrs ts)"
  by (simp_all add: storable_def, simp add: jstrs_def list_all_iff)

lemma storable_audit:
  "storable cd (audit_to_public_dict e) \<longleftrightarrow> storable cd (JObj (ar_runtime e))"
  by (simp add: audit_to_public_dict_def storable_object)

lemma recorded_rows:
  assumes "fr_jsonl_name r = default_jsonl_name" and "read_jsonl default_jsonl_name (fr_store r) = Inr rows"
  shows "\<exists>news. fr_records (record_all ds r) = fr_records r @ news \<and> length news = length ds
    \<and> read_jsonl default_jsonl_name (fr_store (record_all ds r)) = Inr (rows @ map audit_row news)"
  using assms
proof (induction ds arbitrary: r rows)
  case Nil
  then show ?case by (simp add: record_all_def)
next
  case (Cons p ds)
  obtain d now where p: "p = (d, now)" by (cases p)
  let ?r = "snd (file_record_decision d now r)"
  obtain e where e: "append_record (d, now) (fr_records r) = fr_records r @ [e]"
    by (auto simp: append_record_def)
  have "fr_jsonl_name ?r = default_jsonl_name" "fr_records ?r = fr_records r @ [e]"
    using Cons.prems(1) e by (simp_all add: file_record_decision_state Let_def)
  moreover have "read_jsonl default_jsonl_name (fr_store ?r) = Inr (rows @ [audit_row e])"
    using Cons.prems append_read_jsonl [OF Cons.prems(2), of "audit_row e"] write_json_other [OF latest_path]
    by (simp add: file_record_decision_state Let_def e audit_row)
  ultimately obtain news where "fr_records (record_all ds ?r) = fr_records r @ [e] @ news" "length news = length ds"
    "read_jsonl default_jsonl_name (fr_store (record_all ds ?r)) = Inr ((rows @ [audit_row e]) @ map audit_row news)"
    using Cons.IH [of ?r "rows @ [audit_row e]"] by auto
  then show ?case by (intro exI [of _ "e # news"]) (simp add: record_all_def p)
qed

section \<open>Properties\<close>

text \<open>
  C23: The audit log survives on disk. A recorder that started on a store without records and recorded
  any decisions has left a text from which a recorder that starts later reads the same records, in
  order, decoded.
\<close>

theorem audit_log_reads_from_disk:
  assumes "open_recorder st default_jsonl_name = Inr r0" and "fr_records r0 = []"
    and "prints cd (fr_store (record_all ds r0)) ts"
  shows "open_recorder_text cd ts default_jsonl_name = Inr (map (reread cd) (fr_records (record_all ds r0)))
    \<and> length (fr_records (record_all ds r0)) = length ds"
proof -
  have start: "fr_jsonl_name r0 = default_jsonl_name" "read_jsonl default_jsonl_name (fr_store r0) = Inr []"
    using assms(1,2) by (auto simp: open_recorder_def bind_res_eq_Inr dest: mapM_res_length)
  obtain news where n: "fr_records (record_all ds r0) = news" "length news = length ds"
    "read_jsonl default_jsonl_name (fr_store (record_all ds r0)) = Inr (map audit_row news)"
    using recorded_rows [OF start, of ds] assms(2) by auto
  have "read_jsonl_text cd default_jsonl_name ts = Inr (map (decoded_object cd) (map audit_row news))"
    using read_text_rows [OF assms(3)] n(3) by simp
  moreover have "mapM_res record_from_row (map (decoded_object cd) (map audit_row news)) = Inr (map (reread cd) news)"
    by (induction news) (simp_all add: reread_row)
  ultimately show ?thesis using n(1,2) by (simp add: open_recorder_text_def)
qed

theorem audit_log_reads_from_disk_witness:
  "\<exists>ts rs. open_recorder_text plain_codec ts default_jsonl_name = Inr rs \<and> length rs = 1"
proof -
  define r0 where "r0 = \<lparr>fr_records = [], fr_store = open_store None (\<lambda>_. None) (\<lambda>_. None), fr_jsonl_name = default_jsonl_name\<rparr>"
  have r0: "open_recorder (fr_store r0) default_jsonl_name = Inr r0" "fr_records r0 = []"
    by (simp_all add: open_recorder_def read_jsonl_def open_store_def r0_def)
  define s where "s = fr_store (record_all [(sample_decision, Aware 0)] r0)"
  define ts where "ts = \<lparr>tx_root = js_root s, tx_files = (\<lambda>p. map_option (file_text plain_codec) (js_files s p))\<rparr>"
  have "storable plain_codec (audit_to_public_dict e)" if "append_record (sample_decision, Aware 0) [] = [e]" for e
    using that by (auto simp: append_record_def storable_audit storable_object sample_decision_def)
  moreover obtain e where e: "append_record (sample_decision, Aware 0) [] = [e]" by (simp add: append_record_def)
  ultimately have entry: "storable plain_codec (audit_to_public_dict e)" by blast
  then have "storable plain_codec (JObj [(''records'', JArr [audit_to_public_dict e])])"
    by (simp add: storable_object) (simp add: storable_def)
  with entry have "prints plain_codec s ts"
    by (auto simp: prints_def s_def ts_def record_all_def file_record_decision_state Let_def r0_def e open_store_def
        write_json_def append_jsonl_def records_to_public_list_def split: if_splits)
  with audit_log_reads_from_disk [OF r0, where ds = "[(sample_decision, Aware 0)]" and cd = plain_codec and ts = ts]
  show ?thesis unfolding s_def by (intro exI [of _ ts]) auto
qed

end
