(* ===== verification/Spec2Isabelle.thy ===== *)
theory Spec2Isabelle
  imports Command_Catalog Symbol_Universe Exec_Policy Venue_Updates Exchange_Liveness Audit_Ledger
    Binance_Client Fastapi Api_Wire Db_Schema Audit_Text
begin

text \<open>
  The verification library of the AI-CryptoFutures-TCP trading control platform: a paper exchange
  for two USDC perpetuals, its risk and execution gates, its accounts, the strategy, backtest and
  model records around it, the Binance testnet lane, the audit log and the HTTP API in front.

  The parts and how they interact. \<open>libs/config\<close> reads the runtime tuple (operator mode, venue,
  credentials, gate, autonomy stage, model approval) from the environment; \<open>libs/schemas/commands.py\<close>
  is the catalog of operator commands with the tuple each one requires; \<open>services/risk/gates.py\<close>
  compares the two and vetoes. A paper order comes in as JSON (\<open>libs/schemas/paper_trading.py\<close>),
  goes through the preview of \<open>services/paper_exchange/exchange.py\<close> (instrument metadata, fee policy,
  quote, lots and ticks, the maker-first rule of \<open>services/execution/policy.py\<close>, the expected edge),
  then through \<open>services/risk/paper.py\<close>, and rests in the exchange until its matching pass fills it;
  every fill is settled by \<open>services/portfolio/accounting.py\<close> in the account of
  \<open>libs/schemas/exchange_state.py\<close>, every change is logged as a reconciliation event and written to
  the JSON store of \<open>services/storage/json_store.py\<close>. \<open>services/execution/reconciliation.py\<close> keeps the
  order status an external venue reports. \<open>services/market_data/replay.py\<close> turns depth snapshots into
  feature rows, which \<open>services/backtesting/engine.py\<close> scores and \<open>services/strategy\<close> turns into
  sessions and recommendations; \<open>services/model_service/governance.py\<close> records model decisions.
  \<open>libs/binance_connector\<close> with \<open>services/execution/binance_validation.py\<close> and
  \<open>services/portfolio/live_readonly.py\<close> translate orders for the testnet and show the live account.
  \<open>services/audit\<close> records every gated command, \<open>apps/api/server.py\<close> routes requests to all of it, and \<open>apps/api/fastapi_app.py\<close> puts the
  operator's tokens and the command ledger in front.

  Theories, from the bottom up.
  \<^item> \<open>Prelude\<close>: results \<open>error + 'a\<close> for the exceptions of the source, collected reason lists, numbered
    identifiers, and the state and error monad \<open>act\<close> in which the exchange is written (state changes
    before an exception persist, as they do for Python attributes).
  \<^item> \<open>Decimal_Arith\<close>, \<open>Decimal_Value\<close>, \<open>Decimal_Text\<close>: Python's \<open>decimal\<close> in its default context (28
    digits, half-even, traps on): signed coefficients and exponents, infinities and NaNs, rounding,
    the operations the program uses, their value in the rationals (exact when representable), and
    \<open>format(d, "f")\<close> with the constructor from text.
  \<^item> \<open>Date_Time\<close>, \<open>Iso_Text\<close>, \<open>Json_Value\<close>: aware and naive datetimes as microseconds, their text as
    civil dates, and parsed JSON.
    \<open>Double_Arith\<close>: the three places where a binary double carries a time (milliseconds of a
    timedelta, \<open>timestamp()\<close>, \<open>fromtimestamp\<close>), as exact integer arithmetic with the rounding to 53
    bits. \<open>Sha256\<close>: SHA-256 and HMAC over bytes.
    \<open>Json_Text\<close>: \<open>json.dumps\<close> in the three layouts in use and \<open>json.loads\<close>, with the theorem that a
    printed value reads back whatever follows it.
  \<^item> One theory per source file: \<open>Runtime_Config\<close>, \<open>Symbol_Universe\<close>, \<open>Command_Catalog\<close>, \<open>Risk_Gates\<close>,
    \<open>Exchange_State\<close>, \<open>Paper_Schemas\<close>, \<open>Exec_Policy\<close>, \<open>Portfolio\<close>, \<open>Paper_Risk\<close>, \<open>Json_Store\<close> (which
    also holds \<open>services/paper_exchange/persistence.py\<close>), \<open>Paper_Exchange\<close>, \<open>Audit_Records\<close>,
    \<open>Audit_Ledger\<close>, \<open>Market_Replay\<close>, \<open>Backtest\<close> (with \<open>services/strategy/policies.py\<close>),
    \<open>Strategy_Sessions\<close>, \<open>Security\<close> (with \<open>services/storage/postgres.py\<close>), \<open>Binance_Usdm\<close>,
    \<open>Binance_Client\<close>. \<open>Venue_Reconciler\<close> and \<open>Venue_Updates\<close> are the two halves of
    \<open>services/execution/reconciliation.py\<close>; \<open>Model_Governance\<close> holds the schemas and the store of model
    governance; \<open>Binance_Lanes\<close> the testnet validation, the read-only live view and the account store;
    \<open>Db_Schema\<close> the Alembic migration and its environment, compared with what the services keep.
  \<^item> \<open>Text_Store\<close> refines \<open>Json_Store\<close> to files of characters; \<open>Audit_Text\<close> reads the audit log back from
    them; \<open>Replay_File\<close> loads replay files from
    their text, with the state machine of Python's CSV reader.
  \<^item> \<open>Lifecycle\<close>, \<open>Numbered_Log\<close>: the interfaces the exchange and the reconciler share: ranked
    statuses that only rise, and logs whose n-th entry has the n-th identifier.
  \<^item> \<open>Exchange_Runs\<close>: the exchange as a state machine; a run is any sequence of its public calls with
    any arguments and clock readings, each with its effect described branch by branch.
    \<open>Exchange_Safety\<close>: the invariants and gates of the runs. \<open>Exchange_Fills\<close>: the bookkeeping of fills
    on desks whose amounts lie on a decimal grid. \<open>Exchange_Liveness\<close>: an accepted order gets filled.
  \<^item> \<open>Api_Server\<close>: the process behind \<open>apps/api/server.py\<close>, its module-level recorder, exchange and
    strategy manager as one record, every handler, and the routing of GET and POST with the answers to
    bad requests. \<open>Api_Runs\<close>: sequences of requests, and the refinement of them to exchange runs.
    \<open>Api_Orders\<close>: orders, panic halts and request bodies over HTTP. \<open>Fastapi\<close>: the production
    application of \<open>apps/api/fastapi_app.py\<close>, its operator check, its use of the command ledger, and
    its agreement with the local server. \<open>Api_Wire\<close>: bodies as JSON text in both directions, headers,
    the preflight answer and the choice of the server.

  The state of an exchange is the record \<open>exchange\<close>: account, gates, orders, events, halt flag, risk
  state, quotes and the optional store, the attributes of \<open>InMemoryPaperExchange\<close>. Operations carry
  the names of the methods. \<open>now_utc()\<close> is an argument (a clock that gives every call its times).

  Code outside the repository is a parameter: \<open>datetime.fromisoformat\<close>, in payloads the \<open>isoformat\<close> of
  a time with any offset and the printed form of a float (a \<open>codec\<close>), the texts of the files there are
  to open, the macOS \<open>security\<close> command, the HTTP library under the Binance client, and the answers that
  FastAPI gives by itself (a \<open>framework\<close>). The audit log and the command ledger keep the texts of clock
  readings in UTC, which \<open>Iso_Text\<close> writes out. Environment variables are a map.

  Bounds. The decimal context has the limits of the C implementation of Python's \<open>decimal\<close>
  (precision 28, exponents of at most six digits); statements on exact amounts say which values are
  representable. Every operation is total and loops run over lists; only the parser of JSON text takes
  fuel, and fuel beyond twice the length of the text is never used up (\<open>fuel_enough\<close>). Where a claim says
  that a decimal computation returns, the amounts are bounded (\<open>sized_within\<close>, a magnitude below a power
  of ten): each operation raises the bound by a few digits, so that the backtest of up to a hundred
  thousand clean market rows stays far below the 999999 digits at which the context would trap.

  Not modelled: sockets and threads of the HTTP server, FastAPI and pydantic themselves (a request
  carries its body as they see it), Alembic and the database (the migration is its list
  of statements), failures of the file system, the decoding of bytes (a text is a list of code points
  below 256; a codec says what stands for the others), the interpreter's bound on nesting, and the web
  client (JavaScript).
\<close>

end
